(* ===== verification/Float64.thy ===== *)
theory Float64
  imports Prelude Complex_Main "HOL-Library.Log_Nat"
begin

text \<open>
  Python floats. A finite binary64 value is the rational it denotes (the sign of zero is not
  modelled: the program never observes it), and each operation is the exact result rounded by
  \<open>f64\<close>: round to nearest, ties to even, 53 significant bits, subnormals from \<open>2 ^ -1074\<close>. Overflow
  to an infinity is the separate constructor of \<open>pyfloat\<close>; \<open>f64\<close> alone is used where the operands
  are bounded.
\<close>

section \<open>Powers of two\<close>

definition pow2 :: "int \<Rightarrow> rat" where
  "pow2 k = (if 0 \<le> k then 2 ^ nat k else 1 / 2 ^ nat (- k))"

lemma pow2_eq_powi: "pow2 k = 2 powi k"
  by (simp add: pow2_def power_int_def inverse_eq_divide power_one_over)

lemma pow2_pos [simp]: "0 < pow2 k"
  by (simp add: pow2_eq_powi)

lemma pow2_nonneg [simp]: "0 \<le> pow2 k"
  by (simp add: less_imp_le)

lemma pow2_neq_0 [simp]: "pow2 k \<noteq> 0"
  using pow2_pos [of k] by (simp del: pow2_pos)

lemma pow2_abs [simp]: "\<bar>pow2 k\<bar> = pow2 k"
  by simp

lemma pow2_add: "pow2 (a + b) = pow2 a * pow2 b"
  by (simp add: pow2_eq_powi power_int_add)

lemma pow2_strict_mono: "a < b \<Longrightarrow> pow2 a < pow2 b"
  by (simp add: pow2_eq_powi power_int_strict_increasing)

lemma pow2_less_iff [simp]: "pow2 a < pow2 b \<longleftrightarrow> a < b"
  by (metis less_asym linorder_neqE pow2_strict_mono less_irrefl)

lemma pow2_le_iff [simp]: "pow2 a \<le> pow2 b \<longleftrightarrow> a \<le> b"
  by (simp add: linorder_not_less [symmetric])

lemma pow2_of_nat: "pow2 (int n) = 2 ^ n"
  by (simp add: pow2_def)

text \<open>\<open>ilog2 x\<close> is the exponent of the leading bit of a positive rational.\<close>

definition ilog2 :: "rat \<Rightarrow> int" where
  "ilog2 x = (case quotient_of x of (p, q) \<Rightarrow>
     let k = bitlen p - bitlen q in if pow2 k \<le> x then k else k - 1)"

lemma bitlen_pow2:
  assumes "0 < p"
  shows "pow2 (bitlen p - 1) \<le> of_int p" and "of_int p < pow2 (bitlen p)"
proof -
  have b: "2 ^ nat (bitlen p - 1) \<le> p \<and> p < 2 ^ nat (bitlen p)"
    using assms by (rule bitlen_bounds)
  have pos: "1 \<le> bitlen p"
    using assms bitlen_eq_zero_iff [of p] bitlen_nonneg [of p] by linarith
  have "(2::rat) ^ nat (bitlen p - 1) \<le> of_int p" "of_int p < (2::rat) ^ nat (bitlen p)"
    using b by (metis of_int_le_iff of_int_less_iff of_int_numeral of_int_power)+
  with pos show "pow2 (bitlen p - 1) \<le> of_int p" "of_int p < pow2 (bitlen p)"
    by (simp_all add: pow2_def)
qed

lemma ilog2_bounds:
  assumes "0 < x"
  shows "pow2 (ilog2 x) \<le> x" and "x < pow2 (ilog2 x + 1)"
proof -
  obtain p q where pq: "quotient_of x = (p, q)" by (cases "quotient_of x")
  have q: "0 < q" and x: "x = of_int p / of_int q"
    using quotient_of_denom_pos [OF pq] quotient_of_div [OF pq] by auto
  have p: "0 < p" using assms q x by (simp add: zero_less_divide_iff)
  note bp = bitlen_pow2 [OF p] and bq = bitlen_pow2 [OF q]
  let ?k = "bitlen p - bitlen q"
  have "pow2 (?k - 1) * of_int q < pow2 (?k - 1) * pow2 (bitlen q)"
    using bq by simp
  also have "\<dots> = pow2 (bitlen p - 1)" by (simp flip: pow2_add)
  also have "\<dots> \<le> of_int p" by (rule bp)
  finally have lo: "pow2 (?k - 1) \<le> x" using q by (simp add: x pos_le_divide_eq)
  have "of_int p < pow2 (bitlen p)" by (rule bp)
  also have "\<dots> = pow2 (?k + 1) * pow2 (bitlen q - 1)" by (simp flip: pow2_add)
  also have "\<dots> \<le> pow2 (?k + 1) * of_int q" using bq by simp
  finally have hi: "x < pow2 (?k + 1)" using q by (simp add: x pos_divide_less_eq)
  show "pow2 (ilog2 x) \<le> x"
    using lo by (simp add: ilog2_def pq Let_def)
  show "x < pow2 (ilog2 x + 1)"
    using hi by (simp add: ilog2_def pq Let_def)
qed

lemma ilog2_less:
  assumes "0 < x" "x < pow2 k"
  shows "ilog2 x < k"
proof -
  have "pow2 (ilog2 x) < pow2 k"
    using ilog2_bounds(1) [OF assms(1)] assms(2) by (rule le_less_trans)
  then show ?thesis by simp
qed

lemma ilog2_ge:
  assumes "0 < x" "pow2 k \<le> x"
  shows "k \<le> ilog2 x"
proof -
  have "pow2 k < pow2 (ilog2 x + 1)"
    using assms(2) ilog2_bounds(2) [OF assms(1)] by (rule le_less_trans)
  then show ?thesis by simp
qed

section \<open>Rounding to an integer, ties to even\<close>

definition rint :: "rat \<Rightarrow> int" where
  "rint x = (let f = \<lfloor>x\<rfloor>; d = x - of_int f in
     if d < 1 / 2 then f else if 1 / 2 < d then f + 1 else if even f then f else f + 1)"

lemma rint_error: "\<bar>of_int (rint x) - x\<bar> \<le> 1 / 2"
proof -
  define d where "d = x - of_int \<lfloor>x\<rfloor>"
  have "0 \<le> d" "d < 1" using floor_correct [of x] by (simp_all add: d_def)
  moreover have "x = of_int \<lfloor>x\<rfloor> + d" by (simp add: d_def)
  ultimately show ?thesis
    unfolding rint_def Let_def d_def [symmetric] by auto
qed

lemma rint_of_int [simp]: "rint (of_int n) = n"
  by (simp add: rint_def)

lemma rint_minus: "rint (- x) = - rint x"
proof (cases "x = of_int \<lfloor>x\<rfloor>")
  case True
  then obtain n where "x = of_int n" by blast
  then show ?thesis by (metis of_int_minus rint_of_int)
next
  case False
  then have f: "\<lfloor>- x\<rfloor> = - \<lfloor>x\<rfloor> - 1"
    using ceiling_altdef [of x] by (simp add: ceiling_def)
  define d where "d = x - of_int \<lfloor>x\<rfloor>"
  have d': "- x - of_int \<lfloor>- x\<rfloor> = 1 - d" by (simp add: f d_def)
  show ?thesis unfolding rint_def Let_def d' d_def [symmetric] by (auto simp: f)
qed

section \<open>Rounding to binary64\<close>

text \<open>\<open>ulp_exp x\<close> is the exponent of the last significant bit of a nonzero \<open>x\<close>.\<close>

definition ulp_exp :: "rat \<Rightarrow> int" where
  "ulp_exp x = max (ilog2 \<bar>x\<bar> - 52) (- 1074)"

definition f64 :: "rat \<Rightarrow> rat" where
  "f64 x = (if x = 0 then 0
     else of_int (rint (x / pow2 (ulp_exp x))) * pow2 (ulp_exp x))"

lemma f64_0 [simp]: "f64 0 = 0"
  by (simp add: f64_def)

lemma f64_minus [simp]: "f64 (- x) = - f64 x"
  by (simp add: f64_def ulp_exp_def rint_minus)

lemma f64_error_ulp:
  assumes "x \<noteq> 0"
  shows "\<bar>f64 x - x\<bar> \<le> pow2 (ulp_exp x) / 2"
proof -
  let ?u = "pow2 (ulp_exp x)"
  have "f64 x - x = (of_int (rint (x / ?u)) - x / ?u) * ?u"
    using assms pow2_pos [of "ulp_exp x"] by (simp add: f64_def field_simps)
  then have "\<bar>f64 x - x\<bar> = \<bar>of_int (rint (x / ?u)) - x / ?u\<bar> * ?u"
    by (simp add: abs_mult)
  also have "\<dots> \<le> 1 / 2 * ?u"
    by (rule mult_right_mono [OF rint_error]) simp
  finally show ?thesis by simp
qed

lemma f64_error:
  assumes "\<bar>x\<bar> < pow2 k" and "- 1021 \<le> k"
  shows "\<bar>f64 x - x\<bar> \<le> pow2 (k - 54)"
proof (cases "x = 0")
  case False
  then have "ilog2 \<bar>x\<bar> < k" using assms by (intro ilog2_less) auto
  then have "ulp_exp x \<le> k - 53" using assms by (simp add: ulp_exp_def)
  then have "pow2 (ulp_exp x) \<le> pow2 (k - 53)" by simp
  moreover have "pow2 (k - 53) = 2 * pow2 (k - 54)"
    using pow2_add [of 1 "k - 54"] by (simp add: pow2_def [of 1])
  ultimately show ?thesis using f64_error_ulp [OF False] by simp
qed simp

text \<open>Values on the grid of their own binade are unchanged: the floats are the fixed points.\<close>

lemma f64_exact:
  assumes "x = of_int m * pow2 e" and "\<bar>m\<bar> < 2 ^ 53" and "- 1074 \<le> e"
  shows "f64 x = x"
proof (cases "x = 0")
  case False
  have "of_int \<bar>m\<bar> < pow2 53" using assms(2) by (simp add: pow2_def)
  then have "\<bar>x\<bar> < pow2 53 * pow2 e" by (simp add: assms(1) abs_mult)
  then have "\<bar>x\<bar> < pow2 (53 + e)" by (simp add: pow2_add)
  then have "ilog2 \<bar>x\<bar> < 53 + e" using False by (intro ilog2_less) auto
  then have u: "ulp_exp x \<le> e" using assms(3) by (simp add: ulp_exp_def)
  let ?n = "m * 2 ^ nat (e - ulp_exp x)"
  have "pow2 e = pow2 (e - ulp_exp x) * pow2 (ulp_exp x)" by (simp flip: pow2_add)
  also have "pow2 (e - ulp_exp x) = 2 ^ nat (e - ulp_exp x)" using u by (simp add: pow2_def)
  finally have "x = of_int ?n * pow2 (ulp_exp x)" by (simp add: assms(1))
  then have "x / pow2 (ulp_exp x) = of_int ?n"
    using pow2_pos [of "ulp_exp x"] by (metis less_irrefl nonzero_mult_div_cancel_right)
  then show ?thesis using False \<open>x = of_int ?n * pow2 (ulp_exp x)\<close>
    by (simp add: f64_def del: of_int_mult of_int_power)
qed simp

lemma f64_of_int: "\<bar>m\<bar> < 2 ^ 53 \<Longrightarrow> f64 (of_int m) = of_int m"
  using f64_exact [of "of_int m" m 0] by (simp add: pow2_def)

lemma rint_nonneg: "0 \<le> x \<Longrightarrow> 0 \<le> rint x"
  by (simp add: rint_def Let_def add_nonneg_nonneg)

lemma f64_nonneg: "0 \<le> x \<Longrightarrow> 0 \<le> f64 x"
  by (simp add: f64_def rint_nonneg)

text \<open>Rounding a normal number keeps its sign.\<close>

lemma f64_pos:
  assumes "pow2 (- 1022) \<le> x"
  shows "0 < f64 x"
proof -
  have x: "0 < x" using assms pow2_pos [of "- 1022"] by linarith
  then have "- 1022 \<le> ilog2 x" using assms by (intro ilog2_ge)
  then have "ulp_exp x = ilog2 x - 52" using x by (simp add: ulp_exp_def)
  then have "pow2 (ulp_exp x) < pow2 (ilog2 x)" by simp
  also have "\<dots> \<le> x" using x by (rule ilog2_bounds)
  finally show ?thesis using f64_error_ulp [of x] x by (auto simp: abs_if split: if_splits)
qed

lemma f64_neg:
  assumes "x \<le> - pow2 (- 1022)"
  shows "f64 x < 0"
  using f64_pos [of "- x"] assms by simp

text \<open>The relative error of rounding a normal number.\<close>

lemma f64_relative:
  assumes "pow2 (- 1022) \<le> x"
  shows "\<bar>f64 x - x\<bar> \<le> x * pow2 (- 53)"
proof -
  have x: "0 < x" using assms pow2_pos [of "- 1022"] by linarith
  then have "- 1022 \<le> ilog2 x" using assms by (intro ilog2_ge)
  then have u: "ulp_exp x = ilog2 x - 52" using x by (simp add: ulp_exp_def)
  have "\<bar>f64 x - x\<bar> \<le> pow2 (ulp_exp x) / 2" using f64_error_ulp [of x] x by simp
  also have "pow2 (ulp_exp x) / 2 = pow2 (ilog2 x) * pow2 (- 53)"
    unfolding u using pow2_add [of "ilog2 x" "- 53"] pow2_add [of "ilog2 x - 53" 1] by (simp add: pow2_def [of 1])
  also have "\<dots> \<le> x * pow2 (- 53)" using ilog2_bounds [OF x] by (intro mult_right_mono) auto
  finally show ?thesis .
qed

section \<open>Values, conversions and decimal rounding\<close>

datatype pyfloat = Fin rat | Inf bool | NaN

definition overflow_bound :: rat where
  "overflow_bound = 2 ^ 1024"

text \<open>\<open>float(n)\<close> for an int: \<open>OverflowError\<close> past the largest finite value.\<close>

definition float_of_int :: "int \<Rightarrow> rat res" where
  "float_of_int n = (if \<bar>f64 (of_int n)\<bar> < overflow_bound then Inr (f64 (of_int n)) else Inl OverflowError)"

text \<open>A float operation with the exact result \<open>x\<close>.\<close>

definition fl :: "rat \<Rightarrow> pyfloat" where
  "fl x = (if \<bar>f64 x\<bar> < overflow_bound then Fin (f64 x) else Inf (x < 0))"

text \<open>\<open>round(x, n)\<close>: the decimal nearest to the exact value of the float, ties to even, as a float.\<close>

definition py_round :: "nat \<Rightarrow> rat \<Rightarrow> rat" where
  "py_round n x = f64 (of_int (rint (x * 10 ^ n)) / 10 ^ n)"

section \<open>The compensated sum of \<open>sum()\<close> over floats\<close>

text \<open>
  Since Python 3.12 \<open>sum\<close> over floats keeps a running total and a correction (Neumaier). The
  rounding is a parameter of the loop so that its error analysis uses only the error bound.
\<close>

fun cs_add :: "(rat \<Rightarrow> rat) \<Rightarrow> rat \<times> rat \<Rightarrow> rat \<Rightarrow> rat \<times> rat" where
  "cs_add rnd (hi, lo) x =
     (let t = rnd (hi + x);
          c = (if \<bar>x\<bar> \<le> \<bar>hi\<bar> then rnd (rnd (hi - t) + x) else rnd (rnd (x - t) + hi))
      in (t, rnd (lo + c)))"

definition cs_to_double :: "(rat \<Rightarrow> rat) \<Rightarrow> rat \<times> rat \<Rightarrow> rat" where
  "cs_to_double rnd p = (case p of (hi, lo) \<Rightarrow> if lo \<noteq> 0 then rnd (hi + lo) else hi)"

definition py_sum_with :: "(rat \<Rightarrow> rat) \<Rightarrow> rat list \<Rightarrow> rat" where
  "py_sum_with rnd xs = (case xs of [] \<Rightarrow> 0
     | x # ys \<Rightarrow> cs_to_double rnd (foldl (cs_add rnd) (x, 0) ys))"

abbreviation py_sum :: "rat list \<Rightarrow> rat" where
  "py_sum \<equiv> py_sum_with f64"

text \<open>
  What the analysis needs of a rounding: an absolute error \<open>u\<close> on operands below 64, which is
  where every score of the program lives.
\<close>

locale bounded_rounding =
  fixes rnd :: "rat \<Rightarrow> rat" and u :: rat
  assumes rnd_error: "\<bar>x\<bar> < 64 \<Longrightarrow> \<bar>rnd x - x\<bar> \<le> u"
    and u_pos: "0 < u"
    and u_small: "u \<le> 1 / 1024"
begin

lemma cs_add_error:
  assumes "\<bar>hi - s\<bar> \<le> a" "\<bar>lo\<bar> \<le> b" "a \<le> 1" "b \<le> 1" "0 \<le> s" "0 \<le> x" "s + x \<le> 60"
    and "cs_add rnd (hi, lo) x = (hi', lo')"
  shows "\<bar>hi' - (s + x)\<bar> \<le> a + u" and "\<bar>lo'\<bar> \<le> b + 4 * u"
proof -
  define t where "t = rnd (hi + x)"
  define c where "c = (if \<bar>x\<bar> \<le> \<bar>hi\<bar> then rnd (rnd (hi - t) + x) else rnd (rnd (x - t) + hi))"
  have out: "hi' = t" "lo' = rnd (lo + c)"
    using assms(8) by (auto simp: t_def c_def Let_def)
  have t: "\<bar>t - (hi + x)\<bar> \<le> u"
    unfolding t_def using assms by (intro rnd_error) linarith
  have r1: "\<bar>rnd (hi - t) - (hi - t)\<bar> \<le> u"
    using assms t u_small by (intro rnd_error) linarith
  have r2: "\<bar>rnd (x - t) - (x - t)\<bar> \<le> u"
    using assms t u_small by (intro rnd_error) linarith
  have r3: "\<bar>rnd (rnd (hi - t) + x) - (rnd (hi - t) + x)\<bar> \<le> u"
    using t r1 u_small by (intro rnd_error) linarith
  have r4: "\<bar>rnd (rnd (x - t) + hi) - (rnd (x - t) + hi)\<bar> \<le> u"
    using t r2 u_small by (intro rnd_error) linarith
  have c: "\<bar>c\<bar> \<le> 3 * u"
    using t r1 r2 r3 r4 by (simp add: c_def) linarith
  have "\<bar>rnd (lo + c) - (lo + c)\<bar> \<le> u"
    using c assms u_small by (intro rnd_error) linarith
  with c assms(2) show "\<bar>lo'\<bar> \<le> b + 4 * u" unfolding out by linarith
  from t assms(1) show "\<bar>hi' - (s + x)\<bar> \<le> a + u" unfolding out by linarith
qed

lemma cs_fold_error:
  assumes "\<bar>hi - s\<bar> \<le> of_nat n * u" "\<bar>lo\<bar> \<le> of_nat n * (4 * u)" "0 \<le> s" "\<forall>x \<in> set xs. 0 \<le> x"
    and "s + sum_list xs \<le> 60" "n + length xs \<le> 100"
    and "foldl (cs_add rnd) (hi, lo) xs = (hi', lo')"
  shows "\<bar>hi' - (s + sum_list xs)\<bar> \<le> of_nat (n + length xs) * u
    \<and> \<bar>lo'\<bar> \<le> of_nat (n + length xs) * (4 * u)"
  using assms
proof (induction xs arbitrary: hi lo s n)
  case (Cons x xs)
  obtain hi1 lo1 where step: "cs_add rnd (hi, lo) x = (hi1, lo1)" by (cases "cs_add rnd (hi, lo) x")
  have nonneg: "0 \<le> sum_list xs" using Cons.prems(4) by (auto intro: sum_list_nonneg)
  have "(of_nat n :: rat) \<le> of_nat 100" using Cons.prems(6) by (simp only: of_nat_le_iff)
  then have nu: "of_nat n * u \<le> 100 * u" using u_pos by simp
  have "\<bar>hi1 - (s + x)\<bar> \<le> of_nat n * u + u" "\<bar>lo1\<bar> \<le> of_nat n * (4 * u) + 4 * u"
    using cs_add_error [OF Cons.prems(1,2) _ _ Cons.prems(3) _ _ step] Cons.prems(4,5) nonneg nu u_small
    by auto
  then have "\<bar>hi1 - (s + x)\<bar> \<le> of_nat (Suc n) * u" "\<bar>lo1\<bar> \<le> of_nat (Suc n) * (4 * u)"
    by (simp_all add: algebra_simps)
  from Cons.IH [OF this] Cons.prems step show ?case
    by (simp add: add.assoc)
qed simp

lemma py_sum_error:
  assumes "\<forall>x \<in> set xs. 0 \<le> x" "sum_list xs \<le> 60" "length xs \<le> 100"
  shows "\<bar>py_sum_with rnd xs - sum_list xs\<bar> \<le> (5 * of_nat (length xs) + 1) * u"
proof (cases xs)
  case Nil
  then show ?thesis using u_pos by (simp add: py_sum_with_def)
next
  case (Cons x ys)
  obtain hi lo where f: "foldl (cs_add rnd) (x, 0) ys = (hi, lo)"
    by (cases "foldl (cs_add rnd) (x, 0) ys")
  let ?n = "of_nat (length ys) :: rat"
  have b: "\<bar>hi - (x + sum_list ys)\<bar> \<le> ?n * u" "\<bar>lo\<bar> \<le> ?n * (4 * u)"
    using cs_fold_error [of x x 0 0 ys hi lo] assms Cons f by auto
  have "?n \<le> of_nat 100" using assms(3) Cons by (simp only: of_nat_le_iff list.size)
  then have nu: "?n * u \<le> 100 * u" using u_pos by simp
  have sum: "0 \<le> x + sum_list ys" "x + sum_list ys \<le> 60"
    using assms Cons by (auto intro!: add_nonneg_nonneg sum_list_nonneg)
  have "\<bar>rnd (hi + lo) - (hi + lo)\<bar> \<le> u"
    using b nu sum u_small by (intro rnd_error) linarith
  with b u_pos have "\<bar>cs_to_double rnd (hi, lo) - (x + sum_list ys)\<bar> \<le> 5 * (?n * u) + u"
    by (auto simp: cs_to_double_def)
  also have "\<dots> \<le> (5 * of_nat (length xs) + 1) * u"
    using u_pos Cons by (simp add: algebra_simps)
  finally show ?thesis using Cons f by (simp add: py_sum_with_def)
qed

end

interpretation b64: bounded_rounding f64 "pow2 (- 48)"
proof
  show "\<bar>f64 x - x\<bar> \<le> pow2 (- 48)" if "\<bar>x\<bar> < 64" for x
    using f64_error [of x 6] that by (simp add: pow2_def)
qed (simp_all add: pow2_def)

end
