(* ===== verification/Pyval.thy ===== *)
theory Pyval
  imports Float64
begin

text \<open>
  The values a JSON document becomes in Python, with the tests and comparisons the validators use,
  and the raw parse tree the standard library's scanner hands to the program's hooks.
\<close>

section \<open>Values\<close>

datatype pyval =
    PNone
  | PBool bool
  | PInt int
  | PFloat pyfloat
  | PStr string
  | PList "pyval list"
  | PDict "(string \<times> pyval) list"

type_synonym pydict = "(string \<times> pyval) list"

text \<open>\<open>d.get(k)\<close> and \<open>k in d\<close>.\<close>

definition dget :: "pydict \<Rightarrow> string \<Rightarrow> pyval" where
  "dget d k = (case map_of d k of None \<Rightarrow> PNone | Some v \<Rightarrow> v)"

definition has_key :: "pydict \<Rightarrow> string \<Rightarrow> bool" where
  "has_key d k \<longleftrightarrow> map_of d k \<noteq> None"

definition dkeys :: "pydict \<Rightarrow> string set" where
  "dkeys d = set (map fst d)"

lemma dget_Nil [simp]: "dget [] k = PNone"
  by (simp add: dget_def)

lemma dget_Cons [simp]: "dget ((k', v) # d) k = (if k' = k then v else dget d k)"
  by (simp add: dget_def)

lemma has_key_iff: "has_key d k \<longleftrightarrow> k \<in> dkeys d"
  by (auto simp: has_key_def dkeys_def map_of_eq_None_iff)

lemma dget_not_None: "dget d k \<noteq> PNone \<Longrightarrow> k \<in> dkeys d"
  by (auto simp: dget_def dkeys_def split: option.splits dest: map_of_SomeD intro: rev_image_eqI)

text \<open>\<open>isinstance\<close> tests.\<close>

fun is_str :: "pyval \<Rightarrow> bool" where
  "is_str (PStr _) = True"
| "is_str _ = False"

fun is_dict :: "pyval \<Rightarrow> bool" where
  "is_dict (PDict _) = True"
| "is_dict _ = False"

fun is_list :: "pyval \<Rightarrow> bool" where
  "is_list (PList _) = True"
| "is_list _ = False"

fun is_bool :: "pyval \<Rightarrow> bool" where
  "is_bool (PBool _) = True"
| "is_bool _ = False"

text \<open>The exact number of a numeric value: a bool is 0 or 1.\<close>

fun as_num :: "pyval \<Rightarrow> rat option" where
  "as_num (PBool b) = Some (if b then 1 else 0)"
| "as_num (PInt n) = Some (of_int n)"
| "as_num (PFloat (Fin r)) = Some r"
| "as_num _ = None"

text \<open>
  \<open>==\<close>: numbers compare by value across bool, int and float, dicts without regard to order.
\<close>

function (sequential) py_eq :: "pyval \<Rightarrow> pyval \<Rightarrow> bool" where
  "py_eq PNone PNone = True"
| "py_eq (PStr s) (PStr t) = (s = t)"
| "py_eq (PList xs) (PList ys) = (length xs = length ys \<and> list_all (\<lambda>(x, y). py_eq x y) (zip xs ys))"
| "py_eq (PDict d) (PDict e) =
     (length d = length e \<and>
      list_all (\<lambda>(k, v). case map_of e k of None \<Rightarrow> False | Some w \<Rightarrow> py_eq v w) d)"
| "py_eq (PFloat (Inf a)) (PFloat (Inf b)) = (a = b)"
| "py_eq x y = (case (as_num x, as_num y) of (Some a, Some b) \<Rightarrow> a = b | _ \<Rightarrow> False)"
  by pat_completeness auto

lemma size_mem_list: "x \<in> set xs \<Longrightarrow> size x < Suc (size_list size xs)"
  by (simp add: less_Suc_eq_le size_list_estimation')

lemma size_mem_dict: "(k, v) \<in> set d \<Longrightarrow> size v < Suc (size_list (size_prod (\<lambda>x. 0) size) d)"
  using size_list_estimation' [of "(k, v)" d "size v" "size_prod (\<lambda>x. 0) size"] by simp

termination py_eq
  by (relation "measure (\<lambda>(x, y). size x)") (auto dest: set_zip_leftD size_mem_list size_mem_dict)

lemma py_eq_PStr [simp]: "py_eq v (PStr s) \<longleftrightarrow> v = PStr s" "py_eq (PStr s) v \<longleftrightarrow> v = PStr s"
  by (cases v rule: pyval.exhaust; auto split: option.splits)+

text \<open>A dict in memory has distinct keys, and so do the dicts inside it.\<close>

fun wf_val :: "pyval \<Rightarrow> bool" where
  "wf_val (PList xs) = list_all wf_val xs"
| "wf_val (PDict d) = (distinct (map fst d) \<and> list_all (\<lambda>(k, v). wf_val v) d)"
| "wf_val _ = True"

text \<open>\<open>bool(v)\<close>.\<close>

fun py_truthy :: "pyval \<Rightarrow> bool" where
  "py_truthy PNone = False"
| "py_truthy (PBool b) = b"
| "py_truthy (PInt n) = (n \<noteq> 0)"
| "py_truthy (PFloat x) = (x \<noteq> Fin 0)"
| "py_truthy (PStr s) = (s \<noteq> [])"
| "py_truthy (PList xs) = (xs \<noteq> [])"
| "py_truthy (PDict d) = (d \<noteq> [])"

text \<open>What \<open>hash\<close> accepts: no list and no dict.\<close>

definition hashable :: "pyval \<Rightarrow> bool" where
  "hashable v \<longleftrightarrow> \<not> is_list v \<and> \<not> is_dict v"

section \<open>The scanner's tree and object hooks\<close>

text \<open>
  \<open>json.loads\<close> calls back into the program: \<open>object_pairs_hook\<close> for each object (innermost first),
  \<open>parse_constant\<close> for \<open>NaN\<close> and the infinities, and \<open>parse_int\<close> and \<open>parse_float\<close> with the literal's
  text. The tree below is what the scanner has read before any of those calls.
\<close>

datatype jraw =
    RNull
  | RBool bool
  | RInt string
  | RFloat string
  | RConst string
  | RStr string
  | RArr "jraw list"
  | RObj "(string \<times> jraw) list"

text \<open>\<open>int(text)\<close> of an integer literal of the JSON grammar.\<close>

definition digit_val :: "char \<Rightarrow> int" where
  "digit_val c = int (of_char c) - 48"

definition nat_literal :: "string \<Rightarrow> int" where
  "nat_literal s = foldl (\<lambda>n c. 10 * n + digit_val c) 0 s"

definition int_literal :: "string \<Rightarrow> int" where
  "int_literal s = (case s of CHR ''-'' # ds \<Rightarrow> - nat_literal ds | ds \<Rightarrow> nat_literal ds)"

end
