(* ===== verification/Datetime.thy ===== *)
theory Datetime
  imports Pyval
begin

text \<open>
  \<open>datetime\<close> values and the arithmetic on them, and the record of standard-library services the
  model takes as a parameter.
\<close>

section \<open>Datetimes\<close>

text \<open>
  A datetime is its wall-clock reading in microseconds since the start of year 1, and the offset
  from UTC when it has a \<open>tzinfo\<close>. A UTC instant is the reading alone.
\<close>

record pydt =
  dt_local :: int
  dt_offset :: "int option"

definition us_per_day :: int where
  "us_per_day = 86400000000"

text \<open>The end of year 9999: no datetime at or past it exists.\<close>

definition dt_limit :: int where
  "dt_limit = 3652059 * us_per_day"

definition dt_in_range :: "int \<Rightarrow> bool" where
  "dt_in_range t \<longleftrightarrow> 0 \<le> t \<and> t < dt_limit"

definition valid_dt :: "pydt \<Rightarrow> bool" where
  "valid_dt d \<longleftrightarrow> dt_in_range (dt_local d) \<and>
     (case dt_offset d of None \<Rightarrow> True | Some off \<Rightarrow> \<bar>off\<bar> < us_per_day)"

text \<open>
  \<open>value.replace(tzinfo=UTC)\<close> when naive, then \<open>value.astimezone(UTC)\<close>, which raises
  \<open>OverflowError\<close> when the instant lies outside the years 1 to 9999.
\<close>

definition utc_instant :: "pydt \<Rightarrow> int" where
  "utc_instant d = dt_local d - (case dt_offset d of None \<Rightarrow> 0 | Some off \<Rightarrow> off)"

definition as_utc :: "pydt \<Rightarrow> int res" where
  "as_utc d = (if dt_in_range (utc_instant d) then Inr (utc_instant d) else Inl OverflowError)"

text \<open>\<open>t + timedelta(days=n)\<close>.\<close>

definition add_days :: "int \<Rightarrow> int \<Rightarrow> int res" where
  "add_days t n = (let t' = t + n * us_per_day in
     if dt_in_range t' then Inr t' else Inl OverflowError)"

text \<open>\<open>timedelta.total_seconds()\<close>, a true division of integers.\<close>

definition total_seconds :: "int \<Rightarrow> rat" where
  "total_seconds us = f64 (of_int us / 1000000)"

lemma as_utc_eq_Inr [simp]: "as_utc d = Inr t \<longleftrightarrow> dt_in_range (utc_instant d) \<and> t = utc_instant d"
  by (auto simp: as_utc_def)

lemma add_days_eq_Inr [simp]:
  "add_days t n = Inr t' \<longleftrightarrow> dt_in_range (t + n * us_per_day) \<and> t' = t + n * us_per_day"
  by (auto simp: add_days_def Let_def)

lemma total_seconds_0 [simp]: "total_seconds 0 = 0"
  by (simp add: total_seconds_def)

lemma total_seconds_minus: "total_seconds (- us) = - total_seconds us"
  using f64_minus [of "of_int us / 1000000"] by (simp add: total_seconds_def)

lemma total_seconds_pos:
  assumes "0 < us"
  shows "0 < total_seconds us"
proof -
  have "(1::rat) \<le> of_int us" using assms by simp
  then have "(1::rat) / 1000000 \<le> of_int us / 1000000" by (rule divide_right_mono) simp
  moreover have "pow2 (- 1022) \<le> pow2 (- 20)" by (simp only: pow2_le_iff)
  then have "pow2 (- 1022) \<le> 1 / 1000000" by (simp add: pow2_def [of "- 20"])
  ultimately have "pow2 (- 1022) \<le> of_int us / 1000000" by (rule order_trans [rotated])
  then show ?thesis unfolding total_seconds_def by (rule f64_pos)
qed

lemma total_seconds_neg_iff [simp]: "total_seconds us < 0 \<longleftrightarrow> us < 0"
  using total_seconds_pos [of us] total_seconds_pos [of "- us"] total_seconds_minus [of us]
  by (cases us "0::int" rule: linorder_cases) auto

text \<open>Comparing a rounded number of seconds with a whole number is comparing microseconds.\<close>

lemma total_seconds_less_iff:
  assumes "0 \<le> n" "n \<le> 10 ^ 9"
  shows "total_seconds us < of_int n \<longleftrightarrow> us < n * 1000000"
    and "of_int n < total_seconds us \<longleftrightarrow> n * 1000000 < us"
proof -
  let ?x = "of_int us / 1000000 :: rat"
  have rel: "\<bar>total_seconds us - ?x\<bar> \<le> ?x * pow2 (- 53)" if "0 < us"
  proof -
    have "(1::rat) \<le> of_int us" using that by simp
    then have "(1::rat) / 1000000 \<le> ?x" by (rule divide_right_mono) simp
    moreover have "pow2 (- 1022) \<le> pow2 (- 20)" by (simp only: pow2_le_iff)
    then have "pow2 (- 1022) \<le> 1 / 1000000" by (simp add: pow2_def [of "- 20"])
    ultimately show ?thesis unfolding total_seconds_def by (intro f64_relative) (rule order_trans)
  qed
  have e: "pow2 (- 53) = 1 / 9007199254740992" by (simp add: pow2_def)
  have n: "(of_int n :: rat) \<le> 10 ^ 9" "0 \<le> (of_int n :: rat)" using assms by (simp_all flip: of_int_power)
  have exact: "us = n * 1000000 \<Longrightarrow> total_seconds us = of_int n"
    using assms f64_of_int [of n] by (simp add: total_seconds_def)
  have lt: "total_seconds us < of_int n" if "us < n * 1000000"
  proof (cases "0 < us")
    case True
    have "(of_int us :: rat) \<le> of_int (n * 1000000 - 1)" using that by (simp only: of_int_le_iff)
    then have "?x \<le> of_int n - 1 / 1000000" by (simp add: field_simps)
    then show ?thesis using rel [OF True] n unfolding e by (simp add: abs_if split: if_splits)
  next
    case False
    show ?thesis
    proof (cases "us = 0")
      case True
      then show ?thesis using that by simp
    next
      case f: False
      with False have "total_seconds us < 0" by simp
      then show ?thesis using n by linarith
    qed
  qed
  have gt: "of_int n < total_seconds us" if "n * 1000000 < us"
  proof -
    have p: "0 < us" using that assms by simp
    have "(of_int (n * 1000000 + 1) :: rat) \<le> of_int us" using that by (simp only: of_int_le_iff)
    then have "of_int n + 1 / 1000000 \<le> ?x" by (simp add: field_simps)
    then show ?thesis using rel [OF p] n unfolding e by (simp add: abs_if split: if_splits)
  qed
  show "total_seconds us < of_int n \<longleftrightarrow> us < n * 1000000" "of_int n < total_seconds us \<longleftrightarrow> n * 1000000 < us"
    using lt gt exact by (cases us "n * 1000000" rule: linorder_cases; simp; force)+
qed
section \<open>Standard-library services\<close>

text \<open>
  Parsers, printers and digests of the standard library and of the signature package, which the
  program calls but does not define. Each definition that needs one takes this record, and every
  theorem holds for all of its instances unless it names the law it uses.
\<close>

record platform =
  iso_parse :: "string \<Rightarrow> pydt option"
  iso_format :: "pydt \<Rightarrow> string"
  dump_datetime :: "pydt \<Rightarrow> string"
  json_scan :: "string \<Rightarrow> jraw option"
  float_literal :: "string \<Rightarrow> pyfloat"
  json_canonical :: "pyval \<Rightarrow> string"
  json_indented :: "pyval \<Rightarrow> string"
  json_ascii :: "pyval \<Rightarrow> string"
  json_response :: "pyval \<Rightarrow> string"
  nfkc :: "string \<Rightarrow> string"
  sha256_hex :: "string \<Rightarrow> string"
  utf8_decode :: "string \<Rightarrow> string option"
  ed25519_ok :: "string \<Rightarrow> string \<Rightarrow> string \<Rightarrow> bool"

text \<open>The documented inverse: \<open>datetime.fromisoformat(d.isoformat()) == d\<close>.\<close>

definition iso_roundtrip :: "platform \<Rightarrow> bool" where
  "iso_roundtrip pf \<longleftrightarrow> (\<forall>d. valid_dt d \<longrightarrow> iso_parse pf (iso_format pf d) = Some d)"

definition utc_dt :: "int \<Rightarrow> pydt" where
  "utc_dt t = \<lparr>dt_local = t, dt_offset = Some 0\<rparr>"

lemma utc_instant_utc_dt [simp]: "utc_instant (utc_dt t) = t"
  by (simp add: utc_instant_def utc_dt_def)

lemma valid_utc_dt [simp]: "valid_dt (utc_dt t) \<longleftrightarrow> dt_in_range t"
  by (simp add: valid_dt_def utc_dt_def us_per_day_def)

text \<open>\<open>s.replace("Z", "+00:00")\<close>.\<close>

definition replace_Z :: "string \<Rightarrow> string" where
  "replace_Z s = concat (map (\<lambda>c. if c = CHR ''Z'' then ''+00:00'' else [c]) s)"

lemma replace_Z_id: "CHR ''Z'' \<notin> set s \<Longrightarrow> replace_Z s = s"
  by (induction s) (auto simp: replace_Z_def)

text \<open>A concrete instance, for evaluating the model on inputs that reach no parser or digest.\<close>

definition sample_platform :: platform where
  "sample_platform = \<lparr>iso_parse = (\<lambda>s. None), iso_format = (\<lambda>d. []),
     dump_datetime = (\<lambda>d. []), json_scan = (\<lambda>s. None),
     float_literal = (\<lambda>s. Fin 0), json_canonical = (\<lambda>v. []), json_indented = (\<lambda>v. []), json_ascii = (\<lambda>v. []), json_response = (\<lambda>v. []), nfkc = (\<lambda>s. s),
     sha256_hex = (\<lambda>s. s),
     utf8_decode = Some, ed25519_ok = (\<lambda>key sig msg. sig = key @ msg)\<rparr>"

end
