(* ===== verification/Models.thy ===== *)
theory Models
  imports Datetime
begin

text \<open>
  The registry's domain models (\<open>core/models.py\<close>): the enumerations, the identifier patterns with
  their validators, and one record per pydantic class.
\<close>

section \<open>Enumerations\<close>

datatype source_kind = NPM | PYPI | GIT | BINARY | REMOTE

fun source_kind_str :: "source_kind \<Rightarrow> string" where
  "source_kind_str NPM = ''npm''"
| "source_kind_str PYPI = ''pypi''"
| "source_kind_str GIT = ''git''"
| "source_kind_str BINARY = ''binary''"
| "source_kind_str REMOTE = ''remote''"

datatype severity = Critical | High | Medium | Low | Info

fun severity_str :: "severity \<Rightarrow> string" where
  "severity_str Critical = ''critical''"
| "severity_str High = ''high''"
| "severity_str Medium = ''medium''"
| "severity_str Low = ''low''"
| "severity_str Info = ''info''"

datatype trust_grade = A | B | C | D | F | Unscanned

fun trust_grade_str :: "trust_grade \<Rightarrow> string" where
  "trust_grade_str A = ''A''"
| "trust_grade_str B = ''B''"
| "trust_grade_str C = ''C''"
| "trust_grade_str D = ''D''"
| "trust_grade_str F = ''F''"
| "trust_grade_str Unscanned = ''unscanned''"

datatype transparency_level = THigh | TMedium | TLow

fun transparency_str :: "transparency_level \<Rightarrow> string" where
  "transparency_str THigh = ''high''"
| "transparency_str TMedium = ''medium''"
| "transparency_str TLow = ''low''"

interpretation kinds: str_enum "[NPM, PYPI, GIT, BINARY, REMOTE]" source_kind_str
proof
  show "x \<in> set [NPM, PYPI, GIT, BINARY, REMOTE]" for x by (cases x) auto
  show "source_kind_str x = source_kind_str y \<Longrightarrow> x = y" for x y by (cases x; cases y) auto
qed

interpretation severities: str_enum "[Critical, High, Medium, Low, Info]" severity_str
proof
  show "x \<in> set [Critical, High, Medium, Low, Info]" for x by (cases x) auto
  show "severity_str x = severity_str y \<Longrightarrow> x = y" for x y by (cases x; cases y) auto
qed

interpretation grades: str_enum "[A, B, C, D, F, Unscanned]" trust_grade_str
proof
  show "x \<in> set [A, B, C, D, F, Unscanned]" for x by (cases x) auto
  show "trust_grade_str x = trust_grade_str y \<Longrightarrow> x = y" for x y by (cases x; cases y) auto
qed

interpretation transparencies: str_enum "[THigh, TMedium, TLow]" transparency_str
proof
  show "x \<in> set [THigh, TMedium, TLow]" for x by (cases x) auto
  show "transparency_str x = transparency_str y \<Longrightarrow> x = y" for x y by (cases x; cases y) auto
qed

section \<open>Identifier patterns\<close>

text \<open>\<open>^[a-z0-9]+(?:-[a-z0-9]+)*$\<close> with \<open>fullmatch\<close>: dash-separated non-empty groups.\<close>

definition slug_char :: "char \<Rightarrow> bool" where
  "slug_char c \<longleftrightarrow> is_lower_char c \<or> is_digit_char c"

definition slug_re :: "string \<Rightarrow> bool" where
  "slug_re s \<longleftrightarrow> list_all (\<lambda>g. g \<noteq> [] \<and> list_all slug_char g) (py_split CHR ''-'' s)"

text \<open>\<open>^[A-Z_][A-Z0-9_]*$\<close>.\<close>

definition env_key_re :: "string \<Rightarrow> bool" where
  "env_key_re s = (case s of [] \<Rightarrow> False
     | c # cs \<Rightarrow> (is_upper_char c \<or> c = CHR ''_'') \<and>
         list_all (\<lambda>c. is_upper_char c \<or> is_digit_char c \<or> c = CHR ''_'') cs)"

text \<open>\<open>^[A-Za-z0-9][A-Za-z0-9._-]{0,127}$\<close>.\<close>

definition scan_id_re :: "string \<Rightarrow> bool" where
  "scan_id_re s = (case s of [] \<Rightarrow> False
     | c # cs \<Rightarrow> is_alnum_char c \<and> length cs \<le> 127 \<and>
         list_all (\<lambda>c. is_alnum_char c \<or> c \<in> {CHR ''.'', CHR ''_'', CHR ''-''}) cs)"

definition validate_slug_value :: "string \<Rightarrow> string res" where
  "validate_slug_value value = (if slug_re value then Inr value else Inl ValueError)"

definition validate_env_keys :: "string list \<Rightarrow> string list res" where
  "validate_env_keys value =
     (if list_ex (\<lambda>key. 128 < length key \<or> \<not> env_key_re key) value then Inl ValueError
      else if length value \<noteq> card (set value) then Inl ValueError
      else Inr value)"

definition validate_scan_id :: "string \<Rightarrow> string res" where
  "validate_scan_id value = (if scan_id_re value then Inr value else Inl ValueError)"

lemma slug_re_group: "slug_re s \<Longrightarrow> g \<in> set (py_split CHR ''-'' s) \<Longrightarrow> g \<noteq> [] \<and> list_all slug_char g"
  by (simp add: slug_re_def list_all_iff)

lemma slug_re_chars: "slug_re s \<Longrightarrow> c \<in> set s \<Longrightarrow> slug_char c \<or> c = CHR ''-''"
  using set_py_split [of s "CHR ''-''"] slug_re_group [of s] by (fastforce simp: list_all_iff)

lemma slug_re_ends:
  assumes "slug_re s"
  shows "s \<noteq> [] \<and> hd s \<noteq> CHR ''-'' \<and> last s \<noteq> CHR ''-''"
proof -
  have "hd (py_split CHR ''-'' s) \<noteq> []"
    using slug_re_group [OF assms] by (simp add: hd_in_set)
  then have start: "s \<noteq> [] \<and> hd s \<noteq> CHR ''-''" by (simp add: hd_py_split_empty)
  have "last s \<noteq> CHR ''-''"
  proof
    assume "last s = CHR ''-''"
    with start have "s = butlast s @ [CHR ''-'']" by (metis append_butlast_last_id)
    then have "[] \<in> set (py_split CHR ''-'' s)"
      by (metis in_set_conv_decomp py_split_append_sep)
    with slug_re_group [OF assms] show False by blast
  qed
  with start show ?thesis by blast
qed

section \<open>Records\<close>

record server_source =
  src_kind :: source_kind
  src_reference :: string
  src_command :: "string option"
  src_args :: "string list"
  src_env_keys :: "string list"
  src_sandbox_image :: "string option"
  src_trusted :: bool

record server =
  sv_slug :: string
  sv_name :: string
  sv_description :: string
  sv_source :: server_source
  sv_homepage :: "string option"
  sv_added_at :: pydt

record finding =
  fd_rule_id :: string
  fd_title :: string
  fd_severity :: severity
  fd_category :: string
  fd_detail :: string

record tool_evidence =
  te_name :: string
  te_has_input_schema :: bool
  te_input_schema_sha256 :: "string option"
  te_has_annotations :: bool

record scan_evidence =
  ev_tool_count :: int
  ev_tools :: "tool_evidence list"
  ev_prompt_count :: int
  ev_resource_count :: int
  ev_schema_hash_algorithm :: string

record risk_summary =
  rk_composite :: rat
  rk_file_access :: rat
  rk_network_access :: rat
  rk_shell_execution :: rat
  rk_destructive :: rat
  rk_exfiltration :: rat
  rk_findings_by_severity :: "(severity \<times> int) list"
  rk_annotation_coverage :: rat

definition risk_count :: "risk_summary \<Rightarrow> severity \<Rightarrow> int" where
  "risk_count r s = (case map_of (rk_findings_by_severity r) s of None \<Rightarrow> 0 | Some n \<Rightarrow> n)"

record scan_record =
  sc_id :: string
  sc_server_slug :: string
  sc_engine_name :: string
  sc_engine_version :: string
  sc_grade :: trust_grade
  sc_transparency :: transparency_level
  sc_risk :: risk_summary
  sc_findings :: "finding list"
  sc_evidence :: "scan_evidence option"
  sc_scanned_at :: pydt
  sc_sandbox_image :: "string option"
  sc_report_ref :: "string option"

text \<open>The range constraints of \<open>RiskSummary\<close>'s fields.\<close>

definition score_ok :: "rat \<Rightarrow> bool" where
  "score_ok x \<longleftrightarrow> 0 \<le> x \<and> x \<le> 10"

definition valid_risk :: "risk_summary \<Rightarrow> bool" where
  "valid_risk r \<longleftrightarrow> score_ok (rk_composite r) \<and> score_ok (rk_file_access r)
     \<and> score_ok (rk_network_access r) \<and> score_ok (rk_shell_execution r)
     \<and> score_ok (rk_destructive r) \<and> score_ok (rk_exfiltration r)
     \<and> 0 \<le> rk_annotation_coverage r \<and> rk_annotation_coverage r \<le> 1"

text \<open>What construction of each model checks.\<close>

definition make_source :: "server_source \<Rightarrow> server_source res" where
  "make_source s = bind_res (validate_env_keys (src_env_keys s)) (\<lambda>_. Inr s)"

definition make_server :: "server \<Rightarrow> server res" where
  "make_server s = bind_res (validate_slug_value (sv_slug s)) (\<lambda>_. Inr s)"

definition make_risk :: "risk_summary \<Rightarrow> risk_summary res" where
  "make_risk r = (if valid_risk r then Inr r else Inl ValueError)"

definition make_scan_record :: "scan_record \<Rightarrow> scan_record res" where
  "make_scan_record s = bind_res (validate_slug_value (sc_server_slug s)) (\<lambda>_.
     bind_res (validate_scan_id (sc_id s)) (\<lambda>_. Inr s))"

lemma make_server_Inr_iff [simp]: "make_server s = Inr t \<longleftrightarrow> slug_re (sv_slug s) \<and> t = s"
  by (auto simp: make_server_def validate_slug_value_def)

lemma make_scan_record_Inr_iff [simp]:
  "make_scan_record s = Inr t \<longleftrightarrow> slug_re (sc_server_slug s) \<and> scan_id_re (sc_id s) \<and> t = s"
  by (auto simp: make_scan_record_def validate_slug_value_def validate_scan_id_def)

lemma make_source_Inr_iff: "make_source s = Inr t \<longleftrightarrow>
   t = s \<and> distinct (src_env_keys s) \<and> (\<forall>k \<in> set (src_env_keys s). length k \<le> 128 \<and> env_key_re k)"
  by (fastforce simp: make_source_def validate_env_keys_def list_ex_iff length_eq_card_iff
      not_less split: if_splits)

section \<open>Sample values\<close>

text \<open>Concrete values the witnesses of several theories evaluate the model on.\<close>

definition sample_risk :: risk_summary where
  "sample_risk = \<lparr>rk_composite = 5, rk_file_access = 1, rk_network_access = 1,
     rk_shell_execution = 1, rk_destructive = 1, rk_exfiltration = 1,
     rk_findings_by_severity = [(Critical, 1)], rk_annotation_coverage = 1 / 2\<rparr>"

definition sample_source :: server_source where
  "sample_source = \<lparr>src_kind = NPM, src_reference = ''pkg@1.0.0'', src_command = Some ''npx'',
     src_args = [''-y''], src_env_keys = [''API_TOKEN''], src_sandbox_image = None, src_trusted = False\<rparr>"

definition sample_server :: server where
  "sample_server = \<lparr>sv_slug = ''demo-server'', sv_name = ''Demo'', sv_description = ''d'',
     sv_source = sample_source, sv_homepage = None, sv_added_at = utc_dt 0\<rparr>"

definition sample_evidence :: scan_evidence where
  "sample_evidence = \<lparr>ev_tool_count = 1, ev_tools = [\<lparr>te_name = ''run'', te_has_input_schema = False,
     te_input_schema_sha256 = None, te_has_annotations = True\<rparr>], ev_prompt_count = 0,
     ev_resource_count = 0, ev_schema_hash_algorithm = ''sha256''\<rparr>"

definition sample_scan :: scan_record where
  "sample_scan = \<lparr>sc_id = ''s1'', sc_server_slug = ''demo-server'', sc_engine_name = ''mcpaudit'',
     sc_engine_version = ''2.7.0'', sc_grade = D, sc_transparency = TMedium, sc_risk = sample_risk,
     sc_findings = [], sc_evidence = Some sample_evidence, sc_scanned_at = utc_dt (710 * us_per_day),
     sc_sandbox_image = None, sc_report_ref = None\<rparr>"

end
