(* ===== verification/Grading.thy ===== *)
theory Grading
  imports Models
begin

text \<open>
  Trust-grade derivation (\<open>core/grading.py\<close>): the danger-weighted score over floats, the bands, the
  cap for critical findings and the separate transparency axis, with an exact reference score and
  the error analysis that relates the two.
\<close>

section \<open>The rubric\<close>

datatype dimension = FileAccess | NetworkAccess | ShellExecution | Destructive | Exfiltration

fun dimension_str :: "dimension \<Rightarrow> string" where
  "dimension_str FileAccess = ''file_access''"
| "dimension_str NetworkAccess = ''network_access''"
| "dimension_str ShellExecution = ''shell_execution''"
| "dimension_str Destructive = ''destructive''"
| "dimension_str Exfiltration = ''exfiltration''"

text \<open>\<open>getattr(risk, dim)\<close>.\<close>

fun risk_dim :: "risk_summary \<Rightarrow> dimension \<Rightarrow> rat" where
  "risk_dim r FileAccess = rk_file_access r"
| "risk_dim r NetworkAccess = rk_network_access r"
| "risk_dim r ShellExecution = rk_shell_execution r"
| "risk_dim r Destructive = rk_destructive r"
| "risk_dim r Exfiltration = rk_exfiltration r"

definition DIM_WEIGHTS :: "(dimension \<times> rat) list" where
  "DIM_WEIGHTS = [(FileAccess, f64 (12 / 10)), (NetworkAccess, 1), (ShellExecution, 2),
     (Destructive, f64 (3 / 10)), (Exfiltration, f64 (4 / 10))]"

definition BANDS :: "(rat \<times> trust_grade) list" where
  "BANDS = [(2, A), (7 / 2, B), (5, C), (15 / 2, D)]"

definition CRITICAL_CAP :: trust_grade where
  "CRITICAL_CAP = D"

definition ORDER :: "trust_grade list" where
  "ORDER = [A, B, C, D, F]"

definition DANGER_DIMENSIONS :: "dimension list" where
  "DANGER_DIMENSIONS = map fst DIM_WEIGHTS"

definition TRANSPARENCY_HIGH :: rat where
  "TRANSPARENCY_HIGH = f64 (7 / 10)"

definition TRANSPARENCY_MEDIUM :: rat where
  "TRANSPARENCY_MEDIUM = f64 (3 / 10)"

text \<open>\<open>xs.index(x)\<close>.\<close>

fun py_index :: "'a list \<Rightarrow> 'a \<Rightarrow> nat res" where
  "py_index [] x = Inl ValueError"
| "py_index (y # ys) x = (if y = x then Inr 0 else bind_res (py_index ys x) (\<lambda>i. Inr (Suc i)))"

section \<open>Score, bands and grade\<close>

definition danger_score :: "risk_summary \<Rightarrow> rat" where
  "danger_score r =
     (let raw = py_sum (map (\<lambda>(dim, weight). f64 (weight * risk_dim r dim)) DIM_WEIGHTS)
      in max 0 (min 10 raw))"

fun band_in :: "(rat \<times> trust_grade) list \<Rightarrow> rat \<Rightarrow> trust_grade" where
  "band_in [] score = F"
| "band_in ((upper, g) # bands) score = (if score \<le> upper then g else band_in bands score)"

definition band :: "rat \<Rightarrow> trust_grade" where
  "band score = band_in BANDS score"

definition worse :: "trust_grade \<Rightarrow> trust_grade \<Rightarrow> trust_grade res" where
  "worse a b = bind_res (py_index ORDER a) (\<lambda>i.
     bind_res (py_index ORDER b) (\<lambda>j. Inr (if j \<le> i then a else b)))"

definition grade :: "risk_summary \<Rightarrow> trust_grade res" where
  "grade r = (let banded = band (danger_score r) in
     if 0 < risk_count r Critical then worse banded CRITICAL_CAP else Inr banded)"

definition transparency :: "risk_summary \<Rightarrow> transparency_level" where
  "transparency r = (let coverage = rk_annotation_coverage r in
     if TRANSPARENCY_HIGH \<le> coverage then THigh
     else if TRANSPARENCY_MEDIUM \<le> coverage then TMedium else TLow)"

text \<open>The public description of the rubric.\<close>

record rubric_view =
  rb_dimension_weights :: "(string \<times> rat) list"
  rb_grade_bands :: "(rat \<times> string) list"
  rb_worst_grade :: string
  rb_critical_cap :: string
  rb_transparency_thresholds :: "(string \<times> rat) list"

definition rubric :: rubric_view where
  "rubric = \<lparr>rb_dimension_weights = map (\<lambda>(d, w). (dimension_str d, w)) DIM_WEIGHTS,
     rb_grade_bands = map (\<lambda>(upper, g). (upper, trust_grade_str g)) BANDS,
     rb_worst_grade = trust_grade_str (last ORDER),
     rb_critical_cap = trust_grade_str CRITICAL_CAP,
     rb_transparency_thresholds = [(''high'', TRANSPARENCY_HIGH), (''medium'', TRANSPARENCY_MEDIUM)]\<rparr>"

section \<open>Letter grades in order\<close>

text \<open>
  The rank of a grade, best first, with \<open>Unscanned\<close> after the letters: the order of
  \<open>_GRADE_ORDER_TOTAL\<close> in the drift comparison, whose letter part is \<open>ORDER\<close>.
\<close>

fun grade_rank :: "trust_grade \<Rightarrow> nat" where
  "grade_rank A = 0"
| "grade_rank B = 1"
| "grade_rank C = 2"
| "grade_rank D = 3"
| "grade_rank F = 4"
| "grade_rank Unscanned = 5"

instantiation trust_grade :: linorder
begin

definition less_eq_trust_grade :: "trust_grade \<Rightarrow> trust_grade \<Rightarrow> bool" where
  "less_eq_trust_grade a b \<longleftrightarrow> grade_rank a \<le> grade_rank b"

definition less_trust_grade :: "trust_grade \<Rightarrow> trust_grade \<Rightarrow> bool" where
  "less_trust_grade a b \<longleftrightarrow> grade_rank a < grade_rank b"

instance
proof
  show "x = y" if "x \<le> y" "y \<le> x" for x y :: trust_grade
    using that by (cases x; cases y) (auto simp: less_eq_trust_grade_def)
qed (auto simp: less_eq_trust_grade_def less_trust_grade_def)

end

lemma grade_le_rank: "a \<le> b \<longleftrightarrow> grade_rank a \<le> grade_rank b"
  by (simp add: less_eq_trust_grade_def)

lemma py_index_ORDER: "py_index ORDER g = (if g = Unscanned then Inl ValueError else Inr (grade_rank g))"
  by (cases g) (simp_all add: ORDER_def)

lemma worse_letters: "a \<noteq> Unscanned \<Longrightarrow> b \<noteq> Unscanned \<Longrightarrow> worse a b = Inr (max a b)"
  by (cases a; cases b) (simp_all add: worse_def py_index_ORDER max_def grade_le_rank)

lemma band_letter [simp]: "band s \<noteq> Unscanned"
  by (simp add: band_def BANDS_def)

lemma band_mono: "s \<le> t \<Longrightarrow> band s \<le> band t"
  by (auto simp: band_def BANDS_def grade_le_rank)

lemma grade_eq: "grade r = Inr (if 0 < risk_count r Critical then max (band (danger_score r)) D
     else band (danger_score r))"
  by (simp add: grade_def CRITICAL_CAP_def worse_letters Let_def)

lemma danger_score_range: "0 \<le> danger_score r \<and> danger_score r \<le> 10"
  by (simp add: danger_score_def Let_def)

section \<open>The exact score and the error of the float one\<close>

definition exact_danger_raw :: "risk_summary \<Rightarrow> rat" where
  "exact_danger_raw r = 12 / 10 * rk_file_access r + rk_network_access r + 2 * rk_shell_execution r
     + 3 / 10 * rk_destructive r + 4 / 10 * rk_exfiltration r"

definition exact_danger :: "risk_summary \<Rightarrow> rat" where
  "exact_danger r = max 0 (min 10 (exact_danger_raw r))"

lemma weighted_error:
  assumes "score_ok x" "\<bar>w - e\<bar> \<le> pow2 (- 53)" "0 \<le> e" "e \<le> 2"
  shows "\<bar>f64 (w * x) - e * x\<bar> \<le> 2 * pow2 (- 48)"
proof -
  have x: "0 \<le> x" "x \<le> 10" using assms(1) by (auto simp: score_ok_def)
  have p: "pow2 (- 53) = pow2 (- 48) / 32" "pow2 (- 48) \<le> 1 / 1024"
    by (simp_all add: pow2_def)
  have "\<bar>w * x - e * x\<bar> = \<bar>w - e\<bar> * x" using x by (simp add: abs_mult flip: left_diff_distrib)
  also have "\<dots> \<le> pow2 (- 53) * 10" using assms(2) x by (intro mult_mono) auto
  also have "\<dots> \<le> pow2 (- 48)" using pow2_pos [of "- 48"] unfolding p(1) by linarith
  finally have wx: "\<bar>w * x - e * x\<bar> \<le> pow2 (- 48)" .
  have "0 \<le> e * x" using assms x by simp
  moreover have "e * x \<le> 2 * 10" using assms x by (intro mult_mono) auto
  ultimately have "\<bar>w * x\<bar> < 64" using wx p by linarith
  then have "\<bar>f64 (w * x) - w * x\<bar> \<le> pow2 (- 48)" by (rule b64.rnd_error)
  with wx show ?thesis by linarith
qed

lemma weight_literals:
  "\<bar>f64 (12 / 10) - 12 / 10\<bar> \<le> pow2 (- 53)"
  "\<bar>f64 (3 / 10) - 3 / 10\<bar> \<le> pow2 (- 53)"
  "\<bar>f64 (4 / 10) - 4 / 10\<bar> \<le> pow2 (- 53)"
  "\<bar>f64 (7 / 10) - 7 / 10\<bar> \<le> pow2 (- 53)"
  using f64_error [of "12 / 10" 1] f64_error [of "3 / 10" 1] f64_error [of "4 / 10" 1]
    f64_error [of "7 / 10" 1]
  by (simp_all add: pow2_def [of 1])

text \<open>The five rounded products, in the order \<open>sum\<close> adds them.\<close>

definition weighted_terms :: "risk_summary \<Rightarrow> rat list" where
  "weighted_terms r = map (\<lambda>(dim, weight). f64 (weight * risk_dim r dim)) DIM_WEIGHTS"

lemma danger_score_terms: "danger_score r = max 0 (min 10 (py_sum (weighted_terms r)))"
  by (simp add: danger_score_def weighted_terms_def Let_def)

lemma weighted_terms_list: "weighted_terms r =
   [f64 (f64 (12 / 10) * rk_file_access r), f64 (1 * rk_network_access r),
    f64 (2 * rk_shell_execution r), f64 (f64 (3 / 10) * rk_destructive r),
    f64 (f64 (4 / 10) * rk_exfiltration r)]"
  by (simp add: weighted_terms_def DIM_WEIGHTS_def)

lemma weighted_terms_nonneg:
  assumes "valid_risk r" "x \<in> set (weighted_terms r)"
  shows "0 \<le> x"
  using assms by (auto simp: weighted_terms_list valid_risk_def score_ok_def intro!: f64_nonneg mult_nonneg_nonneg)

lemma weighted_terms_sum:
  assumes "valid_risk r"
  shows "\<bar>sum_list (weighted_terms r) - exact_danger_raw r\<bar> \<le> 10 * pow2 (- 48)"
proof -
  note ok = assms [unfolded valid_risk_def]
  have "\<bar>f64 (f64 (12 / 10) * rk_file_access r) - 12 / 10 * rk_file_access r\<bar> \<le> 2 * pow2 (- 48)"
    using ok weight_literals by (intro weighted_error) auto
  moreover have "\<bar>f64 (1 * rk_network_access r) - 1 * rk_network_access r\<bar> \<le> 2 * pow2 (- 48)"
    using ok by (intro weighted_error) auto
  moreover have "\<bar>f64 (2 * rk_shell_execution r) - 2 * rk_shell_execution r\<bar> \<le> 2 * pow2 (- 48)"
    using ok by (intro weighted_error) auto
  moreover have "\<bar>f64 (f64 (3 / 10) * rk_destructive r) - 3 / 10 * rk_destructive r\<bar> \<le> 2 * pow2 (- 48)"
    using ok weight_literals by (intro weighted_error) auto
  moreover have "\<bar>f64 (f64 (4 / 10) * rk_exfiltration r) - 4 / 10 * rk_exfiltration r\<bar> \<le> 2 * pow2 (- 48)"
    using ok weight_literals by (intro weighted_error) auto
  ultimately show ?thesis unfolding weighted_terms_list exact_danger_raw_def sum_list.Cons sum_list.Nil
    by linarith
qed

lemma exact_danger_raw_range:
  assumes "valid_risk r"
  shows "0 \<le> exact_danger_raw r" and "exact_danger_raw r \<le> 49"
  using assms by (simp_all add: valid_risk_def score_ok_def exact_danger_raw_def)

definition danger_eps :: rat where
  "danger_eps = 1 / 2 ^ 42"

lemma raw_error:
  assumes "valid_risk r"
  shows "\<bar>py_sum (weighted_terms r) - exact_danger_raw r\<bar> \<le> danger_eps"
proof -
  note s = weighted_terms_sum [OF assms]
  have p: "danger_eps = 64 * pow2 (- 48)" by (simp add: danger_eps_def pow2_def)
  have q: "pow2 (- 48) \<le> 1 / 1024" by (simp add: pow2_def)
  have len: "length (weighted_terms r) = 5" by (simp add: weighted_terms_list)
  have "sum_list (weighted_terms r) \<le> 60"
    using s exact_danger_raw_range [OF assms] q by linarith
  then have "\<bar>py_sum (weighted_terms r) - sum_list (weighted_terms r)\<bar> \<le> 26 * pow2 (- 48)"
    using b64.py_sum_error [of "weighted_terms r"] weighted_terms_nonneg [OF assms] len by simp
  with s show ?thesis unfolding p by linarith
qed

lemma danger_score_error:
  assumes "valid_risk r"
  shows "\<bar>danger_score r - exact_danger r\<bar> \<le> danger_eps"
  using raw_error [OF assms] by (auto simp: danger_score_terms exact_danger_def max_def min_def)

lemma danger_score_le:
  assumes "valid_risk r" "valid_risk r'"
    and "exact_danger_raw r + 2 * danger_eps \<le> exact_danger_raw r'"
  shows "danger_score r \<le> danger_score r'"
proof -
  have "py_sum (weighted_terms r) \<le> py_sum (weighted_terms r')"
    using raw_error [OF assms(1)] raw_error [OF assms(2)] assms(3) by linarith
  then show ?thesis by (auto simp: danger_score_terms max_def min_def)
qed

definition exact_grade :: "risk_summary \<Rightarrow> trust_grade" where
  "exact_grade r = (if 0 < risk_count r Critical then max (band (exact_danger r)) D
     else band (exact_danger r))"

text \<open>A score moved by at most \<open>danger_eps\<close> stays in its band unless a bound lies between.\<close>

lemma band_in_cong: "\<forall>(b, g) \<in> set bs. (s \<le> b) = (t \<le> b) \<Longrightarrow> band_in bs s = band_in bs t"
  by (induction bs) auto

lemma band_stable:
  assumes "\<bar>s - t\<bar> \<le> e" "\<forall>(b, g) \<in> set BANDS. e < \<bar>t - b\<bar>"
  shows "band s = band t"
proof -
  have "\<forall>(b, g) \<in> set BANDS. (s \<le> b) = (t \<le> b)" using assms by fastforce
  then show ?thesis by (simp only: band_def band_in_cong)
qed

section \<open>Properties\<close>

text \<open>C1. The grade derivation always returns a letter, and a critical finding always holds it at D
  or F, whatever the score.\<close>

theorem grade_total_capped:
  "\<exists>g. grade r = Inr g \<and> g \<noteq> Unscanned \<and> (0 < risk_count r Critical \<longrightarrow> g = D \<or> g = F)"
proof -
  have "max g D \<noteq> Unscanned \<and> (max g D = D \<or> max g D = F)" if "g \<noteq> Unscanned" for g
    using that by (cases g) (auto simp: max_def grade_le_rank)
  then show ?thesis by (simp add: grade_eq)
qed

text \<open>The float score, with every product rounded and the compensated sum of the standard
  library, is within 2^-42 of the exact danger-weighted sum, and both stay between 0 and 10.\<close>

lemma danger_score_accuracy:
  assumes "valid_risk r"
  shows "\<bar>danger_score r - exact_danger r\<bar> \<le> 1 / 2 ^ 42
    \<and> 0 \<le> danger_score r \<and> danger_score r \<le> 10"
  using danger_score_error [OF assms] danger_score_range by (simp add: danger_eps_def)

text \<open>C2. The published grade is the grade of exact arithmetic for every risk whose exact score is
  not within 2^-42 of a band's upper bound.\<close>

theorem grade_matches_exact:
  assumes "valid_risk r" and "\<forall>(b, g) \<in> set BANDS. 1 / 2 ^ 42 < \<bar>exact_danger r - b\<bar>"
  shows "grade r = Inr (exact_grade r)"
proof -
  have "band (danger_score r) = band (exact_danger r)"
    by (rule band_stable [OF danger_score_error [OF assms(1), unfolded danger_eps_def] assms(2)])
  then show ?thesis by (simp add: grade_eq exact_grade_def)
qed

text \<open>More danger never earns a better letter: when the exact weighted sum of one risk exceeds
  another's by 2^-41 and it has a critical finding whenever the other has, its grade is no better.\<close>

lemma grade_antitone:
  assumes "valid_risk r" "valid_risk r'"
    and "exact_danger_raw r + 1 / 2 ^ 41 \<le> exact_danger_raw r'"
    and "0 < risk_count r Critical \<Longrightarrow> 0 < risk_count r' Critical"
  shows "\<exists>g g'. grade r = Inr g \<and> grade r' = Inr g' \<and> g \<le> g'"
proof -
  have "danger_score r \<le> danger_score r'"
    using assms by (intro danger_score_le) (simp_all add: danger_eps_def)
  then have "band (danger_score r) \<le> band (danger_score r')" by (rule band_mono)
  then show ?thesis using assms(4) by (auto simp: grade_eq le_max_iff_disj)
qed

lemma sample_risk_facts:
  "valid_risk sample_risk" "exact_danger sample_risk = 49 / 10" "exact_danger_raw sample_risk = 49 / 10"
  "risk_count sample_risk Critical = 1"
  by (simp_all add: sample_risk_def valid_risk_def score_ok_def exact_danger_def exact_danger_raw_def
      risk_count_def)

theorem grade_total_capped_witness: "\<exists>g. grade sample_risk = Inr g \<and> (g = D \<or> g = F)"
  using grade_total_capped [of sample_risk] by (auto simp: sample_risk_facts)

theorem grade_matches_exact_witness: "grade sample_risk = Inr D"
proof -
  have "grade sample_risk = Inr (exact_grade sample_risk)"
    by (rule grade_matches_exact) (simp_all add: sample_risk_facts BANDS_def)
  then show ?thesis
    by (simp add: exact_grade_def sample_risk_facts band_def BANDS_def max_def grade_le_rank)
qed

end
