(* ===== verification/Governance.thy ===== *)
theory Governance
  imports Models
begin

text \<open>
  Scan provenance (\<open>core/provenance.py\<close>) and the freshness policy (\<open>core/governance.py\<close>).
\<close>

section \<open>Provenance\<close>

definition REAL_ENGINE_NAMES :: "string list" where
  "REAL_ENGINE_NAMES = [''mcpaudit'']"

datatype scan_provenance = Real | Demo | ProvUnscanned | ProvUnknown

fun provenance_str :: "scan_provenance \<Rightarrow> string" where
  "provenance_str Real = ''real''"
| "provenance_str Demo = ''demo''"
| "provenance_str ProvUnscanned = ''unscanned''"
| "provenance_str ProvUnknown = ''unknown''"

definition is_real_engine :: "string \<Rightarrow> bool" where
  "is_real_engine name \<longleftrightarrow> py_lower (py_strip name) \<in> set REAL_ENGINE_NAMES"

definition classify :: "scan_record option \<Rightarrow> scan_provenance" where
  "classify r = (case r of None \<Rightarrow> ProvUnscanned
     | Some rec \<Rightarrow> if is_real_engine (sc_engine_name rec) then Real else Demo)"

lemma classify_exact:
  "classify r = Real \<longleftrightarrow> (\<exists>s. r = Some s \<and> py_lower (py_strip (sc_engine_name s)) = ''mcpaudit'')"
  "classify r = ProvUnscanned \<longleftrightarrow> r = None"
  "classify r \<noteq> ProvUnknown"
  by (auto simp: classify_def is_real_engine_def REAL_ENGINE_NAMES_def split: option.splits)

section \<open>Freshness\<close>

definition STALE_AFTER_DAYS :: int where
  "STALE_AFTER_DAYS = 90"

definition MASKED_BADGE_MESSAGE :: string where
  "MASKED_BADGE_MESSAGE = ''under review''"

definition MASKED_SERVER_DESCRIPTION :: string where
  "MASKED_SERVER_DESCRIPTION =
     ''Server metadata is temporarily withheld while this grade is under governance review.''"

datatype freshness_state = Fresh | Stale | FUnknown | NotApplicable

fun freshness_str :: "freshness_state \<Rightarrow> string" where
  "freshness_str Fresh = ''FRESH''"
| "freshness_str Stale = ''STALE''"
| "freshness_str FUnknown = ''UNKNOWN''"
| "freshness_str NotApplicable = ''NOT_APPLICABLE''"

record scan_freshness =
  sf_state :: freshness_state
  sf_reason :: string
  sf_scanned_at :: "int option"
  sf_evaluated_at :: int
  sf_scan_age_days :: "rat option"
  sf_stale_after :: "int option"

text \<open>The property \<open>reason_code\<close>, an alias of the reason.\<close>

definition reason_code :: "scan_freshness \<Rightarrow> string" where
  "reason_code f = sf_reason f"

text \<open>The timestamp argument: \<open>None\<close>, a string, a datetime or any other object.\<close>

datatype ts_arg = TsNone | TsStr string | TsDt pydt | TsOther

definition no_verdict :: "freshness_state \<Rightarrow> string \<Rightarrow> int option \<Rightarrow> int \<Rightarrow> scan_freshness" where
  "no_verdict st reason scanned ev = \<lparr>sf_state = st, sf_reason = reason, sf_scanned_at = scanned,
     sf_evaluated_at = ev, sf_scan_age_days = None, sf_stale_after = None\<rparr>"

text \<open>The part after the timestamp is a datetime: both instants in UTC.\<close>

definition assess_parsed :: "pydt \<Rightarrow> int \<Rightarrow> int \<Rightarrow> scan_freshness res" where
  "assess_parsed d evaluated_at horizon_days =
     bind_res (as_utc d) (\<lambda>parsed.
       let age_seconds = total_seconds (evaluated_at - parsed) in
       if age_seconds < 0 then Inr (no_verdict FUnknown ''future_scanned_at'' (Some parsed) evaluated_at)
       else bind_res (add_days parsed horizon_days) (\<lambda>stale_after.
         let age_days = py_round 6 (f64 (age_seconds / 86400));
             verdict = (if evaluated_at = stale_after then (Fresh, ''fresh'')
                        else if stale_after < evaluated_at then (Stale, ''age_exceeds_90_days'')
                        else (Fresh, ''fresh''))
         in Inr \<lparr>sf_state = fst verdict, sf_reason = snd verdict, sf_scanned_at = Some parsed,
              sf_evaluated_at = evaluated_at, sf_scan_age_days = Some age_days,
              sf_stale_after = Some stale_after\<rparr>))"

definition assess_scan_freshness ::
  "platform \<Rightarrow> ts_arg \<Rightarrow> pydt \<Rightarrow> bool \<Rightarrow> int \<Rightarrow> scan_freshness res" where
  "assess_scan_freshness pf scanned_at now scan_exists horizon_days =
     bind_res (as_utc now) (\<lambda>evaluated_at.
       if \<not> scan_exists then Inr (no_verdict NotApplicable ''no_scan'' None evaluated_at)
       else case scanned_at of
         TsNone \<Rightarrow> Inr (no_verdict FUnknown ''missing_scanned_at'' None evaluated_at)
       | TsStr s \<Rightarrow> (case iso_parse pf (replace_Z s) of
             None \<Rightarrow> Inr (no_verdict FUnknown ''malformed_scanned_at'' None evaluated_at)
           | Some d \<Rightarrow> assess_parsed d evaluated_at horizon_days)
       | TsDt d \<Rightarrow> assess_parsed d evaluated_at horizon_days
       | TsOther \<Rightarrow> Inr (no_verdict FUnknown ''malformed_scanned_at'' None evaluated_at))"

definition is_stale :: "platform \<Rightarrow> pydt \<Rightarrow> pydt \<Rightarrow> int \<Rightarrow> bool res" where
  "is_stale pf scanned_at now horizon_days =
     bind_res (assess_scan_freshness pf (TsDt scanned_at) now True horizon_days)
       (\<lambda>f. Inr (sf_state f = Stale))"

text \<open>The age in microseconds decides: what the policy says of two instants.\<close>

fun policy_state :: "int \<Rightarrow> int \<Rightarrow> int \<Rightarrow> freshness_state" where
  "policy_state scanned ev horizon =
     (if ev < scanned then FUnknown
      else if ev - scanned \<le> horizon * us_per_day then Fresh else Stale)"

lemma assess_parsed_state:
  assumes "assess_parsed d ev h = Inr f"
  shows "sf_state f = policy_state (utc_instant d) ev h"
    and "sf_state f = Fresh \<or> sf_state f = Stale \<longleftrightarrow> sf_scan_age_days f \<noteq> None"
    and "sf_scan_age_days f \<noteq> None \<longleftrightarrow> sf_stale_after f \<noteq> None"
    and "sf_state f \<noteq> NotApplicable"
  using assms by (auto simp: assess_parsed_def Let_def no_verdict_def split: if_splits)

lemma assess_parsed_cong:
  assumes "utc_instant d = utc_instant d'"
  shows "assess_parsed d ev h = assess_parsed d' ev h"
  using assms by (simp add: assess_parsed_def as_utc_def)

lemma assess_parsed_total:
  assumes "dt_in_range (utc_instant d)" "dt_in_range (utc_instant d + h * us_per_day) \<or> ev < utc_instant d"
  shows "\<exists>f. assess_parsed d ev h = Inr f"
  using assms by (auto simp: assess_parsed_def as_utc_def add_days_def Let_def)

section \<open>Properties\<close>

text \<open>A readable scan time is FRESH up to and including exactly the horizon, STALE from the
  next microsecond, and UNKNOWN (never clamped to fresh) when it lies in the future; a staleness
  bound and an age are reported exactly for FRESH and STALE.\<close>

lemma freshness_policy:
  assumes "assess_scan_freshness pf (TsDt d) now True h = Inr f"
  shows "sf_state f = policy_state (utc_instant d) (utc_instant now) h
    \<and> (sf_state f = Fresh \<or> sf_state f = Stale \<longleftrightarrow> sf_scan_age_days f \<noteq> None)
    \<and> (sf_scan_age_days f \<noteq> None \<longleftrightarrow> sf_stale_after f \<noteq> None)"
proof -
  from assms have "assess_parsed d (utc_instant now) h = Inr f"
    by (auto simp: assess_scan_freshness_def)
  from assess_parsed_state [OF this] show ?thesis by simp
qed

text \<open>A verdict depends on the instants and not on how they are written: replacing the scan
  time and the clock by datetimes of the same instants in any other offset, or as naive UTC,
  changes nothing.\<close>

lemma freshness_offset_invariant:
  assumes "utc_instant d = utc_instant d'" "utc_instant now = utc_instant now'"
  shows "assess_scan_freshness pf (TsDt d) now e h = assess_scan_freshness pf (TsDt d') now' e h"
  using assms assess_parsed_cong [OF assms(1)]
  by (simp add: assess_scan_freshness_def as_utc_def)

text \<open>Staleness is final: once a scan is assessed STALE, every later assessment of it that
  returns is STALE too.\<close>

lemma stale_is_final:
  assumes "is_stale pf d now h = Inr True" "utc_instant now \<le> utc_instant now'"
    and "is_stale pf d now' h = Inr b"
  shows "b"
proof -
  obtain f g where f: "assess_scan_freshness pf (TsDt d) now True h = Inr f" "sf_state f = Stale"
    and g: "assess_scan_freshness pf (TsDt d) now' True h = Inr g" "b = (sf_state g = Stale)"
    using assms(1,3) by (auto simp: is_stale_def)
  have "policy_state (utc_instant d) (utc_instant now) h = Stale"
    using f assess_parsed_state(1) by (fastforce simp: assess_scan_freshness_def)
  moreover have "sf_state g = policy_state (utc_instant d) (utc_instant now') h"
    using g assess_parsed_state(1) by (fastforce simp: assess_scan_freshness_def)
  ultimately show ?thesis using g(2) assms(2) by (auto split: if_splits)
qed

definition sample_now :: pydt where
  "sample_now = utc_dt (800 * us_per_day)"

lemma fresh_sample: "assess_scan_freshness pf (TsDt (utc_dt (710 * us_per_day))) sample_now True 90 =
   Inr \<lparr>sf_state = Fresh, sf_reason = ''fresh'', sf_scanned_at = Some (710 * us_per_day),
     sf_evaluated_at = 800 * us_per_day,
     sf_scan_age_days = Some (py_round 6 (f64 (total_seconds (90 * us_per_day) / 86400))),
     sf_stale_after = Some (800 * us_per_day)\<rparr>"
proof -
  have r: "dt_in_range (710 * us_per_day)" "dt_in_range (800 * us_per_day)"
    by (simp_all add: dt_in_range_def dt_limit_def us_per_day_def)
  have "800 * us_per_day - 710 * us_per_day = 90 * us_per_day"
    "710 * us_per_day + 90 * us_per_day = 800 * us_per_day" by simp_all
  moreover have "\<not> total_seconds (90 * us_per_day) < 0" by (simp add: us_per_day_def)
  ultimately show ?thesis using r
    by (simp add: assess_scan_freshness_def assess_parsed_def sample_now_def as_utc_def
        add_days_def Let_def)
qed

lemma stale_sample:
  assumes "801 \<le> n" "n \<le> 1000"
  shows "is_stale pf (utc_dt (710 * us_per_day)) (utc_dt (n * us_per_day)) 90 = Inr True"
proof -
  have u: "0 < us_per_day" "1000 * us_per_day < dt_limit" by (simp_all add: us_per_day_def dt_limit_def)
  have "n * us_per_day \<le> 1000 * us_per_day" using assms u by simp
  then have "n * us_per_day < dt_limit" using u by linarith
  then have r: "dt_in_range (710 * us_per_day)" "dt_in_range (n * us_per_day)"
    "dt_in_range (710 * us_per_day + 90 * us_per_day)"
    using assms u by (auto simp: dt_in_range_def)
  have "710 * us_per_day + 90 * us_per_day < n * us_per_day"
    using assms u by (simp flip: distrib_right)
  moreover have "\<not> total_seconds (n * us_per_day - 710 * us_per_day) < 0"
    using assms u by (simp add: mult_less_0_iff flip: left_diff_distrib)
  moreover have "us_per_day \<noteq> 0 \<and> n \<noteq> 800" using assms u by auto
  ultimately show ?thesis using r
    by (simp add: is_stale_def assess_scan_freshness_def assess_parsed_def as_utc_def
        add_days_def Let_def)
qed

end
