(* ===== verification/Projection.thy ===== *)
theory Projection
  imports Governance
begin

text \<open>
  The canonical public projection (\<open>core/public_projection.py\<close>): what every public surface shows of
  a server and of its latest scan, as the dict the code builds.
\<close>

section \<open>Serialised models\<close>

text \<open>\<open>model_dump(mode="json")\<close>: one entry per field, in declaration order.\<close>

definition opt_str :: "string option \<Rightarrow> pyval" where
  "opt_str s = (case s of None \<Rightarrow> PNone | Some t \<Rightarrow> PStr t)"

abbreviation pfin :: "rat \<Rightarrow> pyval" where
  "pfin x \<equiv> PFloat (Fin x)"

definition dump_source :: "server_source \<Rightarrow> pyval" where
  "dump_source s = PDict [(''kind'', PStr (source_kind_str (src_kind s))),
     (''reference'', PStr (src_reference s)), (''command'', opt_str (src_command s)),
     (''args'', PList (map PStr (src_args s))), (''env_keys'', PList (map PStr (src_env_keys s))),
     (''sandbox_image'', opt_str (src_sandbox_image s)), (''trusted'', PBool (src_trusted s))]"

definition dump_server :: "platform \<Rightarrow> server \<Rightarrow> pydict" where
  "dump_server pf s = [(''slug'', PStr (sv_slug s)), (''name'', PStr (sv_name s)),
     (''description'', PStr (sv_description s)), (''source'', dump_source (sv_source s)),
     (''homepage'', opt_str (sv_homepage s)), (''added_at'', PStr (dump_datetime pf (sv_added_at s)))]"

definition dump_finding :: "finding \<Rightarrow> pyval" where
  "dump_finding f = PDict [(''rule_id'', PStr (fd_rule_id f)), (''title'', PStr (fd_title f)),
     (''severity'', PStr (severity_str (fd_severity f))), (''category'', PStr (fd_category f)),
     (''detail'', PStr (fd_detail f))]"

definition dump_tool :: "tool_evidence \<Rightarrow> pyval" where
  "dump_tool t = PDict [(''name'', PStr (te_name t)),
     (''has_input_schema'', PBool (te_has_input_schema t)),
     (''input_schema_sha256'', opt_str (te_input_schema_sha256 t)),
     (''has_annotations'', PBool (te_has_annotations t))]"

definition dump_evidence :: "scan_evidence \<Rightarrow> pyval" where
  "dump_evidence e = PDict [(''tool_count'', PInt (ev_tool_count e)),
     (''tools'', PList (map dump_tool (ev_tools e))), (''prompt_count'', PInt (ev_prompt_count e)),
     (''resource_count'', PInt (ev_resource_count e)),
     (''schema_hash_algorithm'', PStr (ev_schema_hash_algorithm e))]"

definition dump_risk :: "risk_summary \<Rightarrow> pyval" where
  "dump_risk r = PDict [(''composite'', pfin (rk_composite r)),
     (''file_access'', pfin (rk_file_access r)), (''network_access'', pfin (rk_network_access r)),
     (''shell_execution'', pfin (rk_shell_execution r)), (''destructive'', pfin (rk_destructive r)),
     (''exfiltration'', pfin (rk_exfiltration r)),
     (''findings_by_severity'',
        PDict (map (\<lambda>(s, n). (severity_str s, PInt n)) (rk_findings_by_severity r))),
     (''annotation_coverage'', pfin (rk_annotation_coverage r))]"

definition dump_scan :: "platform \<Rightarrow> scan_record \<Rightarrow> pydict" where
  "dump_scan pf s = [(''id'', PStr (sc_id s)), (''server_slug'', PStr (sc_server_slug s)),
     (''engine_name'', PStr (sc_engine_name s)), (''engine_version'', PStr (sc_engine_version s)),
     (''grade'', PStr (trust_grade_str (sc_grade s))),
     (''transparency'', PStr (transparency_str (sc_transparency s))),
     (''risk'', dump_risk (sc_risk s)), (''findings'', PList (map dump_finding (sc_findings s))),
     (''evidence'', (case sc_evidence s of None \<Rightarrow> PNone | Some e \<Rightarrow> dump_evidence e)),
     (''scanned_at'', PStr (dump_datetime pf (sc_scanned_at s))),
     (''sandbox_image'', opt_str (sc_sandbox_image s)), (''report_ref'', opt_str (sc_report_ref s))]"

text \<open>\<open>d.update(e)\<close> and \<open>d.get(k, default)\<close>.\<close>

definition dict_update :: "pydict \<Rightarrow> pydict \<Rightarrow> pydict" where
  "dict_update d e = foldl (\<lambda>d (k, v). dict_set k v d) d e"

definition dget_default :: "pydict \<Rightarrow> string \<Rightarrow> pyval \<Rightarrow> pyval" where
  "dget_default d k v = (case map_of d k of None \<Rightarrow> v | Some w \<Rightarrow> w)"

lemma map_of_dict_update: "map_of (dict_update d e) = map_of d ++ map_of (rev e)"
  by (simp add: dict_update_def foldl_dict_set_map_of)

section \<open>Projection of a server\<close>

definition project_public_server :: "platform \<Rightarrow> server \<Rightarrow> bool \<Rightarrow> pydict" where
  "project_public_server pf s operator_masked =
     (let payload = dump_server pf s;
          payload = (if operator_masked
            then dict_set ''description'' (PStr MASKED_SERVER_DESCRIPTION) payload else payload)
      in dict_set ''operator_masked'' (PBool operator_masked) payload)"

section \<open>Projection of a scan\<close>

definition age_value :: "scan_freshness \<Rightarrow> pyval" where
  "age_value f = (case sf_scan_age_days f of None \<Rightarrow> PNone | Some a \<Rightarrow> pfin a)"

definition stale_after_value :: "platform \<Rightarrow> scan_freshness \<Rightarrow> pyval" where
  "stale_after_value pf f = (case sf_stale_after f of None \<Rightarrow> PNone
     | Some t \<Rightarrow> PStr (iso_format pf (utc_dt t)))"

definition stale_value :: "scan_freshness \<Rightarrow> pyval" where
  "stale_value f = (if sf_state f = Fresh \<or> sf_state f = Stale then PBool (sf_state f = Stale) else PNone)"

definition unreadable_projection :: "scan_freshness \<Rightarrow> bool \<Rightarrow> pydict" where
  "unreadable_projection f operator_masked =
     [(''status'', PStr ''UNKNOWN''), (''reason_codes'', PList [PStr ''SCAN_RECORD_UNREADABLE'']),
      (''provenance'', PStr (provenance_str ProvUnknown)),
      (''freshness_state'', PStr (freshness_str (sf_state f))),
      (''freshness_reason'', PStr (sf_reason f)), (''scan_age_days'', PNone),
      (''stale_after'', PNone), (''stale'', PNone), (''masked'', PBool False),
      (''operator_masked'', PBool operator_masked), (''grade_withheld'', PBool True),
      (''grade'', PStr ''unknown''), (''transparency'', PNone), (''risk'', PNone),
      (''findings'', PNone), (''evidence'', PNone), (''report_ref'', PNone)]"

definition freshness_entries :: "platform \<Rightarrow> scan_record \<Rightarrow> scan_freshness \<Rightarrow> bool \<Rightarrow> bool \<Rightarrow> pydict" where
  "freshness_entries pf scan f operator_masked grade_withheld =
     [(''provenance'', PStr (provenance_str (classify (Some scan)))),
      (''freshness_state'', PStr (freshness_str (sf_state f))),
      (''freshness_reason'', PStr (sf_reason f)), (''scan_age_days'', age_value f),
      (''stale_after'', stale_after_value pf f), (''stale'', stale_value f),
      (''masked'', PBool operator_masked), (''operator_masked'', PBool operator_masked),
      (''grade_withheld'', PBool grade_withheld)]"

definition withheld_entries :: "bool \<Rightarrow> pydict" where
  "withheld_entries operator_masked =
     [(''grade'', PStr (if operator_masked then MASKED_BADGE_MESSAGE else ''unknown'')),
      (''transparency'', PNone), (''risk'', PNone), (''findings'', PNone), (''evidence'', PNone),
      (''report_ref'', PNone),
      (''withheld_reason'', PStr (if operator_masked then ''grade_under_governance_review''
                                  else ''scan_freshness_unknown''))]"

definition project_readable ::
  "platform \<Rightarrow> scan_record \<Rightarrow> scan_freshness \<Rightarrow> bool \<Rightarrow> pydict" where
  "project_readable pf scan f operator_masked =
     (let freshness_unknown = (sf_state f = FUnknown);
          grade_withheld = (operator_masked \<or> freshness_unknown);
          payload = dict_update (dump_scan pf scan)
            (freshness_entries pf scan f operator_masked grade_withheld)
      in if grade_withheld then dict_update payload (withheld_entries operator_masked) else payload)"

definition project_public_scan ::
  "platform \<Rightarrow> scan_record option \<Rightarrow> pydt \<Rightarrow> bool \<Rightarrow> bool \<Rightarrow> pydict option res" where
  "project_public_scan pf scan now operator_masked unreadable =
     (if unreadable then
        bind_res (assess_scan_freshness pf TsNone now True STALE_AFTER_DAYS)
          (\<lambda>f. Inr (Some (unreadable_projection f operator_masked)))
      else case scan of
        None \<Rightarrow> Inr None
      | Some s \<Rightarrow> bind_res (assess_scan_freshness pf (TsDt (sc_scanned_at s)) now True STALE_AFTER_DAYS)
          (\<lambda>f. Inr (Some (project_readable pf s f operator_masked))))"

definition unscanned_summary :: "server \<Rightarrow> bool \<Rightarrow> pydict" where
  "unscanned_summary s operator_masked =
     [(''slug'', PStr (sv_slug s)), (''name'', PStr (sv_name s)),
      (''grade'', PStr (if operator_masked then MASKED_BADGE_MESSAGE else ''unscanned'')),
      (''transparency'', PNone), (''composite'', PNone), (''scanned_at'', PNone),
      (''provenance'', PStr (provenance_str ProvUnscanned)),
      (''freshness_state'', PStr (freshness_str NotApplicable)), (''freshness_reason'', PStr ''no_scan''),
      (''scan_age_days'', PNone), (''stale_after'', PNone), (''stale'', PNone),
      (''masked'', PBool operator_masked), (''operator_masked'', PBool operator_masked),
      (''grade_withheld'', PBool operator_masked)]"

definition scanned_summary :: "server \<Rightarrow> pydict \<Rightarrow> bool \<Rightarrow> pydict" where
  "scanned_summary s p operator_masked =
     [(''slug'', PStr (sv_slug s)), (''name'', PStr (sv_name s)),
      (''grade'', dget_default p ''grade'' (PStr ''unknown'')), (''transparency'', dget p ''transparency''),
      (''composite'', (case dget p ''risk'' of PDict risk \<Rightarrow> dget risk ''composite'' | _ \<Rightarrow> PNone)),
      (''scanned_at'', dget p ''scanned_at''),
      (''provenance'', dget_default p ''provenance'' (PStr (provenance_str ProvUnknown))),
      (''freshness_state'', dget_default p ''freshness_state'' (PStr (freshness_str FUnknown))),
      (''freshness_reason'', dget_default p ''freshness_reason'' (PStr ''unknown'')),
      (''scan_age_days'', dget p ''scan_age_days''), (''stale_after'', dget p ''stale_after''),
      (''stale'', dget p ''stale''),
      (''masked'', PBool (py_truthy (dget_default p ''masked'' (PBool False)))),
      (''operator_masked'', PBool operator_masked),
      (''grade_withheld'', PBool (py_truthy (dget_default p ''grade_withheld'' (PBool False))))]"

definition project_public_summary ::
  "platform \<Rightarrow> server \<Rightarrow> scan_record option \<Rightarrow> pydt \<Rightarrow> bool \<Rightarrow> bool \<Rightarrow> pydict res" where
  "project_public_summary pf s scan now operator_masked unreadable =
     bind_res (project_public_scan pf scan now operator_masked unreadable) (\<lambda>projected.
       Inr (case projected of None \<Rightarrow> unscanned_summary s operator_masked
            | Some p \<Rightarrow> scanned_summary s p operator_masked))"

section \<open>What a projection shows\<close>

text \<open>The projected value of a field, after both updates.\<close>

lemma dget_dict_update:
  "dget (dict_update d e) k = (case map_of (rev e) k of None \<Rightarrow> dget d k | Some v \<Rightarrow> v)"
  by (simp add: dget_def map_of_dict_update map_add_def split: option.splits)

lemma dget_default_eq: "dget d k \<noteq> PNone \<Longrightarrow> dget_default d k v = dget d k"
  by (auto simp: dget_default_def dget_def split: option.splits)

lemma dict_set_same_key: "dict_set k v (dict_set k w d) = dict_set k v d"
  by (induction d) auto

lemma readable_withheld:
  assumes "m \<or> sf_state f = FUnknown"
  shows "project_readable pf s f m = dict_update (dict_update (dump_scan pf s)
    (freshness_entries pf s f m True)) (withheld_entries m)"
  using assms by (simp add: project_readable_def)

lemma readable_shown:
  assumes "\<not> (m \<or> sf_state f = FUnknown)"
  shows "project_readable pf s f m = dict_update (dump_scan pf s) (freshness_entries pf s f m False)"
  using assms by (simp add: project_readable_def)

lemmas entry_defs = dget_dict_update dump_scan_def freshness_entries_def withheld_entries_def

lemma readable_flags:
  "dget (project_readable pf s f m) ''grade_withheld'' = PBool (m \<or> sf_state f = FUnknown)"
  "dget (project_readable pf s f m) ''operator_masked'' = PBool m"
  "dget (project_readable pf s f m) ''masked'' = PBool m"
  "dget (project_readable pf s f m) ''freshness_state'' = PStr (freshness_str (sf_state f))"
  by (cases "m \<or> sf_state f = FUnknown"; simp add: readable_withheld readable_shown entry_defs)+

lemma readable_grade_withheld:
  "m \<or> sf_state f = FUnknown \<Longrightarrow> dget (project_readable pf s f m) ''grade''
     = PStr (if m then MASKED_BADGE_MESSAGE else ''unknown'')"
  by (simp add: readable_withheld entry_defs)

lemma readable_grade_shown:
  "\<not> (m \<or> sf_state f = FUnknown) \<Longrightarrow> dget (project_readable pf s f m) ''grade''
     = PStr (trust_grade_str (sc_grade s))"
  by (simp add: readable_shown entry_defs)

definition withheld_fields :: "string list" where
  "withheld_fields = [''transparency'', ''risk'', ''findings'', ''evidence'', ''report_ref'']"

lemma readable_withheld_fields:
  "m \<or> sf_state f = FUnknown \<Longrightarrow> list_all (\<lambda>k. dget (project_readable pf s f m) k = PNone) withheld_fields"
  by (simp add: readable_withheld entry_defs withheld_fields_def)

text \<open>The fields of a scan a withheld projection still shows.\<close>

definition same_public_identity :: "scan_record \<Rightarrow> scan_record \<Rightarrow> bool" where
  "same_public_identity s t \<longleftrightarrow> sc_id s = sc_id t \<and> sc_server_slug s = sc_server_slug t
     \<and> sc_engine_name s = sc_engine_name t \<and> sc_engine_version s = sc_engine_version t
     \<and> sc_scanned_at s = sc_scanned_at t \<and> sc_sandbox_image s = sc_sandbox_image t"

lemma withheld_readable_cong:
  assumes "same_public_identity s t" "m \<or> sf_state f = FUnknown"
  shows "project_readable pf s f m = project_readable pf t f m"
  using assms
  by (simp add: same_public_identity_def project_readable_def Let_def dict_update_def dump_scan_def
      freshness_entries_def withheld_entries_def classify_def)

section \<open>Properties\<close>

text \<open>C3. Operator masking hides the verdict completely: two scans that agree on identity, engine, time
  and image have the same masked projection, whatever their grades, transparency, risk numbers,
  findings, evidence and report references are.\<close>

theorem masked_noninterference:
  assumes "same_public_identity s t"
  shows "project_public_scan pf (Some s) now True u = project_public_scan pf (Some t) now True u"
proof -
  have "sc_scanned_at s = sc_scanned_at t" using assms by (simp add: same_public_identity_def)
  then show ?thesis
    by (simp add: project_public_scan_def withheld_readable_cong [OF assms])
qed

text \<open>A letter grade is public only with evidence behind it: when a projection shows one of the
  letters, the scan was readable, not masked, of that very grade and with a known freshness state;
  whenever the projection says the grade is withheld, the risk numbers, findings, evidence,
  transparency and report reference are all null.\<close>

lemma shown_grade_is_supported:
  assumes "project_public_scan pf scan now m u = Inr (Some p)"
  shows "(dget p ''grade'' = PStr (trust_grade_str g) \<longrightarrow>
      (\<exists>s. scan = Some s \<and> sc_grade s = g \<and> \<not> u \<and> \<not> m \<and> dget p ''grade_withheld'' = PBool False))
    \<and> (dget p ''grade_withheld'' = PBool True \<longrightarrow>
      list_all (\<lambda>k. dget p k = PNone) withheld_fields)"
proof (cases u)
  case True
  with assms obtain f where "p = unreadable_projection f m"
    by (auto simp: project_public_scan_def)
  then show ?thesis by (cases g) (simp_all add: unreadable_projection_def withheld_fields_def)
next
  case False
  with assms obtain s f where s: "scan = Some s" and p: "p = project_readable pf s f m"
    by (auto simp: project_public_scan_def split: option.splits)
  have no_letter: "MASKED_BADGE_MESSAGE \<noteq> trust_grade_str g" "''unknown'' \<noteq> trust_grade_str g"
    by (cases g; simp add: MASKED_BADGE_MESSAGE_def)+
  show ?thesis
  proof (cases "m \<or> sf_state f = FUnknown")
    case True
    then show ?thesis
      using readable_grade_withheld [OF True] readable_withheld_fields [OF True] no_letter
      by (simp add: p readable_flags)
  next
    case False
    then show ?thesis
      using s \<open>\<not> u\<close> readable_grade_shown [OF False] by (simp add: p readable_flags grades.val_eq_iff)
  qed
qed

text \<open>The catalog summary repeats the projection: it shows a letter only where the full
  projection of the same scan shows that letter, reports the same withholding flag and mask, and a
  server without a scan is shown as unscanned (or under review when masked).\<close>

lemma summary_agrees_with_projection:
  assumes "project_public_summary pf sv scan now m u = Inr q"
  shows "(\<exists>p. project_public_scan pf scan now m u = Inr (Some p)
        \<and> dget q ''grade'' = dget p ''grade'' \<and> dget q ''grade_withheld'' = dget p ''grade_withheld''
        \<and> dget q ''stale'' = dget p ''stale'' \<and> dget q ''freshness_state'' = dget p ''freshness_state'')
    \<or> (project_public_scan pf scan now m u = Inr None
        \<and> dget q ''grade'' = PStr (if m then ''under review'' else ''unscanned'')
        \<and> dget q ''grade_withheld'' = PBool m)"
proof (cases "project_public_scan pf scan now m u")
  case (Inr r)
  show ?thesis
  proof (cases r)
    case None
    with assms Inr show ?thesis
      by (auto simp: project_public_summary_def unscanned_summary_def MASKED_BADGE_MESSAGE_def)
  next
    case (Some p)
    have "\<exists>b t. dget p ''grade_withheld'' = PBool b \<and> dget p ''grade'' = PStr t
        \<and> dget p ''freshness_state'' \<noteq> PNone"
    proof (cases u)
      case True
      then show ?thesis using Inr Some
        by (auto simp: project_public_scan_def unreadable_projection_def)
    next
      case False
      then obtain s f where p: "p = project_readable pf s f m" using Inr Some
        by (auto simp: project_public_scan_def split: option.splits)
      show ?thesis unfolding p readable_flags
        by (cases "m \<or> sf_state f = FUnknown") (auto simp: readable_grade_withheld readable_grade_shown)
    qed
    then show ?thesis using assms Inr Some
      by (auto simp: project_public_summary_def scanned_summary_def dget_default_eq)
  qed
qed (use assms in \<open>simp add: project_public_summary_def\<close>)

lemma sample_projection: "project_public_scan pf (Some sample_scan) sample_now False False = Inr (Some
   (project_readable pf sample_scan (\<lparr>sf_state = Fresh, sf_reason = ''fresh'',
     sf_scanned_at = Some (710 * us_per_day), sf_evaluated_at = 800 * us_per_day,
     sf_scan_age_days = Some (py_round 6 (f64 (total_seconds (90 * us_per_day) / 86400))),
     sf_stale_after = Some (800 * us_per_day)\<rparr>) False))"
  using fresh_sample [of pf]
  by (simp add: project_public_scan_def sample_scan_def STALE_AFTER_DAYS_def)

theorem masked_noninterference_witness:
  "project_public_scan sample_platform (Some sample_scan) sample_now True False
   = project_public_scan sample_platform
       (Some (sample_scan\<lparr>sc_grade := A, sc_findings := [], sc_evidence := None, sc_report_ref := Some ''r''\<rparr>))
       sample_now True False"
  by (rule masked_noninterference) (simp add: same_public_identity_def)

end
