(* ===== verification/Drift.thy ===== *)
theory Drift
  imports Grading
begin

text \<open>
  Scan-over-scan drift (\<open>core/drift.py\<close>): the comparison of two scans of one server, the attribution
  of movement to a cause, and the timelines and totals built from it.
\<close>

section \<open>Types\<close>

definition EPSILON :: rat where
  "EPSILON = f64 (1 / 1000000)"

definition GRADE_ORDER_TOTAL :: "trust_grade list" where
  "GRADE_ORDER_TOTAL = ORDER @ [Unscanned]"

datatype drift_cause = SurfaceChanged | EngineChanged | ScoreMoved | Undetermined | NoChange

fun drift_cause_str :: "drift_cause \<Rightarrow> string" where
  "drift_cause_str SurfaceChanged = ''surface-changed''"
| "drift_cause_str EngineChanged = ''engine-changed''"
| "drift_cause_str ScoreMoved = ''score-moved''"
| "drift_cause_str Undetermined = ''undetermined''"
| "drift_cause_str NoChange = ''no-change''"

datatype grade_direction = Improved | Declined | DirUnchanged

datatype surface_comparison = SurfUnchanged | SurfChanged | SurfUnknown

fun surface_comparison_str :: "surface_comparison \<Rightarrow> string" where
  "surface_comparison_str SurfUnchanged = ''unchanged''"
| "surface_comparison_str SurfChanged = ''changed''"
| "surface_comparison_str SurfUnknown = ''unknown''"

record tool_surface_delta =
  td_tools_added :: "string list"
  td_tools_removed :: "string list"
  td_tools_changed :: "string list"
  td_prompt_count_delta :: int
  td_resource_count_delta :: int

definition any_change :: "tool_surface_delta \<Rightarrow> bool" where
  "any_change d \<longleftrightarrow> td_tools_added d \<noteq> [] \<or> td_tools_removed d \<noteq> [] \<or> td_tools_changed d \<noteq> []
     \<or> td_prompt_count_delta d \<noteq> 0 \<or> td_resource_count_delta d \<noteq> 0"

record scan_drift =
  dr_server_slug :: string
  dr_previous_scan_id :: string
  dr_current_scan_id :: string
  dr_previous_scanned_at :: pydt
  dr_current_scanned_at :: pydt
  dr_previous_grade :: trust_grade
  dr_current_grade :: trust_grade
  dr_previous_transparency :: transparency_level
  dr_current_transparency :: transparency_level
  dr_previous_danger_score :: rat
  dr_current_danger_score :: rat
  dr_dimension_deltas :: "(dimension \<times> rat) list"
  dr_previous_engine :: string
  dr_current_engine :: string
  dr_surface_comparison :: surface_comparison
  dr_surface_delta :: "tool_surface_delta option"
  dr_cause :: drift_cause

text \<open>The computed fields.\<close>

definition grade_direction :: "scan_drift \<Rightarrow> grade_direction res" where
  "grade_direction d =
     (if dr_previous_grade d = dr_current_grade d then Inr DirUnchanged
      else bind_res (py_index GRADE_ORDER_TOTAL (dr_current_grade d)) (\<lambda>current.
        bind_res (py_index GRADE_ORDER_TOTAL (dr_previous_grade d)) (\<lambda>previous.
          Inr (if current < previous then Improved else Declined))))"

definition transparency_changed :: "scan_drift \<Rightarrow> bool" where
  "transparency_changed d \<longleftrightarrow> dr_previous_transparency d \<noteq> dr_current_transparency d"

definition danger_score_delta :: "scan_drift \<Rightarrow> rat" where
  "danger_score_delta d = f64 (dr_current_danger_score d - dr_previous_danger_score d)"

definition engine_changed :: "scan_drift \<Rightarrow> bool" where
  "engine_changed d \<longleftrightarrow> dr_previous_engine d \<noteq> dr_current_engine d"

section \<open>Tool surfaces\<close>

definition tools_dict :: "scan_evidence \<Rightarrow> (string \<times> tool_evidence) list" where
  "tools_dict e = dict_of (map (\<lambda>t. (te_name t, t)) (ev_tools e))"

definition tool_differs :: "tool_evidence \<Rightarrow> tool_evidence \<Rightarrow> bool" where
  "tool_differs p c \<longleftrightarrow> te_input_schema_sha256 p \<noteq> te_input_schema_sha256 c
     \<or> te_has_input_schema p \<noteq> te_has_input_schema c \<or> te_has_annotations p \<noteq> te_has_annotations c"

definition surface_delta :: "scan_evidence \<Rightarrow> scan_evidence \<Rightarrow> tool_surface_delta" where
  "surface_delta previous current =
     (let prev_tools = tools_dict previous; curr_tools = tools_dict current;
          prev_keys = map fst prev_tools; curr_keys = map fst curr_tools
      in \<lparr>td_tools_added = sorted_set (filter (\<lambda>k. k \<notin> set prev_keys) curr_keys),
          td_tools_removed = sorted_set (filter (\<lambda>k. k \<notin> set curr_keys) prev_keys),
          td_tools_changed = filter (\<lambda>name. case (map_of prev_tools name, map_of curr_tools name) of
              (Some p, Some c) \<Rightarrow> tool_differs p c | _ \<Rightarrow> False)
            (sorted_set (filter (\<lambda>k. k \<in> set curr_keys) prev_keys)),
          td_prompt_count_delta = ev_prompt_count current - ev_prompt_count previous,
          td_resource_count_delta = ev_resource_count current - ev_resource_count previous\<rparr>)"

definition compare_surfaces :: "scan_evidence option \<Rightarrow> scan_evidence option \<Rightarrow>
    surface_comparison \<times> tool_surface_delta option" where
  "compare_surfaces previous current = (case (previous, current) of
     (Some p, Some c) \<Rightarrow> (let delta = surface_delta p c in
        if any_change delta then (SurfChanged, Some delta) else (SurfUnchanged, Some delta))
   | _ \<Rightarrow> (SurfUnknown, None))"

section \<open>The comparison\<close>

definition engine_label :: "scan_record \<Rightarrow> string" where
  "engine_label s = sc_engine_name s @ '' '' @ sc_engine_version s"

definition dimension_deltas :: "risk_summary \<Rightarrow> risk_summary \<Rightarrow> (dimension \<times> rat) list" where
  "dimension_deltas p c = map (\<lambda>dim. (dim, f64 (risk_dim c dim - risk_dim p dim))) DANGER_DIMENSIONS"

definition scores_moved :: "scan_record \<Rightarrow> scan_record \<Rightarrow> bool" where
  "scores_moved p c \<longleftrightarrow> sc_grade p \<noteq> sc_grade c \<or> sc_transparency p \<noteq> sc_transparency c
     \<or> EPSILON < \<bar>f64 (danger_score (sc_risk c) - danger_score (sc_risk p))\<bar>
     \<or> list_ex (\<lambda>(dim, delta). EPSILON < \<bar>delta\<bar>) (dimension_deltas (sc_risk p) (sc_risk c))"

definition attribute_cause :: "surface_comparison \<Rightarrow> bool \<Rightarrow> bool \<Rightarrow> drift_cause" where
  "attribute_cause comparison moved engine_moved =
     (if comparison = SurfChanged then SurfaceChanged
      else if \<not> moved then NoChange
      else if engine_moved then EngineChanged
      else if comparison = SurfUnchanged then ScoreMoved
      else Undetermined)"

definition diff :: "scan_record \<Rightarrow> scan_record \<Rightarrow> scan_drift res" where
  "diff previous current =
     (if sc_server_slug previous \<noteq> sc_server_slug current then Inl ValueError
      else let cmp = compare_surfaces (sc_evidence previous) (sc_evidence current);
               engine_moved = (sc_engine_name previous \<noteq> sc_engine_name current
                 \<or> sc_engine_version previous \<noteq> sc_engine_version current)
      in Inr \<lparr>dr_server_slug = sc_server_slug current, dr_previous_scan_id = sc_id previous,
           dr_current_scan_id = sc_id current, dr_previous_scanned_at = sc_scanned_at previous,
           dr_current_scanned_at = sc_scanned_at current, dr_previous_grade = sc_grade previous,
           dr_current_grade = sc_grade current, dr_previous_transparency = sc_transparency previous,
           dr_current_transparency = sc_transparency current,
           dr_previous_danger_score = danger_score (sc_risk previous),
           dr_current_danger_score = danger_score (sc_risk current),
           dr_dimension_deltas = dimension_deltas (sc_risk previous) (sc_risk current),
           dr_previous_engine = engine_label previous, dr_current_engine = engine_label current,
           dr_surface_comparison = fst cmp, dr_surface_delta = snd cmp,
           dr_cause = attribute_cause (fst cmp) (scores_moved previous current) engine_moved\<rparr>)"

section \<open>Histories\<close>

fun diff_latest :: "scan_record list \<Rightarrow> scan_drift option res" where
  "diff_latest (newest # prior # rest) = bind_res (diff prior newest) (\<lambda>d. Inr (Some d))"
| "diff_latest _ = Inr None"

record grade_change =
  gc_changed_at :: pydt
  gc_previous_grade :: trust_grade
  gc_current_grade :: trust_grade
  gc_cause :: drift_cause
  gc_surface_comparison :: surface_comparison

definition grade_change_of :: "scan_drift \<Rightarrow> grade_change" where
  "grade_change_of d = \<lparr>gc_changed_at = dr_current_scanned_at d, gc_previous_grade = dr_previous_grade d,
     gc_current_grade = dr_current_grade d, gc_cause = dr_cause d,
     gc_surface_comparison = dr_surface_comparison d\<rparr>"

text \<open>The loop over adjacent pairs, newest first.\<close>

fun latest_grade_change :: "scan_record list \<Rightarrow> grade_change option res" where
  "latest_grade_change (newest # prior # rest) =
     bind_res (diff prior newest) (\<lambda>d.
       if dr_previous_grade d \<noteq> dr_current_grade d then Inr (Some (grade_change_of d))
       else latest_grade_change (prior # rest))"
| "latest_grade_change _ = Inr None"

record history_entry =
  he_scanned_at :: pydt
  he_grade :: trust_grade
  he_engine :: string
  he_cause :: "drift_cause option"
  he_surface_comparison :: "surface_comparison option"
  he_grade_changed :: bool

definition entry_of :: "scan_record \<Rightarrow> scan_drift option \<Rightarrow> history_entry" where
  "entry_of scan drift = \<lparr>he_scanned_at = sc_scanned_at scan, he_grade = sc_grade scan,
     he_engine = engine_label scan, he_cause = map_option dr_cause drift,
     he_surface_comparison = map_option dr_surface_comparison drift,
     he_grade_changed = (case drift of None \<Rightarrow> False
       | Some d \<Rightarrow> dr_previous_grade d \<noteq> dr_current_grade d)\<rparr>"

fun timeline_after :: "scan_record \<Rightarrow> scan_record list \<Rightarrow> history_entry list res" where
  "timeline_after previous [] = Inr []"
| "timeline_after previous (scan # rest) =
     bind_res (diff previous scan) (\<lambda>d.
       bind_res (timeline_after scan rest) (\<lambda>es. Inr (entry_of scan (Some d) # es)))"

definition grade_timeline :: "scan_record list \<Rightarrow> history_entry list res" where
  "grade_timeline history = (case rev history of [] \<Rightarrow> Inr []
     | oldest # rest \<Rightarrow> bind_res (timeline_after oldest rest) (\<lambda>es. Inr (entry_of oldest None # es)))"

section \<open>Corpus totals\<close>

record history_totals =
  ht_servers :: nat
  ht_scans :: nat
  ht_compared_pairs :: nat
  ht_comparable_pairs :: nat
  ht_surface_changes :: nat
  ht_grade_changes :: nat
  ht_grade_changes_with_engine_change :: nat
  ht_first_scanned_at :: "pydt option"
  ht_last_scanned_at :: "pydt option"

definition zero_totals :: history_totals where
  "zero_totals = \<lparr>ht_servers = 0, ht_scans = 0, ht_compared_pairs = 0, ht_comparable_pairs = 0,
     ht_surface_changes = 0, ht_grade_changes = 0, ht_grade_changes_with_engine_change = 0,
     ht_first_scanned_at = None, ht_last_scanned_at = None\<rparr>"

text \<open>\<open><\<close> of datetimes: a naive and an aware one cannot be ordered.\<close>

definition dt_less :: "pydt \<Rightarrow> pydt \<Rightarrow> bool res" where
  "dt_less a b = (if (dt_offset a = None) \<noteq> (dt_offset b = None) then Inl TypeError
     else Inr (utc_instant a < utc_instant b))"

definition dt_min :: "pydt \<Rightarrow> pydt \<Rightarrow> pydt res" where
  "dt_min a b = bind_res (dt_less b a) (\<lambda>l. Inr (if l then b else a))"

definition dt_max :: "pydt \<Rightarrow> pydt \<Rightarrow> pydt res" where
  "dt_max a b = bind_res (dt_less a b) (\<lambda>l. Inr (if l then b else a))"

definition count_pair :: "history_totals \<Rightarrow> history_entry \<times> history_entry \<Rightarrow> history_totals" where
  "count_pair t pe = (case pe of (previous, e) \<Rightarrow>
     t\<lparr>ht_compared_pairs := ht_compared_pairs t + 1,
       ht_comparable_pairs := ht_comparable_pairs t
         + (if he_surface_comparison e \<noteq> Some SurfUnknown then 1 else 0),
       ht_surface_changes := ht_surface_changes t
         + (if he_surface_comparison e = Some SurfChanged then 1 else 0),
       ht_grade_changes := ht_grade_changes t + (if he_grade_changed e then 1 else 0),
       ht_grade_changes_with_engine_change := ht_grade_changes_with_engine_change t
         + (if he_grade_changed e \<and> he_engine e \<noteq> he_engine previous then 1 else 0)\<rparr>)"

definition add_timeline :: "history_totals \<Rightarrow> history_entry list \<Rightarrow> history_totals res" where
  "add_timeline t timeline = (if timeline = [] then Inr t
     else let t1 = t\<lparr>ht_servers := ht_servers t + 1, ht_scans := ht_scans t + length timeline\<rparr>;
              t2 = foldl count_pair t1 (zip timeline (tl timeline));
              first = he_scanned_at (hd timeline); last' = he_scanned_at (last timeline)
     in bind_res (dt_min (case ht_first_scanned_at t of None \<Rightarrow> first | Some d \<Rightarrow> d) first) (\<lambda>lo.
        bind_res (dt_max (case ht_last_scanned_at t of None \<Rightarrow> last' | Some d \<Rightarrow> d) last') (\<lambda>hi.
          Inr (t2\<lparr>ht_first_scanned_at := Some lo, ht_last_scanned_at := Some hi\<rparr>))))"

fun totals_from :: "history_totals \<Rightarrow> scan_record list list \<Rightarrow> history_totals res" where
  "totals_from t [] = Inr t"
| "totals_from t (history # rest) =
     bind_res (grade_timeline history) (\<lambda>timeline.
       bind_res (add_timeline t timeline) (\<lambda>t'. totals_from t' rest))"

definition corpus_history_totals :: "scan_record list list \<Rightarrow> history_totals res" where
  "corpus_history_totals histories = totals_from zero_totals histories"

section \<open>Facts about surfaces\<close>

lemma map_of_tools_dict_Some: "map_of (tools_dict e) n = Some t \<Longrightarrow> te_name t = n"
  by (auto simp: tools_dict_def map_of_dict_of rev_map dest!: map_of_SomeD)

lemma tool_differs_sym: "tool_differs p c \<longleftrightarrow> tool_differs c p"
  by (auto simp: tool_differs_def)

lemma not_tool_differs: "te_name p = te_name c \<Longrightarrow> \<not> tool_differs p c \<longleftrightarrow> p = c"
  by (auto simp: tool_differs_def)

text \<open>The delta of two surfaces, described by the two name-indexed maps of tools.\<close>

lemma surface_delta_sets:
  fixes p c :: scan_evidence
  defines "PT \<equiv> map_of (tools_dict p)" and "CT \<equiv> map_of (tools_dict c)"
  shows "set (td_tools_added (surface_delta p c)) = dom CT - dom PT"
    and "set (td_tools_removed (surface_delta p c)) = dom PT - dom CT"
    and "set (td_tools_changed (surface_delta p c)) = {n \<in> dom PT \<inter> dom CT. PT n \<noteq> CT n}"
proof -
  show "set (td_tools_added (surface_delta p c)) = dom CT - dom PT"
    by (auto simp: surface_delta_def Let_def PT_def CT_def dom_map_of_conv_image_fst)
  show "set (td_tools_removed (surface_delta p c)) = dom PT - dom CT"
    by (auto simp: surface_delta_def Let_def PT_def CT_def dom_map_of_conv_image_fst)
  have names: "tool_differs a b \<longleftrightarrow> a \<noteq> b" if "PT n = Some a" "CT n = Some b" for n a b
    using not_tool_differs [of a b] map_of_tools_dict_Some that by (metis PT_def CT_def)
  have "(case (PT n, CT n) of (Some a, Some b) \<Rightarrow> tool_differs a b | _ \<Rightarrow> False) \<longleftrightarrow>
      n \<in> dom PT \<inter> dom CT \<and> PT n \<noteq> CT n" for n
    by (cases "PT n"; cases "CT n") (simp_all add: names dom_def)
  then have "set (td_tools_changed (surface_delta p c)) =
      {n \<in> fst ` set (tools_dict p) \<inter> fst ` set (tools_dict c). n \<in> dom PT \<inter> dom CT \<and> PT n \<noteq> CT n}"
    by (auto simp: surface_delta_def Let_def PT_def CT_def)
  then show "set (td_tools_changed (surface_delta p c)) = {n \<in> dom PT \<inter> dom CT. PT n \<noteq> CT n}"
    by (auto simp: PT_def CT_def dom_map_of_conv_image_fst)
qed

lemma not_any_change_iff: "\<not> any_change (surface_delta p c) \<longleftrightarrow>
   map_of (tools_dict p) = map_of (tools_dict c) \<and> ev_prompt_count p = ev_prompt_count c
   \<and> ev_resource_count p = ev_resource_count c"
proof -
  have counts: "td_prompt_count_delta (surface_delta p c) = 0 \<longleftrightarrow> ev_prompt_count p = ev_prompt_count c"
    "td_resource_count_delta (surface_delta p c) = 0 \<longleftrightarrow> ev_resource_count p = ev_resource_count c"
    by (auto simp: surface_delta_def Let_def)
  let ?P = "map_of (tools_dict p)" and ?C = "map_of (tools_dict c)"
  have "(td_tools_added (surface_delta p c) = [] \<and> td_tools_removed (surface_delta p c) = []
      \<and> td_tools_changed (surface_delta p c) = []) \<longleftrightarrow>
      dom ?C - dom ?P = {} \<and> dom ?P - dom ?C = {} \<and> {n \<in> dom ?P \<inter> dom ?C. ?P n \<noteq> ?C n} = {}"
    by (metis set_empty surface_delta_sets)
  also have "\<dots> \<longleftrightarrow> ?P = ?C"
  proof
    assume a: "dom ?C - dom ?P = {} \<and> dom ?P - dom ?C = {} \<and> {n \<in> dom ?P \<inter> dom ?C. ?P n \<noteq> ?C n} = {}"
    show "?P = ?C"
    proof
      fix n show "?P n = ?C n"
      proof (cases "n \<in> dom ?P")
        case True
        then show ?thesis using a by blast
      next
        case False
        then have "n \<notin> dom ?C" using a by blast
        with False show ?thesis by (simp add: domIff)
      qed
    qed
  qed simp
  finally show ?thesis using counts unfolding any_change_def by blast
qed

text \<open>The delta of the swapped comparison.\<close>

definition swap_delta :: "tool_surface_delta \<Rightarrow> tool_surface_delta" where
  "swap_delta d = \<lparr>td_tools_added = td_tools_removed d, td_tools_removed = td_tools_added d,
     td_tools_changed = td_tools_changed d, td_prompt_count_delta = - td_prompt_count_delta d,
     td_resource_count_delta = - td_resource_count_delta d\<rparr>"

lemma any_change_swap [simp]: "any_change (swap_delta d) = any_change d"
  by (auto simp: any_change_def swap_delta_def)

lemma both_sym: "(case (a, b) of (Some x, Some y) \<Rightarrow> tool_differs x y | _ \<Rightarrow> False)
    = (case (b, a) of (Some x, Some y) \<Rightarrow> tool_differs x y | _ \<Rightarrow> False)"
  by (cases a; cases b) (auto simp: tool_differs_def)

lemma surface_delta_swap: "surface_delta c p = swap_delta (surface_delta p c)"
proof -
  have common: "sorted_set (filter (\<lambda>k. k \<in> set (map fst (tools_dict c))) (map fst (tools_dict p)))
      = sorted_set (filter (\<lambda>k. k \<in> set (map fst (tools_dict p))) (map fst (tools_dict c)))"
    by (rule sorted_set_cong) auto
  show ?thesis
    unfolding surface_delta_def swap_delta_def Let_def common
      both_sym [of "map_of (tools_dict p) _"]
    by (simp only: tool_surface_delta.simps minus_diff_eq)
qed

lemma compare_surfaces_swap:
  "compare_surfaces c p = (fst (compare_surfaces p c), map_option swap_delta (snd (compare_surfaces p c)))"
proof (cases p; cases c)
  fix a b assume "p = Some a" "c = Some b"
  then show ?thesis using surface_delta_swap [of b a] by (simp add: compare_surfaces_def Let_def)
qed (simp_all add: compare_surfaces_def)

lemma f64_diff_swap: "f64 (a - b) = - f64 (b - a)"
  using f64_minus [of "b - a"] by simp

lemma scores_moved_swap: "scores_moved c p = scores_moved p c"
proof -
  have d: "f64 (risk_dim (sc_risk c) x - risk_dim (sc_risk p) x)
      = - f64 (risk_dim (sc_risk p) x - risk_dim (sc_risk c) x)" for x
    by (rule f64_diff_swap)
  have "f64 (danger_score (sc_risk c) - danger_score (sc_risk p))
      = - f64 (danger_score (sc_risk p) - danger_score (sc_risk c))"
    by (rule f64_diff_swap)
  then show ?thesis
    by (auto simp: scores_moved_def dimension_deltas_def list_ex_iff d)
qed

lemma diff_Inr_iff: "(\<exists>d. diff p c = Inr d) \<longleftrightarrow> sc_server_slug p = sc_server_slug c"
  by (simp add: diff_def Let_def)

lemma diff_eq_InrD:
  assumes "diff p c = Inr d"
  shows "dr_surface_comparison d = fst (compare_surfaces (sc_evidence p) (sc_evidence c))"
    "dr_surface_delta d = snd (compare_surfaces (sc_evidence p) (sc_evidence c))"
    "dr_previous_grade d = sc_grade p" "dr_current_grade d = sc_grade c"
    "dr_current_scanned_at d = sc_scanned_at c"
    "dr_cause d = attribute_cause (dr_surface_comparison d) (scores_moved p c)
      (sc_engine_name p \<noteq> sc_engine_name c \<or> sc_engine_version p \<noteq> sc_engine_version c)"
  using assms by (auto simp: diff_def Let_def split: if_splits)

text \<open>Every grade has a position in the order, so the direction is always defined.\<close>

lemma py_index_total: "\<exists>i. py_index GRADE_ORDER_TOTAL g = Inr i"
  by (cases g) (simp_all add: GRADE_ORDER_TOTAL_def ORDER_def)

definition flip_direction :: "grade_direction \<Rightarrow> grade_direction" where
  "flip_direction g = (case g of Improved \<Rightarrow> Declined | Declined \<Rightarrow> Improved | DirUnchanged \<Rightarrow> DirUnchanged)"

lemma bind_res_assoc: "bind_res (bind_res m f) g = bind_res m (\<lambda>x. bind_res (f x) g)"
  by (cases m) simp_all

lemma diff_same_slug: "sc_server_slug p = sc_server_slug c \<Longrightarrow> \<exists>d. diff p c = Inr d"
  using diff_Inr_iff by blast

text \<open>A timeline grows at its end, so the newest-first walk and the oldest-first one meet.\<close>

lemma timeline_after_snoc: "timeline_after previous (xs @ [y]) =
    bind_res (timeline_after previous xs) (\<lambda>es.
      bind_res (diff (last (previous # xs)) y) (\<lambda>d. Inr (es @ [entry_of y (Some d)])))"
  by (induction xs arbitrary: previous) (simp_all add: bind_res_assoc)

lemma grade_timeline_snoc: "xs \<noteq> [] \<Longrightarrow> grade_timeline (newest # rev xs) =
    bind_res (grade_timeline (rev xs)) (\<lambda>es.
      bind_res (diff (last xs) newest) (\<lambda>d. Inr (es @ [entry_of newest (Some d)])))"
  by (cases xs) (simp_all add: grade_timeline_def timeline_after_snoc bind_res_assoc)

lemma grade_timeline_Cons2: "grade_timeline (newest # prior # rest) =
    bind_res (grade_timeline (prior # rest)) (\<lambda>es.
      bind_res (diff prior newest) (\<lambda>d. Inr (es @ [entry_of newest (Some d)])))"
  using grade_timeline_snoc [of "rev rest @ [prior]" newest] by simp

lemma grade_timeline_single [simp]: "grade_timeline [s] = Inr [entry_of s None]"
  by (simp add: grade_timeline_def)

lemma entry_of_simps [simp]:
  "he_scanned_at (entry_of s od) = sc_scanned_at s" "he_grade (entry_of s od) = sc_grade s"
  "he_engine (entry_of s od) = engine_label s" "he_cause (entry_of s od) = map_option dr_cause od"
  "he_surface_comparison (entry_of s od) = map_option dr_surface_comparison od"
  "he_grade_changed (entry_of s None) = False"
  "he_grade_changed (entry_of s (Some d)) \<longleftrightarrow> dr_previous_grade d \<noteq> dr_current_grade d"
  by (simp_all add: entry_of_def)

text \<open>What the timeline of one server's history looks like.\<close>

definition one_server :: "scan_record list \<Rightarrow> bool" where
  "one_server history \<longleftrightarrow> list_all (\<lambda>s. sc_server_slug s = sc_server_slug (hd history)) history"

lemma one_server_Cons2: "one_server (newest # prior # rest) \<Longrightarrow>
    sc_server_slug prior = sc_server_slug newest \<and> one_server (prior # rest)"
  by (simp add: one_server_def)

definition timeline_ok :: "scan_record list \<Rightarrow> history_entry list \<Rightarrow> bool" where
  "timeline_ok history es \<longleftrightarrow> map he_scanned_at es = rev (map sc_scanned_at history)
     \<and> map he_grade es = rev (map sc_grade history) \<and> map he_engine es = rev (map engine_label history)"

lemma grade_timeline_total:
  "one_server history \<Longrightarrow> \<exists>es. grade_timeline history = Inr es \<and> timeline_ok history es"
proof (induction history rule: induct_list012)
  case (3 newest prior rest)
  then obtain es where es: "grade_timeline (prior # rest) = Inr es" "timeline_ok (prior # rest) es"
    by (auto dest: one_server_Cons2)
  obtain d where "diff prior newest = Inr d"
    using 3(3) diff_same_slug [of prior newest] by (auto dest: one_server_Cons2)
  with es show ?case by (simp add: grade_timeline_Cons2 timeline_ok_def)
qed (simp_all add: grade_timeline_def timeline_ok_def)

text \<open>The counters of the corpus totals, and what every step of the loop keeps of them.\<close>

definition totals_inv :: "history_totals \<Rightarrow> bool" where
  "totals_inv t \<longleftrightarrow> ht_compared_pairs t + ht_servers t = ht_scans t
     \<and> ht_surface_changes t \<le> ht_comparable_pairs t \<and> ht_comparable_pairs t \<le> ht_compared_pairs t
     \<and> ht_grade_changes_with_engine_change t \<le> ht_grade_changes t
     \<and> ht_grade_changes t \<le> ht_compared_pairs t"

lemma count_pair_fold:
  "ht_compared_pairs (foldl count_pair t ps) = ht_compared_pairs t + length ps"
  "ht_servers (foldl count_pair t ps) = ht_servers t"
  "ht_scans (foldl count_pair t ps) = ht_scans t"
  by (induction ps arbitrary: t) (auto simp: count_pair_def split: prod.splits)

lemma count_pair_fold_mono:
  "ht_surface_changes t \<le> ht_comparable_pairs t \<and> ht_comparable_pairs t \<le> ht_compared_pairs t
    \<and> ht_grade_changes_with_engine_change t \<le> ht_grade_changes t
    \<and> ht_grade_changes t \<le> ht_compared_pairs t \<Longrightarrow>
   (let t' = foldl count_pair t ps in ht_surface_changes t' \<le> ht_comparable_pairs t'
    \<and> ht_comparable_pairs t' \<le> ht_compared_pairs t'
    \<and> ht_grade_changes_with_engine_change t' \<le> ht_grade_changes t'
    \<and> ht_grade_changes t' \<le> ht_compared_pairs t')"
  by (induction ps arbitrary: t) (auto simp: count_pair_def Let_def split: prod.splits)

lemma dt_min_Inr: "dt_min a b = Inr m \<Longrightarrow> (m = a \<or> m = b) \<and> utc_instant m \<le> utc_instant a \<and> utc_instant m \<le> utc_instant b"
  by (auto simp: dt_min_def dt_less_def split: if_splits)

lemma dt_max_Inr: "dt_max a b = Inr m \<Longrightarrow> (m = a \<or> m = b) \<and> utc_instant a \<le> utc_instant m \<and> utc_instant b \<le> utc_instant m"
  by (auto simp: dt_max_def dt_less_def split: if_splits)

lemma add_timeline_inv:
  assumes "add_timeline t es = Inr t'" "totals_inv t"
  shows "totals_inv t' \<and> ht_scans t' = ht_scans t + length es
    \<and> ht_servers t' = ht_servers t + (if es = [] then 0 else 1)"
proof (cases "es = []")
  case False
  define t1 where "t1 = t\<lparr>ht_servers := ht_servers t + 1, ht_scans := ht_scans t + length es\<rparr>"
  define t2 where "t2 = foldl count_pair t1 (zip es (tl es))"
  obtain lo hi where t': "t' = t2\<lparr>ht_first_scanned_at := lo, ht_last_scanned_at := hi\<rparr>"
    using assms(1) False by (auto simp: add_timeline_def Let_def t1_def t2_def)
  have "ht_surface_changes t2 \<le> ht_comparable_pairs t2 \<and> ht_comparable_pairs t2 \<le> ht_compared_pairs t2
    \<and> ht_grade_changes_with_engine_change t2 \<le> ht_grade_changes t2
    \<and> ht_grade_changes t2 \<le> ht_compared_pairs t2"
    using count_pair_fold_mono [of t1 "zip es (tl es)"] assms(2)
    by (simp add: t2_def Let_def t1_def totals_inv_def)
  moreover have "length (zip es (tl es)) + 1 = length es" using False by simp
  moreover have "ht_compared_pairs t2 + 1 = ht_compared_pairs t + length es"
    "ht_servers t2 = ht_servers t + 1" "ht_scans t2 = ht_scans t + length es"
    using calculation(2) by (simp_all add: t2_def count_pair_fold t1_def)
  ultimately show ?thesis
    using False assms(2) by (simp add: t' totals_inv_def)
qed (use assms in \<open>simp add: add_timeline_def\<close>)

lemma add_timeline_times:
  assumes "add_timeline t es = Inr t'" "es \<noteq> []"
  shows "\<exists>lo hi. ht_first_scanned_at t' = Some lo \<and> ht_last_scanned_at t' = Some hi
    \<and> utc_instant lo \<le> utc_instant (he_scanned_at (hd es))
    \<and> utc_instant (he_scanned_at (last es)) \<le> utc_instant hi
    \<and> (\<forall>d. ht_first_scanned_at t = Some d \<longrightarrow> utc_instant lo \<le> utc_instant d)
    \<and> (\<forall>d. ht_last_scanned_at t = Some d \<longrightarrow> utc_instant d \<le> utc_instant hi)"
  using assms by (fastforce simp: add_timeline_def Let_def dest: dt_min_Inr dt_max_Inr)

lemma timeline_after_length: "timeline_after s xs = Inr es \<Longrightarrow> length es = length xs"
  by (induction xs arbitrary: s es) auto

lemma timeline_after_last: "timeline_after s xs = Inr es \<Longrightarrow> es \<noteq> [] \<Longrightarrow>
    he_scanned_at (last es) = sc_scanned_at (last xs)"
proof (induction xs arbitrary: s es)
  case (Cons x xs)
  then show ?case using timeline_after_length by (cases "xs = []") fastforce+
qed simp

lemma grade_timeline_shape: "grade_timeline h = Inr es \<Longrightarrow> length es = length h \<and> (h \<noteq> [] \<longrightarrow>
    he_scanned_at (hd es) = sc_scanned_at (last h) \<and> he_scanned_at (last es) = sc_scanned_at (hd h))"
proof (cases "rev h")
  case (Cons oldest rest)
  assume es: "grade_timeline h = Inr es"
  have h: "h = rev rest @ [oldest]" using Cons by (metis rev_rev_ident rev.simps(2))
  obtain es' where es': "timeline_after oldest rest = Inr es'" "es = entry_of oldest None # es'"
    using es Cons by (auto simp: grade_timeline_def)
  show ?thesis
    using es' timeline_after_length [OF es'(1)] timeline_after_last [OF es'(1)]
    by (cases "rest = []") (auto simp: h hd_append hd_rev)
qed (simp add: grade_timeline_def)

text \<open>The facts the loop keeps, for the histories already folded in.\<close>

lemma totals_from_ok:
  assumes "totals_from t hs = Inr t'" "totals_inv t"
  shows "totals_inv t' \<and> ht_scans t' = ht_scans t + sum_list (map length hs)
    \<and> ht_servers t' = ht_servers t + length (filter (\<lambda>h. h \<noteq> []) hs)"
  using assms
proof (induction hs arbitrary: t)
  case (Cons h hs)
  then obtain es u where u: "grade_timeline h = Inr es" "add_timeline t es = Inr u" "totals_from u hs = Inr t'"
    by auto
  have "length es = length h" using grade_timeline_shape [OF u(1)] by simp
  then have "es = [] \<longleftrightarrow> h = []" by (metis length_0_conv)
  then show ?case
    using add_timeline_inv [OF u(2) Cons.prems(2)] Cons.IH [OF u(3)] \<open>length es = length h\<close> by auto
qed simp

lemma totals_from_times:
  assumes "totals_from t hs = Inr t'"
  shows "(\<forall>d. ht_first_scanned_at t = Some d \<longrightarrow>
        (\<exists>lo. ht_first_scanned_at t' = Some lo \<and> utc_instant lo \<le> utc_instant d))
    \<and> (\<forall>d. ht_last_scanned_at t = Some d \<longrightarrow>
        (\<exists>hi. ht_last_scanned_at t' = Some hi \<and> utc_instant d \<le> utc_instant hi))
    \<and> (\<forall>h \<in> set hs. h \<noteq> [] \<longrightarrow> (\<exists>lo hi. ht_first_scanned_at t' = Some lo \<and> ht_last_scanned_at t' = Some hi
        \<and> utc_instant lo \<le> utc_instant (sc_scanned_at (last h))
        \<and> utc_instant (sc_scanned_at (hd h)) \<le> utc_instant hi))"
  using assms
proof (induction hs arbitrary: t)
  case (Cons h hs)
  then obtain es u where u: "grade_timeline h = Inr es" "add_timeline t es = Inr u" "totals_from u hs = Inr t'"
    by auto
  show ?case
  proof (cases "h = []")
    case True
    then have "u = t" using u by (simp add: grade_timeline_def add_timeline_def)
    then show ?thesis using True Cons.IH [OF u(3)] by auto
  next
    case False
    have sh: "length es = length h" "he_scanned_at (hd es) = sc_scanned_at (last h)"
      "he_scanned_at (last es) = sc_scanned_at (hd h)"
      using grade_timeline_shape [OF u(1)] False by auto
    then have "es \<noteq> []" using False by auto
    from add_timeline_times [OF u(2) this] Cons.IH [OF u(3)] sh
    show ?thesis by (smt (verit, best) option.inject order_trans set_ConsD)
  qed
qed simp

section \<open>Properties\<close>

text \<open>Attribution never claims more than the evidence supports: the surface is reported
  unchanged exactly when both scans recorded their tools and the recorded tools and counts are the same,
  and with either record missing the comparison is unknown, there is no delta, and movement is
  attributed neither to the surface nor to the score.\<close>

lemma drift_needs_evidence:
  assumes "diff p c = Inr d"
  shows "(dr_surface_comparison d = SurfUnchanged \<longleftrightarrow> (\<exists>e f. sc_evidence p = Some e \<and> sc_evidence c = Some f
      \<and> map_of (tools_dict e) = map_of (tools_dict f) \<and> ev_prompt_count e = ev_prompt_count f
      \<and> ev_resource_count e = ev_resource_count f))
    \<and> (sc_evidence p = None \<or> sc_evidence c = None \<longrightarrow> dr_surface_comparison d = SurfUnknown
      \<and> dr_surface_delta d = None \<and> dr_cause d \<noteq> SurfaceChanged \<and> dr_cause d \<noteq> ScoreMoved)
    \<and> (dr_cause d = SurfaceChanged \<longleftrightarrow> dr_surface_comparison d = SurfChanged)"
proof (cases "sc_evidence p = None \<or> sc_evidence c = None")
  case True
  then have "compare_surfaces (sc_evidence p) (sc_evidence c) = (SurfUnknown, None)"
    by (auto simp: compare_surfaces_def split: option.splits)
  then show ?thesis using True diff_eq_InrD [OF assms] by (auto simp: attribute_cause_def)
next
  case False
  then obtain e f where ef: "sc_evidence p = Some e" "sc_evidence c = Some f" by auto
  then have cmp: "dr_surface_comparison d = (if any_change (surface_delta e f) then SurfChanged else SurfUnchanged)"
    using diff_eq_InrD [OF assms] by (simp add: compare_surfaces_def Let_def)
  then have "dr_surface_comparison d = SurfUnchanged \<longleftrightarrow> \<not> any_change (surface_delta e f)" by simp
  moreover have "dr_cause d = SurfaceChanged \<longleftrightarrow> dr_surface_comparison d = SurfChanged"
    using cmp diff_eq_InrD(6) [OF assms] by (simp add: attribute_cause_def)
  ultimately show ?thesis using ef by (simp add: not_any_change_iff)
qed

text \<open>Swapping the two scans swaps the report: same cause and comparison, opposite direction,
  added and removed tools exchanged, every score delta negated exactly.\<close>

lemma diff_antisymmetric:
  assumes "diff p c = Inr d"
  shows "\<exists>d'. diff c p = Inr d' \<and> dr_cause d' = dr_cause d
    \<and> dr_surface_comparison d' = dr_surface_comparison d
    \<and> dr_surface_delta d' = map_option swap_delta (dr_surface_delta d)
    \<and> grade_direction d' = map_sum id flip_direction (grade_direction d)
    \<and> danger_score_delta d' = - danger_score_delta d
    \<and> dr_dimension_deltas d' = map (\<lambda>(dim, x). (dim, - x)) (dr_dimension_deltas d)
    \<and> transparency_changed d' = transparency_changed d \<and> engine_changed d' = engine_changed d"
proof -
  have slug: "sc_server_slug p = sc_server_slug c" using assms diff_Inr_iff by blast
  then obtain d' where d': "diff c p = Inr d'" using diff_Inr_iff by metis
  have cmp: "dr_surface_comparison d' = dr_surface_comparison d"
    "dr_surface_delta d' = map_option swap_delta (dr_surface_delta d)"
    using diff_eq_InrD [OF assms] diff_eq_InrD [OF d']
      compare_surfaces_swap [of "sc_evidence c" "sc_evidence p"] by simp_all
  have cause: "dr_cause d' = dr_cause d"
    using diff_eq_InrD(6) [OF assms] diff_eq_InrD(6) [OF d'] cmp scores_moved_swap [of p c]
    by (simp add: eq_commute)
  obtain i j where ij: "py_index GRADE_ORDER_TOTAL (sc_grade p) = Inr i"
      "py_index GRADE_ORDER_TOTAL (sc_grade c) = Inr j" using py_index_total by metis
  have "sc_grade p \<noteq> sc_grade c \<Longrightarrow> i \<noteq> j"
    using ij by (cases "sc_grade p"; cases "sc_grade c")
      (auto simp: GRADE_ORDER_TOTAL_def ORDER_def)
  then have inj: "sc_grade p = sc_grade c \<longleftrightarrow> i = j" "sc_grade c = sc_grade p \<longleftrightarrow> i = j"
    using ij by (metis sum.inject(2))+
  have dir: "grade_direction d' = map_sum id flip_direction (grade_direction d)"
    using ij diff_eq_InrD(3,4) [OF assms] diff_eq_InrD(3,4) [OF d']
    by (auto simp: grade_direction_def flip_direction_def inj not_less)
  have rest: "danger_score_delta d' = - danger_score_delta d
    \<and> dr_dimension_deltas d' = map (\<lambda>(dim, x). (dim, - x)) (dr_dimension_deltas d)
    \<and> transparency_changed d' = transparency_changed d \<and> engine_changed d' = engine_changed d"
    using assms d' slug
    by (auto simp: diff_def Let_def danger_score_delta_def dimension_deltas_def
        f64_diff_swap [of "danger_score (sc_risk p)" "danger_score (sc_risk c)"]
        f64_diff_swap [of "risk_dim (sc_risk p) _" "risk_dim (sc_risk c) _"]
        transparency_changed_def engine_changed_def)
  show ?thesis using d' cmp cause dir rest by blast
qed

text \<open>The last grade change of a server's history is the newest entry of its timeline that is
  marked as a change, with that entry's time, grade, cause and comparison; there is none exactly when
  the timeline marks none. Both walks return for every history of one server.\<close>

lemma latest_change_is_last_marked:
  assumes "one_server history"
  shows "\<exists>es. grade_timeline history = Inr es \<and> (length es = length history
    \<and> (case find he_grade_changed (rev es) of
         None \<Rightarrow> latest_grade_change history = Inr None
       | Some e \<Rightarrow> (\<exists>g. latest_grade_change history = Inr (Some g) \<and> gc_changed_at g = he_scanned_at e
           \<and> gc_current_grade g = he_grade e \<and> he_cause e = Some (gc_cause g)
           \<and> he_surface_comparison e = Some (gc_surface_comparison g)
           \<and> gc_previous_grade g \<noteq> gc_current_grade g)))"
    (is "\<exists>es. _ = Inr es \<and> ?rel history es")
  using assms
proof (induction history rule: induct_list012)
  case (3 newest prior rest)
  obtain d where d: "diff prior newest = Inr d"
    using 3(3) diff_same_slug [of prior newest] by (auto dest: one_server_Cons2)
  note D = diff_eq_InrD [OF d]
  show ?case
  proof (cases "dr_previous_grade d \<noteq> dr_current_grade d")
    case True
    obtain es where "grade_timeline (prior # rest) = Inr es" "timeline_ok (prior # rest) es"
      using grade_timeline_total [of "prior # rest"] 3(3) by (auto dest: one_server_Cons2)
    moreover have "length es = Suc (length rest)"
      using calculation(2) by (metis timeline_ok_def length_map length_rev length_Cons)
    ultimately show ?thesis using True d D by (simp add: grade_timeline_Cons2 grade_change_of_def)
  next
    case False
    have "one_server (prior # rest)" using one_server_Cons2 [OF 3(3)] by simp
    moreover have step: "latest_grade_change (newest # prior # rest) = latest_grade_change (prior # rest)"
      using False d by simp
    ultimately obtain es where es: "grade_timeline (prior # rest) = Inr es"
      and IH: "?rel (prior # rest) es" using 3(2) by blast
    have "grade_timeline (newest # prior # rest) = Inr (es @ [entry_of newest (Some d)])"
      using es d by (simp add: grade_timeline_Cons2)
    moreover have "?rel (newest # prior # rest) (es @ [entry_of newest (Some d)])"
      unfolding step using IH False by simp
    ultimately show ?thesis by blast
  qed
qed (simp_all add: grade_timeline_def)


text \<open>The corpus totals count what they say: the servers with a history, all their scans, one
  comparison per adjacent pair; surface changes are among the comparable pairs, engine-attributed grade
  changes among the grade changes, both among the compared pairs; and every scan time of a newest or an
  oldest scan lies between the reported first and last.\<close>

lemma history_totals_count:
  assumes "corpus_history_totals hs = Inr t"
  shows "ht_servers t = length (filter (\<lambda>h. h \<noteq> []) hs) \<and> ht_scans t = sum_list (map length hs)
    \<and> ht_compared_pairs t + ht_servers t = ht_scans t
    \<and> ht_surface_changes t \<le> ht_comparable_pairs t \<and> ht_comparable_pairs t \<le> ht_compared_pairs t
    \<and> ht_grade_changes_with_engine_change t \<le> ht_grade_changes t
    \<and> ht_grade_changes t \<le> ht_compared_pairs t
    \<and> (\<forall>h \<in> set hs. h \<noteq> [] \<longrightarrow> (\<exists>lo hi. ht_first_scanned_at t = Some lo \<and> ht_last_scanned_at t = Some hi
        \<and> utc_instant lo \<le> utc_instant (sc_scanned_at (last h))
        \<and> utc_instant (sc_scanned_at (hd h)) \<le> utc_instant hi))"
proof -
  have run: "totals_from zero_totals hs = Inr t" using assms by (simp add: corpus_history_totals_def)
  have "totals_inv zero_totals" by (simp add: totals_inv_def zero_totals_def)
  then show ?thesis
    using totals_from_ok [OF run] totals_from_times [OF run]
    by (simp add: totals_inv_def zero_totals_def)
qed

section \<open>Witnesses\<close>

definition other_scan :: scan_record where
  "other_scan = sample_scan\<lparr>sc_id := ''s2'', sc_engine_version := ''2.8.0'', sc_grade := C,
     sc_evidence := None, sc_scanned_at := utc_dt (720 * us_per_day)\<rparr>"

lemma other_scan_slug: "sc_server_slug sample_scan = sc_server_slug other_scan"
  by (simp add: other_scan_def)

end
