(* ===== verification/Store.thy ===== *)
theory Store
  imports Models Drift "HOL-Library.Product_Lexorder" "HOL-Library.Multiset"
begin

text \<open>
  The SQLite store (\<open>store/db.py\<close>, \<open>store/repository.py\<close>): the two tables as lists of rows, the SQL
  of each repository operation as a function on them, and the admission of stored rows.
\<close>

section \<open>Tables\<close>

record server_row =
  srw_slug :: string
  srw_name :: string
  srw_description :: string
  srw_source_json :: string
  srw_homepage :: "string option"
  srw_added_at :: string

record scan_row =
  scr_id :: string
  scr_server_slug :: string
  scr_engine_name :: string
  scr_engine_version :: string
  scr_grade :: string
  scr_transparency :: string
  scr_risk_json :: string
  scr_findings_json :: string
  scr_evidence_json :: "string option"
  scr_scanned_at :: string
  scr_sandbox_image :: "string option"
  scr_report_ref :: "string option"

record db =
  servers_t :: "server_row list"
  scans_t :: "scan_row list"

definition init_schema :: db where
  "init_schema = \<lparr>servers_t = [], scans_t = []\<rparr>"

text \<open>
  The JSON text and the pydantic coercion of each stored model, and the two datetime conversions:
  \<open>json\<close> and \<open>pydantic\<close> are libraries. The validators the program itself declares are applied on top.
\<close>

record store_codec =
  cd_loads :: "string \<Rightarrow> pyval res"
  cd_source_json :: "server_source \<Rightarrow> string"
  cd_risk_json :: "risk_summary \<Rightarrow> string"
  cd_findings_json :: "finding list \<Rightarrow> string"
  cd_evidence_json :: "scan_evidence \<Rightarrow> string"
  cd_source :: "pyval \<Rightarrow> server_source res"
  cd_risk :: "pyval \<Rightarrow> risk_summary res"
  cd_finding :: "pyval \<Rightarrow> finding res"
  cd_evidence :: "pyval \<Rightarrow> scan_evidence res"
  cd_isoformat :: "pydt \<Rightarrow> string"
  cd_datetime :: "string \<Rightarrow> pydt res"

section \<open>Admission of stored JSON\<close>

definition MAX_STORED_JSON_BYTES :: nat where
  "MAX_STORED_JSON_BYTES = 1048576"

definition MAX_STORED_FINDINGS :: nat where
  "MAX_STORED_FINDINGS = 1024"

definition MAX_STORED_TOOLS :: nat where
  "MAX_STORED_TOOLS = 2048"

definition load_stored_json :: "store_codec \<Rightarrow> string \<Rightarrow> pyval res" where
  "load_stored_json cd value =
     (if MAX_STORED_JSON_BYTES < length value then Inl ValueError
      else if MAX_STORED_JSON_BYTES < utf8_length value then Inl ValueError
      else cd_loads cd value)"

text \<open>\<open>except (JSONDecodeError, TypeError, UnicodeError, ValueError, ValidationError)\<close>: all but
  \<open>TypeError\<close> are subclasses of \<open>ValueError\<close>.\<close>

definition store_caught :: "exn \<Rightarrow> bool" where
  "store_caught e \<longleftrightarrow> e = ValueError \<or> e = TypeError"

section \<open>Servers\<close>

definition server_to_row :: "store_codec \<Rightarrow> server \<Rightarrow> server_row" where
  "server_to_row cd s = \<lparr>srw_slug = sv_slug s, srw_name = sv_name s, srw_description = sv_description s,
     srw_source_json = cd_source_json cd (sv_source s), srw_homepage = sv_homepage s,
     srw_added_at = cd_isoformat cd (sv_added_at s)\<rparr>"

text \<open>\<open>INSERT ... ON CONFLICT(slug) DO UPDATE\<close>.\<close>

fun upsert_row :: "server_row \<Rightarrow> server_row list \<Rightarrow> server_row list" where
  "upsert_row r [] = [r]"
| "upsert_row r (x # xs) = (if srw_slug x = srw_slug r then r # xs else x # upsert_row r xs)"

definition upsert :: "store_codec \<Rightarrow> server \<Rightarrow> db \<Rightarrow> db" where
  "upsert cd s d = d\<lparr>servers_t := upsert_row (server_to_row cd s) (servers_t d)\<rparr>"

definition decode_server :: "store_codec \<Rightarrow> server_row \<Rightarrow> server res" where
  "decode_server cd row =
     bind_res (load_stored_json cd (srw_source_json row)) (\<lambda>raw.
     bind_res (bind_res (cd_source cd raw) make_source) (\<lambda>source.
     bind_res (cd_datetime cd (srw_added_at row)) (\<lambda>added.
       make_server \<lparr>sv_slug = srw_slug row, sv_name = srw_name row, sv_description = srw_description row,
         sv_source = source, sv_homepage = srw_homepage row, sv_added_at = added\<rparr>)))"

definition row_to_server :: "store_codec \<Rightarrow> server_row \<Rightarrow> server option res" where
  "row_to_server cd row = (case decode_server cd row of
     Inr s \<Rightarrow> Inr (Some s)
   | Inl e \<Rightarrow> (if store_caught e then Inr None else Inl e))"

definition get_server :: "store_codec \<Rightarrow> db \<Rightarrow> string \<Rightarrow> server option res" where
  "get_server cd d slug = (case find (\<lambda>r. srw_slug r = slug) (servers_t d) of
     None \<Rightarrow> Inr None | Some r \<Rightarrow> row_to_server cd r)"

definition list_servers :: "store_codec \<Rightarrow> db \<Rightarrow> server list res" where
  "list_servers cd d = bind_res (map_res (row_to_server cd) (sort_key srw_slug (servers_t d)))
     (\<lambda>servers. Inr (map the (filter (\<lambda>s. s \<noteq> None) servers)))"

section \<open>Scans\<close>

definition scan_to_row :: "store_codec \<Rightarrow> scan_record \<Rightarrow> scan_row" where
  "scan_to_row cd s = \<lparr>scr_id = sc_id s, scr_server_slug = sc_server_slug s,
     scr_engine_name = sc_engine_name s, scr_engine_version = sc_engine_version s,
     scr_grade = trust_grade_str (sc_grade s), scr_transparency = transparency_str (sc_transparency s),
     scr_risk_json = cd_risk_json cd (sc_risk s), scr_findings_json = cd_findings_json cd (sc_findings s),
     scr_evidence_json = map_option (cd_evidence_json cd) (sc_evidence s),
     scr_scanned_at = cd_isoformat cd (sc_scanned_at s), scr_sandbox_image = sc_sandbox_image s,
     scr_report_ref = sc_report_ref s\<rparr>"

text \<open>\<open>record\<close>: the primary key and the foreign key are checked by the insert.\<close>

definition record_scan :: "store_codec \<Rightarrow> scan_record \<Rightarrow> db \<Rightarrow> db res" where
  "record_scan cd s d =
     (if sc_id s \<in> set (map scr_id (scans_t d)) then Inl IntegrityError
      else if sc_server_slug s \<notin> set (map srw_slug (servers_t d)) then Inl IntegrityError
      else Inr (d\<lparr>scans_t := scans_t d @ [scan_to_row cd s]\<rparr>))"

definition recode :: "'a res \<Rightarrow> 'a res" where
  "recode m = (case m of Inl e \<Rightarrow> Inl (if store_caught e then ValueError else e) | Inr x \<Rightarrow> Inr x)"

definition decode_findings :: "store_codec \<Rightarrow> scan_row \<Rightarrow> (risk_summary \<times> finding list) res" where
  "decode_findings cd row =
     bind_res (load_stored_json cd (scr_risk_json row)) (\<lambda>raw.
     bind_res (bind_res (cd_risk cd raw) make_risk) (\<lambda>risk.
     bind_res (load_stored_json cd (scr_findings_json row)) (\<lambda>raw. case raw of
         PList fs \<Rightarrow> (if MAX_STORED_FINDINGS < length fs then Inl ValueError
           else bind_res (map_res (cd_finding cd) fs) (\<lambda>findings. Inr (risk, findings)))
       | _ \<Rightarrow> Inl ValueError)))"

definition too_many_tools :: "pyval \<Rightarrow> bool" where
  "too_many_tools raw = (case raw of
     PDict d \<Rightarrow> (case dget d ''tools'' of PList ts \<Rightarrow> MAX_STORED_TOOLS < length ts | _ \<Rightarrow> False)
   | _ \<Rightarrow> False)"

definition decode_evidence :: "store_codec \<Rightarrow> string option \<Rightarrow> scan_evidence option res" where
  "decode_evidence cd col = (case col of
     None \<Rightarrow> Inr None
   | Some t \<Rightarrow> (if t = [] then Inr None
       else recode (bind_res (load_stored_json cd t) (\<lambda>raw.
         if too_many_tools raw then Inl ValueError
         else bind_res (cd_evidence cd raw) (\<lambda>ev. Inr (Some ev))))))"

definition decode_transparency :: "string \<Rightarrow> transparency_level res" where
  "decode_transparency t = (if t = [] then Inr THigh
     else enum_of [THigh, TMedium, TLow] transparency_str t)"

definition row_to_scan :: "store_codec \<Rightarrow> scan_row \<Rightarrow> scan_record res" where
  "row_to_scan cd row =
     bind_res (recode (decode_findings cd row)) (\<lambda>(risk, findings).
     bind_res (decode_transparency (scr_transparency row)) (\<lambda>transparency.
     bind_res (decode_evidence cd (scr_evidence_json row)) (\<lambda>evidence.
     bind_res (enum_of [A, B, C, D, F, Unscanned] trust_grade_str (scr_grade row)) (\<lambda>grade.
     bind_res (cd_datetime cd (scr_scanned_at row)) (\<lambda>scanned_at.
       make_scan_record \<lparr>sc_id = scr_id row, sc_server_slug = scr_server_slug row,
         sc_engine_name = scr_engine_name row, sc_engine_version = scr_engine_version row,
         sc_grade = grade, sc_transparency = transparency, sc_risk = risk, sc_findings = findings,
         sc_evidence = evidence, sc_scanned_at = scanned_at,
         sc_sandbox_image = scr_sandbox_image row, sc_report_ref = scr_report_ref row\<rparr>)))))"

text \<open>\<open>WHERE server_slug = ? ORDER BY scanned_at DESC, id DESC\<close>: text columns compare by code point.\<close>

definition newest_first :: "scan_row list \<Rightarrow> string \<Rightarrow> scan_row list" where
  "newest_first rows slug = rev (sort_key (\<lambda>r. (scr_scanned_at r, scr_id r))
     (filter (\<lambda>r. scr_server_slug r = slug) rows))"

definition latest :: "store_codec \<Rightarrow> db \<Rightarrow> string \<Rightarrow> scan_record option res" where
  "latest cd d slug = (case newest_first (scans_t d) slug of
     [] \<Rightarrow> Inr None | r # _ \<Rightarrow> bind_res (row_to_scan cd r) (\<lambda>s. Inr (Some s)))"

text \<open>\<open>LIMIT n\<close>: a negative limit is no limit.\<close>

definition sql_limit :: "int option \<Rightarrow> 'a list \<Rightarrow> 'a list" where
  "sql_limit n xs = (case n of None \<Rightarrow> xs | Some i \<Rightarrow> if i < 0 then xs else take (nat i) xs)"

definition history :: "store_codec \<Rightarrow> db \<Rightarrow> string \<Rightarrow> int option \<Rightarrow> scan_record list res" where
  "history cd d slug bound = map_res (row_to_scan cd) (sql_limit bound (newest_first (scans_t d) slug))"

text \<open>The join with \<open>MAX(scanned_at) GROUP BY server_slug\<close>, \<open>ORDER BY s.id ASC\<close>.\<close>

definition at_group_max :: "scan_row list \<Rightarrow> scan_row \<Rightarrow> bool" where
  "at_group_max rows r \<longleftrightarrow>
     list_all (\<lambda>r'. scr_server_slug r' = scr_server_slug r \<longrightarrow> scr_scanned_at r' \<le> scr_scanned_at r) rows"

definition latest_rows :: "scan_row list \<Rightarrow> scan_row list" where
  "latest_rows rows = sort_key scr_id (filter (at_group_max rows) rows)"

definition dict_pop :: "'k \<Rightarrow> ('k \<times> 'v) list \<Rightarrow> ('k \<times> 'v) list" where
  "dict_pop k d = filter (\<lambda>(k', v). k' \<noteq> k) d"

record readback =
  rb_records :: "(string \<times> scan_record) list"
  rb_unreadable :: "string set"

fun readback_loop :: "store_codec \<Rightarrow> scan_row list \<Rightarrow> readback \<Rightarrow> readback res" where
  "readback_loop cd [] st = Inr st"
| "readback_loop cd (row # rows) st = (let slug = scr_server_slug row in
     case row_to_scan cd row of
       Inr s \<Rightarrow> readback_loop cd rows
         \<lparr>rb_records = dict_set slug s (rb_records st), rb_unreadable = rb_unreadable st - {slug}\<rparr>
     | Inl e \<Rightarrow> (if store_caught e then readback_loop cd rows
         \<lparr>rb_records = dict_pop slug (rb_records st), rb_unreadable = insert slug (rb_unreadable st)\<rparr>
         else Inl e))"

definition latest_all_readback :: "store_codec \<Rightarrow> db \<Rightarrow> readback res" where
  "latest_all_readback cd d = readback_loop cd (latest_rows (scans_t d))
     \<lparr>rb_records = [], rb_unreadable = {}\<rparr>"

definition latest_all :: "store_codec \<Rightarrow> db \<Rightarrow> (string \<times> scan_record) list res" where
  "latest_all cd d = bind_res (latest_all_readback cd d) (\<lambda>rb. Inr (rb_records rb))"

section \<open>Facts about the queries\<close>

lemma find_rev: "find P (rev xs) = (if filter P xs = [] then None else Some (last (filter P xs)))"
proof (induction xs rule: rev_induct)
  case (snoc x xs)
  then show ?case by (cases "P x") simp_all
qed simp

lemma last_sort_key:
  fixes f :: "'a \<Rightarrow> 'b::linorder"
  assumes "xs \<noteq> []"
  shows "last (sort_key f xs) \<in> set xs \<and> (\<forall>x \<in> set xs. f x \<le> f (last (sort_key f xs)))"
proof -
  let ?s = "sort_key f xs"
  have "length ?s = length xs" by simp
  then have ne: "?s \<noteq> []" using assms by (metis length_0_conv)
  have "f x \<le> f (last ?s)" if x: "x \<in> set xs" for x
  proof -
    obtain i where i: "i < length ?s" "?s ! i = x" using x by (metis in_set_conv_nth set_sort)
    have "map f ?s ! i \<le> map f ?s ! (length ?s - 1)"
      using i by (intro sorted_nth_mono) auto
    then show ?thesis using i ne by (simp add: last_conv_nth)
  qed
  then show ?thesis using ne last_in_set [OF ne] by simp
qed

lemma newest_first_empty: "newest_first rows slug = [] \<longleftrightarrow> (\<forall>r \<in> set rows. scr_server_slug r \<noteq> slug)"
  by (metis (mono_tags, lifting) newest_first_def filter_empty_conv length_0_conv length_rev length_sort)

lemma set_newest_first: "set (newest_first rows slug) = {r \<in> set rows. scr_server_slug r = slug}"
  by (auto simp: newest_first_def)

lemma newest_first_sorted:
  "sorted_wrt (\<lambda>a b. (scr_scanned_at b, scr_id b) \<le> (scr_scanned_at a, scr_id a)) (newest_first rows slug)"
proof -
  have "sorted (map (\<lambda>r. (scr_scanned_at r, scr_id r)) (rev (newest_first rows slug)))"
    by (simp add: newest_first_def)
  then show ?thesis
    by (simp add: sorted_map sorted_wrt_rev)
qed

text \<open>The newest row is the one the descending order puts first, whatever way it is looked for.\<close>

definition is_newest :: "scan_row list \<Rightarrow> string \<Rightarrow> scan_row \<Rightarrow> bool" where
  "is_newest rows slug r \<longleftrightarrow> r \<in> set rows \<and> scr_server_slug r = slug
     \<and> (\<forall>x \<in> set rows. scr_server_slug x = slug \<longrightarrow>
          (scr_scanned_at x, scr_id x) \<le> (scr_scanned_at r, scr_id r))"

lemma is_newest_unique:
  assumes "distinct (map scr_id rows)" "is_newest rows slug r" "is_newest rows slug r'"
  shows "r = r'"
proof -
  have "(scr_scanned_at r, scr_id r) = (scr_scanned_at r', scr_id r')"
  proof (rule antisym)
    show "(scr_scanned_at r, scr_id r) \<le> (scr_scanned_at r', scr_id r')"
      using assms(2,3) unfolding is_newest_def by blast
    show "(scr_scanned_at r', scr_id r') \<le> (scr_scanned_at r, scr_id r)"
      using assms(2,3) unfolding is_newest_def by blast
  qed
  then have "scr_id r = scr_id r'" by simp
  then show ?thesis using assms by (auto simp: is_newest_def distinct_map dest: inj_onD)
qed

lemma newest_first_hd:
  assumes "newest_first rows slug = r # rest"
  shows "is_newest rows slug r"
proof -
  have "\<forall>x \<in> set (newest_first rows slug). (scr_scanned_at x, scr_id x) \<le> (scr_scanned_at r, scr_id r)"
    using newest_first_sorted [of rows slug] assms by auto
  moreover have "r \<in> set (newest_first rows slug)" using assms by simp
  ultimately show ?thesis by (auto simp: is_newest_def set_newest_first)
qed

text \<open>The last row of a slug in the joined query is its newest row.\<close>

lemma latest_rows_last:
  assumes "r \<in> set rows" "scr_server_slug r = slug"
  defines "xs \<equiv> filter (\<lambda>r. scr_server_slug r = slug) (latest_rows rows)"
  shows "xs \<noteq> [] \<and> is_newest rows slug (last xs)"
proof -
  let ?own = "filter (\<lambda>r. scr_server_slug r = slug) (filter (at_group_max rows) rows)"
  have xs: "xs = sort_key scr_id ?own" by (simp add: xs_def latest_rows_def filter_sort)
  obtain n rest where n: "newest_first rows slug = n # rest"
    using assms by (cases "newest_first rows slug") (auto simp: newest_first_empty)
  then have N: "is_newest rows slug n" by (rule newest_first_hd)
  then have "n \<in> set ?own"
    by (auto simp: is_newest_def at_group_max_def list_all_iff less_eq_prod_def)
  then have own: "?own \<noteq> []" by (metis empty_iff list.set(1))
  define l where "l = last xs"
  have l: "l \<in> set ?own" "\<forall>x \<in> set ?own. scr_id x \<le> scr_id l"
    using last_sort_key [OF own, of scr_id] by (simp_all add: l_def xs)
  have "is_newest rows slug l"
    unfolding is_newest_def
  proof (intro conjI ballI impI)
    fix x assume x: "x \<in> set rows" "scr_server_slug x = slug"
    then have le: "scr_scanned_at x \<le> scr_scanned_at l"
      using l(1) by (auto simp: at_group_max_def list_all_iff)
    show "(scr_scanned_at x, scr_id x) \<le> (scr_scanned_at l, scr_id l)"
    proof (cases "scr_scanned_at x = scr_scanned_at l")
      case True
      then have "x \<in> set ?own" using x l(1) by (auto simp: at_group_max_def list_all_iff)
      then show ?thesis using l(2) True by (simp add: less_eq_prod_def)
    qed (use le in \<open>simp add: less_eq_prod_def order_less_le\<close>)
  qed (use l(1) in auto)
  moreover have "xs \<noteq> []" using own by (metis xs length_0_conv length_sort)
  ultimately show ?thesis by (simp add: l_def)
qed

text \<open>After the loop, each slug is decided by its last row.\<close>

lemma map_of_dict_pop: "map_of (dict_pop k d) = (map_of d)(k := None)"
  by (induction d) (auto simp: dict_pop_def fun_eq_iff)

lemma readback_loop_at:
  assumes "readback_loop cd rows st = Inr st'"
  shows "case find (\<lambda>r. scr_server_slug r = k) (rev rows) of
      None \<Rightarrow> map_of (rb_records st') k = map_of (rb_records st) k
        \<and> (k \<in> rb_unreadable st' \<longleftrightarrow> k \<in> rb_unreadable st)
    | Some r \<Rightarrow> (case row_to_scan cd r of
        Inr s \<Rightarrow> map_of (rb_records st') k = Some s \<and> k \<notin> rb_unreadable st'
      | Inl e \<Rightarrow> map_of (rb_records st') k = None \<and> k \<in> rb_unreadable st')"
  using assms
proof (induction rows arbitrary: st)
  case (Cons row rows)
  let ?k = "\<lambda>r. scr_server_slug r = k"
  obtain st1 where st1: "readback_loop cd rows st1 = Inr st'"
    and step: "(\<exists>s. row_to_scan cd row = Inr s \<and> st1 = \<lparr>rb_records = dict_set (scr_server_slug row) s (rb_records st),
          rb_unreadable = rb_unreadable st - {scr_server_slug row}\<rparr>)
      \<or> (\<exists>e. row_to_scan cd row = Inl e \<and> st1 = \<lparr>rb_records = dict_pop (scr_server_slug row) (rb_records st),
          rb_unreadable = insert (scr_server_slug row) (rb_unreadable st)\<rparr>)"
    using Cons.prems by (auto simp: Let_def split: sum.splits if_splits)
  show ?case
  proof (cases "find ?k (rev rows)")
    case None
    then have "filter ?k rows = []" by (simp add: find_rev split: if_splits)
    then have "find ?k (rev (row # rows)) = (if ?k row then Some row else None)" by (simp only: find_rev) simp
    then show ?thesis using Cons.IH [OF st1] None step by (auto simp: map_of_dict_pop)
  next
    case (Some r)
    then have "filter ?k rows \<noteq> []" by (simp add: find_rev split: if_splits)
    then have "find ?k (rev (row # rows)) = Some r" using Some by (simp only: find_rev) (simp split: if_splits)
    then show ?thesis using Cons.IH [OF st1] Some by simp
  qed
qed simp

section \<open>Which exceptions decoding lets out\<close>

definition tame :: "'a res \<Rightarrow> bool" where
  "tame m \<longleftrightarrow> (\<forall>e. m = Inl e \<longrightarrow> store_caught e)"

lemma tame_Inr [simp, intro]: "tame (Inr x)"
  by (simp add: tame_def)

lemma tame_ValueError [simp, intro]: "tame (Inl ValueError)"
  by (simp add: tame_def store_caught_def)

lemma tame_bind [intro]: "tame m \<Longrightarrow> (\<And>x. m = Inr x \<Longrightarrow> tame (f x)) \<Longrightarrow> tame (bind_res m f)"
  by (cases m) (auto simp: tame_def)

lemma tame_map_res: "(\<And>x. x \<in> set xs \<Longrightarrow> tame (f x)) \<Longrightarrow> tame (map_res f xs)"
  by (induction xs) (auto intro!: tame_bind)

lemma tame_recode: "tame m \<Longrightarrow> tame (recode m)"
  by (cases m) (auto simp: tame_def recode_def store_caught_def)

lemma tame_enum_of: "tame (enum_of members val s)"
  by (simp add: enum_of_def split: option.splits)

lemma tame_make: "tame (make_source s)" "tame (make_risk r)" "tame (make_server v)" "tame (make_scan_record c)"
  by (auto simp: make_source_def validate_env_keys_def make_risk_def make_server_def make_scan_record_def
      validate_slug_value_def validate_scan_id_def)

text \<open>The libraries raise only what the repository catches.\<close>

definition codec_tame :: "store_codec \<Rightarrow> bool" where
  "codec_tame cd \<longleftrightarrow> (\<forall>t. tame (cd_loads cd t)) \<and> (\<forall>v. tame (cd_source cd v)) \<and> (\<forall>v. tame (cd_risk cd v))
     \<and> (\<forall>v. tame (cd_finding cd v)) \<and> (\<forall>v. tame (cd_evidence cd v)) \<and> (\<forall>t. tame (cd_datetime cd t))"

lemma tame_load: "codec_tame cd \<Longrightarrow> tame (load_stored_json cd t)"
  by (auto simp: load_stored_json_def codec_tame_def)

lemma tame_decode_findings: "codec_tame cd \<Longrightarrow> tame (decode_findings cd row)"
  unfolding decode_findings_def
  by (intro tame_bind tame_load tame_make)
    (auto simp: codec_tame_def split: pyval.split intro!: tame_bind tame_map_res)

lemma tame_decode_evidence: "codec_tame cd \<Longrightarrow> tame (decode_evidence cd col)"
  unfolding decode_evidence_def
  by (auto split: option.split intro!: tame_recode tame_bind tame_load simp: codec_tame_def)

lemma tame_row_to_scan: "codec_tame cd \<Longrightarrow> tame (row_to_scan cd row)"
  unfolding row_to_scan_def
  by (auto intro!: tame_bind tame_recode tame_decode_findings tame_decode_evidence tame_enum_of tame_make
      simp: decode_transparency_def codec_tame_def split: prod.split)

lemma tame_decode_server: "codec_tame cd \<Longrightarrow> tame (decode_server cd row)"
  unfolding decode_server_def
  by (intro tame_bind tame_load tame_make) (auto simp: codec_tame_def)

lemma row_to_server_total: "codec_tame cd \<Longrightarrow>
    row_to_server cd row = Inr (case decode_server cd row of Inr s \<Rightarrow> Some s | Inl e \<Rightarrow> None)"
  using tame_decode_server [of cd row] by (auto simp: row_to_server_def tame_def split: sum.splits)

lemma readback_loop_total: "codec_tame cd \<Longrightarrow> \<exists>st'. readback_loop cd rows st = Inr st'"
proof (induction rows arbitrary: st)
  case (Cons row rows)
  then show ?case using tame_row_to_scan [of cd row]
    by (auto simp: tame_def Let_def split: sum.splits)
qed simp

section \<open>Writing and reading back\<close>

text \<open>What the codec must give back of one scan: each JSON column parses to what was dumped.\<close>

definition reads_back :: "store_codec \<Rightarrow> scan_record \<Rightarrow> bool" where
  "reads_back cd s \<longleftrightarrow>
     (\<exists>raw. load_stored_json cd (cd_risk_json cd (sc_risk s)) = Inr raw \<and> cd_risk cd raw = Inr (sc_risk s))
   \<and> (\<exists>raws. load_stored_json cd (cd_findings_json cd (sc_findings s)) = Inr (PList raws)
        \<and> map_res (cd_finding cd) raws = Inr (sc_findings s))
   \<and> (case sc_evidence s of None \<Rightarrow> True | Some ev \<Rightarrow> cd_evidence_json cd ev \<noteq> []
        \<and> (\<exists>raw. load_stored_json cd (cd_evidence_json cd ev) = Inr raw \<and> cd_evidence cd raw = Inr ev
             \<and> \<not> too_many_tools raw))
   \<and> cd_datetime cd (cd_isoformat cd (sc_scanned_at s)) = Inr (sc_scanned_at s)"

lemma transparency_str_nonempty [simp]: "transparency_str t \<noteq> []"
  by (cases t) simp_all

lemma row_to_scan_to_row:
  assumes "make_scan_record s = Inr s" "valid_risk (sc_risk s)" "reads_back cd s"
    "length (sc_findings s) \<le> MAX_STORED_FINDINGS"
  shows "row_to_scan cd (scan_to_row cd s) = Inr s"
proof -
  obtain raw raws where risk: "load_stored_json cd (cd_risk_json cd (sc_risk s)) = Inr raw"
      "cd_risk cd raw = Inr (sc_risk s)"
    and fs: "load_stored_json cd (cd_findings_json cd (sc_findings s)) = Inr (PList raws)"
      "map_res (cd_finding cd) raws = Inr (sc_findings s)"
    using assms(3) by (auto simp: reads_back_def)
  have "decode_findings cd (scan_to_row cd s) = Inr (sc_risk s, sc_findings s)"
    using risk fs assms(2,4) map_res_length [OF fs(2)]
    by (simp add: decode_findings_def scan_to_row_def make_risk_def)
  moreover have "decode_evidence cd (map_option (cd_evidence_json cd) (sc_evidence s)) = Inr (sc_evidence s)"
    using assms(3) by (auto simp: reads_back_def decode_evidence_def recode_def split: option.splits)
  moreover have "cd_datetime cd (cd_isoformat cd (sc_scanned_at s)) = Inr (sc_scanned_at s)"
    using assms(3) by (simp add: reads_back_def)
  ultimately show ?thesis
    using assms(1) grades.of_val [of "sc_grade s"] transparencies.of_val [of "sc_transparency s"]
    by (simp add: row_to_scan_def scan_to_row_def recode_def decode_transparency_def)
qed

lemma row_to_scan_slug: "row_to_scan cd row = Inr s \<Longrightarrow> sc_server_slug s = scr_server_slug row \<and> sc_id s = scr_id row"
  by (auto simp: row_to_scan_def split: prod.splits)

section \<open>The scan reader's contract\<close>

text \<open>
  What the registry, the refresh loop and the drift report rely on: the history of a slug holds only its
  scans, a limit takes a prefix of it, and the latest scan is its head.
\<close>

locale scan_reader =
  fixes hist :: "string \<Rightarrow> int option \<Rightarrow> scan_record list res"
    and last_scan :: "string \<Rightarrow> scan_record option res"
  assumes hist_slug: "hist k n = Inr ss \<Longrightarrow> s \<in> set ss \<Longrightarrow> sc_server_slug s = k"
    and hist_limit: "hist k None = Inr ss \<Longrightarrow> 0 \<le> i \<Longrightarrow> hist k (Some i) = Inr (take (nat i) ss)"
    and last_hist: "hist k None = Inr ss \<Longrightarrow> last_scan k = Inr (case ss of [] \<Rightarrow> None | s # _ \<Rightarrow> Some s)"
begin

lemma hist_one_server: "hist k n = Inr ss \<Longrightarrow> one_server ss"
  by (cases ss) (auto simp: one_server_def list_all_iff hist_slug)

lemma drift_from_two:
  assumes "hist k None = Inr ss"
  shows "\<exists>o_drift. bind_res (hist k (Some 2)) diff_latest = Inr o_drift \<and> diff_latest ss = Inr o_drift"
proof (cases ss rule: diff_latest.cases)
  case (1 newest before rest)
  have "sc_server_slug before = sc_server_slug newest"
    using hist_one_server [OF assms] 1 one_server_Cons2 by blast
  then obtain d where "diff before newest = Inr d" using diff_same_slug by blast
  then show ?thesis using 1 hist_limit [OF assms, of 2] by (simp add: numeral_2_eq_2)
qed (use hist_limit [OF assms, of 2] in \<open>auto simp: numeral_2_eq_2\<close>)

lemma timeline_ends_at_latest:
  assumes "hist k None = Inr ss" "last_scan k = Inr (Some s)"
  shows "\<exists>es. grade_timeline ss = Inr es \<and> es \<noteq> [] \<and> he_grade (last es) = sc_grade s
    \<and> he_scanned_at (last es) = sc_scanned_at s"
proof -
  obtain rest where ss: "ss = s # rest"
    using last_hist [OF assms(1)] assms(2) by (auto split: list.splits)
  obtain es where es: "grade_timeline ss = Inr es" "timeline_ok ss es"
    using grade_timeline_total [OF hist_one_server [OF assms(1)]] by blast
  have "map he_grade es = map sc_grade (rev rest) @ [sc_grade s]"
    "map he_scanned_at es = map sc_scanned_at (rev rest) @ [sc_scanned_at s]"
    using es(2) ss by (simp_all add: timeline_ok_def rev_map)
  then show ?thesis using es(1) by (metis Nil_is_map_conv append_is_Nil_conv last_map last_snoc list.distinct(1))
qed

end

lemma map_res_take: "map_res f xs = Inr ys \<Longrightarrow> map_res f (take n xs) = Inr (take n ys)"
  by (induction xs arbitrary: n ys) (auto simp: take_Cons split: nat.splits)

lemma map_res_memD: "map_res f xs = Inr ys \<Longrightarrow> y \<in> set ys \<Longrightarrow> \<exists>x \<in> set xs. f x = Inr y"
  by (induction xs arbitrary: ys) auto

lemma set_sql_limit: "set (sql_limit n xs) \<subseteq> set xs"
  by (auto simp: sql_limit_def dest: in_set_takeD split: option.splits if_splits)

lemma history_None: "history cd d k None = map_res (row_to_scan cd) (newest_first (scans_t d) k)"
  by (simp add: history_def sql_limit_def)

interpretation repo: scan_reader "history cd d" "latest cd d" for cd d
proof
  show "sc_server_slug s = k" if h: "history cd d k n = Inr ss" and s: "s \<in> set ss" for k n ss s
  proof -
    obtain r where "r \<in> set (sql_limit n (newest_first (scans_t d) k))" "row_to_scan cd r = Inr s"
      using map_res_memD h s unfolding history_def by fastforce
    then show ?thesis
      using set_sql_limit [of n "newest_first (scans_t d) k"] row_to_scan_slug [of cd r s]
      by (auto simp: set_newest_first)
  qed
  show "history cd d k (Some i) = Inr (take (nat i) ss)" if "history cd d k None = Inr ss" "0 \<le> i" for k ss i
    using that map_res_take by (fastforce simp: history_def sql_limit_def)
  show "latest cd d k = Inr (case ss of [] \<Rightarrow> None | s # _ \<Rightarrow> Some s)" if "history cd d k None = Inr ss" for k ss
    using that by (cases "newest_first (scans_t d) k") (auto simp: history_None latest_def)
qed

section \<open>The database as a state machine\<close>

definition store_inv :: "db \<Rightarrow> bool" where
  "store_inv d \<longleftrightarrow> distinct (map srw_slug (servers_t d)) \<and> distinct (map scr_id (scans_t d))
     \<and> set (map scr_server_slug (scans_t d)) \<subseteq> set (map srw_slug (servers_t d))"

inductive store_step :: "store_codec \<Rightarrow> db \<Rightarrow> db \<Rightarrow> bool" for cd where
  Upsert: "store_step cd d (upsert cd s d)"
| Record: "record_scan cd s d = Inr d' \<Longrightarrow> store_step cd d d'"

inductive store_reachable :: "store_codec \<Rightarrow> db \<Rightarrow> bool" for cd where
  Init: "store_reachable cd init_schema"
| Step: "store_reachable cd d \<Longrightarrow> store_step cd d d' \<Longrightarrow> store_reachable cd d'"

inductive_cases store_stepE: "store_step cd d d'"

lemma upsert_row_slugs: "set (map srw_slug (upsert_row r xs)) = insert (srw_slug r) (set (map srw_slug xs))"
  by (induction xs) auto

lemma upsert_row_distinct: "distinct (map srw_slug xs) \<Longrightarrow> distinct (map srw_slug (upsert_row r xs))"
proof (induction xs)
  case (Cons x xs)
  then show ?case using upsert_row_slugs [of r xs] by (auto simp del: set_map)
qed simp

lemma upsert_row_find: "find (\<lambda>x. srw_slug x = k) (upsert_row r xs) =
    (if k = srw_slug r then Some r else find (\<lambda>x. srw_slug x = k) xs)"
  by (induction xs) auto

lemma store_inv_init: "store_inv init_schema"
  by (simp add: store_inv_def init_schema_def)

lemma store_inv_step: "store_step cd d d' \<Longrightarrow> store_inv d \<Longrightarrow> store_inv d'"
proof (erule store_stepE)
  fix s assume "store_inv d" "d' = upsert cd s d"
  then show "store_inv d'"
    using upsert_row_distinct upsert_row_slugs [of "server_to_row cd s" "servers_t d"]
    by (auto simp: store_inv_def upsert_def simp del: set_map)
next
  fix s assume "store_inv d" "record_scan cd s d = Inr d'"
  then show "store_inv d'"
    unfolding store_inv_def record_scan_def
    by (auto simp: scan_to_row_def image_subset_iff split: if_splits)
qed

lemma store_integrity_ids: "store_reachable cd d \<Longrightarrow> distinct (map scr_id (scans_t d))"
proof -
  assume "store_reachable cd d"
  then have "store_inv d" by induction (auto intro: store_inv_init store_inv_step)
  then show ?thesis by (simp add: store_inv_def)
qed

lemma readback_at_slug:
  assumes "distinct (map scr_id (scans_t d))" "latest_all_readback cd d = Inr rb"
  shows "case latest cd d k of
      Inr None \<Rightarrow> k \<notin> scr_server_slug ` set (scans_t d)
        \<and> map_of (rb_records rb) k = None \<and> k \<notin> rb_unreadable rb
    | Inr (Some s) \<Rightarrow> map_of (rb_records rb) k = Some s \<and> k \<notin> rb_unreadable rb
    | Inl e \<Rightarrow> map_of (rb_records rb) k = None \<and> k \<in> rb_unreadable rb"
proof -
  let ?k = "\<lambda>r. scr_server_slug r = k"
  note L = readback_loop_at [OF assms(2) [unfolded latest_all_readback_def], of k]
  show ?thesis
  proof (cases "newest_first (scans_t d) k")
    case Nil
    then have none: "\<forall>r \<in> set (scans_t d). scr_server_slug r \<noteq> k" by (simp add: newest_first_empty)
    then have "filter ?k (latest_rows (scans_t d)) = []" by (auto simp: filter_empty_conv latest_rows_def)
    then show ?thesis using L none Nil by (auto simp: find_rev latest_def)
  next
    case (Cons r rest)
    then have r: "is_newest (scans_t d) k r" by (rule newest_first_hd)
    then have "filter ?k (latest_rows (scans_t d)) \<noteq> []"
      "is_newest (scans_t d) k (last (filter ?k (latest_rows (scans_t d))))"
      using latest_rows_last [of r "scans_t d" k] by (simp_all add: is_newest_def)
    then have "find ?k (rev (latest_rows (scans_t d))) = Some r"
      using is_newest_unique [OF assms(1) r] by (simp add: find_rev)
    then show ?thesis using L Cons by (cases "row_to_scan cd r") (simp_all add: latest_def)
  qed
qed

lemma store_reachable_slugs: "store_reachable cd d \<Longrightarrow> distinct (map srw_slug (servers_t d))"
proof -
  assume "store_reachable cd d"
  then have "store_inv d" by induction (auto intro: store_inv_init store_inv_step)
  then show ?thesis by (simp add: store_inv_def)
qed

lemma map_res_Inr_map: "map_res (\<lambda>x. Inr (f x)) xs = Inr (map f xs)"
  by (induction xs) auto

lemma distinct_sort_key_map: "distinct (map f (sort_key f xs)) = distinct (map f xs)"
proof -
  have "mset (map f (sort_key f xs)) = mset (map f xs)" by simp
  then show ?thesis by (metis mset_eq_imp_distinct_iff)
qed

lemma map_filter_sorted:
  "sorted_wrt (<) (map g xs) \<Longrightarrow> (\<And>x y. f x = Some y \<Longrightarrow> h y = g x) \<Longrightarrow>
   sorted_wrt (<) (map h (List.map_filter f xs))"
  by (induction xs) (auto simp: map_filter_def)

lemma find_distinct_key: "distinct (map f xs) \<Longrightarrow> x \<in> set xs \<Longrightarrow> find (\<lambda>y. f y = f x) xs = Some x"
  by (induction xs) (auto simp: image_iff)

lemma newest_first_strict:
  "distinct (map scr_id rows) \<Longrightarrow>
   sorted_wrt (\<lambda>a b. (scr_scanned_at b, scr_id b) \<le> (scr_scanned_at a, scr_id a)) rows \<Longrightarrow>
   sorted_wrt (\<lambda>a b. (scr_scanned_at b, scr_id b) < (scr_scanned_at a, scr_id a)) rows"
  by (induction rows) (auto simp: less_eq_prod_def less_prod_def order_less_le image_iff)

lemma list_servers_spec:
  assumes "codec_tame cd" "store_reachable cd d"
  shows "\<exists>vs. list_servers cd d = Inr vs
    \<and> set vs = {v. \<exists>r \<in> set (servers_t d). decode_server cd r = Inr v}
    \<and> sorted_wrt (<) (map sv_slug vs)
    \<and> (\<forall>v. v \<in> set vs \<longleftrightarrow> get_server cd d (sv_slug v) = Inr (Some v))"
proof -
  define dec where "dec = (\<lambda>r. case decode_server cd r of Inr s \<Rightarrow> Some s | Inl e \<Rightarrow> None)"
  let ?rows = "sort_key srw_slug (servers_t d)"
  have inv: "distinct (map srw_slug (servers_t d))" using store_reachable_slugs [OF assms(2)] .
  have "row_to_server cd = (\<lambda>r. Inr (dec r))" using row_to_server_total [OF assms(1)] by (auto simp: dec_def)
  then have vs: "list_servers cd d = Inr (List.map_filter dec ?rows)"
    by (simp add: list_servers_def map_res_Inr_map map_filter_def comp_def filter_map)
  have dec_slug: "dec r = Some v \<Longrightarrow> sv_slug v = srw_slug r" for r v
    by (auto simp: dec_def decode_server_def split: sum.splits)
  have "sorted_wrt (<) (map srw_slug ?rows)"
    using inv by (simp add: strict_sorted_iff distinct_sort_key_map)
  then have sorted: "sorted_wrt (<) (map sv_slug (List.map_filter dec ?rows))"
    by (rule map_filter_sorted) (rule dec_slug)
  have set_vs: "set (List.map_filter dec ?rows) = {v. \<exists>r \<in> set (servers_t d). dec r = Some v}"
    by (force simp: map_filter_def image_iff)
  have get: "get_server cd d k = (case find (\<lambda>r. srw_slug r = k) (servers_t d) of
      None \<Rightarrow> Inr None | Some r \<Rightarrow> Inr (dec r))" for k
    by (simp add: get_server_def \<open>row_to_server cd = (\<lambda>r. Inr (dec r))\<close> split: option.split)
  have lookup: "(\<exists>r \<in> set (servers_t d). dec r = Some v) \<longleftrightarrow> get_server cd d (sv_slug v) = Inr (Some v)" for v
  proof
    assume "\<exists>r \<in> set (servers_t d). dec r = Some v"
    then obtain r where r: "r \<in> set (servers_t d)" "dec r = Some v" by blast
    then have "find (\<lambda>x. srw_slug x = sv_slug v) (servers_t d) = Some r"
      using find_distinct_key [OF inv r(1)] dec_slug [OF r(2)] by simp
    then show "get_server cd d (sv_slug v) = Inr (Some v)" using r by (simp add: get)
  next
    assume "get_server cd d (sv_slug v) = Inr (Some v)"
    then obtain r where "find (\<lambda>x. srw_slug x = sv_slug v) (servers_t d) = Some r" "dec r = Some v"
      by (auto simp: get split: option.splits)
    then show "\<exists>r \<in> set (servers_t d). dec r = Some v" using find_SomeD by fast
  qed
  have "dec r = Some v \<longleftrightarrow> decode_server cd r = Inr v" for r v
    by (simp add: dec_def split: sum.splits)
  then show ?thesis using vs sorted set_vs lookup by simp
qed

section \<open>Properties\<close>

text \<open>C7. Every database built by upserts and recorded scans has one row per slug and per scan id, and
  every scan refers to a server row; no operation removes or alters a stored scan, and a record that
  would break a key is refused with an integrity error.\<close>

theorem store_integrity:
  assumes "store_reachable cd d"
  shows "distinct (map srw_slug (servers_t d)) \<and> distinct (map scr_id (scans_t d))
    \<and> (\<forall>r \<in> set (scans_t d). scr_server_slug r \<in> srw_slug ` set (servers_t d))
    \<and> (\<forall>d'. store_step cd d d' \<longrightarrow> take (length (scans_t d)) (scans_t d') = scans_t d)
    \<and> (\<forall>s. record_scan cd s d = Inl IntegrityError \<longleftrightarrow>
        sc_id s \<in> scr_id ` set (scans_t d) \<or> sc_server_slug s \<notin> srw_slug ` set (servers_t d))"
proof -
  have "store_inv d" using assms by induction (auto intro: store_inv_init store_inv_step)
  moreover have "store_step cd d d' \<Longrightarrow> take (length (scans_t d)) (scans_t d') = scans_t d" for d'
    by (erule store_stepE) (auto simp: upsert_def record_scan_def split: if_splits)
  ultimately show ?thesis
    by (auto simp: store_inv_def record_scan_def)
qed


text \<open>C5. A server's history is all of its stored scans, each decoded from its row, in strictly
  descending order of scan time and id; a non-negative limit takes a prefix and the latest scan is the
  head.\<close>

theorem history_is_sorted_and_complete:
  assumes "store_reachable cd d" "history cd d k None = Inr ss"
  shows "\<exists>rows. list_all2 (\<lambda>r s. row_to_scan cd r = Inr s) rows ss
      \<and> mset rows = {#r \<in># mset (scans_t d). scr_server_slug r = k#}
      \<and> sorted_wrt (\<lambda>a b. (scr_scanned_at b, scr_id b) < (scr_scanned_at a, scr_id a)) rows
      \<and> (\<forall>n. history cd d k (Some (int n)) = Inr (take n ss))
      \<and> latest cd d k = Inr (case ss of [] \<Rightarrow> None | s # _ \<Rightarrow> Some s)"
proof -
  let ?rows = "newest_first (scans_t d) k"
  have "distinct (map scr_id ?rows)"
    using store_integrity_ids [OF assms(1)]
    by (auto simp: newest_first_def distinct_map rev_map intro: inj_on_subset)
  then have "sorted_wrt (\<lambda>a b. (scr_scanned_at b, scr_id b) < (scr_scanned_at a, scr_id a)) ?rows"
    using newest_first_sorted [of "scans_t d" k] by (rule newest_first_strict)
  moreover have "mset ?rows = {#r \<in># mset (scans_t d). scr_server_slug r = k#}"
    by (simp add: newest_first_def)
  moreover have "list_all2 (\<lambda>r s. row_to_scan cd r = Inr s) ?rows ss"
    using assms(2) by (simp add: history_None map_res_Inr_iff)
  ultimately show ?thesis
    using repo.hist_limit [OF assms(2)] repo.last_hist [OF assms(2)] by fastforce
qed


text \<open>C9. The drift report needs only the two newest scans: comparing the history cut at two gives what
  the whole history gives, and for a stored history neither comparison nor timeline ever raises, the
  timeline ending with the latest scan's grade.\<close>

theorem stored_history_drift:
  assumes "history cd d k None = Inr ss" "latest cd d k = Inr (Some s)"
  shows "(\<exists>od. bind_res (history cd d k (Some 2)) diff_latest = Inr od \<and> diff_latest ss = Inr od)
    \<and> (\<exists>es. grade_timeline ss = Inr es \<and> es \<noteq> [] \<and> he_grade (last es) = sc_grade s
        \<and> he_scanned_at (last es) = sc_scanned_at s)"
  using repo.drift_from_two [OF assms(1)] repo.timeline_ends_at_latest [OF assms] by blast


text \<open>The write path has no counterpart of the read path's limit: a scan with more findings than the
  limit is accepted by the insert, and from then on its server's history cannot be read at all.\<close>

lemma oversized_scan_poisons_history:
  assumes "codec_tame cd" "MAX_STORED_FINDINGS < length (sc_findings s)" "record_scan cd s d = Inr d'"
    and "\<And>raws. cd_loads cd (cd_findings_json cd (sc_findings s)) = Inr (PList raws) \<Longrightarrow>
      length raws = length (sc_findings s)"
  shows "row_to_scan cd (scan_to_row cd s) = Inl ValueError
    \<and> (\<exists>e. history cd d' (sc_server_slug s) None = Inl e)"
proof -
  let ?row = "scan_to_row cd s"
  have "decode_findings cd ?row \<noteq> Inr x" for x
    using assms(2,4) by (auto simp: decode_findings_def scan_to_row_def load_stored_json_def
        split: pyval.splits if_splits)
  then obtain e where "decode_findings cd ?row = Inl e" by (cases "decode_findings cd ?row") auto
  then have bad: "row_to_scan cd ?row = Inl ValueError"
    using tame_decode_findings [OF assms(1), of ?row] by (simp add: row_to_scan_def recode_def tame_def)
  have "?row \<in> set (newest_first (scans_t d') (sc_server_slug s))"
    using assms(3) by (auto simp: set_newest_first record_scan_def scan_to_row_def split: if_splits)
  then have "history cd d' (sc_server_slug s) None \<noteq> Inr ss" for ss
    using bad by (auto simp: history_None map_res_Inr_iff list_all2_conv_all_nth in_set_conv_nth)
  then show ?thesis using bad by (metis sum.exhaust)
qed

section \<open>Witnesses\<close>

text \<open>A codec that writes one character per finding and reads constants back.\<close>

definition sample_finding :: finding where
  "sample_finding = \<lparr>fd_rule_id = ''MCP007'', fd_title = ''t'', fd_severity = High, fd_category = ''c'', fd_detail = []\<rparr>"

definition sample_codec :: store_codec where
  "sample_codec = \<lparr>cd_loads = (\<lambda>t. Inr (PList (replicate (length t) PNone))),
     cd_source_json = (\<lambda>s. []), cd_risk_json = (\<lambda>r. []), cd_findings_json = (\<lambda>fs. replicate (length fs) CHR ''x''),
     cd_evidence_json = (\<lambda>e. ''e''), cd_source = (\<lambda>v. Inr sample_source), cd_risk = (\<lambda>v. Inr sample_risk),
     cd_finding = (\<lambda>v. Inr sample_finding), cd_evidence = (\<lambda>v. Inr sample_evidence),
     cd_isoformat = (\<lambda>t. ''t''), cd_datetime = (\<lambda>t. Inr (sc_scanned_at sample_scan))\<rparr>"

lemma sample_codec_tame: "codec_tame sample_codec"
  by (simp add: codec_tame_def sample_codec_def)

definition sample_db :: db where
  "sample_db = upsert sample_codec sample_server init_schema"

definition sample_db1 :: db where
  "sample_db1 = sample_db\<lparr>scans_t := [scan_to_row sample_codec sample_scan]\<rparr>"

lemma sample_db_reachable: "store_reachable sample_codec sample_db"
  unfolding sample_db_def by (rule store_reachable.Step [OF store_reachable.Init store_step.Upsert])

lemma sample_db_record: "record_scan sample_codec sample_scan sample_db = Inr sample_db1"
  by (simp add: record_scan_def sample_db_def upsert_def init_schema_def server_to_row_def sample_db1_def
      sample_server_def sample_scan_def)

lemma sample_db1_reachable: "store_reachable sample_codec sample_db1"
  by (rule store_reachable.Step [OF sample_db_reachable store_step.Record [OF sample_db_record]])

lemma sample_reads_back: "reads_back sample_codec sample_scan"
  by (simp add: reads_back_def sample_codec_def sample_scan_def load_stored_json_def
      MAX_STORED_JSON_BYTES_def utf8_length_def too_many_tools_def)

lemma sample_scan_ok: "make_scan_record sample_scan = Inr sample_scan" "valid_risk (sc_risk sample_scan)"
  "length (sc_findings sample_scan) \<le> MAX_STORED_FINDINGS"
  by (simp_all add: sample_scan_def slug_re_def scan_id_re_def is_alnum_char_def is_lower_char_def
      is_upper_char_def is_digit_char_def slug_char_def valid_risk_def sample_risk_def score_ok_def
      MAX_STORED_FINDINGS_def)

lemma sample_db1_history: "history sample_codec sample_db1 ''demo-server'' None = Inr [sample_scan]"
  "latest sample_codec sample_db1 ''demo-server'' = Inr (Some sample_scan)"
  using row_to_scan_to_row [OF sample_scan_ok(1,2) sample_reads_back sample_scan_ok(3)]
  by (simp_all add: history_None latest_def newest_first_def sample_db1_def scan_to_row_def sample_scan_def)

theorem store_integrity_witness:
  "distinct (map scr_id (scans_t sample_db1))
    \<and> record_scan sample_codec sample_scan sample_db1 = Inl IntegrityError"
proof -
  have "sc_id sample_scan \<in> scr_id ` set (scans_t sample_db1)"
    by (simp add: sample_db1_def scan_to_row_def)
  then show ?thesis using store_integrity [OF sample_db1_reachable] by blast
qed


theorem history_is_sorted_and_complete_witness:
  "history sample_codec sample_db1 ''demo-server'' (Some (int 1)) = Inr [sample_scan]"
proof -
  have "\<forall>n. history sample_codec sample_db1 ''demo-server'' (Some (int n)) = Inr (take n [sample_scan])"
    using history_is_sorted_and_complete [OF sample_db1_reachable sample_db1_history(1)] by blast
  then show ?thesis by (metis One_nat_def take_Suc_Cons take_0)
qed


theorem stored_history_drift_witness:
  "\<exists>od. bind_res (history sample_codec sample_db1 ''demo-server'' (Some 2)) diff_latest = Inr od"
  using stored_history_drift [OF sample_db1_history] by blast


section \<open>An exception that is not caught\<close>

text \<open>
  \<open>json.loads\<close> answers deeply nested input with \<open>RecursionError\<close>, which is no \<open>ValueError\<close>: with such a row
  the list of servers raises instead of skipping the row.
\<close>

lemma nested_row_aborts_list:
  assumes "r \<in> set (servers_t d)" "load_stored_json cd (srw_source_json r) = Inl RecursionError"
  shows "\<exists>e. list_servers cd d = Inl e"
proof -
  have bad: "row_to_server cd r = Inl RecursionError"
    using assms(2) by (simp add: row_to_server_def decode_server_def store_caught_def)
  have "map_res (row_to_server cd) (sort_key srw_slug (servers_t d)) \<noteq> Inr vs" for vs
  proof
    assume "map_res (row_to_server cd) (sort_key srw_slug (servers_t d)) = Inr vs"
    moreover have "r \<in> set (sort_key srw_slug (servers_t d))" using assms(1) by simp
    ultimately show False using bad by (metis Inl_Inr_False in_set_conv_nth map_res_nth)
  qed
  then show ?thesis unfolding list_servers_def
    by (metis bind_res_simps(1) sum.exhaust)
qed

end
