(* ===== verification/Urls.thy ===== *)
theory Urls
  imports Prelude
begin

text \<open>
  \<open>urllib.parse.urlsplit\<close> as far as the program looks at its result: scheme, network location and
  whether it carries user information. The admission of a bracketed host (an IPv6 literal) is a
  parameter, since it is decided by the \<open>ipaddress\<close> module.
\<close>

record split_url =
  url_scheme :: string
  url_netloc :: string
  url_rest :: string

definition scheme_char :: "char \<Rightarrow> bool" where
  "scheme_char c \<longleftrightarrow> is_alnum_char c \<or> c \<in> {CHR ''+'', CHR ''-'', CHR ''.''}"

text \<open>Leading C0 controls and spaces go, and every tab, carriage return and line feed.\<close>

definition url_clean :: "string \<Rightarrow> string" where
  "url_clean s = filter (\<lambda>c. c \<notin> {CHR 0x09, CHR 0x0A, CHR 0x0D})
     (dropWhile (\<lambda>c. (of_char c :: nat) \<le> 32) s)"

definition split_scheme :: "string \<Rightarrow> string \<times> string" where
  "split_scheme url = (let prefix = takeWhile (\<lambda>c. c \<noteq> CHR '':'') url in
     if prefix \<noteq> url \<and> prefix \<noteq> [] \<and> (is_lower_char (hd prefix) \<or> is_upper_char (hd prefix))
       \<and> list_all scheme_char prefix
     then (py_lower prefix, drop (Suc (length prefix)) url) else ([], url))"

definition split_netloc :: "string \<Rightarrow> string \<times> string" where
  "split_netloc url = (case url of
     a # b # rest \<Rightarrow> (if a = CHR ''/'' \<and> b = CHR ''/''
       then (takeWhile (\<lambda>c. c \<notin> {CHR ''/'', CHR ''?'', CHR ''#''}) rest,
             dropWhile (\<lambda>c. c \<notin> {CHR ''/'', CHR ''?'', CHR ''#''}) rest)
       else ([], url))
   | _ \<Rightarrow> ([], url))"

definition urlsplit :: "(string \<Rightarrow> bool) \<Rightarrow> string \<Rightarrow> split_url res" where
  "urlsplit bracket_ok s = (let (scheme, rest) = split_scheme (url_clean s); (netloc, tail) = split_netloc rest in
     if (CHR ''['' \<in> set netloc) \<noteq> (CHR '']'' \<in> set netloc) then Inl ValueError
     else if CHR ''['' \<in> set netloc \<and> \<not> bracket_ok netloc then Inl ValueError
     else Inr \<lparr>url_scheme = scheme, url_netloc = netloc, url_rest = tail\<rparr>)"

text \<open>\<open>username\<close> and \<open>password\<close>: what precedes the last \<open>@\<close>; a username is present whenever that is.\<close>

definition url_has_userinfo :: "split_url \<Rightarrow> bool" where
  "url_has_userinfo u \<longleftrightarrow> CHR ''@'' \<in> set (url_netloc u)"

lemma urlsplit_total_unbracketed: "CHR ''['' \<notin> set s \<Longrightarrow> CHR '']'' \<notin> set s \<Longrightarrow> \<exists>u. urlsplit b s = Inr u"
proof -
  assume s: "CHR ''['' \<notin> set s" "CHR '']'' \<notin> set s"
  have "set (url_clean s) \<subseteq> set s" by (auto simp: url_clean_def dest: set_dropWhileD)
  moreover have "set (snd (split_scheme t)) \<subseteq> set t" for t
    by (auto simp: split_scheme_def Let_def dest: in_set_dropD)
  moreover have "set (fst (split_netloc t)) \<subseteq> set t" for t
    by (auto simp: split_netloc_def dest: set_takeWhileD split: list.splits)
  ultimately have "set (fst (split_netloc (snd (split_scheme (url_clean s))))) \<subseteq> set s" by blast
  then show ?thesis using s by (auto simp: urlsplit_def Let_def split: prod.split)
qed

end
