(* ===== verification/Lineage.thy ===== *)
theory Lineage
  imports Datetime Urls
begin

text \<open>
  Evidence lineage of corpus decisions (\<open>corpus/lineage.py\<close>): the validated records, the ledger that
  closes their links, and the assessment of one decision.
\<close>

section \<open>Field types\<close>

definition Sha256 :: "string \<Rightarrow> bool" where
  "Sha256 s \<longleftrightarrow> is_sha256 s"

definition id_char :: "char \<Rightarrow> bool" where
  "id_char c \<longleftrightarrow> is_alnum_char c \<or> c \<in> set ''._/@:+-''"

definition StableId :: "string \<Rightarrow> bool" where
  "StableId s \<longleftrightarrow> 1 \<le> length s \<and> length s \<le> 160 \<and> is_alnum_char (hd s) \<and> list_all id_char s"

definition PackageId :: "string \<Rightarrow> bool" where
  "PackageId s \<longleftrightarrow> 1 \<le> length s \<and> length s \<le> 200 \<and> (is_alnum_char (hd s) \<or> hd s = CHR ''@'')
     \<and> list_all id_char s"

definition ReasonCode :: "string \<Rightarrow> bool" where
  "ReasonCode s \<longleftrightarrow> 3 \<le> length s \<and> length s \<le> 80 \<and> is_upper_char (hd s)
     \<and> list_all (\<lambda>c. is_upper_char c \<or> is_digit_char c \<or> c = CHR ''_'') s"

definition starts_with :: "string \<Rightarrow> string \<Rightarrow> bool" where
  "starts_with p s \<longleftrightarrow> take (length p) s = p"

definition portable_reference :: "(string \<Rightarrow> bool) \<Rightarrow> string \<Rightarrow> string res" where
  "portable_reference bracket_ok value =
     (if value \<noteq> py_strip value \<or> value = [] \<or> list_ex (\<lambda>c. c \<in> {CHR 0x0A, CHR 0x0D, CHR 0x00}) value
      then Inl ValueError
      else if CHR ''?'' \<in> set value then Inl ValueError
      else if starts_with ''/'' value \<or> starts_with ''~'' value \<or> starts_with ''file:'' value
        \<or> CHR 0x5C \<in> set value then Inl ValueError
      else bind_res (urlsplit bracket_ok value) (\<lambda>parsed.
        if url_scheme parsed \<noteq> [] then
          (if url_scheme parsed \<noteq> ''https'' \<or> url_netloc parsed = [] then Inl ValueError
           else if url_has_userinfo parsed then Inl ValueError
           else Inr value)
        else (let relative_path = takeWhile (\<lambda>c. c \<noteq> CHR ''#'') value in
          if list_ex (\<lambda>part. part = ''..'') (py_split CHR ''/'' relative_path) then Inl ValueError
          else Inr value)))"

definition PortableReference :: "(string \<Rightarrow> bool) \<Rightarrow> string \<Rightarrow> bool" where
  "PortableReference b s \<longleftrightarrow> 1 \<le> length s \<and> length s \<le> 512 \<and> portable_reference b s = Inr s"

definition AwareDatetime :: "pydt \<Rightarrow> bool" where
  "AwareDatetime d \<longleftrightarrow> valid_dt d \<and> dt_offset d \<noteq> None"

definition opt_ok :: "('a \<Rightarrow> bool) \<Rightarrow> 'a option \<Rightarrow> bool" where
  "opt_ok P v = (case v of None \<Rightarrow> True | Some x \<Rightarrow> P x)"

section \<open>Enumerations\<close>

datatype rights_status = Documented | RightsUnknown | Restricted
datatype evidence_kind = SCAN_RECEIPT
datatype publication_state = Draft | Published | Withdrawn
datatype lineage_decision = Admit | Refresh | Publish | Withdraw
datatype assessment_status = ALLOWED | BLOCKED | UNKNOWN | REQUIRED | COMPLETE | NOT_REQUIRED
datatype sandbox_mode = Docker | SandboxUnknown | NotApplicable
datatype network_mode = NetNone | NetUnknown | NetLive

section \<open>Records\<close>

record subject_identity =
  su_name :: string
  su_package_id :: string
  su_version :: "string option"
  su_source_ref :: string

record source_evidence =
  so_origin :: string
  so_artifact_sha256 :: string
  so_observed_at :: pydt
  so_evidence_ref :: string

record rights_evidence =
  ri_status :: rights_status
  ri_basis :: "string option"
  ri_scope :: "string option"
  ri_custodian :: "string option"
  ri_evidence_ref :: "string option"

record lineage_scan =
  ls_engine :: string
  ls_engine_version :: string
  ls_artifact_sha256 :: "string option"
  ls_scan_mode :: string
  ls_sandbox_mode :: sandbox_mode
  ls_sandbox_ref :: "string option"
  ls_network :: network_mode
  ls_started_at :: pydt
  ls_ended_at :: pydt

record evidence_reference =
  er_kind :: evidence_kind
  er_ref :: string
  er_sha256 :: string

record freshness_evidence =
  fr_policy :: string
  fr_expires_at :: pydt

record publication_evidence =
  pu_state :: publication_state
  pu_public_record_id :: "string option"
  pu_published_at :: "pydt option"
  pu_withdrawn_at :: "pydt option"
  pu_projections :: "string list"

record lineage_links =
  ln_predecessor :: "string option"
  ln_successor :: "string option"
  ln_supersedes :: "string list"

record retention_evidence =
  re_retention_class :: string
  re_source_retention_ref :: string
  re_tombstone :: bool

record lineage_record =
  lr_record_id :: string
  lr_subject :: subject_identity
  lr_source :: source_evidence
  lr_rights :: rights_evidence
  lr_scan :: lineage_scan
  lr_receipts :: "evidence_reference list"
  lr_freshness :: freshness_evidence
  lr_publication :: publication_evidence
  lr_lineage :: lineage_links
  lr_blocking_reason_codes :: "string list"
  lr_retention :: retention_evidence

record lineage_ledger =
  ll_ledger_id :: string
  ll_records :: "lineage_record list"

section \<open>Validation of a record\<close>

definition subject_ok :: "(string \<Rightarrow> bool) \<Rightarrow> subject_identity \<Rightarrow> bool" where
  "subject_ok b s \<longleftrightarrow> 1 \<le> length (su_name s) \<and> length (su_name s) \<le> 200 \<and> PackageId (su_package_id s)
     \<and> opt_ok (\<lambda>v. 1 \<le> length v \<and> length v \<le> 100) (su_version s) \<and> PortableReference b (su_source_ref s)"

definition source_ok :: "(string \<Rightarrow> bool) \<Rightarrow> source_evidence \<Rightarrow> bool" where
  "source_ok b s \<longleftrightarrow> StableId (so_origin s) \<and> Sha256 (so_artifact_sha256 s)
     \<and> AwareDatetime (so_observed_at s) \<and> PortableReference b (so_evidence_ref s)"

definition rights_ok :: "(string \<Rightarrow> bool) \<Rightarrow> rights_evidence \<Rightarrow> bool" where
  "rights_ok b r \<longleftrightarrow> opt_ok StableId (ri_basis r) \<and> opt_ok StableId (ri_scope r)
     \<and> opt_ok StableId (ri_custodian r) \<and> opt_ok (PortableReference b) (ri_evidence_ref r)
     \<and> (let details = [ri_basis r, ri_scope r, ri_custodian r, ri_evidence_ref r] in
          \<not> (ri_status r = RightsUnknown \<and> list_ex (\<lambda>i. i \<noteq> None) details)
        \<and> \<not> (ri_status r \<noteq> RightsUnknown \<and> list_ex (\<lambda>i. i = None) details))"

definition sandbox_ref_ok :: "string \<Rightarrow> bool" where
  "sandbox_ref_ok s \<longleftrightarrow> 1 \<le> length s \<and> length s \<le> 200 \<and> is_alnum_char (hd s) \<and> list_all id_char s"

definition scan_ok :: "lineage_scan \<Rightarrow> bool" where
  "scan_ok s \<longleftrightarrow> StableId (ls_engine s) \<and> 1 \<le> length (ls_engine_version s)
     \<and> length (ls_engine_version s) \<le> 100 \<and> opt_ok Sha256 (ls_artifact_sha256 s)
     \<and> StableId (ls_scan_mode s) \<and> opt_ok sandbox_ref_ok (ls_sandbox_ref s)
     \<and> AwareDatetime (ls_started_at s) \<and> AwareDatetime (ls_ended_at s)
     \<and> \<not> utc_instant (ls_ended_at s) < utc_instant (ls_started_at s)
     \<and> \<not> (ls_sandbox_mode s = Docker \<and> ls_sandbox_ref s = None)
     \<and> \<not> (ls_sandbox_mode s \<noteq> Docker \<and> ls_sandbox_ref s \<noteq> None)"

definition evidence_ref_ok :: "(string \<Rightarrow> bool) \<Rightarrow> evidence_reference \<Rightarrow> bool" where
  "evidence_ref_ok b r \<longleftrightarrow> PortableReference b (er_ref r) \<and> Sha256 (er_sha256 r)"

definition freshness_ok :: "freshness_evidence \<Rightarrow> bool" where
  "freshness_ok f \<longleftrightarrow> StableId (fr_policy f) \<and> AwareDatetime (fr_expires_at f)"

definition publication_ok :: "(string \<Rightarrow> bool) \<Rightarrow> publication_evidence \<Rightarrow> bool" where
  "publication_ok b p \<longleftrightarrow> opt_ok StableId (pu_public_record_id p) \<and> opt_ok AwareDatetime (pu_published_at p)
     \<and> opt_ok AwareDatetime (pu_withdrawn_at p) \<and> list_all (PortableReference b) (pu_projections p)
     \<and> sorted_set (pu_projections p) = pu_projections p
     \<and> (case pu_state p of
          Draft \<Rightarrow> \<not> (pu_published_at p \<noteq> None \<or> pu_withdrawn_at p \<noteq> None \<or> pu_projections p \<noteq> [])
        | Published \<Rightarrow> \<not> (pu_public_record_id p = None \<or> pu_published_at p = None \<or> pu_projections p = [])
            \<and> pu_withdrawn_at p = None
        | Withdrawn \<Rightarrow> (case (pu_public_record_id p, pu_published_at p, pu_withdrawn_at p) of
              (Some _, Some pub, Some wd) \<Rightarrow> \<not> utc_instant wd < utc_instant pub \<and> pu_projections p = []
            | _ \<Rightarrow> False))"

definition links_ok :: "lineage_links \<Rightarrow> bool" where
  "links_ok l \<longleftrightarrow> opt_ok StableId (ln_predecessor l) \<and> opt_ok StableId (ln_successor l)
     \<and> list_all StableId (ln_supersedes l) \<and> sorted_set (ln_supersedes l) = ln_supersedes l"

definition quality_ok :: "string list \<Rightarrow> bool" where
  "quality_ok codes \<longleftrightarrow> list_all ReasonCode codes \<and> sorted_set codes = codes"

definition retention_ok :: "(string \<Rightarrow> bool) \<Rightarrow> retention_evidence \<Rightarrow> bool" where
  "retention_ok b r \<longleftrightarrow> StableId (re_retention_class r) \<and> PortableReference b (re_source_retention_ref r)"

definition boundaries_ok :: "lineage_record \<Rightarrow> bool" where
  "boundaries_ok r \<longleftrightarrow> (let codes = set (lr_blocking_reason_codes r) in
       \<not> (su_version (lr_subject r) = None \<and> ''SUBJECT_VERSION_UNKNOWN'' \<notin> codes)
     \<and> \<not> (lr_receipts r = [] \<and> ''RECEIPT_MISSING'' \<notin> codes)
     \<and> \<not> (ls_artifact_sha256 (lr_scan r) = None \<and> ''SCAN_ARTIFACT_DIGEST_UNKNOWN'' \<notin> codes)
     \<and> \<not> list_ex (\<lambda>ref. er_kind ref \<noteq> SCAN_RECEIPT) (lr_receipts r)
     \<and> \<not> (ls_network (lr_scan r) = NetUnknown \<and> ''SANDBOX_NETWORK_UNKNOWN'' \<notin> codes)
     \<and> \<not> (pu_state (lr_publication r) = Withdrawn \<and> \<not> re_tombstone (lr_retention r)))"

definition record_ok :: "(string \<Rightarrow> bool) \<Rightarrow> lineage_record \<Rightarrow> bool" where
  "record_ok b r \<longleftrightarrow> StableId (lr_record_id r) \<and> subject_ok b (lr_subject r) \<and> source_ok b (lr_source r)
     \<and> rights_ok b (lr_rights r) \<and> scan_ok (lr_scan r) \<and> list_all (evidence_ref_ok b) (lr_receipts r)
     \<and> freshness_ok (lr_freshness r) \<and> publication_ok b (lr_publication r) \<and> links_ok (lr_lineage r)
     \<and> quality_ok (lr_blocking_reason_codes r) \<and> retention_ok b (lr_retention r) \<and> boundaries_ok r"

section \<open>Validation of a ledger\<close>

definition by_id :: "lineage_record list \<Rightarrow> string \<Rightarrow> lineage_record option" where
  "by_id records = map_of (dict_of (map (\<lambda>r. (lr_record_id r, r)) records))"

definition same_package :: "lineage_record \<Rightarrow> lineage_record \<Rightarrow> bool" where
  "same_package a b \<longleftrightarrow> su_package_id (lr_subject a) = su_package_id (lr_subject b)"

definition link_predecessor :: "(string \<Rightarrow> lineage_record option) \<Rightarrow> lineage_record \<Rightarrow>
    (string \<times> string) list \<Rightarrow> (string \<times> string) list res" where
  "link_predecessor ids r derived = (case ln_predecessor (lr_lineage r) of
     None \<Rightarrow> Inr derived
   | Some pid \<Rightarrow> (case ids pid of
       None \<Rightarrow> Inl ValueError
     | Some p \<Rightarrow>
         if \<not> same_package p r then Inl ValueError
         else if pid \<in> fst ` set derived then Inl ValueError
         else if ln_successor (lr_lineage p) \<noteq> None \<and> ln_successor (lr_lineage p) \<noteq> Some (lr_record_id r)
         then Inl ValueError
         else Inr (dict_set pid (lr_record_id r) derived)))"

definition check_successor :: "(string \<Rightarrow> lineage_record option) \<Rightarrow> lineage_record \<Rightarrow> unit res" where
  "check_successor ids r = (case ln_successor (lr_lineage r) of
     None \<Rightarrow> Inr ()
   | Some sid \<Rightarrow> (case ids sid of
       None \<Rightarrow> Inl ValueError
     | Some s \<Rightarrow> if ln_predecessor (lr_lineage s) \<noteq> Some (lr_record_id r) then Inl ValueError
         else if \<not> same_package s r then Inl ValueError else Inr ()))"

fun link_records :: "(string \<Rightarrow> lineage_record option) \<Rightarrow> lineage_record list \<Rightarrow>
    (string \<times> string) list \<Rightarrow> (string \<times> string) list res" where
  "link_records ids [] derived = Inr derived"
| "link_records ids (r # rs) derived =
     bind_res (link_predecessor ids r derived) (\<lambda>derived'.
     bind_res (check_successor ids r) (\<lambda>_. link_records ids rs derived'))"

text \<open>The cycle check: the walk along derived successors, with the ids seen so far. The lookup in
  \<open>by_id\<close> never fails, because derived successors are record ids, so the walk follows ids.\<close>

function walk :: "(string \<times> string) list \<Rightarrow> string list \<Rightarrow> string \<Rightarrow> unit res" where
  "walk derived seen current = (case map_of derived current of
     None \<Rightarrow> Inr ()
   | Some next \<Rightarrow> if current \<in> set seen then Inl ValueError else walk derived (current # seen) next)"
  by pat_completeness auto

termination
proof (relation "measure (\<lambda>(derived, seen, current). card (fst ` set derived - set seen))")
  fix derived :: "(string \<times> string) list" and seen current nx
  assume a: "map_of derived current = Some nx" "current \<notin> set seen"
  then have "current \<in> fst ` set derived - set seen" by (auto dest: map_of_SomeD intro: rev_image_eqI)
  then have "fst ` set derived - set (current # seen) \<subset> fst ` set derived - set seen" by auto
  then show "((derived, current # seen, nx), (derived, seen, current))
      \<in> measure (\<lambda>(derived, seen, current). card (fst ` set derived - set seen))"
    by (simp add: psubset_card_mono)
qed simp

declare walk.simps [simp del]

definition validate_ledger :: "lineage_ledger \<Rightarrow> lineage_ledger res" where
  "validate_ledger l = (let ids = map lr_record_id (ll_records l) in
     if sorted_set ids \<noteq> ids then Inl ValueError
     else bind_res (link_records (by_id (ll_records l)) (ll_records l) []) (\<lambda>derived.
       bind_res (map_res (\<lambda>start. walk derived [] (lr_record_id start)) (ll_records l)) (\<lambda>_. Inr l)))"

definition make_ledger :: "(string \<Rightarrow> bool) \<Rightarrow> lineage_ledger \<Rightarrow> lineage_ledger res" where
  "make_ledger b l = (if \<not> StableId (ll_ledger_id l) \<or> ll_records l = [] \<or> \<not> list_all (record_ok b) (ll_records l)
     then Inl ValueError else validate_ledger l)"

section \<open>Assessment\<close>

definition KNOWN_BLOCKERS :: "string set" where
  "KNOWN_BLOCKERS = {''PUBLICATION_WITHDRAWN'', ''RIGHTS_RESTRICTED'', ''SUBJECT_VERSION_MISMATCH''}"

definition aware_utc :: "pydt \<Rightarrow> int res" where
  "aware_utc value = (if dt_offset value = None then Inl ValueError else as_utc value)"

definition base_reason_codes :: "lineage_record \<Rightarrow> int \<Rightarrow> string option \<Rightarrow> string set res" where
  "base_reason_codes r now expected_version =
     bind_res (as_utc (fr_expires_at (lr_freshness r))) (\<lambda>expires.
       Inr (set (lr_blocking_reason_codes r)
         \<union> (if lr_receipts r = [] then {''RECEIPT_MISSING''} else {})
         \<union> (if expires \<le> now then {''EVIDENCE_EXPIRED''} else {})
         \<union> (case expected_version of None \<Rightarrow> {}
            | Some v \<Rightarrow> (case su_version (lr_subject r) of None \<Rightarrow> {''SUBJECT_VERSION_UNKNOWN''}
                | Some w \<Rightarrow> if w \<noteq> v then {''SUBJECT_VERSION_MISMATCH''} else {}))))"

definition allow_status :: "string set \<Rightarrow> assessment_status" where
  "allow_status reasons = (if reasons \<inter> KNOWN_BLOCKERS \<noteq> {} then BLOCKED
     else if reasons \<noteq> {} then UNKNOWN else ALLOWED)"

definition rights_reasons :: "lineage_record \<Rightarrow> string set" where
  "rights_reasons r = (case ri_status (lr_rights r) of RightsUnknown \<Rightarrow> {''RIGHTS_UNKNOWN''}
     | Restricted \<Rightarrow> {''RIGHTS_RESTRICTED''} | Documented \<Rightarrow> {})"

definition withdrawn_reasons :: "lineage_record \<Rightarrow> string set" where
  "withdrawn_reasons r = (if pu_state (lr_publication r) = Withdrawn then {''PUBLICATION_WITHDRAWN''} else {})"

definition decide :: "lineage_record \<Rightarrow> lineage_decision \<Rightarrow> string set \<Rightarrow> assessment_status \<times> string set" where
  "decide r decision reasons = (case decision of
     Admit \<Rightarrow> (let rs = reasons \<union> withdrawn_reasons r in (allow_status rs, rs))
   | Refresh \<Rightarrow> (if reasons \<noteq> {} then REQUIRED else NOT_REQUIRED, reasons)
   | Publish \<Rightarrow> (let rs = reasons \<union> rights_reasons r \<union> withdrawn_reasons r in (allow_status rs, rs))
   | Withdraw \<Rightarrow> (case pu_state (lr_publication r) of
       Withdrawn \<Rightarrow> (COMPLETE, {})
     | Draft \<Rightarrow> (NOT_REQUIRED, {''NOT_PUBLISHED''})
     | Published \<Rightarrow> (let rs = reasons \<union> rights_reasons r in (if rs \<noteq> {} then REQUIRED else NOT_REQUIRED, rs))))"

record lineage_assessment =
  la_record_id :: string
  la_record_sha256 :: string
  la_decision :: lineage_decision
  la_status :: assessment_status
  la_assessed_at :: int
  la_expected_version :: "string option"
  la_reason_codes :: "string list"

text \<open>The digest of the canonical dump of the record is a parameter.\<close>

definition assess_lineage :: "(lineage_record \<Rightarrow> string) \<Rightarrow> lineage_record \<Rightarrow> lineage_decision \<Rightarrow> pydt \<Rightarrow>
    string option \<Rightarrow> lineage_assessment res" where
  "assess_lineage digest r decision now expected_version =
     bind_res (aware_utc now) (\<lambda>assessed_at.
     bind_res (base_reason_codes r assessed_at expected_version) (\<lambda>reasons.
       let (status, codes) = decide r decision reasons in
       Inr \<lparr>la_record_id = lr_record_id r, la_record_sha256 = digest r, la_decision = decision,
         la_status = status, la_assessed_at = assessed_at, la_expected_version = expected_version,
         la_reason_codes = sorted_list_of_set codes\<rparr>))"

section \<open>Facts about ledgers\<close>

definition lineage_edges :: "lineage_record list \<Rightarrow> (string \<times> string) set" where
  "lineage_edges rs = {(p, lr_record_id r) | p r. r \<in> set rs \<and> ln_predecessor (lr_lineage r) = Some p}"

definition dict_edges :: "(string \<times> string) list \<Rightarrow> (string \<times> string) set" where
  "dict_edges d = {(a, b). map_of d a = Some b}"

lemma walk_step: "walk d seen c = (case map_of d c of None \<Rightarrow> Inr ()
    | Some n \<Rightarrow> if c \<in> set seen then Inl ValueError else walk d (c # seen) n)"
  by (simp add: walk.simps)

lemma walk_avoids_seen:
  "walk d seen c = Inr () \<Longrightarrow> (c, x) \<in> (dict_edges d)\<^sup>* \<Longrightarrow> map_of d x \<noteq> None \<Longrightarrow> x \<notin> set seen"
proof (induction d seen c rule: walk.induct)
  case (1 d seen c)
  show ?case
  proof (cases "map_of d c")
    case None
    then have "x = c" using 1(3) by (auto simp: dict_edges_def elim: converse_rtranclE)
    then show ?thesis using None 1(4) by simp
  next
    case (Some n)
    then have c: "c \<notin> set seen" "walk d (c # seen) n = Inr ()"
      using 1(2) by (auto simp: walk_step [of d seen c] split: if_splits)
    show ?thesis
    proof (cases "x = c")
      case False
      then have "(n, x) \<in> (dict_edges d)\<^sup>*"
        using 1(3) Some by (auto simp: dict_edges_def elim: converse_rtranclE)
      then show ?thesis using 1(1) [OF Some c(1) c(2) _ 1(4)] by simp
    qed (use c in simp)
  qed
qed

lemma walk_no_cycle: "walk d [] c = Inr () \<Longrightarrow> (c, c) \<notin> (dict_edges d)\<^sup>+"
proof
  assume w: "walk d [] c = Inr ()" and cyc: "(c, c) \<in> (dict_edges d)\<^sup>+"
  obtain n where n: "(c, n) \<in> dict_edges d" "(n, c) \<in> (dict_edges d)\<^sup>*"
    using cyc by (metis tranclD)
  then have m: "map_of d c = Some n" by (simp add: dict_edges_def)
  then have "walk d [c] n = Inr ()" using w by (simp add: walk_step [of d "[]" c])
  from walk_avoids_seen [OF this n(2)] m show False by simp
qed

lemma link_predecessor_edges:
  assumes "link_predecessor ids r d = Inr d'"
  shows "dict_edges d' = dict_edges d \<union> lineage_edges [r]
    \<and> (\<forall>p. ln_predecessor (lr_lineage r) = Some p \<longrightarrow> (\<exists>q. ids p = Some q \<and> same_package q r))"
proof (cases "ln_predecessor (lr_lineage r)")
  case None
  then show ?thesis using assms by (simp add: link_predecessor_def lineage_edges_def)
next
  case (Some p)
  then obtain q where q: "ids p = Some q" "same_package q r" "p \<notin> fst ` set d"
      "d' = dict_set p (lr_record_id r) d"
    using assms by (auto simp: link_predecessor_def split: option.splits if_splits)
  then have "map_of d p = None" by (simp add: map_of_eq_None_iff)
  then have "dict_edges d' = dict_edges d \<union> {(p, lr_record_id r)}"
    using q(4) by (auto simp: dict_edges_def split: if_splits)
  then show ?thesis using q Some by (simp add: lineage_edges_def)
qed

lemma link_records_edges:
  assumes "link_records ids rs d = Inr d'"
  shows "dict_edges d' = dict_edges d \<union> lineage_edges rs
    \<and> (\<forall>r \<in> set rs. \<forall>p. ln_predecessor (lr_lineage r) = Some p \<longrightarrow> (\<exists>q. ids p = Some q \<and> same_package q r))
    \<and> (\<forall>r \<in> set rs. check_successor ids r = Inr ())"
  using assms
proof (induction rs arbitrary: d)
  case (Cons r rs)
  then obtain d1 where d1: "link_predecessor ids r d = Inr d1" "check_successor ids r = Inr ()"
      "link_records ids rs d1 = Inr d'" by auto
  have "lineage_edges (r # rs) = lineage_edges [r] \<union> lineage_edges rs" by (auto simp: lineage_edges_def)
  then show ?case using link_predecessor_edges [OF d1(1)] Cons.IH [OF d1(3)] d1(2) by auto
qed (simp add: lineage_edges_def)

lemma by_id_distinct:
  assumes "distinct (map lr_record_id rs)"
  shows "by_id rs i = Some r \<longleftrightarrow> r \<in> set rs \<and> lr_record_id r = i"
proof -
  have "distinct (map fst (rev (map (\<lambda>r. (lr_record_id r, r)) rs)))"
    using assms by (simp add: rev_map [symmetric] comp_def)
  then show ?thesis by (auto simp: by_id_def map_of_dict_of simp del: rev_map)
qed

lemma predecessor_single_valued: "distinct (map lr_record_id rs) \<Longrightarrow> single_valued ((lineage_edges rs)\<inverse>)"
proof (rule single_valuedI)
  fix j i k
  assume d: "distinct (map lr_record_id rs)" and "(j, i) \<in> (lineage_edges rs)\<inverse>" "(j, k) \<in> (lineage_edges rs)\<inverse>"
  then obtain r q where "r \<in> set rs" "q \<in> set rs" "lr_record_id r = lr_record_id q"
      "ln_predecessor (lr_lineage r) = Some i" "ln_predecessor (lr_lineage q) = Some k"
    unfolding lineage_edges_def by blast
  then show "i = k" using d by (metis distinct_map inj_onD option.inject)
qed

definition package_of :: "lineage_record list \<Rightarrow> string \<Rightarrow> string option" where
  "package_of rs i = map_option (\<lambda>r. su_package_id (lr_subject r)) (by_id rs i)"

lemma assess_lineage_Inr:
  assumes "assess_lineage dg r decision now v = Inr a"
  shows "\<exists>rs. base_reason_codes r (utc_instant now) v = Inr rs \<and> la_status a = fst (decide r decision rs)
    \<and> la_reason_codes a = sorted_list_of_set (snd (decide r decision rs))"
proof -
  obtain t rs where "aware_utc now = Inr t" "base_reason_codes r t v = Inr rs"
      "Inr a = (Inr \<lparr>la_record_id = lr_record_id r, la_record_sha256 = dg r, la_decision = decision,
         la_status = fst (decide r decision rs), la_assessed_at = t, la_expected_version = v,
         la_reason_codes = sorted_list_of_set (snd (decide r decision rs))\<rparr> :: lineage_assessment res)"
    using assms by (auto simp: assess_lineage_def case_prod_unfold Let_def)
  moreover from this(1) have "t = utc_instant now" by (simp add: aware_utc_def split: if_splits)
  ultimately show ?thesis by auto
qed

section \<open>Properties\<close>

text \<open>C10. An accepted ledger is a set of chains: its predecessor links, read as edges, stay inside the
  ledger, never branch or merge, never form a cycle, and keep the package along every path; every
  declared successor is one of these edges.\<close>

theorem accepted_ledger_is_chains:
  assumes "make_ledger b l = Inr l'"
  defines "E \<equiv> lineage_edges (ll_records l)"
  shows "l' = l \<and> acyclic E \<and> single_valued E \<and> single_valued (E\<inverse>)
    \<and> Field E \<subseteq> lr_record_id ` set (ll_records l)
    \<and> (\<forall>i j. (i, j) \<in> E\<^sup>+ \<longrightarrow> package_of (ll_records l) i = package_of (ll_records l) j)
    \<and> (\<forall>r \<in> set (ll_records l). \<forall>s. ln_successor (lr_lineage r) = Some s \<longrightarrow> (lr_record_id r, s) \<in> E)"
proof -
  let ?rs = "ll_records l"
  obtain d us where d: "sorted_set (map lr_record_id ?rs) = map lr_record_id ?rs"
      "link_records (by_id ?rs) ?rs [] = Inr d"
      "map_res (\<lambda>start. walk d [] (lr_record_id start)) ?rs = Inr us" "l' = l"
    using assms(1) by (auto simp: make_ledger_def validate_ledger_def Let_def split: if_splits)
  have ids: "distinct (map lr_record_id ?rs)" using d(1) by (metis distinct_sorted_set)
  note L = link_records_edges [OF d(2)]
  have E: "E = dict_edges d" using L by (simp add: E_def dict_edges_def)
  have walks: "walk d [] (lr_record_id r) = Inr ()" if "r \<in> set ?rs" for r
    using d(3) that by (auto simp: map_res_Inr_iff list_all2_conv_all_nth in_set_conv_nth)
  have fieldE: "i \<in> lr_record_id ` set ?rs \<and> j \<in> lr_record_id ` set ?rs
      \<and> package_of ?rs i = package_of ?rs j" if e: "(i, j) \<in> E" for i j
  proof -
    obtain r where r: "r \<in> set ?rs" "j = lr_record_id r" "ln_predecessor (lr_lineage r) = Some i"
      using e by (auto simp: E_def lineage_edges_def)
    then obtain q where q: "by_id ?rs i = Some q" "same_package q r" using L by blast
    have "by_id ?rs j = Some r" using r by_id_distinct [OF ids] by blast
    moreover have "i \<in> lr_record_id ` set ?rs" using q(1) by_id_distinct [OF ids] by auto
    ultimately show ?thesis using r(1,2) q by (simp add: package_of_def same_package_def)
  qed
  have "acyclic E"
  proof (rule acyclicI, rule allI, rule notI)
    fix x assume c: "(x, x) \<in> E\<^sup>+"
    then have "x \<in> lr_record_id ` set ?rs" using fieldE by (metis tranclD)
    then show False using walk_no_cycle walks c E by blast
  qed
  moreover have "single_valued E" by (auto simp: E dict_edges_def single_valued_def)
  moreover have "single_valued (E\<inverse>)"
    using ids unfolding E_def by (rule predecessor_single_valued)
  moreover have "package_of ?rs i = package_of ?rs j" if "(i, j) \<in> E\<^sup>+" for i j
    using that by (induction) (auto dest: fieldE)
  moreover have "(lr_record_id r, s) \<in> E" if rs: "r \<in> set ?rs" "ln_successor (lr_lineage r) = Some s" for r s
  proof -
    have "check_successor (by_id ?rs) r = Inr ()" using L rs by blast
    then obtain q where "by_id ?rs s = Some q" "ln_predecessor (lr_lineage q) = Some (lr_record_id r)"
      using rs(2) by (auto simp: check_successor_def split: option.splits if_splits)
    then show ?thesis using by_id_distinct [OF ids] by (auto simp: E_def lineage_edges_def)
  qed
  moreover have "Field E \<subseteq> lr_record_id ` set ?rs" using fieldE by (auto simp: Field_def)
  ultimately show ?thesis using d(4) by blast
qed

text \<open>C11. Fail-closed decisions: an assessment allows admission exactly when the record has no blocking
  code, has a receipt, is unexpired, matches the expected version and is not withdrawn; publication
  needs documented rights besides; an allowed assessment carries no reason code, and a known blocker
  among the codes is what makes it blocked rather than unknown.\<close>

theorem allowed_only_on_complete_evidence:
  assumes "assess_lineage dg r decision now v = Inr a" "decision = Admit \<or> decision = Publish"
  shows "(la_status a = ALLOWED \<longleftrightarrow> lr_blocking_reason_codes r = [] \<and> lr_receipts r \<noteq> []
      \<and> utc_instant now < utc_instant (fr_expires_at (lr_freshness r))
      \<and> (v = None \<or> su_version (lr_subject r) = v) \<and> pu_state (lr_publication r) \<noteq> Withdrawn
      \<and> (decision = Publish \<longrightarrow> ri_status (lr_rights r) = Documented))
    \<and> (la_status a = ALLOWED \<longleftrightarrow> la_reason_codes a = [])
    \<and> (la_status a = BLOCKED \<longleftrightarrow> set (la_reason_codes a) \<inter> KNOWN_BLOCKERS \<noteq> {})
    \<and> la_status a \<in> {ALLOWED, BLOCKED, UNKNOWN}"
proof -
  obtain rs where rs: "base_reason_codes r (utc_instant now) v = Inr rs" and a: "la_status a = fst (decide r decision rs)"
      "la_reason_codes a = sorted_list_of_set (snd (decide r decision rs))"
    using assess_lineage_Inr [OF assms(1)] by blast
  define codes where "codes = snd (decide r decision rs)"
  have codes: "codes = rs \<union> withdrawn_reasons r \<union> (if decision = Publish then rights_reasons r else {})"
    using assms(2) by (auto simp: codes_def decide_def Let_def)
  have st: "la_status a = allow_status codes"
    using assms(2) by (auto simp: a codes_def decide_def Let_def)
  have rs_empty: "rs = {} \<longleftrightarrow> lr_blocking_reason_codes r = [] \<and> lr_receipts r \<noteq> []
      \<and> utc_instant now < utc_instant (fr_expires_at (lr_freshness r))
      \<and> (v = None \<or> su_version (lr_subject r) = v)"
    using rs by (auto simp: base_reason_codes_def split: if_splits option.splits)
  have "finite rs" using rs by (auto simp: base_reason_codes_def split: if_splits option.splits)
  then have fin: "finite codes"
    by (auto simp: codes rights_reasons_def withdrawn_reasons_def split: rights_status.split)
  have "la_reason_codes a = sorted_list_of_set codes" by (simp add: a codes_def)
  then have "set (la_reason_codes a) = codes" "la_reason_codes a = [] \<longleftrightarrow> codes = {}"
    using fin by simp_all
  moreover have "codes = {} \<longleftrightarrow> rs = {} \<and> pu_state (lr_publication r) \<noteq> Withdrawn
      \<and> (decision = Publish \<longrightarrow> ri_status (lr_rights r) = Documented)"
    by (auto simp: codes withdrawn_reasons_def rights_reasons_def split: rights_status.splits)
  moreover have "la_status a = ALLOWED \<longleftrightarrow> codes = {}" "la_status a = BLOCKED \<longleftrightarrow> codes \<inter> KNOWN_BLOCKERS \<noteq> {}"
      "la_status a \<in> {ALLOWED, BLOCKED, UNKNOWN}"
    by (auto simp: st allow_status_def)
  ultimately show ?thesis using rs_empty by simp
qed

lemma base_reason_codes_mono:
  "base_reason_codes r t v = Inr rs \<Longrightarrow> t \<le> t' \<Longrightarrow> base_reason_codes r t' v = Inr rs' \<Longrightarrow> rs \<subseteq> rs'"
  by (auto simp: base_reason_codes_def split: if_splits option.splits)

text \<open>Evidence only ages: what is allowed at a later time was allowed at every earlier one, and what
  may be published may be admitted.\<close>

lemma allowed_is_downward_closed:
  assumes "assess_lineage dg r Publish now v = Inr a" "la_status a = ALLOWED"
    and "assess_lineage dg r decision earlier v = Inr a'" "utc_instant earlier \<le> utc_instant now"
    and "decision = Admit \<or> decision = Publish"
  shows "la_status a' = ALLOWED"
proof -
  obtain rs where rs: "base_reason_codes r (utc_instant now) v = Inr rs"
      "la_status a = fst (decide r Publish rs)"
    using assess_lineage_Inr [OF assms(1)] by blast
  then have empty: "rs \<union> rights_reasons r \<union> withdrawn_reasons r = {}"
    using assms(2) by (simp add: decide_def Let_def allow_status_def split: if_splits)
  obtain rs' where rs': "base_reason_codes r (utc_instant earlier) v = Inr rs'"
      "la_status a' = fst (decide r decision rs')"
    using assess_lineage_Inr [OF assms(3)] by blast
  have "rs' \<subseteq> rs" by (rule base_reason_codes_mono [OF rs'(1) assms(4) rs(1)])
  then show ?thesis using empty rs'(2) assms(5) by (auto simp: decide_def Let_def allow_status_def)
qed

text \<open>Withdrawal is terminal: an admissible withdrawn record keeps a tombstone and no public
  projection, and at any time every assessment of it refuses admission and publication as blocked and
  reports the withdrawal complete with no reason left.\<close>

lemma withdrawn_is_terminal:
  assumes "record_ok b r" "pu_state (lr_publication r) = Withdrawn"
    and "assess_lineage dg r decision now v = Inr a"
  shows "re_tombstone (lr_retention r) \<and> pu_projections (lr_publication r) = []
    \<and> (decision = Admit \<or> decision = Publish \<longrightarrow>
        la_status a = BLOCKED \<and> ''PUBLICATION_WITHDRAWN'' \<in> set (la_reason_codes a))
    \<and> (decision = Withdraw \<longrightarrow> la_status a = COMPLETE \<and> la_reason_codes a = [])"
proof -
  obtain rs where rs: "base_reason_codes r (utc_instant now) v = Inr rs" and a: "la_status a = fst (decide r decision rs)"
      "la_reason_codes a = sorted_list_of_set (snd (decide r decision rs))"
    using assess_lineage_Inr [OF assms(3)] by blast
  have fin: "finite rs" "finite (rights_reasons r)"
    using rs by (auto simp: base_reason_codes_def rights_reasons_def split: if_splits option.splits rights_status.splits)
  have "re_tombstone (lr_retention r)" using assms(1,2) by (simp add: record_ok_def boundaries_ok_def Let_def)
  moreover have "pu_projections (lr_publication r) = []"
    using assms(1,2) by (auto simp: record_ok_def publication_ok_def split: option.splits)
  ultimately show ?thesis
    using assms(2) fin by (auto simp: a decide_def Let_def allow_status_def withdrawn_reasons_def KNOWN_BLOCKERS_def set_insort_key)
qed

section \<open>Witnesses\<close>

definition hex64 :: string where
  "hex64 = replicate 64 CHR ''0''"

definition sample_record :: lineage_record where
  "sample_record = \<lparr>lr_record_id = ''rec-1'',
     lr_subject = \<lparr>su_name = ''Demo'', su_package_id = ''@demo/server'', su_version = Some ''1.0.0'',
       su_source_ref = ''docs/demo.md''\<rparr>,
     lr_source = \<lparr>so_origin = ''npm'', so_artifact_sha256 = hex64, so_observed_at = utc_dt 0,
       so_evidence_ref = ''docs/evidence.md''\<rparr>,
     lr_rights = \<lparr>ri_status = Documented, ri_basis = Some ''mit'', ri_scope = Some ''all'',
       ri_custodian = Some ''team'', ri_evidence_ref = Some ''LICENSE''\<rparr>,
     lr_scan = \<lparr>ls_engine = ''mcpaudit'', ls_engine_version = ''2.7.0'', ls_artifact_sha256 = Some hex64,
       ls_scan_mode = ''live'', ls_sandbox_mode = Docker, ls_sandbox_ref = Some ''img:1'',
       ls_network = NetNone, ls_started_at = utc_dt 0, ls_ended_at = utc_dt 1\<rparr>,
     lr_receipts = [\<lparr>er_kind = SCAN_RECEIPT, er_ref = ''receipts/a.json'', er_sha256 = hex64\<rparr>],
     lr_freshness = \<lparr>fr_policy = ''p90'', fr_expires_at = utc_dt (90 * us_per_day)\<rparr>,
     lr_publication = \<lparr>pu_state = Draft, pu_public_record_id = None, pu_published_at = None,
       pu_withdrawn_at = None, pu_projections = []\<rparr>,
     lr_lineage = \<lparr>ln_predecessor = None, ln_successor = Some ''rec-2'', ln_supersedes = []\<rparr>,
     lr_blocking_reason_codes = [],
     lr_retention = \<lparr>re_retention_class = ''standard'', re_source_retention_ref = ''docs/retention.md'',
       re_tombstone = False\<rparr>\<rparr>"

definition sample_next :: lineage_record where
  "sample_next = sample_record\<lparr>lr_record_id := ''rec-2'',
     lr_lineage := \<lparr>ln_predecessor = Some ''rec-1'', ln_successor = None, ln_supersedes = []\<rparr>\<rparr>"

definition sample_withdrawn :: lineage_record where
  "sample_withdrawn = sample_record\<lparr>
     lr_publication := \<lparr>pu_state = Withdrawn, pu_public_record_id = Some ''pub-1'', pu_published_at = Some (utc_dt 2),
       pu_withdrawn_at = Some (utc_dt 3), pu_projections = []\<rparr>,
     lr_retention := (lr_retention sample_record)\<lparr>re_tombstone := True\<rparr>\<rparr>"

definition sample_ledger :: lineage_ledger where
  "sample_ledger = \<lparr>ll_ledger_id = ''ledger'', ll_records = [sample_record, sample_next]\<rparr>"

lemma sample_record_ok: "record_ok (\<lambda>_. False) sample_record"
  by code_simp

lemma sample_withdrawn_ok: "record_ok (\<lambda>_. False) sample_withdrawn"
  by code_simp

lemma sample_ledger_ok: "make_ledger (\<lambda>_. False) sample_ledger = Inr sample_ledger"
  by code_simp

lemma sample_allowed: "\<exists>a. assess_lineage (\<lambda>_. hex64) sample_record Publish (utc_dt us_per_day) (Some ''1.0.0'') = Inr a
    \<and> la_status a = ALLOWED"
  by (simp add: assess_lineage_def aware_utc_def utc_dt_def as_utc_def utc_instant_def dt_in_range_def dt_limit_def
      us_per_day_def base_reason_codes_def sample_record_def decide_def Let_def rights_reasons_def
      withdrawn_reasons_def allow_status_def)

lemma sample_admitted: "\<exists>a. assess_lineage (\<lambda>_. hex64) sample_record Admit (utc_dt 0) (Some ''1.0.0'') = Inr a"
  by (simp add: assess_lineage_def aware_utc_def utc_dt_def as_utc_def utc_instant_def dt_in_range_def dt_limit_def
      us_per_day_def base_reason_codes_def sample_record_def decide_def Let_def)

lemma sample_withdrawn_assessed: "\<exists>a. assess_lineage (\<lambda>_. hex64) sample_withdrawn Publish (utc_dt 5) None = Inr a"
  by (simp add: assess_lineage_def aware_utc_def utc_dt_def as_utc_def utc_instant_def dt_in_range_def dt_limit_def
      us_per_day_def base_reason_codes_def sample_withdrawn_def sample_record_def decide_def Let_def)

theorem accepted_ledger_is_chains_witness: "acyclic (lineage_edges (ll_records sample_ledger))"
  using accepted_ledger_is_chains [OF sample_ledger_ok] by blast

theorem allowed_only_on_complete_evidence_witness:
  "\<exists>a. assess_lineage (\<lambda>_. hex64) sample_record Publish (utc_dt us_per_day) (Some ''1.0.0'') = Inr a
    \<and> la_reason_codes a = []"
proof -
  obtain a where a: "assess_lineage (\<lambda>_. hex64) sample_record Publish (utc_dt us_per_day) (Some ''1.0.0'') = Inr a"
      "la_status a = ALLOWED" using sample_allowed by blast
  then show ?thesis using allowed_only_on_complete_evidence [OF a(1)] by blast
qed

end
