(* ===== verification/Snapshot_Validation.thy ===== *)
theory Snapshot_Validation
  imports Governance Grading
begin

text \<open>
  Admission of the packaged catalog snapshot (\<open>catalog/runtime_snapshot.py\<close>): the JSON hooks, one
  definition per validator, and the parser that raises with the collected reason codes. A validator
  returns the set of codes it adds; the one that may raise returns it in \<open>res\<close>.
\<close>

section \<open>Constants\<close>

definition GRADES :: "string list" where
  "GRADES = [''A'', ''B'', ''C'', ''D'', ''F'']"

definition TRANSPARENCY_LEVELS :: "string list" where
  "TRANSPARENCY_LEVELS = [''high'', ''medium'', ''low'']"

definition SOURCE_KINDS :: "string list" where
  "SOURCE_KINDS = [''npm'', ''pypi'', ''git'', ''binary'', ''remote'']"

definition FINDING_SEVERITIES :: "string list" where
  "FINDING_SEVERITIES = [''critical'', ''high'', ''medium'', ''low'', ''info'']"

definition SCAN_MODES :: "string list" where
  "SCAN_MODES = [''mcpaudit-local-network-off'', ''mcpaudit-local-network-unknown'',
     ''mcpaudit-local-provenance-unknown'', ''mcpaudit-remote-live-network'']"

definition GRADE_CHANGE_CAUSES :: "string list" where
  "GRADE_CHANGE_CAUSES = [''surface-changed'', ''engine-changed'', ''score-moved'', ''undetermined'', ''no-change'']"

definition SURFACE_COMPARISONS :: "string list" where
  "SURFACE_COMPARISONS = [''changed'', ''unchanged'', ''unknown'']"

definition DIMENSIONS :: "string list" where
  "DIMENSIONS = [''file_access'', ''network_access'', ''shell_execution'', ''destructive'', ''exfiltration'']"

definition SERVER_REQUIRED_FIELDS :: "string list" where
  "SERVER_REQUIRED_FIELDS = [''slug'', ''name'', ''description'', ''homepage'', ''grade'', ''transparency'',
     ''danger_score'', ''dimensions'', ''annotation_coverage'', ''findings'', ''evidence'', ''source'',
     ''engine'', ''engine_version'', ''scan_mode'', ''sandbox'', ''scanned_at'', ''scan_age_days'',
     ''grade_change'', ''requires_credentials'']"

definition MAX_RAW_BYTES :: nat where "MAX_RAW_BYTES = 1048576"
definition MAX_SERVERS :: nat where "MAX_SERVERS = 256"
definition MAX_FINDINGS :: nat where "MAX_FINDINGS = 1024"
definition MAX_TOOLS :: nat where "MAX_TOOLS = 2048"
definition MAX_PUBLIC_STRING :: nat where "MAX_PUBLIC_STRING = 4096"

section \<open>Small tests\<close>

text \<open>\<open>if c: reasons.add(code)\<close>.\<close>

definition flag :: "bool \<Rightarrow> string \<Rightarrow> string set" where
  "flag c code = (if c then {code} else {})"

lemma flag_empty [simp]: "flag c code = {} \<longleftrightarrow> \<not> c"
  by (simp add: flag_def)

fun nonempty_string :: "pyval \<Rightarrow> bool" where
  "nonempty_string (PStr s) \<longleftrightarrow> py_strip s \<noteq> []"
| "nonempty_string _ \<longleftrightarrow> False"

fun is_integer :: "pyval \<Rightarrow> bool" where
  "is_integer (PInt _) \<longleftrightarrow> True"
| "is_integer _ \<longleftrightarrow> False"

fun supported_string :: "pyval \<Rightarrow> string list \<Rightarrow> bool" where
  "supported_string (PStr s) allowed \<longleftrightarrow> s \<in> set allowed"
| "supported_string _ allowed \<longleftrightarrow> False"

text \<open>\<open>float(value)\<close> of a number.\<close>

fun to_float :: "pyval \<Rightarrow> pyfloat res" where
  "to_float (PInt n) = map_sum id Fin (float_of_int n)"
| "to_float (PFloat f) = Inr f"
| "to_float _ = Inl TypeError"

fun finite_in :: "pyfloat \<Rightarrow> rat \<Rightarrow> rat option \<Rightarrow> bool" where
  "finite_in (Fin x) minimum maximum \<longleftrightarrow> minimum \<le> x \<and> (case maximum of None \<Rightarrow> True | Some m \<Rightarrow> x \<le> m)"
| "finite_in _ minimum maximum \<longleftrightarrow> False"

definition number_in_range :: "pyval \<Rightarrow> rat \<Rightarrow> rat option \<Rightarrow> bool" where
  "number_in_range value minimum maximum \<longleftrightarrow>
     (case to_float value of Inl _ \<Rightarrow> False | Inr f \<Rightarrow> finite_in f minimum maximum)"

definition ends_with_Z :: "string \<Rightarrow> bool" where
  "ends_with_Z s \<longleftrightarrow> s \<noteq> [] \<and> last s = CHR ''Z''"

definition timezone_aware_datetime :: "platform \<Rightarrow> pyval \<Rightarrow> bool" where
  "timezone_aware_datetime pf value = (case value of
     PStr s \<Rightarrow> s \<noteq> [] \<and> (case iso_parse pf (if ends_with_Z s then butlast s @ ''+00:00'' else s) of
         None \<Rightarrow> False | Some d \<Rightarrow> dt_offset d \<noteq> None)
   | _ \<Rightarrow> False)"

definition parse_aware_datetime :: "platform \<Rightarrow> pyval \<Rightarrow> int option res" where
  "parse_aware_datetime pf value = (case value of
     PStr s \<Rightarrow> (case iso_parse pf (replace_Z s) of
         None \<Rightarrow> Inr None
       | Some d \<Rightarrow> if dt_offset d = None then Inr None else bind_res (as_utc d) (\<lambda>t. Inr (Some t)))
   | _ \<Rightarrow> Inr None)"

section \<open>Fields of one server\<close>

definition missing_field_code :: "(string \<times> string) list" where
  "missing_field_code = [(''annotation_coverage'', ''ANNOTATION_COVERAGE_INVALID''),
     (''danger_score'', ''DANGER_SCORE_INVALID''), (''dimensions'', ''DIMENSIONS_INVALID''),
     (''engine'', ''ENGINE_INVALID''), (''evidence'', ''EVIDENCE_INVALID''), (''findings'', ''FINDINGS_INVALID''),
     (''grade'', ''GRADE_UNSUPPORTED''), (''grade_change'', ''GRADE_CHANGE_INVALID''),
     (''sandbox'', ''SANDBOX_INVALID''), (''scan_age_days'', ''SCAN_AGE_INVALID''),
     (''scan_mode'', ''SCAN_MODE_UNSUPPORTED''), (''scanned_at'', ''SCANNED_AT_INVALID''),
     (''slug'', ''SLUG_INVALID''), (''source'', ''SOURCE_INVALID''), (''transparency'', ''TRANSPARENCY_UNSUPPORTED'')]"

definition add_missing_field_reasons :: "string list \<Rightarrow> string set" where
  "add_missing_field_reasons missing =
     set (map snd (filter (\<lambda>(field, code). field \<in> set missing) missing_field_code))"

definition too_long :: "pyval \<Rightarrow> bool" where
  "too_long v = (case v of PStr s \<Rightarrow> MAX_PUBLIC_STRING < length s | _ \<Rightarrow> False)"

definition validate_basic_fields :: "pydict \<Rightarrow> string set" where
  "validate_basic_fields server =
     flag (\<not> nonempty_string (dget server ''name'')) ''SERVER_FIELD_TYPE_INVALID''
   \<union> flag (\<not> is_str (dget server ''description'')) ''SERVER_FIELD_TYPE_INVALID''
   \<union> flag (dget server ''homepage'' \<noteq> PNone \<and> \<not> nonempty_string (dget server ''homepage'')) ''SERVER_FIELD_TYPE_INVALID''
   \<union> flag (dget server ''engine'' \<noteq> PStr ''mcpaudit'') ''ENGINE_INVALID''
   \<union> flag (\<not> nonempty_string (dget server ''engine_version'')) ''SERVER_FIELD_TYPE_INVALID''
   \<union> flag (list_ex (\<lambda>k. too_long (dget server k)) [''name'', ''description'', ''homepage'', ''engine_version''])
       ''SERVER_STRING_LIMIT_EXCEEDED''"

definition validate_grade_fields :: "pydict \<Rightarrow> string set" where
  "validate_grade_fields server =
     flag (\<not> supported_string (dget server ''grade'') GRADES) ''GRADE_UNSUPPORTED''
   \<union> flag (\<not> supported_string (dget server ''transparency'') TRANSPARENCY_LEVELS) ''TRANSPARENCY_UNSUPPORTED''
   \<union> flag (\<not> number_in_range (dget server ''danger_score'') 0 (Some 10)) ''DANGER_SCORE_INVALID''
   \<union> flag (\<not> number_in_range (dget server ''annotation_coverage'') 0 (Some 1)) ''ANNOTATION_COVERAGE_INVALID''"

definition danger_band :: "rat \<Rightarrow> string" where
  "danger_band score = (if score \<le> 2 then ''A'' else if score \<le> 7 / 2 then ''B'' else if score \<le> 5 then ''C''
     else if score \<le> 15 / 2 then ''D'' else ''F'')"

definition transparency_band :: "rat \<Rightarrow> string" where
  "transparency_band coverage = (if f64 (7 / 10) \<le> coverage then ''high''
     else if f64 (3 / 10) \<le> coverage then ''medium'' else ''low'')"

definition half_cent :: rat where
  "half_cent = f64 (5 / 1000)"

definition is_critical :: "pyval \<Rightarrow> bool" where
  "is_critical f = (case f of PDict d \<Rightarrow> dget d ''severity'' = PStr ''critical'' | _ \<Rightarrow> False)"

definition has_critical :: "pyval \<Rightarrow> bool" where
  "has_critical findings = (case findings of PList fs \<Rightarrow> list_ex is_critical fs | _ \<Rightarrow> False)"

definition cap_candidate :: "string \<Rightarrow> string" where
  "cap_candidate c = (if c \<in> {''D'', ''F''} then c else ''D'')"

definition danger_candidates :: "rat \<Rightarrow> bool \<Rightarrow> string list" where
  "danger_candidates numeric critical =
     (let cs = [danger_band (max 0 (f64 (numeric - half_cent))), danger_band (min 10 (f64 (numeric + half_cent)))]
      in if critical then map cap_candidate cs else cs)"

definition coverage_candidates :: "rat \<Rightarrow> string list" where
  "coverage_candidates numeric =
     [transparency_band (max 0 (f64 (numeric - half_cent))), transparency_band (min 1 (f64 (numeric + half_cent)))]"

definition validate_grade_binding :: "pydict \<Rightarrow> string set" where
  "validate_grade_binding server =
     (let grade = dget server ''grade''; danger = dget server ''danger_score'';
          transparency = dget server ''transparency''; coverage = dget server ''annotation_coverage''
      in (if supported_string grade GRADES \<and> number_in_range danger 0 (Some 10)
          then (case to_float danger of Inr (Fin numeric) \<Rightarrow>
              flag (\<not> supported_string grade (danger_candidates numeric (has_critical (dget server ''findings''))))
                ''GRADE_DANGER_MISMATCH''
            | _ \<Rightarrow> {}) else {})
       \<union> (if supported_string transparency TRANSPARENCY_LEVELS \<and> number_in_range coverage 0 (Some 1)
          then (case to_float coverage of Inr (Fin numeric) \<Rightarrow>
              flag (\<not> supported_string transparency (coverage_candidates numeric)) ''TRANSPARENCY_COVERAGE_MISMATCH''
            | _ \<Rightarrow> {}) else {}))"

definition validate_dimensions :: "pyval \<Rightarrow> string set" where
  "validate_dimensions value = (case value of
     PDict d \<Rightarrow> flag (\<not> list_all (has_key d) DIMENSIONS) ''DIMENSIONS_INVALID''
       \<union> flag (list_ex (\<lambda>k. has_key d k \<and> \<not> number_in_range (dget d k) 0 (Some 10)) DIMENSIONS) ''DIMENSIONS_INVALID''
   | _ \<Rightarrow> {''DIMENSIONS_INVALID''})"

definition validate_finding :: "pyval \<Rightarrow> string set" where
  "validate_finding f = (case f of
     PDict d \<Rightarrow> (if \<not> list_all (has_key d) [''rule_id'', ''title'', ''severity'', ''category''] then {''FINDING_INVALID''}
       else flag (\<not> list_all (\<lambda>k. nonempty_string (dget d k)) [''rule_id'', ''title'', ''category'']) ''FINDING_INVALID''
         \<union> flag (\<not> supported_string (dget d ''severity'') FINDING_SEVERITIES) ''FINDING_INVALID'')
   | _ \<Rightarrow> {''FINDING_INVALID''})"

definition validate_findings :: "pyval \<Rightarrow> string set" where
  "validate_findings value = (case value of
     PList fs \<Rightarrow> (if MAX_FINDINGS < length fs then {''FINDINGS_LIMIT_EXCEEDED''} else \<Union> (set (map validate_finding fs)))
   | _ \<Rightarrow> {''FINDINGS_INVALID''})"

text \<open>One tool, given the names seen so far; the names afterwards.\<close>

definition validate_tool :: "string set \<Rightarrow> pyval \<Rightarrow> string set \<times> string set" where
  "validate_tool names tool = (case tool of
     PDict d \<Rightarrow> (if \<not> list_all (has_key d) [''name'', ''has_input_schema'', ''input_schema_sha256'', ''has_annotations'']
       then ({''EVIDENCE_INVALID''}, names)
       else let fresh = (case dget d ''name'' of PStr n \<Rightarrow> py_strip n \<noteq> [] \<and> n \<notin> names | _ \<Rightarrow> False);
                names' = (case dget d ''name'' of PStr n \<Rightarrow> if fresh then insert n names else names | _ \<Rightarrow> names);
                his = dget d ''has_input_schema''; hash = dget d ''input_schema_sha256''
            in (flag (\<not> fresh) ''EVIDENCE_INVALID''
                \<union> flag (\<not> is_bool his \<or> \<not> is_bool (dget d ''has_annotations'')) ''EVIDENCE_INVALID''
                \<union> flag (if his = PBool True then \<not> (case hash of PStr h \<Rightarrow> is_sha256 h | _ \<Rightarrow> False)
                    else hash \<noteq> PNone) ''EVIDENCE_INVALID'', names'))
   | _ \<Rightarrow> ({''EVIDENCE_INVALID''}, names))"

fun validate_tools :: "string set \<Rightarrow> pyval list \<Rightarrow> string set" where
  "validate_tools names [] = {}"
| "validate_tools names (tool # tools) =
     (let (codes, names') = validate_tool names tool in codes \<union> validate_tools names' tools)"

definition negative_count :: "pyval \<Rightarrow> bool" where
  "negative_count v = (case v of PInt n \<Rightarrow> n < 0 | _ \<Rightarrow> True)"

definition validate_evidence :: "pyval \<Rightarrow> string set" where
  "validate_evidence value = (case value of
     PNone \<Rightarrow> {}
   | PDict d \<Rightarrow> (if \<not> list_all (has_key d) [''tool_count'', ''tools'', ''prompt_count'', ''resource_count'', ''schema_hash_algorithm'']
       then {''EVIDENCE_INVALID''}
       else flag (list_ex (\<lambda>k. negative_count (dget d k)) [''tool_count'', ''prompt_count'', ''resource_count'']) ''EVIDENCE_INVALID''
         \<union> flag (dget d ''schema_hash_algorithm'' \<noteq> PStr ''sha256'') ''EVIDENCE_INVALID''
         \<union> (case dget d ''tools'' of
              PList tools \<Rightarrow> (if MAX_TOOLS < length tools then {''TOOLS_LIMIT_EXCEEDED''}
                else flag (case dget d ''tool_count'' of PInt n \<Rightarrow> n \<noteq> int (length tools) | _ \<Rightarrow> False) ''EVIDENCE_INVALID''
                  \<union> validate_tools {} tools)
            | _ \<Rightarrow> {''EVIDENCE_INVALID''}))
   | _ \<Rightarrow> {''EVIDENCE_INVALID''})"

text \<open>The source: codes, the coordinate when kind and reference are usable, and whether it names credentials.\<close>

definition credential_name :: "pyval \<Rightarrow> bool" where
  "credential_name v = (case v of PStr s \<Rightarrow> env_key_re s | _ \<Rightarrow> False)"

definition validate_source :: "pyval \<Rightarrow> string set \<times> (pyval \<times> pyval) option \<times> bool option" where
  "validate_source value = (case value of
     PDict d \<Rightarrow> (if \<not> list_all (has_key d) [''kind'', ''reference'', ''env_keys''] then ({''SOURCE_INVALID''}, None, None)
       else let kind = dget d ''kind''; reference = dget d ''reference''; env_keys = dget d ''env_keys'' in
         (flag (\<not> supported_string kind SOURCE_KINDS) ''SOURCE_KIND_UNSUPPORTED''
          \<union> (if \<not> nonempty_string reference then {''SOURCE_REFERENCE_INVALID''}
             else flag (too_long reference) ''SOURCE_REFERENCE_LIMIT_EXCEEDED'')
          \<union> (case env_keys of PList ks \<Rightarrow> flag (\<not> list_all credential_name ks \<or> \<not> distinct ks) ''CREDENTIAL_NAMES_INVALID''
             | _ \<Rightarrow> {''CREDENTIAL_NAMES_INVALID''}),
          if supported_string kind SOURCE_KINDS \<and> nonempty_string reference then Some (kind, reference) else None,
          case env_keys of PList ks \<Rightarrow> Some (ks \<noteq> []) | _ \<Rightarrow> None))
   | _ \<Rightarrow> ({''SOURCE_INVALID''}, None, None))"

definition expected_sandbox :: "pyval \<Rightarrow> (pyval \<times> pyval) option" where
  "expected_sandbox scan_mode = (case scan_mode of
     PStr m \<Rightarrow> map_of [(''mcpaudit-local-network-off'', (PStr ''docker'', PStr ''none'')),
       (''mcpaudit-local-network-unknown'', (PStr ''docker'', PStr ''unknown'')),
       (''mcpaudit-local-provenance-unknown'', (PStr ''unknown'', PStr ''unknown'')),
       (''mcpaudit-remote-live-network'', (PStr ''not_applicable'', PNone))] m
   | _ \<Rightarrow> None)"

definition validate_sandbox :: "pyval \<Rightarrow> pyval \<Rightarrow> string set" where
  "validate_sandbox value scan_mode = (case value of
     PDict d \<Rightarrow> (let mode = dget d ''mode''; network = dget d ''network'' in
       (if mode = PStr ''docker'' then
          flag (\<not> supported_string network [''none'', ''unknown''] \<or> \<not> nonempty_string (dget d ''image'')) ''SANDBOX_INVALID''
          \<union> flag (has_key d ''reason'') ''SANDBOX_INVALID''
        else if mode = PStr ''unknown'' then
          flag (network \<noteq> PStr ''unknown'' \<or> dget d ''image'' \<noteq> PNone \<or> has_key d ''reason'') ''SANDBOX_INVALID''
        else if mode = PStr ''not_applicable'' then
          flag (dget d ''reason'' \<noteq> PStr ''remote_endpoint_no_local_process'') ''SANDBOX_INVALID''
          \<union> flag (has_key d ''network'' \<or> has_key d ''image'') ''SANDBOX_INVALID''
        else {''SANDBOX_INVALID''})
       \<union> (case expected_sandbox scan_mode of None \<Rightarrow> {}
          | Some e \<Rightarrow> flag ((mode, network) \<noteq> e) ''SCAN_MODE_SANDBOX_MISMATCH''))
   | _ \<Rightarrow> {''SANDBOX_INVALID''})"

definition validate_grade_change :: "platform \<Rightarrow> pyval \<Rightarrow> pyval \<Rightarrow> string set" where
  "validate_grade_change pf value current_grade = (case value of
     PNone \<Rightarrow> {}
   | PDict d \<Rightarrow> (if \<not> list_all (has_key d) [''changed_at'', ''previous_grade'', ''current_grade'', ''cause'', ''surface_comparison'']
       then {''GRADE_CHANGE_INVALID''}
       else let previous = dget d ''previous_grade''; current = dget d ''current_grade'' in
         flag (\<not> timezone_aware_datetime pf (dget d ''changed_at'')) ''GRADE_CHANGE_INVALID''
         \<union> flag (\<not> supported_string previous GRADES \<or> \<not> supported_string current GRADES \<or> py_eq previous current) ''GRADE_CHANGE_INVALID''
         \<union> flag (\<not> py_eq current current_grade) ''GRADE_CHANGE_INVALID''
         \<union> flag (\<not> supported_string (dget d ''cause'') GRADE_CHANGE_CAUSES \<or> dget d ''cause'' = PStr ''no-change'') ''GRADE_CHANGE_INVALID''
         \<union> flag (\<not> supported_string (dget d ''surface_comparison'') SURFACE_COMPARISONS) ''GRADE_CHANGE_INVALID'')
   | _ \<Rightarrow> {''GRADE_CHANGE_INVALID''})"

section \<open>Freshness of one server\<close>

text \<open>\<open>abs(float(recorded) - expected) > 0.000001\<close>, after \<open>type(recorded) in {int, float}\<close>; the
  conversion of a too large int raises.\<close>

definition age_mismatch :: "pyval \<Rightarrow> rat \<Rightarrow> bool res" where
  "age_mismatch recorded expected = (case recorded of
     PInt n \<Rightarrow> bind_res (float_of_int n) (\<lambda>x. Inr (f64 (1 / 1000000) < \<bar>f64 (x - expected)\<bar>))
   | PFloat (Fin x) \<Rightarrow> Inr (f64 (1 / 1000000) < \<bar>f64 (x - expected)\<bar>)
   | PFloat (Inf _) \<Rightarrow> Inr True
   | PFloat NaN \<Rightarrow> Inr False
   | _ \<Rightarrow> Inr True)"

definition validate_stale_after :: "platform \<Rightarrow> pydict \<Rightarrow> int \<Rightarrow> string set res" where
  "validate_stale_after pf server scanned_at =
     (if \<not> has_key server ''stale_after'' then Inr {}
      else bind_res (parse_aware_datetime pf (dget server ''stale_after'')) (\<lambda>stale_after. case stale_after of
          None \<Rightarrow> Inr {''STALE_AFTER_INVALID''}
        | Some t \<Rightarrow> bind_res (add_days scanned_at 90) (\<lambda>limit. Inr (flag (t \<noteq> limit) ''STALE_AFTER_MISMATCH''))))"

definition validate_freshness_binding :: "platform \<Rightarrow> pydict \<Rightarrow> pyval \<Rightarrow> string set res" where
  "validate_freshness_binding pf server generated_at_value =
     bind_res (parse_aware_datetime pf generated_at_value) (\<lambda>generated.
     bind_res (parse_aware_datetime pf (dget server ''scanned_at'')) (\<lambda>scanned.
       case (generated, scanned) of
         (Some generated_at, Some scanned_at) \<Rightarrow>
           (let age_seconds = total_seconds (generated_at - scanned_at) in
            if age_seconds < 0 then Inr {''SCANNED_AT_AFTER_GENERATED_AT''}
            else bind_res (age_mismatch (dget server ''scan_age_days'') (py_round 6 (f64 (age_seconds / 86400)))) (\<lambda>mismatch.
              bind_res (validate_stale_after pf server scanned_at) (\<lambda>codes.
                Inr (flag mismatch ''SCAN_AGE_MISMATCH'' \<union> codes))))
       | _ \<Rightarrow> Inr {}))"

section \<open>The list of servers\<close>

definition check_slug :: "string set \<Rightarrow> pyval \<Rightarrow> string set \<times> string set" where
  "check_slug slugs slug = (case slug of
     PStr s \<Rightarrow> (if \<not> slug_re s then ({''SLUG_INVALID''}, slugs)
       else if s \<in> slugs then ({''SLUG_DUPLICATE''}, slugs) else ({}, insert s slugs))
   | _ \<Rightarrow> ({''SLUG_INVALID''}, slugs))"

definition check_coordinate ::
  "(pyval \<times> pyval) set \<Rightarrow> (pyval \<times> pyval) option \<Rightarrow> string set \<times> (pyval \<times> pyval) set" where
  "check_coordinate coords c = (case c of None \<Rightarrow> ({}, coords)
   | Some p \<Rightarrow> if p \<in> coords then ({''SOURCE_COORDINATE_DUPLICATE''}, coords) else ({}, insert p coords))"

definition check_credentials :: "pyval \<Rightarrow> bool option \<Rightarrow> string set" where
  "check_credentials requires has = (case requires of
     PBool b \<Rightarrow> (case has of None \<Rightarrow> {} | Some h \<Rightarrow> flag (b \<noteq> h) ''REQUIRES_CREDENTIALS_MISMATCH'')
   | _ \<Rightarrow> {''SERVER_FIELD_TYPE_INVALID''})"

text \<open>The checks of one server that need no memory of the others, but for the freshness binding.\<close>

definition server_codes :: "platform \<Rightarrow> pydict \<Rightarrow> string set" where
  "server_codes pf server =
     (let missing = filter (\<lambda>k. \<not> has_key server k) SERVER_REQUIRED_FIELDS in
      flag (missing \<noteq> []) ''SERVER_REQUIRED_FIELD_MISSING'' \<union> add_missing_field_reasons missing
      \<union> validate_basic_fields server \<union> validate_grade_fields server
      \<union> validate_dimensions (dget server ''dimensions'') \<union> validate_findings (dget server ''findings'')
      \<union> validate_grade_binding server \<union> validate_evidence (dget server ''evidence'')
      \<union> fst (validate_source (dget server ''source''))
      \<union> check_credentials (dget server ''requires_credentials'') (snd (snd (validate_source (dget server ''source''))))
      \<union> flag (\<not> supported_string (dget server ''scan_mode'') SCAN_MODES) ''SCAN_MODE_UNSUPPORTED''
      \<union> validate_sandbox (dget server ''sandbox'') (dget server ''scan_mode'')
      \<union> flag (\<not> timezone_aware_datetime pf (dget server ''scanned_at'')) ''SCANNED_AT_INVALID''
      \<union> flag (\<not> number_in_range (dget server ''scan_age_days'') 0 None) ''SCAN_AGE_INVALID''
      \<union> validate_grade_change pf (dget server ''grade_change'') (dget server ''grade''))"

fun validate_servers :: "platform \<Rightarrow> pyval \<Rightarrow> string set \<Rightarrow> (pyval \<times> pyval) set \<Rightarrow> pyval list \<Rightarrow> string set res" where
  "validate_servers pf generated_at slugs coords [] = Inr {}"
| "validate_servers pf generated_at slugs coords (PDict server # rest) =
     (let (slug_codes, slugs') = check_slug slugs (dget server ''slug'');
          (coord_codes, coords') = check_coordinate coords (fst (snd (validate_source (dget server ''source''))))
      in bind_res (validate_freshness_binding pf server generated_at) (\<lambda>fresh_codes.
         bind_res (validate_servers pf generated_at slugs' coords' rest) (\<lambda>codes.
           Inr (slug_codes \<union> coord_codes \<union> server_codes pf server \<union> fresh_codes \<union> codes))))"
| "validate_servers pf generated_at slugs coords (server # rest) =
     bind_res (validate_servers pf generated_at slugs coords rest) (\<lambda>codes.
       Inr (insert ''SERVER_RECORD_NOT_OBJECT'' codes))"

section \<open>The snapshot\<close>

definition count_codes :: "pydict \<Rightarrow> string set \<times> int option" where
  "count_codes snapshot =
     (if \<not> has_key snapshot ''server_count'' then ({''SERVER_COUNT_MISSING''}, None)
      else case dget snapshot ''server_count'' of
        PInt n \<Rightarrow> (if n < 0 then ({''SERVER_COUNT_INVALID''}, None) else ({}, Some n))
      | _ \<Rightarrow> ({''SERVER_COUNT_INVALID''}, None))"

definition servers_codes :: "pydict \<Rightarrow> string set \<times> pyval list option" where
  "servers_codes snapshot =
     (if \<not> has_key snapshot ''servers'' then ({''SERVERS_MISSING''}, None)
      else case dget snapshot ''servers'' of
        PList servers \<Rightarrow> ({}, Some servers) | _ \<Rightarrow> ({''SERVERS_NOT_LIST''}, None))"

definition validation_reasons :: "platform \<Rightarrow> pydict \<Rightarrow> string set res" where
  "validation_reasons pf snapshot =
     (let version = (if \<not> has_key snapshot ''schema_version'' then {''SCHEMA_VERSION_MISSING''}
            else flag (dget snapshot ''schema_version'' \<noteq> PInt 2) ''SCHEMA_VERSION_UNSUPPORTED'');
          (count, server_count) = count_codes snapshot;
          (shape, servers) = servers_codes snapshot;
          mismatch = (case (servers, server_count) of
              (Some ss, Some n) \<Rightarrow> flag (n \<noteq> int (length ss)) ''SERVER_COUNT_MISMATCH'' | _ \<Rightarrow> {});
          generated_at = dget snapshot ''generated_at''; generated_from = dget snapshot ''generated_from_scan_at'';
          times = flag (\<not> timezone_aware_datetime pf generated_at) ''GENERATED_AT_INVALID''
            \<union> flag (\<not> (is_str generated_from \<and> (timezone_aware_datetime pf generated_from
                \<or> generated_from = PStr [] \<and> servers = Some []))) ''GENERATED_FROM_SCAN_AT_INVALID'';
          own = version \<union> count \<union> shape \<union> mismatch \<union> times
      in case servers of
           None \<Rightarrow> Inr own
         | Some ss \<Rightarrow> (if MAX_SERVERS < length ss then Inr (insert ''SERVER_LIMIT_EXCEEDED'' own)
             else bind_res (validate_servers pf generated_at {} {} ss) (\<lambda>codes. Inr (own \<union> codes))))"

section \<open>Parsing\<close>

text \<open>
  \<open>json.loads\<close> with the two hooks: a dict of pairs in which the last value of a repeated key wins and the
  repetition is remembered, and the non-standard constants refused. An integer literal of more than 4300
  digits is refused by \<open>int\<close>.
\<close>

definition int_of_literal :: "string \<Rightarrow> int res" where
  "int_of_literal s = (if 4300 < length (filter is_digit_char s) then Inl ValueError else Inr (int_literal s))"

definition object_pairs :: "(string \<times> pyval) list \<Rightarrow> pyval \<times> bool" where
  "object_pairs pairs = (PDict (dict_of pairs), \<not> distinct (map fst pairs))"

fun build :: "platform \<Rightarrow> jraw \<Rightarrow> (pyval \<times> bool) res"
  and build_all :: "platform \<Rightarrow> jraw list \<Rightarrow> (pyval list \<times> bool) res"
  and build_pairs :: "platform \<Rightarrow> (string \<times> jraw) list \<Rightarrow> ((string \<times> pyval) list \<times> bool) res" where
  "build pf RNull = Inr (PNone, False)"
| "build pf (RBool b) = Inr (PBool b, False)"
| "build pf (RInt s) = bind_res (int_of_literal s) (\<lambda>n. Inr (PInt n, False))"
| "build pf (RFloat s) = Inr (PFloat (float_literal pf s), False)"
| "build pf (RConst s) = Inl ValueError"
| "build pf (RStr s) = Inr (PStr s, False)"
| "build pf (RArr xs) = bind_res (build_all pf xs) (\<lambda>(vs, dup). Inr (PList vs, dup))"
| "build pf (RObj ps) = bind_res (build_pairs pf ps) (\<lambda>(vs, dup).
     let (v, dup') = object_pairs vs in Inr (v, dup \<or> dup'))"
| "build_all pf [] = Inr ([], False)"
| "build_all pf (x # xs) = bind_res (build pf x) (\<lambda>(v, d). bind_res (build_all pf xs) (\<lambda>(vs, d'). Inr (v # vs, d \<or> d')))"
| "build_pairs pf [] = Inr ([], False)"
| "build_pairs pf ((k, x) # ps) = bind_res (build pf x) (\<lambda>(v, d).
     bind_res (build_pairs pf ps) (\<lambda>(vs, d'). Inr ((k, v) # vs, d \<or> d')))"

datatype admission = Admitted pydict | Rejected "string list"

definition rejected :: "string set \<Rightarrow> admission" where
  "rejected reason_codes = Rejected (sorted_list_of_set reason_codes)"

text \<open>\<open>Rejected\<close> is the typed \<open>CatalogSnapshotValidationError\<close>; \<open>Inl\<close> is any other exception.\<close>

definition parse_catalog_snapshot :: "platform \<Rightarrow> string \<Rightarrow> admission res" where
  "parse_catalog_snapshot pf raw_text =
     (if MAX_RAW_BYTES < length raw_text \<or> MAX_RAW_BYTES < utf8_length raw_text
      then Inr (rejected {''JSON_TOO_LARGE''})
      else case json_scan pf raw_text of
        None \<Rightarrow> Inr (rejected {''JSON_INVALID''})
      | Some raw \<Rightarrow> (case build pf raw of
          Inl _ \<Rightarrow> Inr (rejected {''JSON_INVALID''})
        | Inr (v, dup) \<Rightarrow>
            (if dup then Inr (rejected {''JSON_DUPLICATE_KEY''})
             else case v of
               PDict snapshot \<Rightarrow> bind_res (validation_reasons pf snapshot) (\<lambda>reasons.
                 if reasons \<noteq> {} then Inr (rejected reasons) else Inr (Admitted snapshot))
             | _ \<Rightarrow> Inr (rejected {''TOP_LEVEL_NOT_OBJECT''}))))"

section \<open>Facts about parsing\<close>

text \<open>No object of the document, at any depth, repeats a key.\<close>

fun no_duplicate_keys :: "jraw \<Rightarrow> bool" where
  "no_duplicate_keys (RArr xs) \<longleftrightarrow> list_all no_duplicate_keys xs"
| "no_duplicate_keys (RObj ps) \<longleftrightarrow> distinct (map fst ps) \<and> list_all (\<lambda>(k, v). no_duplicate_keys v) ps"
| "no_duplicate_keys _ \<longleftrightarrow> True"

lemma dict_set_all: "list_all (\<lambda>(k, v). P v) d \<Longrightarrow> P v \<Longrightarrow> list_all (\<lambda>(k, v). P v) (dict_set k v d)"
  by (induction d) auto

lemma foldl_dict_set_all: "list_all (\<lambda>(k, v). P v) d \<Longrightarrow> list_all (\<lambda>(k, v). P v) ps \<Longrightarrow>
   list_all (\<lambda>(k, v). P v) (foldl (\<lambda>d (k, v). dict_set k v d) d ps)"
  by (induction ps arbitrary: d) (auto simp: dict_set_all)

lemma wf_dict_of: "list_all (\<lambda>(k, v). wf_val v) ps \<Longrightarrow> wf_val (PDict (dict_of ps))"
  using distinct_dict_of [of ps] foldl_dict_set_all [of wf_val "[]" ps] by (simp add: dict_of_def)

lemma build_facts:
  "build pf raw = Inr (v, d) \<Longrightarrow> d = (\<not> no_duplicate_keys raw) \<and> wf_val v"
  "build_all pf raws = Inr (vs, d') \<Longrightarrow> d' = (\<not> list_all no_duplicate_keys raws) \<and> list_all wf_val vs"
  "build_pairs pf ps = Inr (kvs, d'') \<Longrightarrow>
     d'' = (\<not> list_all (\<lambda>(k, v). no_duplicate_keys v) ps) \<and> list_all (\<lambda>(k, v). wf_val v) kvs \<and> map fst kvs = map fst ps"
proof (induction pf raw and pf raws and pf ps arbitrary: v d and vs d' and kvs d''
    rule: build_build_all_build_pairs.induct)
  case (8 pf ps)
  then obtain kvs e where b: "build_pairs pf ps = Inr (kvs, e)" "v = PDict (dict_of kvs)"
      "d = (e \<or> \<not> distinct (map fst kvs))"
    by (auto simp: object_pairs_def)
  from 8(1) [OF b(1)] show ?case using b wf_dict_of [of kvs] by auto
qed (auto split: prod.splits)

lemma parse_admitted:
  assumes "parse_catalog_snapshot pf t = Inr (Admitted snap)"
  shows "\<exists>raw. json_scan pf t = Some raw \<and> build pf raw = Inr (PDict snap, False) \<and> validation_reasons pf snap = Inr {}"
  using assms by (auto simp: parse_catalog_snapshot_def rejected_def split: if_splits option.splits
      sum.splits prod.splits pyval.splits)

section \<open>Facts about the servers\<close>

lemma flag_disj: "flag c x = {} \<and> P \<longleftrightarrow> \<not> c \<and> P"
  by simp

text \<open>What an empty set of codes says of the whole list.\<close>

definition slug_of :: "pyval \<Rightarrow> pyval" where
  "slug_of v = (case v of PDict d \<Rightarrow> dget d ''slug'' | _ \<Rightarrow> PNone)"

definition coordinate_of :: "pyval \<Rightarrow> (pyval \<times> pyval) option" where
  "coordinate_of v = (case v of PDict d \<Rightarrow> fst (snd (validate_source (dget d ''source''))) | _ \<Rightarrow> None)"

lemma validate_servers_empty:
  assumes "validate_servers pf g slugs coords ss = Inr {}"
  shows "(\<forall>v \<in> set ss. \<exists>d. v = PDict d \<and> server_codes pf d = {} \<and> validate_freshness_binding pf d g = Inr {})
    \<and> (\<forall>v \<in> set ss. \<exists>s. slug_of v = PStr s \<and> slug_re s \<and> s \<notin> slugs) \<and> distinct (map slug_of ss)
    \<and> (\<forall>v \<in> set ss. \<forall>c. coordinate_of v = Some c \<longrightarrow> c \<notin> coords)
    \<and> distinct (map the (filter (\<lambda>c. c \<noteq> None) (map coordinate_of ss)))"
  using assms
proof (induction ss arbitrary: slugs coords)
  case (Cons v ss)
  then obtain d where v: "v = PDict d" by (cases v) auto
  obtain sc slugs' where slug: "check_slug slugs (dget d ''slug'') = (sc, slugs')" by fastforce
  obtain cc coords' where coord: "check_coordinate coords (fst (snd (validate_source (dget d ''source'')))) = (cc, coords')"
    by fastforce
  have run: "sc = {}" "cc = {}" "server_codes pf d = {}" "validate_freshness_binding pf d g = Inr {}"
      "validate_servers pf g slugs' coords' ss = Inr {}"
    using Cons.prems by (auto simp: v slug coord Let_def)
  obtain s where s: "dget d ''slug'' = PStr s" "slug_re s" "s \<notin> slugs" "slugs' = insert s slugs"
    using slug run(1) by (auto simp: check_slug_def split: pyval.splits if_splits)
  note IH = Cons.IH [OF run(5)]
  have cs: "case coordinate_of v of None \<Rightarrow> coords' = coords | Some c \<Rightarrow> c \<notin> coords \<and> coords' = insert c coords"
    using coord run(2) by (auto simp: v coordinate_of_def check_coordinate_def split: option.splits if_splits)
  have "slug_of v \<notin> slug_of ` set ss" using IH s by (force simp: v slug_of_def)
  moreover have "coordinate_of v = Some c \<Longrightarrow> c \<notin> the ` {x \<in> coordinate_of ` set ss. \<exists>y. x = Some y}" for c
    using IH cs by force
  moreover have "\<forall>w \<in> set (v # ss). \<forall>c. coordinate_of w = Some c \<longrightarrow> c \<notin> coords"
    using IH cs by (force split: option.splits)
  ultimately show ?case
    using IH run s by (auto simp: v slug_of_def)
qed simp

section \<open>Published values against the bands\<close>

text \<open>
  The producer rounds to two decimals, the validator looks half a cent to both sides. Around a boundary at
  \<open>m\<close> hundredths the comparison of either side is decided by the rounded number of hundredths.
\<close>

lemma f64_near: "\<bar>x\<bar> < 16 \<Longrightarrow> \<bar>f64 x - x\<bar> \<le> 1 / 2 ^ 50"
  using f64_error [of x 4] by (simp add: pow2_def [of 4] pow2_def [of "- 50"])

lemma hundredths:
  fixes s b :: rat and m :: int
  assumes s: "0 \<le> s" "s \<le> 10" and b: "\<bar>b - of_int m / 100\<bar> \<le> 1 / 2 ^ 50"
  defines "n \<equiv> py_round 2 s" and "k \<equiv> rint (s * 100)"
  shows "f64 (n - half_cent) \<le> b \<longleftrightarrow> k \<le> m" "f64 (n - half_cent) < b \<longleftrightarrow> k \<le> m"
    "f64 (n + half_cent) \<le> b \<longleftrightarrow> k < m" "f64 (n + half_cent) < b \<longleftrightarrow> k < m"
    "s \<le> b \<Longrightarrow> k \<le> m" "b \<le> s \<Longrightarrow> m \<le> k"
proof -
  let ?e = "1 / 2 ^ 50 :: rat"
  have e: "100 * ?e < 1 / 1000" by simp
  have k: "\<bar>of_int k - s * 100\<bar> \<le> 1 / 2" using rint_error [of "s * 100"] by (simp add: k_def)
  then have "0 \<le> k" "k \<le> 1000" using s by linarith+
  then have k100: "0 \<le> (of_int k :: rat) / 100" "(of_int k :: rat) / 100 \<le> 10" by simp_all
  have n: "\<bar>n - of_int k / 100\<bar> \<le> ?e"
    using f64_near [of "of_int k / 100"] k100 by (simp add: n_def py_round_def k_def)
  have c: "\<bar>half_cent - 5 / 1000\<bar> \<le> ?e" using f64_near [of "5 / 1000"] by (simp add: half_cent_def)
  have lo: "\<bar>f64 (n - half_cent) - (n - half_cent)\<bar> \<le> ?e" using n c k100 e by (intro f64_near) linarith
  have hi: "\<bar>f64 (n + half_cent) - (n + half_cent)\<bar> \<le> ?e" using n c k100 e by (intro f64_near) linarith
  have le: "k \<le> m \<Longrightarrow> (of_int k :: rat) \<le> of_int m" by simp
  have gt: "m < k \<Longrightarrow> (of_int m :: rat) + 1 \<le> of_int k" by (metis of_int_1 of_int_add of_int_le_iff zless_imp_add1_zle)
  have lt: "k < m \<Longrightarrow> (of_int k :: rat) + 1 \<le> of_int m" by (metis of_int_1 of_int_add of_int_le_iff zless_imp_add1_zle)
  have ge: "m \<le> k \<Longrightarrow> (of_int m :: rat) \<le> of_int k" by simp
  have low: "k \<le> m \<Longrightarrow> f64 (n - half_cent) < b" using le lo n c b e by linarith
  have high: "m < k \<Longrightarrow> b < f64 (n - half_cent)" using gt lo n c b e by linarith
  have low': "k < m \<Longrightarrow> f64 (n + half_cent) < b" using lt hi n c b e by linarith
  have high': "m \<le> k \<Longrightarrow> b < f64 (n + half_cent)" using ge hi n c b e by linarith
  show "f64 (n - half_cent) \<le> b \<longleftrightarrow> k \<le> m" "f64 (n - half_cent) < b \<longleftrightarrow> k \<le> m"
    using low high by (meson less_le_not_le not_le order_less_imp_le)+
  show "f64 (n + half_cent) \<le> b \<longleftrightarrow> k < m" "f64 (n + half_cent) < b \<longleftrightarrow> k < m"
    using low' high' by (meson less_le_not_le not_le order_less_imp_le)+
  show "k \<le> m" if "s \<le> b"
  proof (rule ccontr)
    assume "\<not> k \<le> m" then show False using gt k b e that by linarith
  qed
  show "m \<le> k" if "b \<le> s"
  proof (rule ccontr)
    assume "\<not> m \<le> k" then show False using lt k b e that by linarith
  qed
qed

lemma danger_band_eq: "danger_band s = trust_grade_str (band s)"
  by (simp add: danger_band_def band_def BANDS_def)

lemma cap_candidate_str: "g \<noteq> Unscanned \<Longrightarrow> cap_candidate (trust_grade_str g) = trust_grade_str (max g D)"
  by (cases g) (simp_all add: cap_candidate_def max_def grade_le_rank)

lemma band_letters: "band x = (if x \<le> 2 then A else if x \<le> 7 / 2 then B else if x \<le> 5 then C
    else if x \<le> 15 / 2 then D else F)"
  by (simp add: band_def BANDS_def)

lemma band_clamp: "band (max 0 x) = band x" "band (min 10 x) = band x"
  by (auto simp: band_letters max_def min_def)

lemma band_of_rounded:
  assumes "0 \<le> s" "s \<le> 10"
  defines "n \<equiv> py_round 2 s"
  shows "band s = band (max 0 (f64 (n - half_cent))) \<or> band s = band (min 10 (f64 (n + half_cent)))"
proof -
  define k where "k = rint (s * 100)"
  define lo hi where "lo = f64 (n - half_cent)" and "hi = f64 (n + half_cent)"
  note H = hundredths [OF assms(1,2), folded k_def n_def lo_def hi_def]
  have b2: "lo \<le> 2 \<longleftrightarrow> k \<le> 200" "hi \<le> 2 \<longleftrightarrow> k < 200" "s \<le> 2 \<Longrightarrow> k \<le> 200" "2 \<le> s \<Longrightarrow> 200 \<le> k"
    using H [of 2 200] by simp_all
  have b35: "lo \<le> 7 / 2 \<longleftrightarrow> k \<le> 350" "hi \<le> 7 / 2 \<longleftrightarrow> k < 350" "s \<le> 7 / 2 \<Longrightarrow> k \<le> 350" "7 / 2 \<le> s \<Longrightarrow> 350 \<le> k"
    using H [of "7 / 2" 350] by simp_all
  have b5: "lo \<le> 5 \<longleftrightarrow> k \<le> 500" "hi \<le> 5 \<longleftrightarrow> k < 500" "s \<le> 5 \<Longrightarrow> k \<le> 500" "5 \<le> s \<Longrightarrow> 500 \<le> k"
    using H [of 5 500] by simp_all
  have b75: "lo \<le> 15 / 2 \<longleftrightarrow> k \<le> 750" "hi \<le> 15 / 2 \<longleftrightarrow> k < 750" "s \<le> 15 / 2 \<Longrightarrow> k \<le> 750" "15 / 2 \<le> s \<Longrightarrow> 750 \<le> k"
    using H [of "15 / 2" 750] by simp_all
  have bands: "band lo = (if k \<le> 200 then A else if k \<le> 350 then B else if k \<le> 500 then C else if k \<le> 750 then D else F)"
    "band hi = (if k < 200 then A else if k < 350 then B else if k < 500 then C else if k < 750 then D else F)"
    unfolding band_letters [of lo] band_letters [of hi] b2(1,2) b35(1,2) b5(1,2) b75(1,2)
    by (rule refl)+
  have own: "band s = (if s \<le> 2 then A else if s \<le> 7 / 2 then B else if s \<le> 5 then C else if s \<le> 15 / 2 then D else F)"
    by (rule band_letters)
  consider "s \<le> 2" | "2 < s" "s \<le> 7 / 2" | "7 / 2 < s" "s \<le> 5" | "5 < s" "s \<le> 15 / 2" | "15 / 2 < s" by linarith
  then have "band s = band lo \<or> band s = band hi"
    by cases (use own b2(3,4) b35(3,4) b5(3,4) b75(3,4) in \<open>auto simp: bands\<close>)
  then show ?thesis by (simp add: lo_def hi_def band_clamp)
qed

lemma coverage_of_rounded:
  assumes "0 \<le> s" "s \<le> 1"
  defines "n \<equiv> py_round 2 s"
  shows "transparency_band s = transparency_band (max 0 (f64 (n - half_cent)))
    \<or> transparency_band s = transparency_band (min 1 (f64 (n + half_cent)))"
proof -
  define k where "k = rint (s * 100)"
  define lo hi where "lo = f64 (n - half_cent)" and "hi = f64 (n + half_cent)"
  define h m where "h = f64 (7 / 10)" and "m = f64 (3 / 10)"
  have s10: "s \<le> 10" using assms(2) by simp
  note H = hundredths [OF assms(1) s10, folded k_def n_def lo_def hi_def]
  have h: "\<bar>h - of_int 70 / 100\<bar> \<le> 1 / 2 ^ 50" using f64_near [of "7 / 10"] by (simp add: h_def)
  have m: "\<bar>m - of_int 30 / 100\<bar> \<le> 1 / 2 ^ 50" using f64_near [of "3 / 10"] by (simp add: m_def)
  have near: "\<bar>h - 7 / 10\<bar> \<le> 1 / 2 ^ 50" "\<bar>m - 3 / 10\<bar> \<le> 1 / 2 ^ 50" using h m by simp_all
  have e: "(1 :: rat) / 2 ^ 50 < 1 / 1000" by simp
  have range: "0 < m" "m < h" "h < 1" using near e by linarith+
  have bh: "h \<le> lo \<longleftrightarrow> 70 < k" "h \<le> hi \<longleftrightarrow> 70 \<le> k" "s \<le> h \<Longrightarrow> k \<le> 70" "h \<le> s \<Longrightarrow> 70 \<le> k"
    using H(2,4,5,6) [OF h] by (simp_all flip: not_less)
  have bm: "m \<le> lo \<longleftrightarrow> 30 < k" "m \<le> hi \<longleftrightarrow> 30 \<le> k" "s \<le> m \<Longrightarrow> k \<le> 30" "m \<le> s \<Longrightarrow> 30 \<le> k"
    using H(2,4,5,6) [OF m] by (simp_all flip: not_less)
  have clamp: "transparency_band (max 0 lo) = transparency_band lo" "transparency_band (min 1 hi) = transparency_band hi"
    using range by (auto simp: transparency_band_def h_def [symmetric] m_def [symmetric] max_def min_def)
  have bands: "transparency_band lo = (if 70 < k then ''high'' else if 30 < k then ''medium'' else ''low'')"
    "transparency_band hi = (if 70 \<le> k then ''high'' else if 30 \<le> k then ''medium'' else ''low'')"
    using bh bm by (simp_all add: transparency_band_def h_def [symmetric] m_def [symmetric])
  have own: "transparency_band s = (if h \<le> s then ''high'' else if m \<le> s then ''medium'' else ''low'')"
    by (simp add: transparency_band_def h_def m_def)
  consider "h \<le> s" | "s < h" "m \<le> s" | "s < m" "s < h" using range by linarith
  then have "transparency_band s = transparency_band lo \<or> transparency_band s = transparency_band hi"
    by cases (use own bh(3,4) bm(3,4) in \<open>auto simp: bands\<close>)
  then show ?thesis using clamp by (simp add: lo_def hi_def)
qed

section \<open>Which exceptions leave the parser\<close>

definition only_overflow :: "'a res \<Rightarrow> bool" where
  "only_overflow m \<longleftrightarrow> (\<forall>e. m = Inl e \<longrightarrow> e = OverflowError)"

lemma only_overflow_Inr [simp]: "only_overflow (Inr x)"
  by (simp add: only_overflow_def)

lemma only_overflow_bind: "only_overflow m \<Longrightarrow> (\<And>x. only_overflow (f x)) \<Longrightarrow> only_overflow (bind_res m f)"
  by (cases m) (auto simp: only_overflow_def)

lemma only_overflow_parse_aware: "only_overflow (parse_aware_datetime pf v)"
  by (auto simp: parse_aware_datetime_def only_overflow_def as_utc_def split: pyval.splits option.splits if_splits)

lemma only_overflow_age: "only_overflow (age_mismatch v x)"
  by (auto simp: age_mismatch_def only_overflow_def float_of_int_def split: pyval.splits pyfloat.splits if_splits)

lemma only_overflow_add_days: "only_overflow (add_days t n)"
  by (simp add: only_overflow_def add_days_def Let_def)

lemma only_overflow_stale: "only_overflow (validate_stale_after pf s t)"
  unfolding validate_stale_after_def
  by (auto intro!: only_overflow_bind only_overflow_parse_aware only_overflow_add_days split: option.split)

lemma only_overflow_fresh: "only_overflow (validate_freshness_binding pf s g)"
  unfolding validate_freshness_binding_def
  by (auto intro!: only_overflow_bind only_overflow_parse_aware only_overflow_age only_overflow_stale
      simp: Let_def split: option.split)

lemma only_overflow_servers: "only_overflow (validate_servers pf g slugs coords ss)"
  by (induction pf g slugs coords ss rule: validate_servers.induct)
    (auto intro!: only_overflow_bind only_overflow_fresh simp: Let_def split: prod.split)

lemma validation_reasons_overflow: "validation_reasons pf snap = Inl e \<Longrightarrow> e = OverflowError"
  using only_overflow_servers [of pf "dget snap ''generated_at''" "{}" "{}"]
  by (auto simp: validation_reasons_def Let_def only_overflow_def bind_res_eq_Inl
      split: option.splits prod.splits if_splits)

lemma parse_overflow: "parse_catalog_snapshot pf t = Inl e \<Longrightarrow> e = OverflowError"
  using validation_reasons_overflow
  by (auto simp: parse_catalog_snapshot_def bind_res_eq_Inl split: if_splits option.splits sum.splits prod.splits pyval.splits)

lemma finite_flag [simp]: "finite (flag c x)"
  by (simp add: flag_def)

lemma finite_validate_tools: "finite (validate_tools names ts)"
  by (induction names ts rule: validate_tools.induct)
    (auto simp: validate_tool_def Let_def split: prod.splits pyval.splits if_splits)

lemma finite_missing: "finite (add_missing_field_reasons m)"
  by (simp add: add_missing_field_reasons_def)

lemma finite_basic: "finite (validate_basic_fields d)"
  by (simp add: validate_basic_fields_def)

lemma finite_grade_fields: "finite (validate_grade_fields d)"
  by (simp add: validate_grade_fields_def)

lemma finite_dimensions: "finite (validate_dimensions v)"
  by (cases v) (simp_all add: validate_dimensions_def)

lemma finite_findings: "finite (validate_findings v)"
proof -
  have "finite (validate_finding f)" for f by (cases f) (simp_all add: validate_finding_def)
  then show ?thesis by (cases v) (simp_all add: validate_findings_def)
qed

lemma finite_binding: "finite (validate_grade_binding d)"
  by (simp add: validate_grade_binding_def Let_def split: sum.split pyfloat.split)

lemma finite_evidence: "finite (validate_evidence v)"
  by (cases v) (simp_all add: validate_evidence_def finite_validate_tools split: pyval.split)

lemma finite_source: "finite (fst (validate_source v))"
  by (cases v) (simp_all add: validate_source_def Let_def split: pyval.split)

lemma finite_credentials: "finite (check_credentials v h)"
  by (cases v) (simp_all add: check_credentials_def split: option.split)

lemma finite_sandbox: "finite (validate_sandbox v m)"
  by (cases v) (simp_all add: validate_sandbox_def Let_def split: option.split)

lemma finite_grade_change: "finite (validate_grade_change pf v g)"
  by (cases v) (simp_all add: validate_grade_change_def Let_def)

lemma finite_server_codes: "finite (server_codes pf d)"
  by (simp add: server_codes_def Let_def finite_missing finite_basic finite_grade_fields finite_dimensions
      finite_findings finite_binding finite_evidence finite_source finite_credentials finite_sandbox
      finite_grade_change)

definition fin_res :: "string set res \<Rightarrow> bool" where
  "fin_res m \<longleftrightarrow> (\<forall>cs. m = Inr cs \<longrightarrow> finite cs)"

lemma fin_res_Inr [simp]: "fin_res (Inr cs) = finite cs" "fin_res (Inl e)"
  by (simp_all add: fin_res_def)

lemma fin_res_bind: "(\<And>x. m = Inr x \<Longrightarrow> fin_res (f x)) \<Longrightarrow> fin_res (bind_res m f)"
  by (cases m) (auto simp: fin_res_def)

lemma finite_stale: "fin_res (validate_stale_after pf s t)"
  unfolding validate_stale_after_def
  by (simp, intro impI fin_res_bind) (auto split: option.split intro!: fin_res_bind)

lemma finite_staleD: "validate_stale_after pf s t = Inr cs \<Longrightarrow> finite cs"
  using finite_stale [of pf s t] by (simp add: fin_res_def)

lemma finite_fresh: "fin_res (validate_freshness_binding pf s g)"
  unfolding validate_freshness_binding_def
  by (auto simp: Let_def split: option.split intro!: fin_res_bind) (rule finite_staleD)

lemma finite_validate_servers: "fin_res (validate_servers pf g slugs coords ss)"
proof (induction ss arbitrary: slugs coords)
  case (Cons v ss)
  have "finite (fst (check_slug slugs c))" for c
    by (simp add: check_slug_def split: pyval.split)
  moreover have "finite (fst (check_coordinate coords c))" for c
    by (simp add: check_coordinate_def split: option.split)
  moreover have "finite x" if "validate_freshness_binding pf d g = Inr x" for d x
    using finite_fresh [of pf d g] that by (simp add: fin_res_def)
  moreover have "finite x" if "validate_servers pf g a b ss = Inr x" for a b x
    using Cons [of a b] that by (simp add: fin_res_def)
  ultimately show ?case
    by (cases v) (auto simp: case_prod_unfold Let_def finite_server_codes intro!: fin_res_bind)
qed simp

lemma finite_validate_serversD: "validate_servers pf g slugs coords ss = Inr cs \<Longrightarrow> finite cs"
  using finite_validate_servers [of pf g slugs coords ss] by (simp add: fin_res_def)

lemma finite_validation_reasons: "fin_res (validation_reasons pf snap)"
proof -
  have "finite (fst (count_codes snap))"
    by (simp add: count_codes_def split: pyval.split)
  moreover have "finite (fst (servers_codes snap))"
    by (simp add: servers_codes_def split: pyval.split)
  ultimately show ?thesis
    unfolding validation_reasons_def Let_def case_prod_unfold
    by (cases "snd (servers_codes snap)"; cases "snd (count_codes snap)")
      (auto intro!: fin_res_bind dest: finite_validate_serversD)
qed

lemma clamp_near: "\<bar>y - x\<bar> \<le> e \<Longrightarrow> 0 \<le> x \<Longrightarrow> \<bar>max 0 y - x\<bar> \<le> e" for x y e :: rat
  by (auto simp: max_def abs_le_iff)

lemma clamp_near': "\<bar>y - x\<bar> \<le> e \<Longrightarrow> x \<le> b \<Longrightarrow> \<bar>min b y - x\<bar> \<le> e" for x y e b :: rat
  by (auto simp: min_def abs_le_iff)

lemma admitted_shape:
  assumes "validation_reasons pf snap = Inr {}"
  shows "\<exists>servers. dget snap ''schema_version'' = PInt 2 \<and> dget snap ''servers'' = PList servers
    \<and> dget snap ''server_count'' = PInt (int (length servers)) \<and> length servers \<le> MAX_SERVERS
    \<and> validate_servers pf (dget snap ''generated_at'') {} {} servers = Inr {}"
proof -
  obtain servers where s: "servers_codes snap = ({}, Some servers)" "dget snap ''servers'' = PList servers"
    using assms by (auto simp: validation_reasons_def servers_codes_def Let_def
        split: option.splits prod.splits if_splits pyval.splits)
  moreover obtain n where n: "count_codes snap = ({}, Some n)" "dget snap ''server_count'' = PInt n"
    using assms by (auto simp: validation_reasons_def count_codes_def Let_def
        split: option.splits prod.splits if_splits pyval.splits)
  ultimately show ?thesis
    using assms by (auto simp: validation_reasons_def Let_def split: if_splits)
qed

lemma grade_binding_empty:
  assumes "validate_grade_fields d = {}" "validate_grade_binding d = {}"
  shows "\<exists>g x. dget d ''grade'' = PStr g \<and> g \<in> set GRADES \<and> to_float (dget d ''danger_score'') = Inr (Fin x)
    \<and> 0 \<le> x \<and> x \<le> 10 \<and> g \<in> set (danger_candidates x (has_critical (dget d ''findings'')))"
proof -
  have "supported_string (dget d ''grade'') GRADES" "number_in_range (dget d ''danger_score'') 0 (Some 10)"
    using assms(1) by (simp_all add: validate_grade_fields_def)
  moreover from this obtain g where g: "dget d ''grade'' = PStr g" "g \<in> set GRADES"
    by (cases "dget d ''grade''") auto
  moreover obtain x where x: "to_float (dget d ''danger_score'') = Inr (Fin x)" "0 \<le> x" "x \<le> 10"
    using calculation(2) by (auto simp: number_in_range_def split: sum.splits elim!: finite_in.elims)
  ultimately show ?thesis using assms(2) by (simp add: validate_grade_binding_def Let_def)
qed

text \<open>What the grader computes and the builder publishes passes the binding check.\<close>

lemma published_grade_passes_binding:
  assumes "valid_risk r" "grade r = Inr g" "dget d ''grade'' = PStr (trust_grade_str g)"
    and "dget d ''danger_score'' = PFloat (Fin (py_round 2 (danger_score r)))"
    and "has_critical (dget d ''findings'') \<longleftrightarrow> 0 < risk_count r Critical"
    and "dget d ''transparency'' = PStr (transparency_str (transparency r))"
    and "dget d ''annotation_coverage'' = PFloat (Fin (py_round 2 (rk_annotation_coverage r)))"
  shows "validate_grade_binding d = {}"
proof -
  let ?s = "danger_score r" and ?c = "rk_annotation_coverage r"
  let ?n = "py_round 2 ?s" and ?m = "py_round 2 ?c"
  have g: "g = (if 0 < risk_count r Critical then max (band ?s) D else band ?s)"
    using assms(2) by (simp add: grade_eq split: if_splits)
  have "trust_grade_str g \<in> set (danger_candidates ?n (0 < risk_count r Critical))"
    using band_of_rounded [of ?s] danger_score_range [of r]
    by (auto simp: danger_candidates_def Let_def g danger_band_eq cap_candidate_str)
  moreover have "transparency_band ?c = transparency_str (transparency r)"
    by (simp add: transparency_band_def transparency_def TRANSPARENCY_HIGH_def TRANSPARENCY_MEDIUM_def Let_def)
  then have "transparency_str (transparency r) \<in> set (coverage_candidates ?m)"
    using coverage_of_rounded [of ?c] assms(1) by (auto simp: coverage_candidates_def valid_risk_def)
  ultimately show ?thesis
    using assms by (simp add: validate_grade_binding_def Let_def)
qed

section \<open>Properties\<close>

text \<open>Refusal is typed: a rejected document carries at least one reason code, sorted and without
  repetition, and the only exception that is not the typed refusal is an overflow.\<close>

lemma rejection_is_typed:
  "(\<forall>codes. parse_catalog_snapshot pf t = Inr (Rejected codes) \<longrightarrow> codes \<noteq> [] \<and> sorted codes \<and> distinct codes)
   \<and> (\<forall>e. parse_catalog_snapshot pf t = Inl e \<longrightarrow> e = OverflowError)"
proof -
  have rej: "finite cs \<Longrightarrow> cs \<noteq> {} \<Longrightarrow> rejected cs = Rejected codes \<Longrightarrow> codes \<noteq> [] \<and> sorted codes \<and> distinct codes"
    for cs codes by (auto simp: rejected_def)
  have "finite cs" if "validation_reasons pf v = Inr cs" for v cs
    using finite_validation_reasons [of pf v] that by (simp add: fin_res_def)
  then have "codes \<noteq> [] \<and> sorted codes \<and> distinct codes" if "parse_catalog_snapshot pf t = Inr (Rejected codes)" for codes
    using that
    by (auto simp: parse_catalog_snapshot_def rejected_def split: if_splits option.splits sum.splits prod.splits pyval.splits)
  moreover have "e = OverflowError" if "parse_catalog_snapshot pf t = Inl e" for e
    using that by (rule parse_overflow)
  ultimately show ?thesis by blast
qed

text \<open>An admitted snapshot is what the document says, with no key repeated at any depth, of schema
  version 2, with as many servers as it claims and at most 256, each an object with every required field
  and a well-formed slug, and with slugs and source coordinates unique.\<close>

lemma admitted_snapshot_is_wellformed:
  assumes "parse_catalog_snapshot pf t = Inr (Admitted snap)"
  shows "\<exists>raw servers. json_scan pf t = Some raw \<and> no_duplicate_keys raw \<and> build pf raw = Inr (PDict snap, False)
    \<and> wf_val (PDict snap) \<and> dget snap ''schema_version'' = PInt 2
    \<and> dget snap ''servers'' = PList servers \<and> dget snap ''server_count'' = PInt (int (length servers))
    \<and> length servers \<le> MAX_SERVERS
    \<and> (\<forall>v \<in> set servers. \<exists>d. v = PDict d \<and> list_all (has_key d) SERVER_REQUIRED_FIELDS
        \<and> (\<exists>s. dget d ''slug'' = PStr s \<and> slug_re s))
    \<and> distinct (map slug_of servers) \<and> distinct (map the (filter (\<lambda>c. c \<noteq> None) (map coordinate_of servers)))"
proof -
  obtain raw where raw: "json_scan pf t = Some raw" "build pf raw = Inr (PDict snap, False)"
      "validation_reasons pf snap = Inr {}"
    using parse_admitted [OF assms] by blast
  obtain servers where S: "dget snap ''schema_version'' = PInt 2" "dget snap ''servers'' = PList servers"
      "dget snap ''server_count'' = PInt (int (length servers))" "length servers \<le> MAX_SERVERS"
      "validate_servers pf (dget snap ''generated_at'') {} {} servers = Inr {}"
    using admitted_shape [OF raw(3)] by blast
  note E = validate_servers_empty [OF S(5)]
  have "list_all (has_key d) SERVER_REQUIRED_FIELDS" if "server_codes pf d = {}" for d
    using that by (simp add: server_codes_def Let_def filter_empty_conv list_all_iff)
  moreover have "\<forall>v \<in> set servers. \<exists>d. v = PDict d \<and> server_codes pf d = {} \<and> (\<exists>s. dget d ''slug'' = PStr s \<and> slug_re s)"
    using E by (fastforce simp: slug_of_def)
  ultimately have all: "\<forall>v \<in> set servers. \<exists>d. v = PDict d \<and> list_all (has_key d) SERVER_REQUIRED_FIELDS
        \<and> (\<exists>s. dget d ''slug'' = PStr s \<and> slug_re s)" by fast
  have "no_duplicate_keys raw \<and> wf_val (PDict snap)" using build_facts(1) [OF raw(2)] by simp
  then show ?thesis using raw S E all by blast
qed

text \<open>What the validator guarantees of the grade of one admitted row.\<close>

lemma grade_binding_spec:
  assumes "parse_catalog_snapshot pf t = Inr (Admitted snap)" "dget snap ''servers'' = PList servers"
    and "PDict d \<in> set servers"
  shows "\<exists>g x y. dget d ''grade'' = PStr g \<and> to_float (dget d ''danger_score'') = Inr (Fin x)
    \<and> 0 \<le> x \<and> x \<le> 10 \<and> \<bar>y - x\<bar> \<le> 51 / 10000
    \<and> g = (if has_critical (dget d ''findings'') then cap_candidate (danger_band y) else danger_band y)
    \<and> (has_critical (dget d ''findings'') \<longrightarrow> g = ''D'' \<or> g = ''F'')"
proof -
  have reasons: "validation_reasons pf snap = Inr {}" using parse_admitted [OF assms(1)] by blast
  then have "validate_servers pf (dget snap ''generated_at'') {} {} servers = Inr {}"
    using admitted_shape [OF reasons] assms(2) by auto
  then have codes: "server_codes pf d = {}" using validate_servers_empty assms(3) by fastforce
  then have "validate_grade_fields d = {}" "validate_grade_binding d = {}"
    by (simp_all add: server_codes_def Let_def)
  then obtain g x where gx: "dget d ''grade'' = PStr g" "g \<in> set GRADES" "to_float (dget d ''danger_score'') = Inr (Fin x)"
      "0 \<le> x" "x \<le> 10" "g \<in> set (danger_candidates x (has_critical (dget d ''findings'')))"
    using grade_binding_empty by blast
  have half: "\<bar>half_cent - 5 / 1000\<bar> \<le> 1 / 2 ^ 50" using f64_near [of "5 / 1000"] by (simp add: half_cent_def)
  have e: "(1 :: rat) / 2 ^ 50 < 1 / 100000" by simp
  let ?lo = "max 0 (f64 (x - half_cent))" and ?hi = "min 10 (f64 (x + half_cent))"
  have "\<bar>f64 (x - half_cent) - (x - half_cent)\<bar> \<le> 1 / 2 ^ 50" "\<bar>f64 (x + half_cent) - (x + half_cent)\<bar> \<le> 1 / 2 ^ 50"
    using gx(4,5) half e by (intro f64_near; linarith)+
  then have raw: "\<bar>f64 (x - half_cent) - x\<bar> \<le> 51 / 10000" "\<bar>f64 (x + half_cent) - x\<bar> \<le> 51 / 10000"
    using half e by linarith+
  have near: "\<bar>?lo - x\<bar> \<le> 51 / 10000" "\<bar>?hi - x\<bar> \<le> 51 / 10000"
    using clamp_near [OF raw(1) gx(4)] clamp_near' [OF raw(2) gx(5)] by simp_all
  have "g = (if has_critical (dget d ''findings'') then cap_candidate (danger_band ?lo) else danger_band ?lo)
      \<or> g = (if has_critical (dget d ''findings'') then cap_candidate (danger_band ?hi) else danger_band ?hi)"
    using gx(6) by (auto simp: danger_candidates_def Let_def)
  then obtain y where y: "\<bar>y - x\<bar> \<le> 51 / 10000"
      "g = (if has_critical (dget d ''findings'') then cap_candidate (danger_band y) else danger_band y)"
    using near by blast
  have "cap_candidate c = ''D'' \<or> cap_candidate c = ''F''" for c by (simp add: cap_candidate_def)
  then have "has_critical (dget d ''findings'') \<longrightarrow> g = ''D'' \<or> g = ''F''" using y(2) by simp
  then show ?thesis using gx(1,3-5) y by blast
qed

text \<open>C15. An admitted grade is bound to the admitted score: the letter is the band of a score at most half
  a cent (and a rounding) away from the published one, except that with a critical finding it is D or F.\<close>

theorem admitted_grade_is_bound:
  assumes "parse_catalog_snapshot pf t = Inr (Admitted snap)" "dget snap ''servers'' = PList servers"
    and "PDict d \<in> set servers"
  shows "\<exists>g x y. dget d ''grade'' = PStr g \<and> to_float (dget d ''danger_score'') = Inr (Fin x)
    \<and> 0 \<le> x \<and> x \<le> 10 \<and> \<bar>y - x\<bar> \<le> 51 / 10000
    \<and> g = (if has_critical (dget d ''findings'') then cap_candidate (danger_band y) else danger_band y)
    \<and> (has_critical (dget d ''findings'') \<longrightarrow> g = ''D'' \<or> g = ''F'')"
  using assms by (rule grade_binding_spec)

text \<open>The age check converts the recorded age without the guard of the range check: a snapshot whose
  record is dated but carries an integer age beyond the binary64 range makes the parser raise an overflow
  instead of the typed refusal.\<close>

lemma huge_age_escapes_typed_refusal:
  assumes "parse_aware_datetime pf g = Inr (Some t)" "parse_aware_datetime pf (dget d ''scanned_at'') = Inr (Some u)"
    and "u \<le> t" "dget d ''scan_age_days'' = PInt n" "overflow_bound \<le> \<bar>f64 (of_int n)\<bar>"
  shows "\<not> number_in_range (dget d ''scan_age_days'') 0 None
    \<and> validate_servers pf g slugs coords (PDict d # rest) = Inl OverflowError"
proof -
  have n: "float_of_int n = Inl OverflowError" using assms(5) by (simp add: float_of_int_def)
  then have "validate_freshness_binding pf d g = Inl OverflowError"
    using assms(1-4) by (simp add: validate_freshness_binding_def Let_def age_mismatch_def)
  then show ?thesis using n assms(4)
    by (simp add: number_in_range_def Let_def case_prod_unfold)
qed

section \<open>Witnesses\<close>

text \<open>A document of one server, given as the scanner's tree.\<close>

definition snap_tree :: jraw where
  "snap_tree = RObj [
       (''schema_version'', RInt ''2''), (''server_count'', RInt ''1''),
       (''generated_at'', RStr ''2026-07-02T00:00:00+00:00''),
       (''generated_from_scan_at'', RStr ''2026-07-01T00:00:00+00:00''),
       (''servers'', RArr [RObj [
         (''slug'', RStr ''demo-server''), (''name'', RStr ''Demo''), (''description'', RStr ''d''),
         (''homepage'', RNull), (''grade'', RStr ''D''), (''transparency'', RStr ''medium''),
         (''danger_score'', RFloat ''4.9''),
         (''dimensions'', RObj [(''file_access'', RInt ''1''), (''network_access'', RInt ''1''),
            (''shell_execution'', RInt ''1''), (''destructive'', RInt ''1''), (''exfiltration'', RInt ''1'')]),
         (''annotation_coverage'', RFloat ''0.5''),
         (''findings'', RArr [RObj [(''rule_id'', RStr ''MCP007''), (''title'', RStr ''t''),
            (''severity'', RStr ''critical''), (''category'', RStr ''c'')]]),
         (''evidence'', RNull),
         (''source'', RObj [(''kind'', RStr ''npm''), (''reference'', RStr ''pkg@1.0.0''), (''env_keys'', RArr [])]),
         (''engine'', RStr ''mcpaudit''), (''engine_version'', RStr ''2.7.0''),
         (''scan_mode'', RStr ''mcpaudit-local-network-off''),
         (''sandbox'', RObj [(''mode'', RStr ''docker''), (''network'', RStr ''none''), (''image'', RStr ''img'')]),
         (''scanned_at'', RStr ''2026-07-01T00:00:00+00:00''), (''scan_age_days'', RInt ''1''),
         (''grade_change'', RNull), (''requires_credentials'', RBool False)]])]"

definition snap_platform :: "(string \<Rightarrow> jraw option) \<Rightarrow> platform" where
  "snap_platform scan = sample_platform\<lparr>
     json_scan := (\<lambda>s. if s = [] then Some snap_tree else scan s),
     json_canonical := (\<lambda>v. replicate 32 CHR ''m''),
     sha256_hex := (\<lambda>s. replicate 63 CHR ''0'' @ (if take 1 s = [CHR 0x01] then ''1'' else ''0'')),
     float_literal := (\<lambda>s. if s = ''4.9'' then Fin (f64 (49 / 10)) else Fin (1 / 2)),
     iso_parse := (\<lambda>s. Some (utc_dt (if take 10 s = ''2026-07-02'' then 740000 * us_per_day else 739999 * us_per_day)))\<rparr>"

definition snap_server :: pydict where
  "snap_server = [(''slug'', PStr ''demo-server''), (''name'', PStr ''Demo''), (''description'', PStr ''d''),
     (''homepage'', PNone), (''grade'', PStr ''D''), (''transparency'', PStr ''medium''),
     (''danger_score'', PFloat (Fin (f64 (49 / 10)))),
     (''dimensions'', PDict [(''file_access'', PInt 1), (''network_access'', PInt 1), (''shell_execution'', PInt 1),
        (''destructive'', PInt 1), (''exfiltration'', PInt 1)]),
     (''annotation_coverage'', PFloat (Fin (1 / 2))),
     (''findings'', PList [PDict [(''rule_id'', PStr ''MCP007''), (''title'', PStr ''t''),
        (''severity'', PStr ''critical''), (''category'', PStr ''c'')]]),
     (''evidence'', PNone),
     (''source'', PDict [(''kind'', PStr ''npm''), (''reference'', PStr ''pkg@1.0.0''), (''env_keys'', PList [])]),
     (''engine'', PStr ''mcpaudit''), (''engine_version'', PStr ''2.7.0''),
     (''scan_mode'', PStr ''mcpaudit-local-network-off''),
     (''sandbox'', PDict [(''mode'', PStr ''docker''), (''network'', PStr ''none''), (''image'', PStr ''img'')]),
     (''scanned_at'', PStr ''2026-07-01T00:00:00+00:00''), (''scan_age_days'', PInt 1),
     (''grade_change'', PNone), (''requires_credentials'', PBool False)]"

definition snap_value :: pydict where
  "snap_value = [(''schema_version'', PInt 2), (''server_count'', PInt 1),
     (''generated_at'', PStr ''2026-07-02T00:00:00+00:00''),
     (''generated_from_scan_at'', PStr ''2026-07-01T00:00:00+00:00''), (''servers'', PList [PDict snap_server])]"

lemma snap_build: "build (snap_platform scan) snap_tree = Inr (PDict snap_value, False)"
  by code_simp

lemma float_values:
  "f64 (49 / 10) = 2758454771764429 / 562949953421312"
  "half_cent = 5764607523034235 / 1152921504606846976"
  "f64 (2758454771764429 / 562949953421312 - 5764607523034235 / 1152921504606846976) = 5511280043994645 / 1125899906842624"
  "f64 (2758454771764429 / 562949953421312 + 5764607523034235 / 1152921504606846976) = 5522539043063071 / 1125899906842624"
  "f64 (1 / 2 - 5764607523034235 / 1152921504606846976) = 4458563631096791 / 9007199254740992"
  "f64 (1 / 2 + 5764607523034235 / 1152921504606846976) = 4548635623644201 / 9007199254740992"
  by code_simp+

lemma snap_binding: "validate_grade_binding snap_server = {}"
proof -
  have "supported_string (PStr ''D'') (danger_candidates (f64 (49 / 10)) True)"
    unfolding danger_candidates_def Let_def float_values by (simp add: danger_band_def cap_candidate_def)
  moreover have "f64 (7 / 10) < 3 / 4 \<and> f64 (3 / 10) < 2 / 5 \<and> 3 / 5 < f64 (7 / 10)" by code_simp
  then have "supported_string (PStr ''medium'') (coverage_candidates (1 / 2))"
    unfolding coverage_candidates_def float_values by (simp add: transparency_band_def max_def min_def)
  ultimately show ?thesis
    by (simp add: validate_grade_binding_def snap_server_def Let_def has_critical_def is_critical_def)
qed

lemma float_of_small:
  assumes "\<bar>n\<bar> < 2 ^ 53"
  shows "float_of_int n = Inr (of_int n)"
proof -
  have "\<bar>of_int n :: rat\<bar> < 2 ^ 53" using assms by (metis of_int_abs of_int_less_iff of_int_numeral of_int_power)
  moreover have "(2 :: rat) ^ 53 < overflow_bound" unfolding overflow_bound_def by (rule power_strict_increasing) simp_all
  ultimately show ?thesis using f64_of_int [OF assms] by (simp add: float_of_int_def)
qed

lemma one_in_range: "number_in_range (PInt 1) 0 (Some 10)" "number_in_range (PInt 1) 0 None"
  by (simp_all add: number_in_range_def float_of_small)

lemma snap_codes: "server_codes (snap_platform scan) snap_server = {}"
proof -
  have "filter (\<lambda>k. \<not> has_key snap_server k) SERVER_REQUIRED_FIELDS = []" by code_simp
  moreover have "validate_basic_fields snap_server = {}" by code_simp
  moreover have "validate_grade_fields snap_server = {}" by code_simp
  moreover have "validate_dimensions (dget snap_server ''dimensions'') = {}"
    by (simp add: snap_server_def validate_dimensions_def DIMENSIONS_def has_key_def one_in_range)
  moreover have "validate_findings (dget snap_server ''findings'') = {}" by code_simp
  moreover have "validate_evidence (dget snap_server ''evidence'') = {}" by code_simp
  moreover have "validate_source (dget snap_server ''source'') = ({}, Some (PStr ''npm'', PStr ''pkg@1.0.0''), Some False)"
    by code_simp
  moreover have "check_credentials (dget snap_server ''requires_credentials'') (Some False) = {}" by code_simp
  moreover have "supported_string (dget snap_server ''scan_mode'') SCAN_MODES" by code_simp
  moreover have "validate_sandbox (dget snap_server ''sandbox'') (dget snap_server ''scan_mode'') = {}" by code_simp
  moreover have "timezone_aware_datetime (snap_platform scan) (dget snap_server ''scanned_at'')" by code_simp
  moreover have "number_in_range (dget snap_server ''scan_age_days'') 0 None"
    by (simp add: snap_server_def one_in_range)
  moreover have "validate_grade_change (snap_platform scan) (dget snap_server ''grade_change'') (dget snap_server ''grade'') = {}"
    by code_simp
  ultimately show ?thesis by (simp add: server_codes_def add_missing_field_reasons_def snap_binding)
qed

lemma snap_fresh:
  "validate_freshness_binding (snap_platform scan) snap_server (PStr ''2026-07-02T00:00:00+00:00'') = Inr {}"
  by code_simp

lemma snap_times: "timezone_aware_datetime (snap_platform scan) (PStr ''2026-07-02T00:00:00+00:00'')"
  "timezone_aware_datetime (snap_platform scan) (PStr ''2026-07-01T00:00:00+00:00'')"
  by code_simp+

lemma snap_reasons: "validation_reasons (snap_platform scan) snap_value = Inr {}"
proof -
  have "check_slug {} (dget snap_server ''slug'') = ({}, {''demo-server''})" by code_simp
  then have "validate_servers (snap_platform scan) (PStr ''2026-07-02T00:00:00+00:00'') {} {} [PDict snap_server] = Inr {}"
    using snap_codes snap_fresh by (simp add: Let_def case_prod_unfold check_coordinate_def split: option.split)
  then show ?thesis
    by (simp add: validation_reasons_def snap_value_def count_codes_def servers_codes_def has_key_def snap_times
        MAX_SERVERS_def)
qed

lemma snap_admitted: "parse_catalog_snapshot (snap_platform scan) [] = Inr (Admitted snap_value)"
proof -
  have "json_scan (snap_platform scan) [] = Some snap_tree" by (simp add: snap_platform_def)
  then show ?thesis using snap_build snap_reasons
    by (simp add: parse_catalog_snapshot_def MAX_RAW_BYTES_def utf8_length_def)
qed

theorem admitted_grade_is_bound_witness:
  "\<exists>x y. to_float (dget snap_server ''danger_score'') = Inr (Fin x) \<and> \<bar>y - x\<bar> \<le> 51 / 10000
     \<and> ''D'' = cap_candidate (danger_band y)"
proof -
  have s: "dget snap_value ''servers'' = PList [PDict snap_server]" by (simp add: snap_value_def)
  have c: "has_critical (dget snap_server ''findings'')" by code_simp
  have g: "dget snap_server ''grade'' = PStr ''D''" by (simp add: snap_server_def)
  from admitted_grade_is_bound [OF snap_admitted s] c g show ?thesis by auto
qed

definition huge_age :: int where
  "huge_age = 2 ^ 1024"

definition huge_server :: pydict where
  "huge_server = [(''scanned_at'', PStr ''2026-07-01T00:00:00+00:00''), (''scan_age_days'', PInt huge_age)]"

end
