(* ===== verification/Strict_Json.thy ===== *)
theory Strict_Json
  imports Datetime
begin

text \<open>
  The strict JSON reader and the small decoders of \<open>catalog/snapshot_trust.py\<close>. Byte strings are
  strings of code points below 256.
\<close>

section \<open>Constants\<close>

definition MAX_METADATA_BYTES :: nat where "MAX_METADATA_BYTES = 256 * 1024"
definition MAX_JSON_NODES :: nat where "MAX_JSON_NODES = 10000"
definition MAX_JSON_STRING_CHARS :: nat where "MAX_JSON_STRING_CHARS = 65536"

section \<open>Hooks\<close>

text \<open>A repeated key raises (\<open>ValueError\<close>), as do the non-standard constants and long numbers.\<close>

definition reject_duplicate_keys :: "(string \<times> pyval) list \<Rightarrow> pyval res" where
  "reject_duplicate_keys pairs = (if distinct (map fst pairs) then Inr (PDict pairs) else Inl ValueError)"

definition bounded_int :: "string \<Rightarrow> int res" where
  "bounded_int value = (if 64 < length value then Inl ValueError else Inr (int_literal value))"

definition bounded_float :: "platform \<Rightarrow> string \<Rightarrow> pyfloat res" where
  "bounded_float pf value = (if 64 < length value then Inl ValueError
     else case float_literal pf value of Fin x \<Rightarrow> Inr (Fin x) | _ \<Rightarrow> Inl ValueError)"

fun strict_build :: "platform \<Rightarrow> jraw \<Rightarrow> pyval res"
  and strict_list :: "platform \<Rightarrow> jraw list \<Rightarrow> pyval list res"
  and strict_pairs :: "platform \<Rightarrow> (string \<times> jraw) list \<Rightarrow> (string \<times> pyval) list res" where
  "strict_build pf RNull = Inr PNone"
| "strict_build pf (RBool b) = Inr (PBool b)"
| "strict_build pf (RInt s) = map_sum id PInt (bounded_int s)"
| "strict_build pf (RFloat s) = map_sum id PFloat (bounded_float pf s)"
| "strict_build pf (RConst s) = Inl ValueError"
| "strict_build pf (RStr s) = Inr (PStr s)"
| "strict_build pf (RArr xs) = map_sum id PList (strict_list pf xs)"
| "strict_build pf (RObj ps) = bind_res (strict_pairs pf ps) reject_duplicate_keys"
| "strict_list pf [] = Inr []"
| "strict_list pf (x # xs) = bind_res (strict_build pf x) (\<lambda>v. map_sum id ((#) v) (strict_list pf xs))"
| "strict_pairs pf [] = Inr []"
| "strict_pairs pf ((k, x) # ps) = bind_res (strict_build pf x) (\<lambda>v. map_sum id ((#) (k, v)) (strict_pairs pf ps))"

section \<open>Safe values\<close>

text \<open>Unicode categories \<open>Cc\<close> and \<open>Cf\<close> among the admitted code points (\<open>Cs\<close> has none there).\<close>

definition unsafe_char :: "char \<Rightarrow> bool" where
  "unsafe_char c \<longleftrightarrow> (let n = of_char c :: nat in n < 32 \<or> (127 \<le> n \<and> n < 160) \<or> n = 173)"

definition safe_string :: "string \<Rightarrow> bool" where
  "safe_string s \<longleftrightarrow> \<not> (MAX_JSON_STRING_CHARS < length s \<or> list_ex unsafe_char s)"

text \<open>
  The loop over the stack of pending values: the head of the list is the top of the stack, the number
  counts the visits still allowed.
\<close>

fun safe_loop :: "nat \<Rightarrow> pyval list \<Rightarrow> bool" where
  "safe_loop n [] = True"
| "safe_loop 0 (current # pending) = False"
| "safe_loop (Suc n) (current # pending) = (case current of
     PDict d \<Rightarrow> safe_loop n (rev (map snd d) @ rev (map (\<lambda>p. PStr (fst p)) d) @ pending)
   | PList xs \<Rightarrow> safe_loop n (rev xs @ pending)
   | PStr s \<Rightarrow> (if \<not> safe_string s then False else safe_loop n pending)
   | PFloat (Fin _) \<Rightarrow> safe_loop n pending
   | PFloat _ \<Rightarrow> False
   | _ \<Rightarrow> safe_loop n pending)"

definition values_are_safe :: "pyval \<Rightarrow> bool" where
  "values_are_safe value = safe_loop MAX_JSON_NODES [value]"

definition strict_json :: "platform \<Rightarrow> string \<Rightarrow> pyval res" where
  "strict_json pf raw = (if MAX_METADATA_BYTES < length raw then Inl ValueError
     else case utf8_decode pf raw of
       None \<Rightarrow> Inl ValueError
     | Some t \<Rightarrow> (case json_scan pf t of
         None \<Rightarrow> Inl ValueError
       | Some tree \<Rightarrow> bind_res (strict_build pf tree) (\<lambda>value.
           if \<not> values_are_safe value then Inl ValueError else Inr value)))"

section \<open>Small decoders\<close>

definition is_int_min :: "pyval \<Rightarrow> int \<Rightarrow> bool" where
  "is_int_min v minimum \<longleftrightarrow> (case v of PInt n \<Rightarrow> minimum \<le> n | _ \<Rightarrow> False)"

text \<open>\<open>base64.b64decode\<close> with the URL-safe alphabet; padding is added by the caller, so a lone last
  character is the only malformed length, and unused low bits are dropped.\<close>

definition b64url_char :: "char \<Rightarrow> bool" where
  "b64url_char c \<longleftrightarrow> is_alnum_char c \<or> c = CHR ''_'' \<or> c = CHR ''-''"

definition b64url_value :: "char \<Rightarrow> nat" where
  "b64url_value c = (let n = of_char c :: nat in
     if is_upper_char c then n - 65 else if is_lower_char c then n - 71
     else if is_digit_char c then n + 4 else if c = CHR ''-'' then 62 else 63)"

fun b64url_bytes :: "nat list \<Rightarrow> nat list option" where
  "b64url_bytes [] = Some []"
| "b64url_bytes [a] = None"
| "b64url_bytes [a, b] = Some [a * 4 + b div 16]"
| "b64url_bytes [a, b, c] = Some [a * 4 + b div 16, b mod 16 * 16 + c div 4]"
| "b64url_bytes (a # b # c # d # rest) =
     map_option (\<lambda>bs. [a * 4 + b div 16, b mod 16 * 16 + c div 4, c mod 4 * 64 + d] @ bs) (b64url_bytes rest)"

definition decode_base64url :: "pyval \<Rightarrow> nat \<Rightarrow> string option" where
  "decode_base64url value expected_length = (case value of
     PStr s \<Rightarrow> (if s = [] \<or> \<not> list_all b64url_char s then None
       else case b64url_bytes (map b64url_value s) of
         None \<Rightarrow> None
       | Some bs \<Rightarrow> if length bs = expected_length then Some (map char_of bs) else None)
   | _ \<Rightarrow> None)"

text \<open>A timestamp with offset zero.\<close>

definition utc_datetime :: "platform \<Rightarrow> pyval \<Rightarrow> int option" where
  "utc_datetime pf value = (case value of
     PStr s \<Rightarrow> (case iso_parse pf (replace_Z s) of
         None \<Rightarrow> None
       | Some d \<Rightarrow> if dt_offset d \<noteq> Some 0 then None else Some (utc_instant d))
   | _ \<Rightarrow> None)"

text \<open>\<open>d["k"]\<close> of a field whose type has been checked.\<close>

definition str_of :: "pyval \<Rightarrow> string" where
  "str_of v = (case v of PStr s \<Rightarrow> s | _ \<Rightarrow> [])"

definition int_of :: "pyval \<Rightarrow> int" where
  "int_of v = (case v of PInt n \<Rightarrow> n | _ \<Rightarrow> 0)"

definition fields_of :: "pyval \<Rightarrow> pydict" where
  "fields_of v = (case v of PDict d \<Rightarrow> d | _ \<Rightarrow> [])"

definition items_of :: "pyval \<Rightarrow> pyval list" where
  "items_of v = (case v of PList xs \<Rightarrow> xs | _ \<Rightarrow> [])"

lemma accessors [simp]: "str_of (PStr s) = s" "int_of (PInt n) = n" "fields_of (PDict d) = d" "items_of (PList xs) = xs"
  by (simp_all add: str_of_def int_of_def fields_of_def items_of_def)

section \<open>The walk against its specification\<close>

text \<open>The number of visits a value needs, keys included, and the safety of every string and float in it.\<close>

fun json_nodes :: "pyval \<Rightarrow> nat" where
  "json_nodes (PDict d) = Suc (length d + sum_list (map (\<lambda>(k, v). json_nodes v) d))"
| "json_nodes (PList xs) = Suc (sum_list (map json_nodes xs))"
| "json_nodes _ = 1"

fun safe_val :: "pyval \<Rightarrow> bool" where
  "safe_val (PDict d) \<longleftrightarrow> list_all (\<lambda>(k, v). safe_string k \<and> safe_val v) d"
| "safe_val (PList xs) \<longleftrightarrow> list_all safe_val xs"
| "safe_val (PStr s) \<longleftrightarrow> safe_string s"
| "safe_val (PFloat (Fin _)) \<longleftrightarrow> True"
| "safe_val (PFloat _) \<longleftrightarrow> False"
| "safe_val _ \<longleftrightarrow> True"

lemma json_nodes_pos: "0 < json_nodes v"
  by (cases v) simp_all

lemma safe_loop_spec:
  "safe_loop n pending \<longleftrightarrow> sum_list (map json_nodes pending) \<le> n \<and> list_all safe_val pending"
proof (induction n pending rule: safe_loop.induct)
  case (2 current pending)
  then show ?case using json_nodes_pos [of current] by simp
next
  case (3 n current pending)
  show ?case
  proof (cases current)
    case (PDict d)
    have nodes: "sum_list (map json_nodes (rev (map snd d) @ rev (map (\<lambda>p. PStr (fst p)) d))) + 1 = json_nodes current"
      by (simp add: PDict rev_map [symmetric] sum_list_rev case_prod_unfold comp_def sum_list_triv)
    have safe: "list_all safe_val (rev (map snd d) @ rev (map (\<lambda>p. PStr (fst p)) d)) = safe_val current"
      by (simp add: PDict list_all_iff ball_Un case_prod_unfold) blast
    have "safe_loop (Suc n) (current # pending) = safe_loop n (rev (map snd d) @ rev (map (\<lambda>p. PStr (fst p)) d) @ pending)"
      by (simp add: PDict)
    also have "\<dots> \<longleftrightarrow> sum_list (map json_nodes (rev (map snd d) @ rev (map (\<lambda>p. PStr (fst p)) d) @ pending)) \<le> n
        \<and> list_all safe_val (rev (map snd d) @ rev (map (\<lambda>p. PStr (fst p)) d) @ pending)"
      using 3 PDict by blast
    finally show ?thesis using nodes safe by auto
  next
    case (PList xs)
    show ?thesis using 3 by (auto simp: PList list_all_iff sum_list_rev rev_map [symmetric])
  next
    case (PFloat f)
    then show ?thesis using 3 by (cases f) auto
  qed (use 3 in auto)
qed simp

lemma strict_build_wf:
  "strict_build pf raw = Inr v \<Longrightarrow> wf_val v"
  "strict_list pf raws = Inr vs \<Longrightarrow> list_all wf_val vs"
  "strict_pairs pf ps = Inr kvs \<Longrightarrow> list_all (\<lambda>(k, v). wf_val v) kvs"
  by (induction pf raw and pf raws and pf ps arbitrary: v and vs and kvs
      rule: strict_build_strict_list_strict_pairs.induct)
    (auto simp: reject_duplicate_keys_def map_sum_def split: sum.splits if_splits)

lemma values_are_safe_spec: "values_are_safe v \<longleftrightarrow> json_nodes v \<le> MAX_JSON_NODES \<and> safe_val v"
  by (simp add: values_are_safe_def safe_loop_spec)

section \<open>Properties\<close>

text \<open>C24. The stack walk accepts a value exactly when it has at most ten thousand nodes, keys included,
  every string in it, keys included, is short and free of control characters, and every float is finite.\<close>

theorem values_are_safe_iff: "values_are_safe v \<longleftrightarrow> json_nodes v \<le> MAX_JSON_NODES \<and> safe_val v"
  by (rule values_are_safe_spec)

text \<open>C25. What the strict reader lets through is a well-formed value, no key repeated in any of its
  objects, within the node and string limits; every refusal is a \<open>ValueError\<close>.\<close>

theorem strict_json_is_safe:
  "case strict_json pf raw of
     Inr v \<Rightarrow> length raw \<le> MAX_METADATA_BYTES \<and> wf_val v \<and> safe_val v \<and> json_nodes v \<le> MAX_JSON_NODES
   | Inl e \<Rightarrow> e = ValueError"
proof -
  have err: "(\<forall>e. strict_build pf r = Inl e \<longrightarrow> e = ValueError)"
    "(\<forall>e. strict_list pf rs = Inl e \<longrightarrow> e = ValueError)"
    "(\<forall>e. strict_pairs pf ps = Inl e \<longrightarrow> e = ValueError)" for r rs ps
    by (induction pf r and pf rs and pf ps rule: strict_build_strict_list_strict_pairs.induct)
      (auto simp: bind_res_eq_Inl map_sum_def bounded_int_def bounded_float_def reject_duplicate_keys_def
        split: sum.splits if_splits pyfloat.splits)
  show ?thesis
    using err(1) strict_build_wf(1)
    by (auto simp: strict_json_def values_are_safe_spec bind_res_eq_Inl split: option.split sum.split)
qed

end
