(* ===== verification/Snapshot_Trust.thy ===== *)
theory Snapshot_Trust
  imports Strict_Json Snapshot_Validation
begin

text \<open>
  Offline authentication of catalog snapshots (\<open>catalog/snapshot_trust.py\<close>): the consumer pins a root,
  keeps a checkpoint, and advances it along signed statements; a root is rotated by the recovery keys.
\<close>

section \<open>Constants\<close>

definition ROOT_SCHEMA :: string where "ROOT_SCHEMA = ''mcp-trust-snapshot-root.v1''"
definition STATEMENT_SCHEMA :: string where "STATEMENT_SCHEMA = ''mcp-trust-snapshot-statement.v1''"
definition CHECKPOINT_SCHEMA :: string where "CHECKPOINT_SCHEMA = ''mcp-trust-snapshot-checkpoint.v1''"
definition ROOT_UPDATE_SCHEMA :: string where "ROOT_UPDATE_SCHEMA = ''mcp-trust-snapshot-root-update.v1''"
definition SNAPSHOT_MEDIA_TYPE :: string where "SNAPSHOT_MEDIA_TYPE = ''application/vnd.mcp-trust.catalog+json''"
definition SNAPSHOT_SCHEMA_VERSION :: int where "SNAPSHOT_SCHEMA_VERSION = 2"
definition ALGORITHM :: string where "ALGORITHM = ''ed25519''"
definition MAX_SNAPSHOT_BYTES :: int where "MAX_SNAPSHOT_BYTES = 32 * 1024 * 1024"
definition MAX_KEYS :: nat where "MAX_KEYS = 32"
definition MAX_SIGNATURES :: nat where "MAX_SIGNATURES = 32"
definition MAX_LIFETIME_SECONDS :: int where "MAX_LIFETIME_SECONDS = 31 * 24 * 60 * 60"
definition MAX_CLOCK_SKEW_SECONDS :: int where "MAX_CLOCK_SKEW_SECONDS = 60 * 60"

definition ROOT_KEYS :: "string list" where
  "ROOT_KEYS = [''schema'', ''root_version'', ''publisher'', ''minimum_publication_id'',
     ''max_snapshot_lifetime_seconds'', ''max_clock_skew_seconds'', ''snapshot_threshold'',
     ''recovery_threshold'', ''keys'']"

definition ROOT_KEY_KEYS :: "string list" where
  "ROOT_KEY_KEYS = [''key_id'', ''algorithm'', ''public_key'', ''roles'', ''valid_from_publication_id'',
     ''valid_through_publication_id'']"

definition SIGNED_STATEMENT_KEYS :: "string list" where
  "SIGNED_STATEMENT_KEYS = [''publisher_id'', ''root_version'', ''publication_id'', ''issued_at'', ''expires_at'',
     ''snapshot'', ''previous'']"

definition SNAPSHOT_SUBJECT_KEYS :: "string list" where
  "SNAPSHOT_SUBJECT_KEYS = [''media_type'', ''schema_version'', ''length'', ''sha256'']"

definition PREVIOUS_KEYS :: "string list" where
  "PREVIOUS_KEYS = [''publication_id'', ''snapshot_sha256'', ''statement_sha256'']"

definition CHECKPOINT_KEYS :: "string list" where
  "CHECKPOINT_KEYS = [''schema'', ''publisher_id'', ''root_version'', ''root_sha256'', ''publication_id'',
     ''snapshot_sha256'', ''statement_sha256'']"

definition ROOT_UPDATE_SIGNED_KEYS :: "string list" where
  "ROOT_UPDATE_SIGNED_KEYS = [''publisher_id'', ''previous_root_version'', ''previous_root_sha256'', ''issued_at'',
     ''expires_at'', ''new_root'']"

definition ENVELOPE_KEYS :: "string list" where
  "ENVELOPE_KEYS = [''schema'', ''signed'', ''signatures'']"

section \<open>Patterns and digests\<close>

definition key_id_re :: "string \<Rightarrow> bool" where
  "key_id_re s \<longleftrightarrow> take 7 s = ''sha256:'' \<and> is_sha256 (drop 7 s)"

definition publisher_id_re :: "string \<Rightarrow> bool" where
  "publisher_id_re s = (case s of [] \<Rightarrow> False
     | c # cs \<Rightarrow> is_alnum_char c \<and> length cs \<le> 254 \<and>
         list_all (\<lambda>c. is_alnum_char c \<or> c \<in> {CHR ''.'', CHR ''_'', CHR ''/'', CHR ''-''}) cs)"

definition str_matching :: "(string \<Rightarrow> bool) \<Rightarrow> pyval \<Rightarrow> bool" where
  "str_matching P v = (case v of PStr s \<Rightarrow> P s | _ \<Rightarrow> False)"

lemma str_matching_iff: "str_matching P v \<longleftrightarrow> (\<exists>s. v = PStr s \<and> P s)"
  by (cases v) (simp_all add: str_matching_def)

text \<open>\<open>isinstance(v, dict) and set(v) == keys\<close>.\<close>

definition has_exactly :: "pyval \<Rightarrow> string list \<Rightarrow> bool" where
  "has_exactly v keys = (case v of PDict d \<Rightarrow> dkeys d = set keys | _ \<Rightarrow> False)"

lemma has_exactly_iff: "has_exactly v ks \<longleftrightarrow> (\<exists>d. v = PDict d \<and> dkeys d = set ks)"
  by (cases v) (simp_all add: has_exactly_def)

definition canonical_signed_bytes :: "platform \<Rightarrow> pyval \<Rightarrow> string" where
  "canonical_signed_bytes pf value = json_canonical pf value"

definition canonical_root_bytes :: "platform \<Rightarrow> pyval \<Rightarrow> string" where
  "canonical_root_bytes pf value = json_indented pf value @ [CHR 0x0A]"

definition statement_digest :: "platform \<Rightarrow> pydict \<Rightarrow> string" where
  "statement_digest pf signed = sha256_hex pf (canonical_signed_bytes pf (PDict signed))"

section \<open>The root\<close>

definition root_header_ok :: "pydict \<Rightarrow> bool" where
  "root_header_ok v \<longleftrightarrow> (let publisher = dget v ''publisher'' in
     dget v ''schema'' = PStr ROOT_SCHEMA
   \<and> is_int_min (dget v ''root_version'') 1
   \<and> has_exactly publisher [''id'', ''name'']
   \<and> str_matching publisher_id_re (dget (fields_of publisher) ''id'')
   \<and> str_matching (\<lambda>s. s \<noteq> []) (dget (fields_of publisher) ''name'')
   \<and> is_int_min (dget v ''minimum_publication_id'') 1
   \<and> is_int_min (dget v ''max_snapshot_lifetime_seconds'') 1
   \<and> int_of (dget v ''max_snapshot_lifetime_seconds'') \<le> MAX_LIFETIME_SECONDS
   \<and> is_int_min (dget v ''max_clock_skew_seconds'') 0
   \<and> int_of (dget v ''max_clock_skew_seconds'') \<le> MAX_CLOCK_SKEW_SECONDS
   \<and> is_int_min (dget v ''snapshot_threshold'') 1
   \<and> is_int_min (dget v ''recovery_threshold'') 1
   \<and> (case dget v ''keys'' of PList ks \<Rightarrow> 2 \<le> length ks \<and> length ks \<le> MAX_KEYS | _ \<Rightarrow> False))"

text \<open>One root key: its id, bytes and role, or \<open>None\<close>. A role that is a list or an object cannot be tested
  for membership in a set, which raises \<open>TypeError\<close>.\<close>

definition check_root_key :: "platform \<Rightarrow> (string \<times> string) list \<Rightarrow> pyval \<Rightarrow> (string \<times> string \<times> string) option res" where
  "check_root_key pf public_keys key =
     (if \<not> has_exactly key ROOT_KEY_KEYS then Inr None
      else let k = fields_of key; key_id = dget k ''key_id''; roles = dget k ''roles'';
               public = decode_base64url (dget k ''public_key'') 32;
               valid_from = dget k ''valid_from_publication_id''; valid_through = dget k ''valid_through_publication_id'' in
        if \<not> str_matching key_id_re key_id \<or> dget k ''algorithm'' \<noteq> PStr ALGORITHM \<or> public = None
          \<or> str_of key_id \<noteq> ''sha256:'' @ sha256_hex pf (the public) then Inr None
        else if \<not> is_list roles \<or> length (items_of roles) \<noteq> 1 then Inr None
        else if \<not> hashable (hd (items_of roles)) then Inl TypeError
        else if hd (items_of roles) \<noteq> PStr ''snapshot'' \<and> hd (items_of roles) \<noteq> PStr ''recovery'' then Inr None
        else if \<not> is_int_min valid_from 1
          \<or> (valid_through \<noteq> PNone \<and> (\<not> is_int_min valid_through (int_of valid_from) \<or> int_of valid_through < int_of valid_from))
          \<or> str_of key_id \<in> fst ` set public_keys then Inr None
        else Inr (Some (str_of key_id, the public, str_of (hd (items_of roles)))))"

text \<open>The loop over the keys: the public keys so far and the number of keys of each role.\<close>

fun check_root_keys :: "platform \<Rightarrow> (string \<times> string) list \<Rightarrow> nat \<Rightarrow> nat \<Rightarrow> pyval list \<Rightarrow>
    ((string \<times> string) list \<times> nat \<times> nat) option res" where
  "check_root_keys pf pks ns nr [] = Inr (Some (pks, ns, nr))"
| "check_root_keys pf pks ns nr (key # keys) = bind_res (check_root_key pf pks key) (\<lambda>r. case r of
     None \<Rightarrow> Inr None
   | Some (key_id, public, role) \<Rightarrow>
       (if role = ''snapshot'' then check_root_keys pf (dict_set key_id public pks) (Suc ns) nr keys
        else check_root_keys pf (dict_set key_id public pks) ns (Suc nr) keys))"

definition validate_root :: "platform \<Rightarrow> pyval \<Rightarrow> (pydict \<times> (string \<times> string) list) option res" where
  "validate_root pf value =
     (if \<not> has_exactly value ROOT_KEYS then Inr None
      else let v = fields_of value in
        if \<not> root_header_ok v then Inr None
        else bind_res (check_root_keys pf [] 0 0 (items_of (dget v ''keys''))) (\<lambda>r. case r of
            None \<Rightarrow> Inr None
          | Some (public_keys, snapshot_count, recovery_count) \<Rightarrow>
              if int snapshot_count < int_of (dget v ''snapshot_threshold'')
                \<or> int recovery_count < int_of (dget v ''recovery_threshold'') then Inr None
              else Inr (Some (v, public_keys))))"

text \<open>\<open>except (UnicodeError, ValueError, TypeError, MemoryError)\<close>.\<close>

definition load_root :: "platform \<Rightarrow> string \<Rightarrow> (pydict \<times> (string \<times> string) list) option" where
  "load_root pf raw = (case bind_res (strict_json pf raw) (validate_root pf) of Inr r \<Rightarrow> r | Inl _ \<Rightarrow> None)"

definition root_publisher_id :: "pydict \<Rightarrow> string" where
  "root_publisher_id rt = str_of (dget (fields_of (dget rt ''publisher'')) ''id'')"

section \<open>The checkpoint\<close>

definition validate_checkpoint :: "pyval \<Rightarrow> pydict option" where
  "validate_checkpoint value =
     (if has_exactly value CHECKPOINT_KEYS \<and>
        (let v = fields_of value in
           dget v ''schema'' = PStr CHECKPOINT_SCHEMA
         \<and> str_matching publisher_id_re (dget v ''publisher_id'')
         \<and> is_int_min (dget v ''root_version'') 1
         \<and> str_matching is_sha256 (dget v ''root_sha256'')
         \<and> is_int_min (dget v ''publication_id'') 1
         \<and> str_matching is_sha256 (dget v ''snapshot_sha256'')
         \<and> str_matching is_sha256 (dget v ''statement_sha256''))
      then Some (fields_of value) else None)"

definition load_checkpoint :: "platform \<Rightarrow> string option \<Rightarrow> pydict option" where
  "load_checkpoint pf raw = (case raw of None \<Rightarrow> None
     | Some bytes \<Rightarrow> (case strict_json pf bytes of Inl _ \<Rightarrow> None | Inr v \<Rightarrow> validate_checkpoint v))"

definition checkpoint_matches_root :: "platform \<Rightarrow> pydict \<Rightarrow> pydict \<Rightarrow> string \<Rightarrow> bool" where
  "checkpoint_matches_root pf checkpoint rt root_raw \<longleftrightarrow>
     dget checkpoint ''publisher_id'' = PStr (root_publisher_id rt)
   \<and> dget checkpoint ''root_version'' = dget rt ''root_version''
   \<and> dget checkpoint ''root_sha256'' = PStr (sha256_hex pf root_raw)"

section \<open>Statements and root updates\<close>

definition signature_shape_ok :: "pyval \<Rightarrow> bool" where
  "signature_shape_ok s \<longleftrightarrow> has_exactly s [''key_id'', ''signature'']
     \<and> str_matching key_id_re (dget (fields_of s) ''key_id'')
     \<and> decode_base64url (dget (fields_of s) ''signature'') 64 \<noteq> None"

definition signatures_ok :: "pyval \<Rightarrow> bool" where
  "signatures_ok v = (case v of
     PList ss \<Rightarrow> 1 \<le> length ss \<and> length ss \<le> MAX_SIGNATURES \<and> list_all signature_shape_ok ss
   | _ \<Rightarrow> False)"

definition subject_ok :: "pyval \<Rightarrow> bool" where
  "subject_ok subject \<longleftrightarrow> has_exactly subject SNAPSHOT_SUBJECT_KEYS \<and> (let s = fields_of subject in
     dget s ''media_type'' = PStr SNAPSHOT_MEDIA_TYPE
   \<and> py_eq (dget s ''schema_version'') (PInt SNAPSHOT_SCHEMA_VERSION)
   \<and> is_int_min (dget s ''length'') 0 \<and> int_of (dget s ''length'') \<le> MAX_SNAPSHOT_BYTES
   \<and> str_matching is_sha256 (dget s ''sha256''))"

definition previous_ok :: "pyval \<Rightarrow> bool" where
  "previous_ok previous \<longleftrightarrow> previous = PNone \<or> (has_exactly previous PREVIOUS_KEYS \<and> (let p = fields_of previous in
     is_int_min (dget p ''publication_id'') 1
   \<and> str_matching is_sha256 (dget p ''snapshot_sha256'')
   \<and> str_matching is_sha256 (dget p ''statement_sha256'')))"

definition validate_statement :: "platform \<Rightarrow> pyval \<Rightarrow> (pydict \<times> pydict list) option" where
  "validate_statement pf value =
     (if \<not> has_exactly value ENVELOPE_KEYS \<or> dget (fields_of value) ''schema'' \<noteq> PStr STATEMENT_SCHEMA then None
      else let signed = dget (fields_of value) ''signed''; signatures = dget (fields_of value) ''signatures'';
               s = fields_of signed in
        if has_exactly signed SIGNED_STATEMENT_KEYS
          \<and> str_matching publisher_id_re (dget s ''publisher_id'')
          \<and> is_int_min (dget s ''root_version'') 1
          \<and> is_int_min (dget s ''publication_id'') 1
          \<and> utc_datetime pf (dget s ''issued_at'') \<noteq> None
          \<and> utc_datetime pf (dget s ''expires_at'') \<noteq> None
          \<and> subject_ok (dget s ''snapshot'') \<and> previous_ok (dget s ''previous'') \<and> signatures_ok signatures
        then Some (s, map fields_of (items_of signatures)) else None)"

definition validate_root_update :: "platform \<Rightarrow> pyval \<Rightarrow> (pydict \<times> pydict list) option" where
  "validate_root_update pf value =
     (if \<not> has_exactly value ENVELOPE_KEYS \<or> dget (fields_of value) ''schema'' \<noteq> PStr ROOT_UPDATE_SCHEMA then None
      else let signed = dget (fields_of value) ''signed''; signatures = dget (fields_of value) ''signatures'';
               s = fields_of signed in
        if has_exactly signed ROOT_UPDATE_SIGNED_KEYS
          \<and> str_matching publisher_id_re (dget s ''publisher_id'')
          \<and> is_int_min (dget s ''previous_root_version'') 1
          \<and> str_matching is_sha256 (dget s ''previous_root_sha256'')
          \<and> utc_datetime pf (dget s ''issued_at'') \<noteq> None
          \<and> utc_datetime pf (dget s ''expires_at'') \<noteq> None
          \<and> signatures_ok signatures
        then Some (s, map fields_of (items_of signatures)) else None)"

section \<open>Signatures\<close>

definition key_is_authorized :: "pydict \<Rightarrow> string \<Rightarrow> int \<Rightarrow> bool" where
  "key_is_authorized key role publication_id \<longleftrightarrow>
     dget key ''roles'' = PList [PStr role]
   \<and> int_of (dget key ''valid_from_publication_id'') \<le> publication_id
   \<and> (dget key ''valid_through_publication_id'' = PNone
      \<or> publication_id \<le> int_of (dget key ''valid_through_publication_id''))"

definition root_keys :: "pydict \<Rightarrow> string \<Rightarrow> pydict option" where
  "root_keys rt = map_of (dict_of (map (\<lambda>k. (str_of (dget (fields_of k) ''key_id''), fields_of k))
     (items_of (dget rt ''keys''))))"

text \<open>The loop over the signatures: the key ids seen, those verified, and the reasons.\<close>

fun signature_loop :: "platform \<Rightarrow> string \<Rightarrow> (string \<Rightarrow> pydict option) \<Rightarrow> (string \<times> string) list \<Rightarrow> string \<Rightarrow> int \<Rightarrow>
    pydict list \<Rightarrow> string set \<Rightarrow> string list \<Rightarrow> string set \<Rightarrow> string list \<times> string set" where
  "signature_loop pf msg rks pks role pid [] seen verified reasons = (verified, reasons)"
| "signature_loop pf msg rks pks role pid (s # ss) seen verified reasons =
     (let key_id = str_of (dget s ''key_id'') in
      if key_id \<in> seen then signature_loop pf msg rks pks role pid ss seen verified (insert ''SIGNATURE_DUPLICATE'' reasons)
      else (case (rks key_id, map_of pks key_id) of
        (Some key, Some public) \<Rightarrow>
          (if \<not> key_is_authorized key role pid
           then signature_loop pf msg rks pks role pid ss (insert key_id seen) verified (insert ''SIGNER_NOT_AUTHORIZED'' reasons)
           else if \<not> ed25519_ok pf public (the (decode_base64url (dget s ''signature'') 64)) msg
           then signature_loop pf msg rks pks role pid ss (insert key_id seen) verified (insert ''SIGNATURE_INVALID'' reasons)
           else signature_loop pf msg rks pks role pid ss (insert key_id seen) (verified @ [key_id]) reasons)
      | _ \<Rightarrow> signature_loop pf msg rks pks role pid ss (insert key_id seen) verified (insert ''UNKNOWN_SIGNER'' reasons)))"

definition threshold_of :: "pydict \<Rightarrow> string \<Rightarrow> int" where
  "threshold_of rt role = int_of (dget rt (role @ ''_threshold''))"

definition verify_signatures :: "platform \<Rightarrow> pydict \<Rightarrow> pydict list \<Rightarrow> pydict \<Rightarrow> (string \<times> string) list \<Rightarrow> string \<Rightarrow> int \<Rightarrow>
    string list \<times> string set" where
  "verify_signatures pf signed signatures rt public_keys role publication_id =
     (let (verified, reasons) = signature_loop pf (canonical_signed_bytes pf (PDict signed)) (root_keys rt) public_keys
            role publication_id signatures {} [] {}
      in (sort verified, reasons \<union> flag (int (length verified) < threshold_of rt role)
           (if role = ''snapshot'' then ''SIGNATURE_THRESHOLD_NOT_MET'' else ''RECOVERY_THRESHOLD_NOT_MET'')))"

section \<open>Verifying a snapshot\<close>

record verified_snapshot =
  vs_publisher_id :: string
  vs_root_version :: int
  vs_publication_id :: int
  vs_issued_at :: string
  vs_expires_at :: string
  vs_snapshot_sha256 :: string
  vs_statement_sha256 :: string
  vs_signer_key_ids :: "string list"
  vs_next_checkpoint :: pydict

datatype 'a verification = UnknownStatus "string list" | Verified 'a

definition unknown :: "string set \<Rightarrow> 'a verification" where
  "unknown reasons = UnknownStatus (sorted_list_of_set reasons)"

text \<open>\<open>timestamp()\<close> of a UTC instant, a float; the epoch is day 719162.\<close>

definition timestamp :: "int \<Rightarrow> rat" where
  "timestamp t = total_seconds (t - 719162 * us_per_day)"

definition time_reasons :: "string \<Rightarrow> pydict \<Rightarrow> int \<Rightarrow> int \<Rightarrow> int \<Rightarrow> string set" where
  "time_reasons prefix rt issued_at expires_at now =
     (let lifetime = total_seconds (expires_at - issued_at) in
      flag (f64 (timestamp now + of_int (int_of (dget rt ''max_clock_skew_seconds''))) < timestamp issued_at)
        (prefix @ ''_NOT_YET_VALID'')
      \<union> flag (expires_at \<le> now) (prefix @ ''_EXPIRED'')
      \<union> flag (lifetime \<le> 0 \<or> of_int (int_of (dget rt ''max_snapshot_lifetime_seconds'')) < lifetime)
        (prefix @ ''_LIFETIME_INVALID''))"

definition identity_reasons :: "platform \<Rightarrow> pydict \<Rightarrow> pydict \<Rightarrow> string \<Rightarrow> string set" where
  "identity_reasons pf signed rt snapshot_bytes =
     (let subject = fields_of (dget signed ''snapshot'') in
      flag (dget signed ''publisher_id'' \<noteq> PStr (root_publisher_id rt)) ''PUBLISHER_ID_MISMATCH''
      \<union> flag (dget signed ''root_version'' \<noteq> dget rt ''root_version'') ''ROOT_VERSION_MISMATCH''
      \<union> flag (int_of (dget signed ''publication_id'') < int_of (dget rt ''minimum_publication_id'')) ''PUBLICATION_BELOW_ROOT_FLOOR''
      \<union> flag (MAX_SNAPSHOT_BYTES < int (length snapshot_bytes)) ''SNAPSHOT_STRUCTURAL_INVALID''
      \<union> flag (dget subject ''length'' \<noteq> PInt (int (length snapshot_bytes))
          \<or> dget subject ''sha256'' \<noteq> PStr (sha256_hex pf snapshot_bytes)) ''SNAPSHOT_DIGEST_MISMATCH'')"

definition structural_reasons :: "platform \<Rightarrow> string \<Rightarrow> string set res" where
  "structural_reasons pf snapshot_bytes = (case utf8_decode pf snapshot_bytes of
     None \<Rightarrow> Inr {''SNAPSHOT_STRUCTURAL_INVALID''}
   | Some t \<Rightarrow> bind_res (parse_catalog_snapshot pf t) (\<lambda>a. case a of
        Admitted _ \<Rightarrow> Inr {} | Rejected _ \<Rightarrow> Inr {''SNAPSHOT_STRUCTURAL_INVALID''}))"

text \<open>The chain: what the statement must say given the checkpoint.\<close>

definition expected_previous :: "pydict \<Rightarrow> pyval" where
  "expected_previous checkpoint = PDict [(''publication_id'', dget checkpoint ''publication_id''),
     (''snapshot_sha256'', dget checkpoint ''snapshot_sha256''),
     (''statement_sha256'', dget checkpoint ''statement_sha256'')]"

definition chain_reasons :: "pydict option \<Rightarrow> pydict \<Rightarrow> pydict \<Rightarrow> string \<Rightarrow> string \<Rightarrow> string set" where
  "chain_reasons checkpoint signed rt snapshot_sha256 statement_sha256 =
     (let publication_id = int_of (dget signed ''publication_id'') in case checkpoint of
        None \<Rightarrow> flag (publication_id \<noteq> int_of (dget rt ''minimum_publication_id'')) ''FIRST_USE_PUBLICATION_MISMATCH''
          \<union> flag (dget signed ''previous'' \<noteq> PNone) ''PUBLICATION_CHAIN_MISMATCH''
      | Some cp \<Rightarrow> (let held = int_of (dget cp ''publication_id'') in
          if publication_id < held then {''PUBLICATION_ROLLBACK''}
          else if publication_id = held then
            flag (dget cp ''snapshot_sha256'' \<noteq> PStr snapshot_sha256 \<or> dget cp ''statement_sha256'' \<noteq> PStr statement_sha256)
              ''PUBLICATION_ID_CONFLICT''
          else flag (\<not> py_eq (dget signed ''previous'') (expected_previous cp)) ''PUBLICATION_CHAIN_MISMATCH''))"

definition current_reasons :: "bool \<Rightarrow> pydict option \<Rightarrow> int \<Rightarrow> string set" where
  "current_reasons require_current checkpoint publication_id =
     (if \<not> require_current then {} else case checkpoint of
        None \<Rightarrow> {''CHECKPOINT_REQUIRED''}
      | Some cp \<Rightarrow> flag (int_of (dget cp ''publication_id'') < publication_id) ''CHECKPOINT_ADVANCE_REQUIRED'')"

definition next_checkpoint :: "platform \<Rightarrow> pydict \<Rightarrow> string \<Rightarrow> int \<Rightarrow> string \<Rightarrow> string \<Rightarrow> pydict" where
  "next_checkpoint pf rt root_bytes publication_id snapshot_sha256 statement_sha256 =
     [(''schema'', PStr CHECKPOINT_SCHEMA), (''publisher_id'', PStr (root_publisher_id rt)),
      (''root_version'', dget rt ''root_version''), (''root_sha256'', PStr (sha256_hex pf root_bytes)),
      (''publication_id'', PInt publication_id), (''snapshot_sha256'', PStr snapshot_sha256),
      (''statement_sha256'', PStr statement_sha256)]"

text \<open>What follows the loading of the four inputs.\<close>

definition judge_statement :: "platform \<Rightarrow> string \<Rightarrow> pydict \<Rightarrow> pydict list \<Rightarrow> string \<Rightarrow> pydict \<Rightarrow> (string \<times> string) list \<Rightarrow>
    pydict option \<Rightarrow> bool \<Rightarrow> pydt \<Rightarrow> verified_snapshot verification res" where
  "judge_statement pf snapshot_bytes signed signatures root_bytes rt public_keys checkpoint require_current now =
     bind_res (as_utc now) (\<lambda>fixed_now.
     bind_res (structural_reasons pf snapshot_bytes) (\<lambda>structural.
       let issued_at = the (utc_datetime pf (dget signed ''issued_at''));
           expires_at = the (utc_datetime pf (dget signed ''expires_at''));
           publication_id = int_of (dget signed ''publication_id'');
           statement_sha256 = statement_digest pf signed; snapshot_sha256 = sha256_hex pf snapshot_bytes;
           (signer_key_ids, signature_reasons) =
             verify_signatures pf signed signatures rt public_keys ''snapshot'' publication_id;
           reasons = identity_reasons pf signed rt snapshot_bytes \<union> structural
             \<union> time_reasons ''SNAPSHOT'' rt issued_at expires_at fixed_now
             \<union> chain_reasons checkpoint signed rt snapshot_sha256 statement_sha256
             \<union> current_reasons require_current checkpoint publication_id \<union> signature_reasons
       in if reasons \<noteq> {} then Inr (unknown reasons)
          else Inr (Verified \<lparr>vs_publisher_id = root_publisher_id rt, vs_root_version = int_of (dget rt ''root_version''),
             vs_publication_id = publication_id, vs_issued_at = str_of (dget signed ''issued_at''),
             vs_expires_at = str_of (dget signed ''expires_at''), vs_snapshot_sha256 = snapshot_sha256,
             vs_statement_sha256 = statement_sha256, vs_signer_key_ids = signer_key_ids,
             vs_next_checkpoint = next_checkpoint pf rt root_bytes publication_id snapshot_sha256 statement_sha256\<rparr>)))"

definition verify_snapshot :: "platform \<Rightarrow> string \<Rightarrow> string \<Rightarrow> string \<Rightarrow> string option \<Rightarrow> string option \<Rightarrow> bool \<Rightarrow> pydt \<Rightarrow>
    verified_snapshot verification res" where
  "verify_snapshot pf snapshot_bytes statement_bytes root_bytes checkpoint_bytes expected_root_sha256 require_current now =
     (case expected_root_sha256 of
        None \<Rightarrow> Inr (unknown {''TRUST_ROOT_DIGEST_REQUIRED''})
      | Some expected \<Rightarrow>
          if \<not> is_sha256 expected \<or> sha256_hex pf root_bytes \<noteq> expected then Inr (unknown {''TRUST_ROOT_DIGEST_MISMATCH''})
          else (case load_root pf root_bytes of
            None \<Rightarrow> Inr (unknown {''TRUST_ROOT_INVALID''})
          | Some (rt, public_keys) \<Rightarrow>
              (let checkpoint = load_checkpoint pf checkpoint_bytes in
               if checkpoint_bytes \<noteq> None \<and> checkpoint = None then Inr (unknown {''CHECKPOINT_INVALID''})
               else if checkpoint \<noteq> None \<and> \<not> checkpoint_matches_root pf (the checkpoint) rt root_bytes
               then Inr (unknown {''CHECKPOINT_ROOT_MISMATCH''})
               else (case strict_json pf statement_bytes of
                 Inl _ \<Rightarrow> Inr (unknown {''STATEMENT_INVALID''})
               | Inr loaded \<Rightarrow> (case validate_statement pf loaded of
                   None \<Rightarrow> Inr (unknown {''STATEMENT_INVALID''})
                 | Some (signed, signatures) \<Rightarrow>
                     judge_statement pf snapshot_bytes signed signatures root_bytes rt public_keys
                       checkpoint require_current now)))))"

section \<open>Verifying a root update\<close>

record verified_root_update =
  vr_publisher_id :: string
  vr_previous_root_version :: int
  vr_new_root_version :: int
  vr_recovery_signer_key_ids :: "string list"
  vr_new_root :: pydict
  vr_new_root_json :: string
  vr_next_checkpoint :: pydict

definition update_reasons :: "platform \<Rightarrow> pydict \<Rightarrow> pydict \<Rightarrow> string \<Rightarrow> pydict \<Rightarrow> pydict option \<Rightarrow> string set" where
  "update_reasons pf signed current_root root_bytes checkpoint new_root =
     flag (new_root = None) ''ROOT_UPDATE_INVALID''
   \<union> flag (dget signed ''publisher_id'' \<noteq> PStr (root_publisher_id current_root)) ''PUBLISHER_ID_MISMATCH''
   \<union> flag (dget signed ''previous_root_version'' \<noteq> dget current_root ''root_version'') ''ROOT_VERSION_MISMATCH''
   \<union> flag (dget signed ''previous_root_sha256'' \<noteq> PStr (sha256_hex pf root_bytes)) ''ROOT_DIGEST_MISMATCH''
   \<union> (case dget signed ''new_root'' of
        PDict nr \<Rightarrow> flag (\<not> is_int_min (dget nr ''minimum_publication_id'') (int_of (dget checkpoint ''publication_id''))) ''ROOT_UPDATE_ROLLBACK''
      | _ \<Rightarrow> {})
   \<union> (case new_root of None \<Rightarrow> {}
      | Some nr \<Rightarrow> flag (root_publisher_id nr \<noteq> root_publisher_id current_root) ''PUBLISHER_ID_MISMATCH''
          \<union> flag (dget nr ''root_version'' \<noteq> PInt (int_of (dget current_root ''root_version'') + 1)) ''ROOT_VERSION_MISMATCH'')"

definition judge_update :: "platform \<Rightarrow> pydict \<Rightarrow> pydict list \<Rightarrow> string \<Rightarrow> pydict \<Rightarrow> (string \<times> string) list \<Rightarrow> pydict \<Rightarrow> pydt \<Rightarrow>
    verified_root_update verification res" where
  "judge_update pf signed signatures root_bytes current_root public_keys checkpoint now =
     bind_res (as_utc now) (\<lambda>fixed_now.
     bind_res (validate_root pf (dget signed ''new_root'')) (\<lambda>validated.
       let new_root = map_option fst validated;
           issued_at = the (utc_datetime pf (dget signed ''issued_at''));
           expires_at = the (utc_datetime pf (dget signed ''expires_at''));
           (signer_key_ids, signature_reasons) = verify_signatures pf signed signatures current_root public_keys
             ''recovery'' (int_of (dget checkpoint ''publication_id''));
           reasons = time_reasons ''ROOT_UPDATE'' current_root issued_at expires_at fixed_now
             \<union> update_reasons pf signed current_root root_bytes checkpoint new_root \<union> signature_reasons
       in case new_root of
            None \<Rightarrow> Inr (unknown reasons)
          | Some nr \<Rightarrow> (if reasons \<noteq> {} then Inr (unknown reasons)
              else let new_root_bytes = canonical_root_bytes pf (PDict nr) in
                Inr (Verified \<lparr>vr_publisher_id = root_publisher_id current_root,
                  vr_previous_root_version = int_of (dget current_root ''root_version''),
                  vr_new_root_version = int_of (dget nr ''root_version''), vr_recovery_signer_key_ids = signer_key_ids,
                  vr_new_root = nr, vr_new_root_json = new_root_bytes,
                  vr_next_checkpoint = dict_set ''root_sha256'' (PStr (sha256_hex pf new_root_bytes))
                    (dict_set ''root_version'' (dget nr ''root_version'') checkpoint)\<rparr>))))"

definition verify_root_update :: "platform \<Rightarrow> string \<Rightarrow> string \<Rightarrow> string \<Rightarrow> string option \<Rightarrow> pydt \<Rightarrow>
    verified_root_update verification res" where
  "verify_root_update pf current_root_bytes update_bytes checkpoint_bytes expected_root_sha256 now =
     (case expected_root_sha256 of
        None \<Rightarrow> Inr (unknown {''TRUST_ROOT_DIGEST_REQUIRED''})
      | Some expected \<Rightarrow>
          if \<not> is_sha256 expected \<or> sha256_hex pf current_root_bytes \<noteq> expected then Inr (unknown {''TRUST_ROOT_DIGEST_MISMATCH''})
          else (case load_root pf current_root_bytes of
            None \<Rightarrow> Inr (unknown {''TRUST_ROOT_INVALID''})
          | Some (current_root, public_keys) \<Rightarrow>
              (case load_checkpoint pf (Some checkpoint_bytes) of
                 None \<Rightarrow> Inr (unknown {''CHECKPOINT_INVALID''})
               | Some checkpoint \<Rightarrow>
                   if \<not> checkpoint_matches_root pf checkpoint current_root current_root_bytes
                   then Inr (unknown {''CHECKPOINT_ROOT_MISMATCH''})
                   else (case strict_json pf update_bytes of
                     Inl _ \<Rightarrow> Inr (unknown {''ROOT_UPDATE_INVALID''})
                   | Inr loaded \<Rightarrow> (case validate_root_update pf loaded of
                       None \<Rightarrow> Inr (unknown {''ROOT_UPDATE_INVALID''})
                     | Some (signed, signatures) \<Rightarrow>
                         judge_update pf signed signatures current_root_bytes current_root public_keys checkpoint now)))))"

section \<open>The keys of a validated root\<close>

definition entry_id :: "pyval \<Rightarrow> string" where
  "entry_id k = str_of (dget (fields_of k) ''key_id'')"

lemma check_root_key_facts:
  assumes "check_root_key pf pks key = Inr (Some (kid, pub, role))"
  shows "kid = entry_id key \<and> kid = ''sha256:'' @ sha256_hex pf pub \<and> kid \<notin> fst ` set pks
    \<and> dget (fields_of key) ''roles'' = PList [PStr role] \<and> (role = ''snapshot'' \<or> role = ''recovery'')"
proof (cases "dget (fields_of key) ''roles''")
  case (PList rs)
  then show ?thesis using assms
    by (cases rs) (auto simp: check_root_key_def entry_id_def Let_def split: if_splits)
qed (use assms in \<open>simp_all add: check_root_key_def Let_def split: if_splits\<close>)

text \<open>The step of the loop, whatever the role.\<close>

lemma check_root_keys_Cons:
  assumes "check_root_keys pf pks ns nr (key # keys) = Inr (Some r)"
  shows "\<exists>kid pub role. check_root_key pf pks key = Inr (Some (kid, pub, role))
    \<and> check_root_keys pf (dict_set kid pub pks) (ns + of_bool (role = ''snapshot''))
        (nr + of_bool (role \<noteq> ''snapshot'')) keys = Inr (Some r)"
  using assms by (fastforce split: option.splits if_splits)

lemma check_root_keys_ids:
  "check_root_keys pf pks ns nr keys = Inr (Some (pks', ns', nr')) \<Longrightarrow>
     distinct (map entry_id keys) \<and> entry_id ` set keys \<inter> fst ` set pks = {}"
proof (induction keys arbitrary: pks ns nr)
  case (Cons key keys)
  from check_root_keys_Cons [OF Cons.prems] obtain kid pub role where
    k: "check_root_key pf pks key = Inr (Some (kid, pub, role))"
    and rest: "check_root_keys pf (dict_set kid pub pks) (ns + of_bool (role = ''snapshot''))
        (nr + of_bool (role \<noteq> ''snapshot'')) keys = Inr (Some (pks', ns', nr'))" by blast
  show ?case using Cons.IH [OF rest] check_root_key_facts [OF k] by auto
qed simp

lemma check_root_keys_public:
  "check_root_keys pf pks ns nr keys = Inr (Some (pks', ns', nr')) \<Longrightarrow>
     (\<forall>kid\<in>fst ` set pks. map_of pks' kid = map_of pks kid)
   \<and> (\<forall>k\<in>set keys. \<exists>pub. map_of pks' (entry_id k) = Some pub \<and> entry_id k = ''sha256:'' @ sha256_hex pf pub)"
proof (induction keys arbitrary: pks ns nr)
  case (Cons key keys)
  from check_root_keys_Cons [OF Cons.prems] obtain kid pub role where
    k: "check_root_key pf pks key = Inr (Some (kid, pub, role))"
    and rest: "check_root_keys pf (dict_set kid pub pks) (ns + of_bool (role = ''snapshot''))
        (nr + of_bool (role \<noteq> ''snapshot'')) keys = Inr (Some (pks', ns', nr'))" by blast
  note f = check_root_key_facts [OF k]
  note IH = Cons.IH [OF rest]
  have "map_of pks' kid = map_of (dict_set kid pub pks) kid" using IH by simp
  then have "map_of pks' kid = Some pub" by simp
  moreover have "\<forall>i\<in>fst ` set pks. map_of pks' i = map_of pks i"
  proof
    fix i assume i: "i \<in> fst ` set pks"
    then have "i \<in> fst ` set (dict_set kid pub pks)" by simp
    then have "map_of pks' i = map_of (dict_set kid pub pks) i" using IH by blast
    moreover have "i \<noteq> kid" using i f by blast
    ultimately show "map_of pks' i = map_of pks i" by simp
  qed
  moreover have "kid = entry_id key" "entry_id key = ''sha256:'' @ sha256_hex pf pub" using f by (blast, metis)
  ultimately show ?case using IH by simp
qed simp

lemma check_root_keys_counts:
  "check_root_keys pf pks ns nr keys = Inr (Some (pks', ns', nr')) \<Longrightarrow>
     ns' = ns + length (filter (\<lambda>k. dget (fields_of k) ''roles'' = PList [PStr ''snapshot'']) keys)
   \<and> nr' = nr + length (filter (\<lambda>k. dget (fields_of k) ''roles'' = PList [PStr ''recovery'']) keys)"
proof (induction keys arbitrary: pks ns nr)
  case (Cons key keys)
  from check_root_keys_Cons [OF Cons.prems] obtain kid pub role where
    k: "check_root_key pf pks key = Inr (Some (kid, pub, role))"
    and rest: "check_root_keys pf (dict_set kid pub pks) (ns + of_bool (role = ''snapshot''))
        (nr + of_bool (role \<noteq> ''snapshot'')) keys = Inr (Some (pks', ns', nr'))" by blast
  show ?case using Cons.IH [OF rest] check_root_key_facts [OF k] by auto
qed simp

lemma validate_root_facts:
  assumes "validate_root pf value = Inr (Some (rt, pks))"
  shows "value = PDict rt \<and> root_header_ok rt \<and> dkeys rt = set ROOT_KEYS
    \<and> distinct (map entry_id (items_of (dget rt ''keys'')))
    \<and> (\<forall>k\<in>set (items_of (dget rt ''keys'')). \<exists>pub. map_of pks (entry_id k) = Some pub
        \<and> entry_id k = ''sha256:'' @ sha256_hex pf pub)
    \<and> threshold_of rt ''snapshot'' \<le> int (length (filter (\<lambda>k. dget (fields_of k) ''roles'' = PList [PStr ''snapshot''])
        (items_of (dget rt ''keys''))))
    \<and> threshold_of rt ''recovery'' \<le> int (length (filter (\<lambda>k. dget (fields_of k) ''roles'' = PList [PStr ''recovery''])
        (items_of (dget rt ''keys''))))"
proof -
  have h: "has_exactly value ROOT_KEYS" "root_header_ok (fields_of value)"
    using assms by (auto simp: validate_root_def Let_def split: if_splits)
  let ?keys = "check_root_keys pf [] 0 0 (items_of (dget (fields_of value) ''keys''))"
  obtain r where r: "?keys = Inr r" using assms h by (cases ?keys) (simp_all add: validate_root_def Let_def)
  then obtain pks' ns nr where r': "r = Some (pks', ns, nr)"
    using assms h by (cases r) (auto simp: validate_root_def Let_def)
  have eq: "fields_of value = rt" "pks' = pks" and n: "threshold_of rt ''snapshot'' \<le> int ns" "threshold_of rt ''recovery'' \<le> int nr"
    using assms h r r' by (auto simp: validate_root_def Let_def threshold_of_def split: if_splits)
  have k: "check_root_keys pf [] 0 0 (items_of (dget rt ''keys'')) = Inr (Some (pks, ns, nr))"
    using r r' eq by simp
  obtain d where d: "value = PDict d" "dkeys d = set ROOT_KEYS" using h(1) unfolding has_exactly_iff by blast
  then have "rt = d" using eq(1) by simp
  then have v: "value = PDict rt" "dkeys rt = set ROOT_KEYS" "root_header_ok rt" using d h(2) by simp_all
  have counts: "ns = length (filter (\<lambda>k. dget (fields_of k) ''roles'' = PList [PStr ''snapshot'']) (items_of (dget rt ''keys'')))"
    "nr = length (filter (\<lambda>k. dget (fields_of k) ''roles'' = PList [PStr ''recovery'']) (items_of (dget rt ''keys'')))"
    using check_root_keys_counts [OF k] by auto
  show ?thesis
    using v(1,2,3) check_root_keys_ids [OF k] check_root_keys_public [OF k] n [unfolded counts] by blast
qed

lemma load_root_validates:
  "load_root pf raw = Some (rt, pks) \<Longrightarrow> validate_root pf (PDict rt) = Inr (Some (rt, pks))"
  using validate_root_facts by (fastforce simp: load_root_def split: sum.splits)

lemma root_keys_entry:
  assumes "root_keys rt kid = Some key"
  shows "\<exists>k\<in>set (items_of (dget rt ''keys'')). entry_id k = kid \<and> key = fields_of k"
proof -
  have "(kid, key) \<in> set (map (\<lambda>k. (entry_id k, fields_of k)) (items_of (dget rt ''keys'')))"
    using map_of_SomeD [OF assms [unfolded root_keys_def map_of_dict_of]] by (simp add: entry_id_def)
  then show ?thesis by auto
qed

section \<open>What the signature loop accepts\<close>

definition signature_key :: "pydict \<Rightarrow> string" where
  "signature_key s = str_of (dget s ''key_id'')"

definition signature_valid :: "platform \<Rightarrow> string \<Rightarrow> (string \<Rightarrow> pydict option) \<Rightarrow> (string \<times> string) list \<Rightarrow> string \<Rightarrow> int \<Rightarrow>
    pydict \<Rightarrow> bool" where
  "signature_valid pf msg rks pks role pid s = (case (rks (signature_key s), map_of pks (signature_key s)) of
     (Some key, Some public) \<Rightarrow> key_is_authorized key role pid
       \<and> ed25519_ok pf public (the (decode_base64url (dget s ''signature'') 64)) msg
   | _ \<Rightarrow> False)"

lemma signature_loop_cases:
  "signature_key s \<in> seen \<Longrightarrow> signature_loop pf msg rks pks role pid (s # ss) seen verified reasons =
     signature_loop pf msg rks pks role pid ss seen verified (insert ''SIGNATURE_DUPLICATE'' reasons)"
  "signature_key s \<notin> seen \<Longrightarrow> signature_valid pf msg rks pks role pid s \<Longrightarrow>
     signature_loop pf msg rks pks role pid (s # ss) seen verified reasons =
     signature_loop pf msg rks pks role pid ss (insert (signature_key s) seen) (verified @ [signature_key s]) reasons"
  "signature_key s \<notin> seen \<Longrightarrow> \<not> signature_valid pf msg rks pks role pid s \<Longrightarrow>
     \<exists>c. signature_loop pf msg rks pks role pid (s # ss) seen verified reasons =
     signature_loop pf msg rks pks role pid ss (insert (signature_key s) seen) verified (insert c reasons)"
  by (auto simp: signature_key_def signature_valid_def Let_def split: option.splits if_splits)

lemma signature_loop_reasons:
  "signature_loop pf msg rks pks role pid ss seen verified reasons = (vs, rs) \<Longrightarrow> reasons \<subseteq> rs"
proof (induction ss arbitrary: seen verified reasons)
  case (Cons s ss)
  note cases3 = signature_loop_cases [of s seen pf msg rks pks role pid ss verified reasons]
  consider "signature_key s \<in> seen" | "signature_key s \<notin> seen" "signature_valid pf msg rks pks role pid s"
    | "signature_key s \<notin> seen" "\<not> signature_valid pf msg rks pks role pid s" by blast
  then show ?case
  proof cases
    case 1
    then show ?thesis using Cons.IH Cons.prems cases3(1) by (metis insert_subset)
  next
    case 2
    then show ?thesis using Cons.IH Cons.prems cases3(2) by metis
  next
    case 3
    then show ?thesis using Cons.IH Cons.prems cases3(3) by (metis insert_subset)
  qed
qed simp

lemma signature_loop_finite:
  "signature_loop pf msg rks pks role pid ss seen verified reasons = (vs, rs) \<Longrightarrow> finite reasons \<Longrightarrow> finite rs"
  by (induction pf msg rks pks role pid ss seen verified reasons rule: signature_loop.induct)
    (auto simp: Let_def split: if_splits option.splits)

text \<open>Only keys of distinct valid signatures are counted.\<close>

lemma signature_loop_counts:
  assumes "signature_loop pf msg rks pks role pid ss seen verified reasons = (vs, rs)" "distinct verified" "set verified \<subseteq> seen"
  shows "distinct vs \<and> set vs \<subseteq> set verified \<union> {signature_key s |s. s \<in> set ss \<and> signature_valid pf msg rks pks role pid s}"
  using assms
proof (induction ss arbitrary: seen verified reasons)
  case (Cons s ss)
  note cases3 = signature_loop_cases [of s seen pf msg rks pks role pid ss verified reasons]
  consider "signature_key s \<in> seen" | "signature_key s \<notin> seen" "signature_valid pf msg rks pks role pid s"
    | "signature_key s \<notin> seen" "\<not> signature_valid pf msg rks pks role pid s" by blast
  then show ?case
  proof cases
    case 1
    then show ?thesis using Cons.IH [of seen verified] Cons.prems cases3(1) by fastforce
  next
    case 2
    have "distinct (verified @ [signature_key s])" "set (verified @ [signature_key s]) \<subseteq> insert (signature_key s) seen"
      using 2 Cons.prems by auto
    then show ?thesis using Cons.IH [of "insert (signature_key s) seen" "verified @ [signature_key s]"] 2 Cons.prems(1) cases3(2)
      by fastforce
  next
    case 3
    then show ?thesis using Cons.IH [of "insert (signature_key s) seen" verified] Cons.prems cases3(3) by fastforce
  qed
qed simp

text \<open>No reason is left exactly when the signatures are by distinct keys and each is valid.\<close>

lemma signature_loop_clean:
  "signature_loop pf msg rks pks role pid ss seen verified {} = (vs, {}) \<longleftrightarrow>
     distinct (map signature_key ss) \<and> signature_key ` set ss \<inter> seen = {}
   \<and> list_all (signature_valid pf msg rks pks role pid) ss \<and> vs = verified @ map signature_key ss"
proof (induction ss arbitrary: seen verified)
  case (Cons s ss)
  note cases3 = signature_loop_cases [of s seen pf msg rks pks role pid ss verified "{}"]
  consider "signature_key s \<in> seen" | "signature_key s \<notin> seen" "signature_valid pf msg rks pks role pid s"
    | "signature_key s \<notin> seen" "\<not> signature_valid pf msg rks pks role pid s" by blast
  then show ?case
  proof cases
    case 1
    then show ?thesis using cases3(1) signature_loop_reasons [of pf msg rks pks role pid ss seen verified "{''SIGNATURE_DUPLICATE''}" vs "{}"]
      by auto
  next
    case 2
    then show ?thesis using cases3(2) Cons.IH [of "insert (signature_key s) seen" "verified @ [signature_key s]"] by auto
  next
    case 3
    then obtain c where "signature_loop pf msg rks pks role pid (s # ss) seen verified {} =
        signature_loop pf msg rks pks role pid ss (insert (signature_key s) seen) verified {c}" using cases3(3) by blast
    then show ?thesis using 3 signature_loop_reasons [of pf msg rks pks role pid ss _ verified "{c}" vs "{}"] by auto
  qed
qed auto

text \<open>
  The role's threshold is met by distinct keys of the root, each authorised for the publication, each
  the digest of a public key under which one of the signatures covers the canonical payload.
\<close>

definition endorsed :: "platform \<Rightarrow> pydict \<Rightarrow> pydict list \<Rightarrow> pydict \<Rightarrow> string \<Rightarrow> int \<Rightarrow> string list \<Rightarrow> bool" where
  "endorsed pf rt signatures signed role pid signers \<longleftrightarrow>
     distinct signers \<and> sorted signers \<and> threshold_of rt role \<le> int (length signers)
   \<and> (\<forall>kid\<in>set signers. \<exists>k\<in>set (items_of (dget rt ''keys'')). \<exists>s\<in>set signatures. \<exists>public.
        entry_id k = kid \<and> signature_key s = kid \<and> kid = ''sha256:'' @ sha256_hex pf public
      \<and> key_is_authorized (fields_of k) role pid
      \<and> ed25519_ok pf public (the (decode_base64url (dget s ''signature'') 64)) (canonical_signed_bytes pf (PDict signed)))"

lemma verify_signatures_endorsed:
  assumes "load_root pf raw = Some (rt, pks)" "verify_signatures pf signed sigs rt pks role pid = (signers, {})"
  shows "endorsed pf rt sigs signed role pid signers"
proof -
  let ?msg = "canonical_signed_bytes pf (PDict signed)"
  obtain vs rs where loop: "signature_loop pf ?msg (root_keys rt) pks role pid sigs {} [] {} = (vs, rs)"
    by fastforce
  with assms(2) have rs: "rs = {}" and s: "signers = sort vs" and th: "threshold_of rt role \<le> int (length vs)"
    by (auto simp: verify_signatures_def)
  have clean: "distinct vs" "list_all (signature_valid pf ?msg (root_keys rt) pks role pid) sigs" "vs = map signature_key sigs"
    using loop signature_loop_clean [of pf ?msg "root_keys rt" pks role pid sigs "{}" "[]" vs] by (auto simp: rs)
  note root = validate_root_facts [OF load_root_validates [OF assms(1)]]
  have "\<exists>k\<in>set (items_of (dget rt ''keys'')). \<exists>s\<in>set sigs. \<exists>public. entry_id k = kid \<and> signature_key s = kid
      \<and> kid = ''sha256:'' @ sha256_hex pf public \<and> key_is_authorized (fields_of k) role pid
      \<and> ed25519_ok pf public (the (decode_base64url (dget s ''signature'') 64)) ?msg" if "kid \<in> set vs" for kid
  proof -
    from that clean obtain s where s: "s \<in> set sigs" "signature_key s = kid"
      and v: "signature_valid pf ?msg (root_keys rt) pks role pid s" by (auto simp: list_all_iff)
    from v s obtain key public where kp: "root_keys rt kid = Some key" "map_of pks kid = Some public"
      "key_is_authorized key role pid" "ed25519_ok pf public (the (decode_base64url (dget s ''signature'') 64)) ?msg"
      by (auto simp: signature_valid_def split: option.splits)
    from root_keys_entry [OF kp(1)] obtain k where k: "k \<in> set (items_of (dget rt ''keys''))" "entry_id k = kid" "key = fields_of k"
      by blast
    have "\<exists>pub. map_of pks (entry_id k) = Some pub \<and> entry_id k = ''sha256:'' @ sha256_hex pf pub"
      using root k(1) by blast
    then have "kid = ''sha256:'' @ sha256_hex pf public" using k(2) kp(2) by (metis option.inject)
    then show ?thesis using k s kp by blast
  qed
  then show ?thesis using clean(1) th by (simp add: endorsed_def s)
qed

section \<open>What a verification established\<close>

lemma verify_snapshot_Verified:
  assumes "verify_snapshot pf sb stmt rb cb expected rc now = Inr (Verified v)"
  shows "\<exists>rt pks loaded signed sigs. expected = Some (sha256_hex pf rb) \<and> is_sha256 (sha256_hex pf rb)
    \<and> load_root pf rb = Some (rt, pks) \<and> (cb \<noteq> None \<longrightarrow> load_checkpoint pf cb \<noteq> None)
    \<and> (\<forall>cp. load_checkpoint pf cb = Some cp \<longrightarrow> checkpoint_matches_root pf cp rt rb)
    \<and> strict_json pf stmt = Inr loaded \<and> validate_statement pf loaded = Some (signed, sigs)
    \<and> judge_statement pf sb signed sigs rb rt pks (load_checkpoint pf cb) rc now = Inr (Verified v)"
  using assms by (auto simp: verify_snapshot_def unknown_def Let_def split: option.splits if_splits sum.splits)

lemma judge_statement_Verified:
  fixes signed defines "pid \<equiv> int_of (dget signed ''publication_id'')"
  shows "judge_statement pf sb signed sigs rb rt pks cp rc now = Inr (Verified v) \<longleftrightarrow>
     dt_in_range (utc_instant now) \<and> structural_reasons pf sb = Inr {} \<and> identity_reasons pf signed rt sb = {}
   \<and> time_reasons ''SNAPSHOT'' rt (the (utc_datetime pf (dget signed ''issued_at'')))
       (the (utc_datetime pf (dget signed ''expires_at''))) (utc_instant now) = {}
   \<and> chain_reasons cp signed rt (sha256_hex pf sb) (statement_digest pf signed) = {}
   \<and> current_reasons rc cp pid = {}
   \<and> verify_signatures pf signed sigs rt pks ''snapshot'' pid = (vs_signer_key_ids v, {})
   \<and> v = \<lparr>vs_publisher_id = root_publisher_id rt, vs_root_version = int_of (dget rt ''root_version''),
       vs_publication_id = pid, vs_issued_at = str_of (dget signed ''issued_at''),
       vs_expires_at = str_of (dget signed ''expires_at''), vs_snapshot_sha256 = sha256_hex pf sb,
       vs_statement_sha256 = statement_digest pf signed, vs_signer_key_ids = vs_signer_key_ids v,
       vs_next_checkpoint = next_checkpoint pf rt rb pid (sha256_hex pf sb) (statement_digest pf signed)\<rparr>"
    (is "?L \<longleftrightarrow> ?R")
proof
  assume L: ?L
  obtain ids rs where sg: "verify_signatures pf signed sigs rt pks ''snapshot'' pid = (ids, rs)" by fastforce
  show ?R using L sg
    by (auto simp: judge_statement_def Let_def unknown_def pid_def split: if_splits)
next
  assume R: ?R
  then have "v = \<lparr>vs_publisher_id = root_publisher_id rt, vs_root_version = int_of (dget rt ''root_version''),
       vs_publication_id = pid, vs_issued_at = str_of (dget signed ''issued_at''),
       vs_expires_at = str_of (dget signed ''expires_at''), vs_snapshot_sha256 = sha256_hex pf sb,
       vs_statement_sha256 = statement_digest pf signed, vs_signer_key_ids = vs_signer_key_ids v,
       vs_next_checkpoint = next_checkpoint pf rt rb pid (sha256_hex pf sb) (statement_digest pf signed)\<rparr>" by blast
  with R show ?L by (simp add: judge_statement_def Let_def pid_def)
qed

lemma verify_root_update_Verified:
  assumes "verify_root_update pf rb upd cb expected now = Inr (Verified r)"
  shows "\<exists>rt pks cp loaded signed sigs. expected = Some (sha256_hex pf rb)
    \<and> load_root pf rb = Some (rt, pks) \<and> load_checkpoint pf (Some cb) = Some cp
    \<and> checkpoint_matches_root pf cp rt rb
    \<and> strict_json pf upd = Inr loaded \<and> validate_root_update pf loaded = Some (signed, sigs)
    \<and> judge_update pf signed sigs rb rt pks cp now = Inr (Verified r)"
  using assms by (auto simp: verify_root_update_def unknown_def Let_def split: option.splits if_splits sum.splits)

lemma judge_update_Verified:
  assumes "judge_update pf signed sigs rb rt pks cp now = Inr (Verified r)"
  shows "\<exists>npks. validate_root pf (dget signed ''new_root'') = Inr (Some (vr_new_root r, npks))
    \<and> dt_in_range (utc_instant now)
    \<and> time_reasons ''ROOT_UPDATE'' rt (the (utc_datetime pf (dget signed ''issued_at'')))
       (the (utc_datetime pf (dget signed ''expires_at''))) (utc_instant now) = {}
    \<and> update_reasons pf signed rt rb cp (Some (vr_new_root r)) = {}
    \<and> verify_signatures pf signed sigs rt pks ''recovery'' (int_of (dget cp ''publication_id'')) = (vr_recovery_signer_key_ids r, {})
    \<and> vr_publisher_id r = root_publisher_id rt
    \<and> vr_previous_root_version r = int_of (dget rt ''root_version'')
    \<and> vr_new_root_version r = int_of (dget (vr_new_root r) ''root_version'')
    \<and> vr_new_root_json r = canonical_root_bytes pf (PDict (vr_new_root r))
    \<and> vr_next_checkpoint r = dict_set ''root_sha256'' (PStr (sha256_hex pf (vr_new_root_json r)))
        (dict_set ''root_version'' (dget (vr_new_root r) ''root_version'') cp)"
proof -
  obtain ids rs where sg: "verify_signatures pf signed sigs rt pks ''recovery'' (int_of (dget cp ''publication_id'')) = (ids, rs)"
    by fastforce
  obtain val where val: "validate_root pf (dget signed ''new_root'') = Inr val"
    using assms by (cases "validate_root pf (dget signed ''new_root'')") (auto simp: judge_update_def as_utc_def split: if_splits)
  obtain nr npks where new: "val = Some (nr, npks)"
    using assms sg val by (cases val) (auto simp: judge_update_def Let_def unknown_def)
  show ?thesis using assms sg val
    by (simp add: new judge_update_def Let_def unknown_def split: if_splits) auto
qed

section \<open>The chain of checkpoints\<close>

lemma structural_reasons_empty:
  "structural_reasons pf sb = Inr {} \<Longrightarrow> \<exists>t catalog. utf8_decode pf sb = Some t \<and> parse_catalog_snapshot pf t = Inr (Admitted catalog)"
  by (auto simp: structural_reasons_def split: option.splits admission.splits) (metis admission.exhaust)+

lemma load_checkpoint_Some:
  "load_checkpoint pf cb = Some cp \<Longrightarrow> validate_checkpoint (PDict cp) = Some cp"
  by (auto simp: load_checkpoint_def validate_checkpoint_def has_exactly_iff split: option.splits sum.splits if_splits)

lemma is_int_min_iff: "is_int_min v m \<longleftrightarrow> (\<exists>n. v = PInt n \<and> m \<le> n)"
  by (auto simp: is_int_min_def split: pyval.splits)

lemma checkpoint_fields:
  assumes "validate_checkpoint v = Some cp"
  shows "dkeys cp = set CHECKPOINT_KEYS \<and> (\<exists>n. dget cp ''publication_id'' = PInt n \<and> 1 \<le> n)
    \<and> (\<exists>n. dget cp ''root_version'' = PInt n \<and> 1 \<le> n)"
  using assms by (auto simp: validate_checkpoint_def Let_def has_exactly_iff is_int_min_iff split: if_splits)

lemma root_header_ints:
  "root_header_ok rt \<Longrightarrow> (\<exists>n. dget rt ''root_version'' = PInt n \<and> 1 \<le> n) \<and> (\<exists>n. dget rt ''minimum_publication_id'' = PInt n \<and> 1 \<le> n)
    \<and> publisher_id_re (root_publisher_id rt) \<and> dget (fields_of (dget rt ''publisher'')) ''id'' = PStr (root_publisher_id rt)"
  by (auto simp: root_header_ok_def Let_def is_int_min_iff str_matching_iff root_publisher_id_def)

text \<open>The digests a checkpoint records for its publication.\<close>

definition checkpoint_head :: "pydict \<Rightarrow> pyval \<times> pyval" where
  "checkpoint_head cp = (dget cp ''snapshot_sha256'', dget cp ''statement_sha256'')"

lemma next_checkpoint_fields [simp]:
  "dget (next_checkpoint pf rt rb pid a b) ''publication_id'' = PInt pid"
  "dget (next_checkpoint pf rt rb pid a b) ''root_version'' = dget rt ''root_version''"
  "dget (next_checkpoint pf rt rb pid a b) ''root_sha256'' = PStr (sha256_hex pf rb)"
  "dget (next_checkpoint pf rt rb pid a b) ''publisher_id'' = PStr (root_publisher_id rt)"
  "checkpoint_head (next_checkpoint pf rt rb pid a b) = (PStr a, PStr b)"
  by (simp_all add: next_checkpoint_def checkpoint_head_def)

lemma chain_reasons_empty:
  assumes "chain_reasons (Some cp) signed rt a b = {}"
  shows "int_of (dget cp ''publication_id'') \<le> int_of (dget signed ''publication_id'')
    \<and> (int_of (dget signed ''publication_id'') = int_of (dget cp ''publication_id'') \<longrightarrow> checkpoint_head cp = (PStr a, PStr b))
    \<and> (int_of (dget cp ''publication_id'') < int_of (dget signed ''publication_id'') \<longrightarrow>
         py_eq (dget signed ''previous'') (expected_previous cp))"
  using assms by (auto simp: chain_reasons_def Let_def checkpoint_head_def flag_def split: if_splits)

text \<open>The published step and the rotation, as changes of the checkpoint.\<close>

lemma verified_snapshot_step:
  assumes v: "verify_snapshot pf sb stmt rb (Some cb) expected rc now = Inr (Verified v)"
    and cp: "load_checkpoint pf (Some cb) = Some cp"
  shows "int_of (dget cp ''publication_id'') \<le> vs_publication_id v
    \<and> (vs_publication_id v = int_of (dget cp ''publication_id'') \<longrightarrow> checkpoint_head (vs_next_checkpoint v) = checkpoint_head cp)
    \<and> dget (vs_next_checkpoint v) ''publication_id'' = PInt (vs_publication_id v)
    \<and> (\<forall>k\<in>{''publisher_id'', ''root_version'', ''root_sha256''}. dget (vs_next_checkpoint v) k = dget cp k)"
proof -
  from verify_snapshot_Verified [OF v] obtain rt pks signed sigs where
    m: "checkpoint_matches_root pf cp rt rb"
    and j: "judge_statement pf sb signed sigs rb rt pks (Some cp) rc now = Inr (Verified v)"
    using cp by auto
  note J = j [unfolded judge_statement_Verified]
  then have ch: "chain_reasons (Some cp) signed rt (sha256_hex pf sb) (statement_digest pf signed) = {}" by blast
  obtain pid where pid: "pid = int_of (dget signed ''publication_id'')" by blast
  from J have eqs: "vs_publication_id v = pid"
    "vs_next_checkpoint v = next_checkpoint pf rt rb pid (sha256_hex pf sb) (statement_digest pf signed)"
    unfolding pid by (metis verified_snapshot.select_convs)+
  show ?thesis using chain_reasons_empty [OF ch] m
    by (auto simp: eqs pid [symmetric] checkpoint_matches_root_def)
qed

lemma update_reasons_empty:
  assumes "update_reasons pf signed rt rb cp (Some nr) = {}"
  shows "dget signed ''publisher_id'' = PStr (root_publisher_id rt) \<and> dget signed ''previous_root_version'' = dget rt ''root_version''
    \<and> dget signed ''previous_root_sha256'' = PStr (sha256_hex pf rb) \<and> root_publisher_id nr = root_publisher_id rt
    \<and> dget nr ''root_version'' = PInt (int_of (dget rt ''root_version'') + 1)
    \<and> (\<forall>d. dget signed ''new_root'' = PDict d \<longrightarrow> is_int_min (dget d ''minimum_publication_id'') (int_of (dget cp ''publication_id'')))"
  using assms by (auto simp: update_reasons_def split: pyval.splits)

lemma dget_dict_set: "dget (dict_set k v d) j = (if j = k then v else dget d j)"
  by (simp add: dget_def)

lemma verified_root_step:
  assumes u: "verify_root_update pf rb upd cb expected now = Inr (Verified r)"
    and cp: "load_checkpoint pf (Some cb) = Some cp"
  shows "dget (vr_next_checkpoint r) ''root_version'' = PInt (int_of (dget cp ''root_version'') + 1)
    \<and> vr_new_root_version r = int_of (dget cp ''root_version'') + 1
    \<and> dget (vr_next_checkpoint r) ''root_sha256'' = PStr (sha256_hex pf (vr_new_root_json r))
    \<and> dget cp ''publisher_id'' = PStr (root_publisher_id (vr_new_root r))
    \<and> (\<forall>k. k \<noteq> ''root_version'' \<longrightarrow> k \<noteq> ''root_sha256'' \<longrightarrow> dget (vr_next_checkpoint r) k = dget cp k)"
proof -
  from verify_root_update_Verified [OF u] obtain rt pks signed sigs where
    m: "checkpoint_matches_root pf cp rt rb" and j: "judge_update pf signed sigs rb rt pks cp now = Inr (Verified r)"
    using cp by auto
  note J = judge_update_Verified [OF j]
  then have "update_reasons pf signed rt rb cp (Some (vr_new_root r)) = {}" by blast
  note U = update_reasons_empty [OF this]
  show ?thesis using J U m by (auto simp: dget_dict_set checkpoint_matches_root_def)
qed

text \<open>
  A log head that only moves forward: a position that never goes back, and content that cannot change
  without the position moving.
\<close>

locale forward_head =
  fixes step :: "'s \<Rightarrow> 's \<Rightarrow> bool" and pos :: "'s \<Rightarrow> int" and head :: "'s \<Rightarrow> 'h"
  assumes pos_mono: "step s t \<Longrightarrow> pos s \<le> pos t"
    and same_head: "step s t \<Longrightarrow> pos s = pos t \<Longrightarrow> head s = head t"
begin

lemma run_mono: "step\<^sup>*\<^sup>* s t \<Longrightarrow> pos s \<le> pos t"
  by (induction rule: rtranclp_induct) (auto dest: pos_mono)

lemma no_equivocation: "step\<^sup>*\<^sup>* s t \<Longrightarrow> pos s = pos t \<Longrightarrow> head s = head t"
proof (induction rule: rtranclp_induct)
  case (step t u)
  have "pos s \<le> pos t" using step.hyps(1) by (rule run_mono)
  moreover have "pos t \<le> pos u" using step.hyps(2) by (rule pos_mono)
  ultimately show ?case using step same_head by (metis order_antisym)
qed simp

end

text \<open>A consumer: the root it has pinned and the checkpoint it keeps, moved by verified inputs only.\<close>

record consumer =
  co_root_bytes :: string
  co_checkpoint :: pydict

inductive consumer_step :: "platform \<Rightarrow> consumer \<Rightarrow> consumer \<Rightarrow> bool" for pf where
  publish: "load_checkpoint pf (Some cb) = Some (co_checkpoint s) \<Longrightarrow>
    verify_snapshot pf sb stmt (co_root_bytes s) (Some cb) expected rc now = Inr (Verified v) \<Longrightarrow>
    consumer_step pf s (s\<lparr>co_checkpoint := vs_next_checkpoint v\<rparr>)"
| rotate: "load_checkpoint pf (Some cb) = Some (co_checkpoint s) \<Longrightarrow>
    verify_root_update pf (co_root_bytes s) upd cb expected now = Inr (Verified r) \<Longrightarrow>
    consumer_step pf s \<lparr>co_root_bytes = vr_new_root_json r, co_checkpoint = vr_next_checkpoint r\<rparr>"

definition co_publication :: "consumer \<Rightarrow> int" where
  "co_publication s = int_of (dget (co_checkpoint s) ''publication_id'')"

definition co_version :: "consumer \<Rightarrow> int" where
  "co_version s = int_of (dget (co_checkpoint s) ''root_version'')"

interpretation publications: forward_head "consumer_step pf" co_publication "\<lambda>s. checkpoint_head (co_checkpoint s)"
proof unfold_locales
  fix s t assume "consumer_step pf s t"
  then have "co_publication s \<le> co_publication t
    \<and> (co_publication s = co_publication t \<longrightarrow> checkpoint_head (co_checkpoint s) = checkpoint_head (co_checkpoint t))"
  proof cases
    case (publish cb sb stmt expected rc now v)
    then show ?thesis using verified_snapshot_step [OF publish(3) publish(2)] by (auto simp: co_publication_def)
  next
    case (rotate cb upd expected now r)
    then show ?thesis using verified_root_step [OF rotate(3) rotate(2)]
      by (simp add: co_publication_def checkpoint_head_def)
  qed
  then show "co_publication s \<le> co_publication t"
    "co_publication s = co_publication t \<Longrightarrow> checkpoint_head (co_checkpoint s) = checkpoint_head (co_checkpoint t)"
    by blast+
qed

interpretation root_versions: forward_head "consumer_step pf" co_version "\<lambda>s. dget (co_checkpoint s) ''root_sha256''"
proof unfold_locales
  fix s t assume "consumer_step pf s t"
  then have "co_version s \<le> co_version t
    \<and> (co_version s = co_version t \<longrightarrow> dget (co_checkpoint s) ''root_sha256'' = dget (co_checkpoint t) ''root_sha256'')"
  proof cases
    case (publish cb sb stmt expected rc now v)
    then show ?thesis using verified_snapshot_step [OF publish(3) publish(2)] by (simp add: co_version_def)
  next
    case (rotate cb upd expected now r)
    then show ?thesis using verified_root_step [OF rotate(3) rotate(2)] by (simp add: co_version_def)
  qed
  then show "co_version s \<le> co_version t"
    "co_version s = co_version t \<Longrightarrow> dget (co_checkpoint s) ''root_sha256'' = dget (co_checkpoint t) ''root_sha256''"
    by blast+
qed

lemma consumer_publisher: "(consumer_step pf)\<^sup>*\<^sup>* s t \<Longrightarrow>
    dget (co_checkpoint t) ''publisher_id'' = dget (co_checkpoint s) ''publisher_id''"
proof (induction rule: rtranclp_induct)
  case (step t u)
  from step.hyps(2) have "dget (co_checkpoint u) ''publisher_id'' = dget (co_checkpoint t) ''publisher_id''"
  proof cases
    case (publish cb sb stmt expected rc now v)
    then show ?thesis using verified_snapshot_step [OF publish(3) publish(2)] by simp
  next
    case (rotate cb upd expected now r)
    then show ?thesis using verified_root_step [OF rotate(3) rotate(2)] by simp
  qed
  with step.IH show ?case by simp
qed simp

section \<open>Outcomes\<close>

lemma finite_flag_reasons [simp]: "finite (time_reasons p rt i e n)" "finite (identity_reasons pf signed rt sb)"
  "finite (chain_reasons cp signed rt a b)" "finite (current_reasons rc cp pid)" "finite (update_reasons pf signed rt rb c nr)"
  by (auto simp: time_reasons_def identity_reasons_def chain_reasons_def current_reasons_def update_reasons_def
      Let_def split: option.splits pyval.splits)

lemma finite_verify_signatures: "verify_signatures pf signed sigs rt pks role pid = (ids, rs) \<Longrightarrow> finite rs"
  by (auto simp: verify_signatures_def split: prod.splits dest: signature_loop_finite)

lemma structural_reasons_finite: "structural_reasons pf sb = Inr rs \<Longrightarrow> finite rs"
  by (auto simp: structural_reasons_def split: option.splits admission.splits) (metis admission.exhaust)

definition unknown_wf :: "'a verification \<Rightarrow> bool" where
  "unknown_wf r = (case r of UnknownStatus codes \<Rightarrow> codes \<noteq> [] \<and> sorted codes \<and> distinct codes | Verified _ \<Rightarrow> True)"

lemma unknown_wf_unknown: "finite reasons \<Longrightarrow> reasons \<noteq> {} \<Longrightarrow> unknown_wf (unknown reasons)"
  by (simp add: unknown_wf_def unknown_def)

lemma unknown_wf_singleton [simp]: "unknown_wf (unknown {c})"
  by (simp add: unknown_wf_unknown)

lemma judge_statement_unknown:
  "judge_statement pf sb signed sigs rb rt pks cp rc now = Inr r \<Longrightarrow> unknown_wf r"
proof -
  assume j: "judge_statement pf sb signed sigs rb rt pks cp rc now = Inr r"
  obtain ids rs where sg: "verify_signatures pf signed sigs rt pks ''snapshot'' (int_of (dget signed ''publication_id'')) = (ids, rs)"
    by fastforce
  from j obtain st where st: "structural_reasons pf sb = Inr st" and now: "dt_in_range (utc_instant now)"
    by (auto simp: judge_statement_def)
  let ?R = "identity_reasons pf signed rt sb \<union> st
      \<union> time_reasons ''SNAPSHOT'' rt (the (utc_datetime pf (dget signed ''issued_at'')))
          (the (utc_datetime pf (dget signed ''expires_at''))) (utc_instant now)
      \<union> chain_reasons cp signed rt (sha256_hex pf sb) (statement_digest pf signed)
      \<union> current_reasons rc cp (int_of (dget signed ''publication_id'')) \<union> rs"
  have fin: "finite ?R" using structural_reasons_finite [OF st] finite_verify_signatures [OF sg] by simp
  have "?R \<noteq> {} \<and> r = unknown ?R \<or> (\<exists>v. r = Verified v)"
  proof (cases "?R = {}")
    case True
    then show ?thesis using j now by (simp add: judge_statement_def Let_def sg st del: ex_simps) blast
  next
    case False
    then have "Inr r = (Inr (unknown ?R) :: verified_snapshot verification res)"
      using j now unfolding judge_statement_def Let_def sg st by (simp only: as_utc_def if_True bind_res_simps case_prod_conv if_False not_False_eq_True)
    with False show ?thesis by simp
  qed
  then show ?thesis using unknown_wf_unknown [OF fin] by (auto simp: unknown_wf_def)
qed

section \<open>Properties\<close>


text \<open>C13. Whatever verified statements and rotations a consumer follows, its publication id and its root version
  never go back, the publisher never changes, and neither the digests recorded at a publication id nor the
  root digest recorded at a root version can be replaced.\<close>

theorem consumer_never_equivocates:
  assumes "(consumer_step pf)\<^sup>*\<^sup>* s t"
  shows "co_publication s \<le> co_publication t \<and> co_version s \<le> co_version t
    \<and> dget (co_checkpoint t) ''publisher_id'' = dget (co_checkpoint s) ''publisher_id''
    \<and> (co_publication s = co_publication t \<longrightarrow> checkpoint_head (co_checkpoint s) = checkpoint_head (co_checkpoint t))
    \<and> (co_version s = co_version t \<longrightarrow>
         dget (co_checkpoint s) ''root_sha256'' = dget (co_checkpoint t) ''root_sha256'')"
  using publications.run_mono [OF assms] publications.no_equivocation [OF assms] root_versions.run_mono [OF assms]
    root_versions.no_equivocation [OF assms] consumer_publisher [OF assms] by blast

text \<open>C14. A verified root update carries the recovery threshold of the pinned root for the checkpoint's publication,
  raises the version by exactly one, keeps the publisher, names the current root's digest, admits a valid new
  root whose floor is not below the checkpoint, and changes nothing in the checkpoint but the root it names.\<close>

theorem rotation_needs_recovery_threshold:
  assumes "verify_root_update pf rb upd cb expected now = Inr (Verified r)"
  shows "expected = Some (sha256_hex pf rb) \<and> (\<exists>rt pks cp loaded signed sigs npks.
      load_root pf rb = Some (rt, pks) \<and> load_checkpoint pf (Some cb) = Some cp
    \<and> strict_json pf upd = Inr loaded \<and> validate_root_update pf loaded = Some (signed, sigs)
    \<and> endorsed pf rt sigs signed ''recovery'' (int_of (dget cp ''publication_id'')) (vr_recovery_signer_key_ids r)
    \<and> dget signed ''previous_root_sha256'' = PStr (sha256_hex pf rb)
    \<and> validate_root pf (PDict (vr_new_root r)) = Inr (Some (vr_new_root r, npks))
    \<and> root_publisher_id (vr_new_root r) = root_publisher_id rt
    \<and> vr_new_root_version r = vr_previous_root_version r + 1
    \<and> int_of (dget cp ''publication_id'') \<le> int_of (dget (vr_new_root r) ''minimum_publication_id'')
    \<and> checkpoint_matches_root pf (vr_next_checkpoint r) (vr_new_root r) (vr_new_root_json r)
    \<and> (\<forall>k. k \<noteq> ''root_version'' \<longrightarrow> k \<noteq> ''root_sha256'' \<longrightarrow> dget (vr_next_checkpoint r) k = dget cp k))"
proof -
  from verify_root_update_Verified [OF assms] obtain rt pks cp loaded signed sigs where
    e: "expected = Some (sha256_hex pf rb)" "load_root pf rb = Some (rt, pks)" "load_checkpoint pf (Some cb) = Some cp"
    "strict_json pf upd = Inr loaded" "validate_root_update pf loaded = Some (signed, sigs)"
    and m: "checkpoint_matches_root pf cp rt rb" and j: "judge_update pf signed sigs rb rt pks cp now = Inr (Verified r)"
    by blast
  from judge_update_Verified [OF j] obtain npks where
    n: "validate_root pf (dget signed ''new_root'') = Inr (Some (vr_new_root r, npks))"
    and ur: "update_reasons pf signed rt rb cp (Some (vr_new_root r)) = {}"
    and sg: "verify_signatures pf signed sigs rt pks ''recovery'' (int_of (dget cp ''publication_id'')) = (vr_recovery_signer_key_ids r, {})"
    and pv: "vr_previous_root_version r = int_of (dget rt ''root_version'')"
    "vr_new_root_version r = int_of (dget (vr_new_root r) ''root_version'')"
    by blast
  note U = update_reasons_empty [OF ur]
  note step = verified_root_step [OF assms e(3)]
  have nr: "dget signed ''new_root'' = PDict (vr_new_root r)" using validate_root_facts [OF n] by blast
  then have "is_int_min (dget (vr_new_root r) ''minimum_publication_id'') (int_of (dget cp ''publication_id''))"
    using U by blast
  then have floor: "int_of (dget cp ''publication_id'') \<le> int_of (dget (vr_new_root r) ''minimum_publication_id'')"
    by (auto simp: is_int_min_iff)
  have match: "checkpoint_matches_root pf (vr_next_checkpoint r) (vr_new_root r) (vr_new_root_json r)"
    using step U pv m by (auto simp: checkpoint_matches_root_def)
  show ?thesis
    using e verify_signatures_endorsed [OF e(2) sg] U n [unfolded nr] pv floor match step by auto
qed

text \<open>Verifying the same publication again from the checkpoint it returned gives the same verified result,
  also when the caller demands that the checkpoint is already current.\<close>

lemma reverification_is_stable:
  assumes v: "verify_snapshot pf sb stmt rb cb expected rc now = Inr (Verified v)"
    and cp: "load_checkpoint pf (Some cb') = Some (vs_next_checkpoint v)"
  shows "verify_snapshot pf sb stmt rb (Some cb') expected rc' now = Inr (Verified v)"
proof -
  from verify_snapshot_Verified [OF v] obtain rt pks loaded signed sigs where
    e: "expected = Some (sha256_hex pf rb)" "is_sha256 (sha256_hex pf rb)" "load_root pf rb = Some (rt, pks)"
    "strict_json pf stmt = Inr loaded" "validate_statement pf loaded = Some (signed, sigs)"
    and j: "judge_statement pf sb signed sigs rb rt pks (load_checkpoint pf cb) rc now = Inr (Verified v)"
    by blast
  define pid where "pid = int_of (dget signed ''publication_id'')"
  note J = j [unfolded judge_statement_Verified]
  have next_cp: "vs_next_checkpoint v = next_checkpoint pf rt rb pid (sha256_hex pf sb) (statement_digest pf signed)"
    using J unfolding pid_def by (metis verified_snapshot.select_convs(9))
  have m: "checkpoint_matches_root pf (vs_next_checkpoint v) rt rb"
    by (simp add: next_cp checkpoint_matches_root_def)
  have h: "checkpoint_head (vs_next_checkpoint v) = (PStr (sha256_hex pf sb), PStr (statement_digest pf signed))"
    by (simp add: next_cp)
  have ch: "chain_reasons (Some (vs_next_checkpoint v)) signed rt (sha256_hex pf sb) (statement_digest pf signed) = {}"
    using h by (simp add: chain_reasons_def Let_def checkpoint_head_def, simp add: next_cp pid_def)
  have cur: "current_reasons rc' (Some (vs_next_checkpoint v)) pid = {}"
    by (simp add: current_reasons_def next_cp)
  have "judge_statement pf sb signed sigs rb rt pks (Some (vs_next_checkpoint v)) rc' now = Inr (Verified v)"
    unfolding judge_statement_Verified using J ch cur [unfolded pid_def] by blast
  then show ?thesis by (simp add: verify_snapshot_def e cp m)
qed

text \<open>Every outcome of snapshot verification is typed: either verified, or unknown with a nonempty, sorted,
  repetition-free list of reason codes; the one exception it can raise is the overflow of a date.\<close>

lemma verification_outcome_is_typed:
  "case verify_snapshot pf sb stmt rb cb expected rc now of Inr r \<Rightarrow> unknown_wf r | Inl e \<Rightarrow> e = OverflowError"
proof (cases "verify_snapshot pf sb stmt rb cb expected rc now")
  case (Inl e)
  then obtain signed sigs rt pks cp where "judge_statement pf sb signed sigs rb rt pks cp rc now = Inl e"
    by (auto simp: verify_snapshot_def Let_def split: option.splits if_splits sum.splits)
  then have "e = OverflowError"
    by (auto simp: judge_statement_def Let_def bind_res_eq_Inl as_utc_def structural_reasons_def dest!: parse_overflow
        split: if_splits option.splits admission.splits prod.splits) (metis admission.exhaust)
  with Inl show ?thesis by simp
next
  case (Inr r)
  then have "unknown_wf r \<or> (\<exists>signed sigs rt pks cp. judge_statement pf sb signed sigs rb rt pks cp rc now = Inr r)"
    by (auto simp: verify_snapshot_def Let_def split: option.splits if_splits sum.splits)
  then show ?thesis using judge_statement_unknown Inr by auto
qed

text \<open>The update's new root is validated outside any handler: when the role of its first key is a list or an
  object, the verifier raises a type error instead of answering unknown, whatever the signatures are.\<close>

lemma unhashable_role_escapes_update:
  assumes "expected = Some (sha256_hex pf rb)" "is_sha256 (sha256_hex pf rb)" "load_root pf rb = Some (rt, pks)"
    and "load_checkpoint pf (Some cb) = Some cp" "checkpoint_matches_root pf cp rt rb"
    and "strict_json pf upd = Inr loaded" "validate_root_update pf loaded = Some (signed, sigs)"
    and "dt_in_range (utc_instant now)"
    and "dget signed ''new_root'' = PDict nr" "dkeys nr = set ROOT_KEYS" "root_header_ok nr"
    and "dget nr ''keys'' = PList (PDict k # ks)" "dkeys k = set ROOT_KEY_KEYS"
    and "dget k ''key_id'' = PStr kid" "key_id_re kid" "dget k ''algorithm'' = PStr ALGORITHM"
    and "decode_base64url (dget k ''public_key'') 32 = Some pub" "kid = ''sha256:'' @ sha256_hex pf pub"
    and "dget k ''roles'' = PList [r]" "is_list r \<or> is_dict r"
  shows "verify_root_update pf rb upd cb expected now = Inl TypeError"
proof -
  have "\<not> hashable r" using assms(20) by (auto simp: hashable_def)
  then have "check_root_key pf [] (PDict k) = Inl TypeError"
    using assms(13-19) by (simp add: check_root_key_def has_exactly_def str_matching_def)
  then have "validate_root pf (PDict nr) = Inl TypeError"
    using assms(10-12) by (simp add: validate_root_def has_exactly_def)
  then show ?thesis using assms(1-9) by (simp add: verify_root_update_def judge_update_def as_utc_def)
qed

end
