(* ===== verification/Trust_Examples.thy ===== *)
theory Trust_Examples
  imports Snapshot_Trust
begin

text \<open>
  Concrete inputs for the snapshot trust theorems: a root with one key per role, a first publication,
  the checkpoint it leaves, a rotation, and a rotation whose new root holds a key with a list for a role
  and no signature of a recovery key. The services of the platform are small total functions.
\<close>

section \<open>Documents\<close>

definition root_tree :: jraw where
  "root_tree = RObj [(''schema'', RStr ''mcp-trust-snapshot-root.v1''),
     (''root_version'', RInt ''1''),
     (''publisher'', RObj [(''id'', RStr ''acme''),
     (''name'', RStr ''Acme'')]),
     (''minimum_publication_id'', RInt ''1''),
     (''max_snapshot_lifetime_seconds'', RInt ''86400''),
     (''max_clock_skew_seconds'', RInt ''60''),
     (''snapshot_threshold'', RInt ''1''),
     (''recovery_threshold'', RInt ''1''),
     (''keys'', RArr [RObj [(''key_id'', RStr ''sha256:0000000000000000000000000000000000000000000000000000000000000000''),
     (''algorithm'', RStr ''ed25519''),
     (''public_key'', RStr ''AAAAAAAAAAAAAAAAAAAAAAAAAAAAAAAAAAAAAAAAAAA''),
     (''roles'', RArr [RStr ''snapshot'']),
     (''valid_from_publication_id'', RInt ''1''),
     (''valid_through_publication_id'', RNull)],
     RObj [(''key_id'', RStr ''sha256:0000000000000000000000000000000000000000000000000000000000000001''),
     (''algorithm'', RStr ''ed25519''),
     (''public_key'', RStr ''AQAAAAAAAAAAAAAAAAAAAAAAAAAAAAAAAAAAAAAAAAA''),
     (''roles'', RArr [RStr ''recovery'']),
     (''valid_from_publication_id'', RInt ''1''),
     (''valid_through_publication_id'', RNull)]])]"

definition root_value :: pydict where
  "root_value = [(''schema'', PStr ''mcp-trust-snapshot-root.v1''),
     (''root_version'', PInt 1),
     (''publisher'', PDict [(''id'', PStr ''acme''),
     (''name'', PStr ''Acme'')]),
     (''minimum_publication_id'', PInt 1),
     (''max_snapshot_lifetime_seconds'', PInt 86400),
     (''max_clock_skew_seconds'', PInt 60),
     (''snapshot_threshold'', PInt 1),
     (''recovery_threshold'', PInt 1),
     (''keys'', PList [PDict [(''key_id'', PStr ''sha256:0000000000000000000000000000000000000000000000000000000000000000''),
     (''algorithm'', PStr ''ed25519''),
     (''public_key'', PStr ''AAAAAAAAAAAAAAAAAAAAAAAAAAAAAAAAAAAAAAAAAAA''),
     (''roles'', PList [PStr ''snapshot'']),
     (''valid_from_publication_id'', PInt 1),
     (''valid_through_publication_id'', PNone)],
     PDict [(''key_id'', PStr ''sha256:0000000000000000000000000000000000000000000000000000000000000001''),
     (''algorithm'', PStr ''ed25519''),
     (''public_key'', PStr ''AQAAAAAAAAAAAAAAAAAAAAAAAAAAAAAAAAAAAAAAAAA''),
     (''roles'', PList [PStr ''recovery'']),
     (''valid_from_publication_id'', PInt 1),
     (''valid_through_publication_id'', PNone)]])]"

definition first_tree :: jraw where
  "first_tree = RObj [(''schema'', RStr ''mcp-trust-snapshot-statement.v1''),
     (''signed'', RObj [(''publisher_id'', RStr ''acme''),
     (''root_version'', RInt ''1''),
     (''publication_id'', RInt ''1''),
     (''issued_at'', RStr ''2026-07-01T00:00:00+00:00''),
     (''expires_at'', RStr ''2026-07-02T00:00:00+00:00''),
     (''snapshot'', RObj [(''media_type'', RStr ''application/vnd.mcp-trust.catalog+json''),
     (''schema_version'', RInt ''2''),
     (''length'', RInt ''0''),
     (''sha256'', RStr ''0000000000000000000000000000000000000000000000000000000000000000'')]),
     (''previous'', RNull)]),
     (''signatures'', RArr [RObj [(''key_id'', RStr ''sha256:0000000000000000000000000000000000000000000000000000000000000000''),
     (''signature'', RStr ''AAAAAAAAAAAAAAAAAAAAAAAAAAAAAAAAAAAAAAAAAABtbW1tbW1tbW1tbW1tbW1tbW1tbW1tbW1tbW1tbW1tbQ'')]])]"

definition first_value :: pydict where
  "first_value = [(''schema'', PStr ''mcp-trust-snapshot-statement.v1''),
     (''signed'', PDict [(''publisher_id'', PStr ''acme''),
     (''root_version'', PInt 1),
     (''publication_id'', PInt 1),
     (''issued_at'', PStr ''2026-07-01T00:00:00+00:00''),
     (''expires_at'', PStr ''2026-07-02T00:00:00+00:00''),
     (''snapshot'', PDict [(''media_type'', PStr ''application/vnd.mcp-trust.catalog+json''),
     (''schema_version'', PInt 2),
     (''length'', PInt 0),
     (''sha256'', PStr ''0000000000000000000000000000000000000000000000000000000000000000'')]),
     (''previous'', PNone)]),
     (''signatures'', PList [PDict [(''key_id'', PStr ''sha256:0000000000000000000000000000000000000000000000000000000000000000''),
     (''signature'', PStr ''AAAAAAAAAAAAAAAAAAAAAAAAAAAAAAAAAAAAAAAAAABtbW1tbW1tbW1tbW1tbW1tbW1tbW1tbW1tbW1tbW1tbQ'')]])]"

definition checkpoint_tree :: jraw where
  "checkpoint_tree = RObj [(''schema'', RStr ''mcp-trust-snapshot-checkpoint.v1''),
     (''publisher_id'', RStr ''acme''),
     (''root_version'', RInt ''1''),
     (''root_sha256'', RStr ''0000000000000000000000000000000000000000000000000000000000000000''),
     (''publication_id'', RInt ''1''),
     (''snapshot_sha256'', RStr ''0000000000000000000000000000000000000000000000000000000000000000''),
     (''statement_sha256'', RStr ''0000000000000000000000000000000000000000000000000000000000000000'')]"

definition checkpoint_value :: pydict where
  "checkpoint_value = [(''schema'', PStr ''mcp-trust-snapshot-checkpoint.v1''),
     (''publisher_id'', PStr ''acme''),
     (''root_version'', PInt 1),
     (''root_sha256'', PStr ''0000000000000000000000000000000000000000000000000000000000000000''),
     (''publication_id'', PInt 1),
     (''snapshot_sha256'', PStr ''0000000000000000000000000000000000000000000000000000000000000000''),
     (''statement_sha256'', PStr ''0000000000000000000000000000000000000000000000000000000000000000'')]"

definition rotation_tree :: jraw where
  "rotation_tree = RObj [(''schema'', RStr ''mcp-trust-snapshot-root-update.v1''),
     (''signed'', RObj [(''publisher_id'', RStr ''acme''),
     (''previous_root_version'', RInt ''1''),
     (''previous_root_sha256'', RStr ''0000000000000000000000000000000000000000000000000000000000000000''),
     (''issued_at'', RStr ''2026-07-01T00:00:00+00:00''),
     (''expires_at'', RStr ''2026-07-02T00:00:00+00:00''),
     (''new_root'', RObj [(''schema'', RStr ''mcp-trust-snapshot-root.v1''),
     (''root_version'', RInt ''2''),
     (''publisher'', RObj [(''id'', RStr ''acme''),
     (''name'', RStr ''Acme'')]),
     (''minimum_publication_id'', RInt ''1''),
     (''max_snapshot_lifetime_seconds'', RInt ''86400''),
     (''max_clock_skew_seconds'', RInt ''60''),
     (''snapshot_threshold'', RInt ''1''),
     (''recovery_threshold'', RInt ''1''),
     (''keys'', RArr [RObj [(''key_id'', RStr ''sha256:0000000000000000000000000000000000000000000000000000000000000000''),
     (''algorithm'', RStr ''ed25519''),
     (''public_key'', RStr ''AAAAAAAAAAAAAAAAAAAAAAAAAAAAAAAAAAAAAAAAAAA''),
     (''roles'', RArr [RStr ''snapshot'']),
     (''valid_from_publication_id'', RInt ''1''),
     (''valid_through_publication_id'', RNull)],
     RObj [(''key_id'', RStr ''sha256:0000000000000000000000000000000000000000000000000000000000000001''),
     (''algorithm'', RStr ''ed25519''),
     (''public_key'', RStr ''AQAAAAAAAAAAAAAAAAAAAAAAAAAAAAAAAAAAAAAAAAA''),
     (''roles'', RArr [RStr ''recovery'']),
     (''valid_from_publication_id'', RInt ''1''),
     (''valid_through_publication_id'', RNull)]])])]),
     (''signatures'', RArr [RObj [(''key_id'', RStr ''sha256:0000000000000000000000000000000000000000000000000000000000000001''),
     (''signature'', RStr ''AQAAAAAAAAAAAAAAAAAAAAAAAAAAAAAAAAAAAAAAAABtbW1tbW1tbW1tbW1tbW1tbW1tbW1tbW1tbW1tbW1tbQ'')]])]"

definition rotation_value :: pydict where
  "rotation_value = [(''schema'', PStr ''mcp-trust-snapshot-root-update.v1''),
     (''signed'', PDict [(''publisher_id'', PStr ''acme''),
     (''previous_root_version'', PInt 1),
     (''previous_root_sha256'', PStr ''0000000000000000000000000000000000000000000000000000000000000000''),
     (''issued_at'', PStr ''2026-07-01T00:00:00+00:00''),
     (''expires_at'', PStr ''2026-07-02T00:00:00+00:00''),
     (''new_root'', PDict [(''schema'', PStr ''mcp-trust-snapshot-root.v1''),
     (''root_version'', PInt 2),
     (''publisher'', PDict [(''id'', PStr ''acme''),
     (''name'', PStr ''Acme'')]),
     (''minimum_publication_id'', PInt 1),
     (''max_snapshot_lifetime_seconds'', PInt 86400),
     (''max_clock_skew_seconds'', PInt 60),
     (''snapshot_threshold'', PInt 1),
     (''recovery_threshold'', PInt 1),
     (''keys'', PList [PDict [(''key_id'', PStr ''sha256:0000000000000000000000000000000000000000000000000000000000000000''),
     (''algorithm'', PStr ''ed25519''),
     (''public_key'', PStr ''AAAAAAAAAAAAAAAAAAAAAAAAAAAAAAAAAAAAAAAAAAA''),
     (''roles'', PList [PStr ''snapshot'']),
     (''valid_from_publication_id'', PInt 1),
     (''valid_through_publication_id'', PNone)],
     PDict [(''key_id'', PStr ''sha256:0000000000000000000000000000000000000000000000000000000000000001''),
     (''algorithm'', PStr ''ed25519''),
     (''public_key'', PStr ''AQAAAAAAAAAAAAAAAAAAAAAAAAAAAAAAAAAAAAAAAAA''),
     (''roles'', PList [PStr ''recovery'']),
     (''valid_from_publication_id'', PInt 1),
     (''valid_through_publication_id'', PNone)]])])]),
     (''signatures'', PList [PDict [(''key_id'', PStr ''sha256:0000000000000000000000000000000000000000000000000000000000000001''),
     (''signature'', PStr ''AQAAAAAAAAAAAAAAAAAAAAAAAAAAAAAAAAAAAAAAAABtbW1tbW1tbW1tbW1tbW1tbW1tbW1tbW1tbW1tbW1tbQ'')]])]"

definition crash_tree :: jraw where
  "crash_tree = RObj [(''schema'', RStr ''mcp-trust-snapshot-root-update.v1''),
     (''signed'', RObj [(''publisher_id'', RStr ''acme''),
     (''previous_root_version'', RInt ''1''),
     (''previous_root_sha256'', RStr ''0000000000000000000000000000000000000000000000000000000000000000''),
     (''issued_at'', RStr ''2026-07-01T00:00:00+00:00''),
     (''expires_at'', RStr ''2026-07-02T00:00:00+00:00''),
     (''new_root'', RObj [(''schema'', RStr ''mcp-trust-snapshot-root.v1''),
     (''root_version'', RInt ''2''),
     (''publisher'', RObj [(''id'', RStr ''acme''),
     (''name'', RStr ''Acme'')]),
     (''minimum_publication_id'', RInt ''1''),
     (''max_snapshot_lifetime_seconds'', RInt ''86400''),
     (''max_clock_skew_seconds'', RInt ''60''),
     (''snapshot_threshold'', RInt ''1''),
     (''recovery_threshold'', RInt ''1''),
     (''keys'', RArr [RObj [(''key_id'', RStr ''sha256:0000000000000000000000000000000000000000000000000000000000000000''),
     (''algorithm'', RStr ''ed25519''),
     (''public_key'', RStr ''AAAAAAAAAAAAAAAAAAAAAAAAAAAAAAAAAAAAAAAAAAA''),
     (''roles'', RArr [RArr []]),
     (''valid_from_publication_id'', RInt ''1''),
     (''valid_through_publication_id'', RNull)],
     RObj [(''key_id'', RStr ''sha256:0000000000000000000000000000000000000000000000000000000000000001''),
     (''algorithm'', RStr ''ed25519''),
     (''public_key'', RStr ''AQAAAAAAAAAAAAAAAAAAAAAAAAAAAAAAAAAAAAAAAAA''),
     (''roles'', RArr [RStr ''recovery'']),
     (''valid_from_publication_id'', RInt ''1''),
     (''valid_through_publication_id'', RNull)]])])]),
     (''signatures'', RArr [RObj [(''key_id'', RStr ''sha256:0000000000000000000000000000000000000000000000000000000000000000''),
     (''signature'', RStr ''AAAAAAAAAAAAAAAAAAAAAAAAAAAAAAAAAAAAAAAAAABtbW1tbW1tbW1tbW1tbW1tbW1tbW1tbW1tbW1tbW1tbQ'')]])]"

definition crash_value :: pydict where
  "crash_value = [(''schema'', PStr ''mcp-trust-snapshot-root-update.v1''),
     (''signed'', PDict [(''publisher_id'', PStr ''acme''),
     (''previous_root_version'', PInt 1),
     (''previous_root_sha256'', PStr ''0000000000000000000000000000000000000000000000000000000000000000''),
     (''issued_at'', PStr ''2026-07-01T00:00:00+00:00''),
     (''expires_at'', PStr ''2026-07-02T00:00:00+00:00''),
     (''new_root'', PDict [(''schema'', PStr ''mcp-trust-snapshot-root.v1''),
     (''root_version'', PInt 2),
     (''publisher'', PDict [(''id'', PStr ''acme''),
     (''name'', PStr ''Acme'')]),
     (''minimum_publication_id'', PInt 1),
     (''max_snapshot_lifetime_seconds'', PInt 86400),
     (''max_clock_skew_seconds'', PInt 60),
     (''snapshot_threshold'', PInt 1),
     (''recovery_threshold'', PInt 1),
     (''keys'', PList [PDict [(''key_id'', PStr ''sha256:0000000000000000000000000000000000000000000000000000000000000000''),
     (''algorithm'', PStr ''ed25519''),
     (''public_key'', PStr ''AAAAAAAAAAAAAAAAAAAAAAAAAAAAAAAAAAAAAAAAAAA''),
     (''roles'', PList [PList []]),
     (''valid_from_publication_id'', PInt 1),
     (''valid_through_publication_id'', PNone)],
     PDict [(''key_id'', PStr ''sha256:0000000000000000000000000000000000000000000000000000000000000001''),
     (''algorithm'', PStr ''ed25519''),
     (''public_key'', PStr ''AQAAAAAAAAAAAAAAAAAAAAAAAAAAAAAAAAAAAAAAAAA''),
     (''roles'', PList [PStr ''recovery'']),
     (''valid_from_publication_id'', PInt 1),
     (''valid_through_publication_id'', PNone)]])])]),
     (''signatures'', PList [PDict [(''key_id'', PStr ''sha256:0000000000000000000000000000000000000000000000000000000000000000''),
     (''signature'', PStr ''AAAAAAAAAAAAAAAAAAAAAAAAAAAAAAAAAAAAAAAAAABtbW1tbW1tbW1tbW1tbW1tbW1tbW1tbW1tbW1tbW1tbQ'')]])]"

definition trust_platform :: platform where
  "trust_platform = snap_platform (\<lambda>s. if s = ''root'' then Some root_tree
     else if s = ''first'' then Some first_tree
     else if s = ''checkpoint'' then Some checkpoint_tree
     else if s = ''rotation'' then Some rotation_tree
     else if s = ''crash'' then Some crash_tree
     else None)"

lemma strict_json_read:
  assumes "json_scan pf t = Some tree" "utf8_decode pf t = Some t" "length t \<le> 20"
    "strict_build pf tree = Inr v" "json_nodes v \<le> 100" "safe_val v"
  shows "strict_json pf t = Inr v"
  using assms by (simp add: strict_json_def values_are_safe_spec MAX_METADATA_BYTES_def MAX_JSON_NODES_def)

lemma trust_platform_simps [simp]:
  "utf8_decode trust_platform = Some" "json_canonical trust_platform v = replicate 32 CHR ''m''"
  "sha256_hex trust_platform s = replicate 63 CHR ''0'' @ (if take 1 s = [CHR 0x01] then ''1'' else ''0'')"
  "json_indented trust_platform v = []" "ed25519_ok trust_platform key sg msg \<longleftrightarrow> sg = key @ msg"
  "iso_parse trust_platform s = Some (utc_dt (if take 10 s = ''2026-07-02'' then 740000 * us_per_day else 739999 * us_per_day))"
  by (simp_all add: trust_platform_def snap_platform_def sample_platform_def)

lemmas read_defs = reject_duplicate_keys_def bounded_int_def int_literal_def nat_literal_def digit_val_def
  safe_string_def unsafe_char_def MAX_JSON_STRING_CHARS_def

lemma read_root: "strict_json trust_platform ''root'' = Inr (PDict root_value)"
proof (rule strict_json_read)
  show "json_scan trust_platform ''root'' = Some root_tree" by (simp add: trust_platform_def snap_platform_def)
  show "strict_build trust_platform root_tree = Inr (PDict root_value)" by (simp add: root_tree_def root_value_def read_defs)
  show "json_nodes (PDict root_value) \<le> 100" by (simp add: root_value_def)
  show "safe_val (PDict root_value)" by (simp add: root_value_def read_defs)
qed simp_all

lemma read_first: "strict_json trust_platform ''first'' = Inr (PDict first_value)"
proof (rule strict_json_read)
  show "json_scan trust_platform ''first'' = Some first_tree" by (simp add: trust_platform_def snap_platform_def)
  show "strict_build trust_platform first_tree = Inr (PDict first_value)" by (simp add: first_tree_def first_value_def read_defs)
  show "json_nodes (PDict first_value) \<le> 100" by (simp add: first_value_def)
  show "safe_val (PDict first_value)" by (simp add: first_value_def read_defs)
qed simp_all

lemma read_checkpoint: "strict_json trust_platform ''checkpoint'' = Inr (PDict checkpoint_value)"
proof (rule strict_json_read)
  show "json_scan trust_platform ''checkpoint'' = Some checkpoint_tree" by (simp add: trust_platform_def snap_platform_def)
  show "strict_build trust_platform checkpoint_tree = Inr (PDict checkpoint_value)" by (simp add: checkpoint_tree_def checkpoint_value_def read_defs)
  show "json_nodes (PDict checkpoint_value) \<le> 100" by (simp add: checkpoint_value_def)
  show "safe_val (PDict checkpoint_value)" by (simp add: checkpoint_value_def read_defs)
qed simp_all

lemma read_rotation: "strict_json trust_platform ''rotation'' = Inr (PDict rotation_value)"
proof (rule strict_json_read)
  show "json_scan trust_platform ''rotation'' = Some rotation_tree" by (simp add: trust_platform_def snap_platform_def)
  show "strict_build trust_platform rotation_tree = Inr (PDict rotation_value)" by (simp add: rotation_tree_def rotation_value_def read_defs)
  show "json_nodes (PDict rotation_value) \<le> 100" by (simp add: rotation_value_def)
  show "safe_val (PDict rotation_value)" by (simp add: rotation_value_def read_defs)
qed simp_all

lemma read_crash: "strict_json trust_platform ''crash'' = Inr (PDict crash_value)"
proof (rule strict_json_read)
  show "json_scan trust_platform ''crash'' = Some crash_tree" by (simp add: trust_platform_def snap_platform_def)
  show "strict_build trust_platform crash_tree = Inr (PDict crash_value)" by (simp add: crash_tree_def crash_value_def read_defs)
  show "json_nodes (PDict crash_value) \<le> 100" by (simp add: crash_value_def)
  show "safe_val (PDict crash_value)" by (simp add: crash_value_def read_defs)
qed simp_all

lemma decoded:
  "decode_base64url (PStr ''AAAAAAAAAAAAAAAAAAAAAAAAAAAAAAAAAAAAAAAAAAA'') 32 = Some (replicate 32 CHR 0x00)"
  "decode_base64url (PStr ''AQAAAAAAAAAAAAAAAAAAAAAAAAAAAAAAAAAAAAAAAAA'') 32 = Some (CHR 0x01 # replicate 31 CHR 0x00)"
  "decode_base64url (PStr ''AAAAAAAAAAAAAAAAAAAAAAAAAAAAAAAAAAAAAAAAAABtbW1tbW1tbW1tbW1tbW1tbW1tbW1tbW1tbW1tbW1tbQ'') 64 = Some (replicate 32 CHR 0x00 @ replicate 32 CHR ''m'')"
  "decode_base64url (PStr ''AQAAAAAAAAAAAAAAAAAAAAAAAAAAAAAAAAAAAAAAAABtbW1tbW1tbW1tbW1tbW1tbW1tbW1tbW1tbW1tbW1tbQ'') 64 = Some (CHR 0x01 # replicate 31 CHR 0x00 @ replicate 32 CHR ''m'')"
  by code_simp+

definition zeros :: string where
  "zeros = ''0000000000000000000000000000000000000000000000000000000000000000''"

definition public0 :: string where "public0 = replicate 32 CHR 0x00"
definition public1 :: string where "public1 = CHR 0x01 # replicate 31 CHR 0x00"
definition key0 :: string where "key0 = ''sha256:0000000000000000000000000000000000000000000000000000000000000000''"
definition key1 :: string where "key1 = ''sha256:0000000000000000000000000000000000000000000000000000000000000001''"

lemma zeros63 [simp]: "replicate 63 CHR ''0'' = ''000000000000000000000000000000000000000000000000000000000000000''"
  by code_simp

lemma zeros_ok: "is_sha256 zeros" "key_id_re key0" "key_id_re key1"
  by code_simp+

lemma root_load: "load_root trust_platform ''root'' = Some (root_value, [(key0, public0), (key1, public1)])"
proof -
  have h: "root_header_ok root_value" by code_simp
  have k: "has_exactly (PDict root_value) ROOT_KEYS" by code_simp
  let ?keys = "items_of (dget root_value ''keys'')"
  have keys: "check_root_keys trust_platform [] 0 0 ?keys = Inr (Some ([(key0, public0), (key1, public1)], 1, 1))"
    using zeros_ok [unfolded key0_def key1_def]
    by (simp add: root_value_def check_root_key_def has_exactly_def dkeys_def ROOT_KEY_KEYS_def str_matching_def
        decoded ALGORITHM_def hashable_def is_int_min_def Let_def key0_def key1_def public0_def public1_def)
  have t: "int_of (dget root_value ''snapshot_threshold'') = 1" "int_of (dget root_value ''recovery_threshold'') = 1"
    by (simp_all add: root_value_def)
  show ?thesis using h k keys t by (simp add: load_root_def read_root validate_root_def)
qed

definition signed_of :: "pydict \<Rightarrow> pydict" where
  "signed_of d = fields_of (dget d ''signed'')"

definition sigs_of :: "pydict \<Rightarrow> pydict list" where
  "sigs_of d = map fields_of (items_of (dget d ''signatures''))"

definition noon :: pydt where
  "noon = utc_dt (739999 * us_per_day + 43200000000)"

lemma key_patterns: "key_id_re ''sha256:0000000000000000000000000000000000000000000000000000000000000000''"
  "key_id_re ''sha256:0000000000000000000000000000000000000000000000000000000000000001''"
  "is_sha256 ''0000000000000000000000000000000000000000000000000000000000000000''" "publisher_id_re ''acme''"
  by code_simp+

lemmas shape_defs = has_exactly_def dkeys_def str_matching_def Let_def is_int_min_def ENVELOPE_KEYS_def
  SIGNED_STATEMENT_KEYS_def ROOT_UPDATE_SIGNED_KEYS_def SNAPSHOT_SUBJECT_KEYS_def PREVIOUS_KEYS_def CHECKPOINT_KEYS_def
  STATEMENT_SCHEMA_def ROOT_UPDATE_SCHEMA_def CHECKPOINT_SCHEMA_def SNAPSHOT_MEDIA_TYPE_def SNAPSHOT_SCHEMA_VERSION_def
  MAX_SNAPSHOT_BYTES_def signed_of_def sigs_of_def key_patterns decoded

lemma utc_parts [simp]: "utc_datetime trust_platform (PStr s) =
    Some (if take 10 (replace_Z s) = ''2026-07-02'' then 740000 * us_per_day else 739999 * us_per_day)"
  by (simp add: utc_datetime_def utc_dt_def utc_instant_def)

lemma first_statement: "validate_statement trust_platform (PDict first_value) = Some (signed_of first_value, sigs_of first_value)"
  by (simp add: validate_statement_def first_value_def shape_defs signatures_ok_def signature_shape_ok_def MAX_SIGNATURES_def
      subject_ok_def previous_ok_def)

lemma rotation_update: "validate_root_update trust_platform (PDict rotation_value) = Some (signed_of rotation_value, sigs_of rotation_value)"
  by (simp add: validate_root_update_def rotation_value_def shape_defs signatures_ok_def signature_shape_ok_def MAX_SIGNATURES_def)

lemma crash_update: "validate_root_update trust_platform (PDict crash_value) = Some (signed_of crash_value, sigs_of crash_value)"
  by (simp add: validate_root_update_def crash_value_def shape_defs signatures_ok_def signature_shape_ok_def MAX_SIGNATURES_def)

lemma checkpoint_load: "load_checkpoint trust_platform (Some ''checkpoint'') = Some checkpoint_value"
proof -
  have "validate_checkpoint (PDict checkpoint_value) = Some checkpoint_value"
    by (simp add: validate_checkpoint_def checkpoint_value_def shape_defs)
  then show ?thesis by (simp add: load_checkpoint_def read_checkpoint)
qed

lemma checkpoint_matches: "checkpoint_matches_root trust_platform checkpoint_value root_value ''root''"
  by (simp add: checkpoint_matches_root_def checkpoint_value_def root_value_def root_publisher_id_def)

lemma time_ok: "time_reasons prefix root_value (739999 * us_per_day) (740000 * us_per_day) (utc_instant noon) = {}"
proof -
  have "f64 (timestamp (utc_instant noon) + of_int 60) \<ge> timestamp (739999 * us_per_day)"
    by code_simp
  moreover have "total_seconds (740000 * us_per_day - 739999 * us_per_day) = 86400" by code_simp
  ultimately show ?thesis
    by (simp add: time_reasons_def root_value_def noon_def us_per_day_def Let_def)
qed

lemma structural_ok: "structural_reasons trust_platform [] = Inr {}"
proof -
  have "parse_catalog_snapshot trust_platform [] = Inr (Admitted snap_value)"
    unfolding trust_platform_def by (rule snap_admitted)
  then show ?thesis by (simp add: structural_reasons_def)
qed

lemma first_signatures: "verify_signatures trust_platform (signed_of first_value) (sigs_of first_value) root_value
    [(key0, public0), (key1, public1)] ''snapshot'' 1 = ([key0], {})"
  by (simp add: verify_signatures_def first_value_def root_value_def root_keys_def dict_of_def sigs_of_def key0_def key1_def
      key_is_authorized_def decoded public0_def canonical_signed_bytes_def threshold_of_def Let_def)

definition verified_first :: verified_snapshot where
  "verified_first = \<lparr>vs_publisher_id = ''acme'', vs_root_version = 1, vs_publication_id = 1,
     vs_issued_at = ''2026-07-01T00:00:00+00:00'', vs_expires_at = ''2026-07-02T00:00:00+00:00'',
     vs_snapshot_sha256 = zeros, vs_statement_sha256 = zeros, vs_signer_key_ids = [key0],
     vs_next_checkpoint = checkpoint_value\<rparr>"

lemma first_judged:
  assumes "cp = None \<or> cp = Some checkpoint_value"
  shows "judge_statement trust_platform [] (signed_of first_value) (sigs_of first_value) ''root'' root_value
    [(key0, public0), (key1, public1)] cp False noon = Inr (Verified verified_first)"
proof -
  have d: "statement_digest trust_platform (signed_of first_value) = zeros" "sha256_hex trust_platform [] = zeros"
    by (simp_all add: statement_digest_def canonical_signed_bytes_def zeros_def)
  have pid: "int_of (dget (signed_of first_value) ''publication_id'') = 1"
    by (simp add: signed_of_def first_value_def)
  have "identity_reasons trust_platform (signed_of first_value) root_value [] = {}"
    by (simp add: identity_reasons_def signed_of_def first_value_def root_value_def root_publisher_id_def MAX_SNAPSHOT_BYTES_def)
  moreover have "chain_reasons cp (signed_of first_value) root_value zeros zeros = {}"
    using assms by (auto simp: chain_reasons_def signed_of_def first_value_def root_value_def checkpoint_value_def zeros_def flag_def)
  moreover have "next_checkpoint trust_platform root_value ''root'' 1 zeros zeros = checkpoint_value"
    by (simp add: next_checkpoint_def checkpoint_value_def root_value_def root_publisher_id_def zeros_def CHECKPOINT_SCHEMA_def)
  moreover have "dt_in_range (utc_instant noon)" by (simp add: noon_def dt_in_range_def dt_limit_def us_per_day_def)
  moreover have "time_reasons ''SNAPSHOT'' root_value (the (utc_datetime trust_platform (dget (signed_of first_value) ''issued_at'')))
      (the (utc_datetime trust_platform (dget (signed_of first_value) ''expires_at''))) (utc_instant noon) = {}"
    using time_ok by (simp add: signed_of_def first_value_def replace_Z_def)
  ultimately show ?thesis
    unfolding judge_statement_Verified pid d using structural_ok first_signatures
    by (simp add: current_reasons_def verified_first_def root_publisher_id_def signed_of_def first_value_def root_value_def)
qed

lemma root_digest: "sha256_hex trust_platform ''root'' = zeros" "is_sha256 zeros"
  by (simp_all add: zeros_def key_patterns)

lemma first_verified:
  assumes "cb = None \<or> cb = Some ''checkpoint''"
  shows "verify_snapshot trust_platform [] ''first'' ''root'' cb (Some zeros) False noon = Inr (Verified verified_first)"
  using assms first_judged [of None] first_judged [of "Some checkpoint_value"] root_digest
  by (auto simp: verify_snapshot_def root_load load_checkpoint_def [of _ None] checkpoint_load checkpoint_matches
      read_first first_statement simp del: trust_platform_simps(3))

definition new_root :: pydict where
  "new_root = fields_of (dget (signed_of rotation_value) ''new_root'')"

lemma new_root_valid: "validate_root trust_platform (dget (signed_of rotation_value) ''new_root'')
    = Inr (Some (new_root, [(key0, public0), (key1, public1)]))"
proof -
  have h: "root_header_ok new_root" unfolding new_root_def by code_simp
  have k: "has_exactly (PDict new_root) ROOT_KEYS" unfolding new_root_def by code_simp
  let ?keys = "items_of (dget new_root ''keys'')"
  have keys: "check_root_keys trust_platform [] 0 0 ?keys = Inr (Some ([(key0, public0), (key1, public1)], 1, 1))"
    by (simp add: new_root_def signed_of_def rotation_value_def check_root_key_def shape_defs ROOT_KEY_KEYS_def
        ALGORITHM_def hashable_def key0_def key1_def public0_def public1_def)
  have t: "int_of (dget new_root ''snapshot_threshold'') = 1" "int_of (dget new_root ''recovery_threshold'') = 1"
    by (simp_all add: new_root_def signed_of_def rotation_value_def)
  have v: "dget (signed_of rotation_value) ''new_root'' = PDict new_root"
    by (simp add: new_root_def signed_of_def rotation_value_def)
  show ?thesis unfolding v using h k keys t by (simp add: validate_root_def)
qed

lemma rotation_signatures: "verify_signatures trust_platform (signed_of rotation_value) (sigs_of rotation_value) root_value
    [(key0, public0), (key1, public1)] ''recovery'' 1 = ([key1], {})"
  by (simp add: verify_signatures_def rotation_value_def root_value_def root_keys_def dict_of_def sigs_of_def key0_def key1_def
      key_is_authorized_def decoded public1_def canonical_signed_bytes_def threshold_of_def Let_def)

lemma rotation_verified:
  "\<exists>r. verify_root_update trust_platform ''root'' ''rotation'' ''checkpoint'' (Some zeros) noon = Inr (Verified r)
     \<and> dget (vr_next_checkpoint r) ''root_version'' = PInt 2"
proof -
  have pid: "int_of (dget checkpoint_value ''publication_id'') = 1" by (simp add: checkpoint_value_def)
  have ur: "update_reasons trust_platform (signed_of rotation_value) root_value ''root'' checkpoint_value (Some new_root) = {}"
    by (simp add: update_reasons_def new_root_def signed_of_def rotation_value_def root_value_def checkpoint_value_def
        root_publisher_id_def is_int_min_def flag_def)
  have tr: "time_reasons ''ROOT_UPDATE'' root_value (the (utc_datetime trust_platform (dget (signed_of rotation_value) ''issued_at'')))
      (the (utc_datetime trust_platform (dget (signed_of rotation_value) ''expires_at''))) (utc_instant noon) = {}"
    using time_ok by (simp add: signed_of_def rotation_value_def replace_Z_def)
  have now: "dt_in_range (utc_instant noon)" by (simp add: noon_def dt_in_range_def dt_limit_def us_per_day_def)
  have nv: "dget new_root ''root_version'' = PInt 2" by (simp add: new_root_def signed_of_def rotation_value_def)
  have "\<exists>r. judge_update trust_platform (signed_of rotation_value) (sigs_of rotation_value) ''root'' root_value
      [(key0, public0), (key1, public1)] checkpoint_value noon = Inr (Verified r)
     \<and> dget (vr_next_checkpoint r) ''root_version'' = PInt 2"
    unfolding judge_update_def as_utc_def pid
    by (simp add: now new_root_valid tr ur rotation_signatures dget_dict_set nv Let_def del: trust_platform_simps(3))
  then show ?thesis using root_digest
    by (simp add: verify_root_update_def root_load checkpoint_load checkpoint_matches read_rotation rotation_update
        del: trust_platform_simps(3))
qed

section \<open>Witnesses\<close>


definition consumer0 :: consumer where
  "consumer0 = \<lparr>co_root_bytes = ''root'', co_checkpoint = checkpoint_value\<rparr>"

theorem consumer_never_equivocates_witness:
  "\<exists>t. (consumer_step trust_platform)\<^sup>*\<^sup>* consumer0 t \<and> co_version t = 2 \<and> co_publication consumer0 \<le> co_publication t"
proof -
  from rotation_verified obtain r where r: "verify_root_update trust_platform ''root'' ''rotation'' ''checkpoint'' (Some zeros) noon
      = Inr (Verified r)" "dget (vr_next_checkpoint r) ''root_version'' = PInt 2" by blast
  have pub: "consumer_step trust_platform consumer0 (consumer0\<lparr>co_checkpoint := vs_next_checkpoint verified_first\<rparr>)"
    using consumer_step.publish [of trust_platform "''checkpoint''" consumer0 "[]" "''first''" "Some zeros" False noon verified_first]
      first_verified [of "Some ''checkpoint''"] checkpoint_load by (simp add: consumer0_def)
  have same: "consumer0\<lparr>co_checkpoint := vs_next_checkpoint verified_first\<rparr> = consumer0"
    by (simp add: consumer0_def verified_first_def)
  let ?t = "\<lparr>co_root_bytes = vr_new_root_json r, co_checkpoint = vr_next_checkpoint r\<rparr>"
  have "consumer_step trust_platform consumer0 ?t"
    using consumer_step.rotate [of trust_platform "''checkpoint''" consumer0 "''rotation''" "Some zeros" noon r] r(1) checkpoint_load
    by (simp add: consumer0_def)
  with pub have run: "(consumer_step trust_platform)\<^sup>*\<^sup>* consumer0 ?t" unfolding same by simp
  show ?thesis
    by (rule exI [of _ ?t]) (use run consumer_never_equivocates [OF run] r(2) in \<open>simp add: co_version_def\<close>)
qed

theorem rotation_needs_recovery_threshold_witness:
  "\<exists>rt sigs signed pid signers. endorsed trust_platform rt sigs signed ''recovery'' pid signers"
proof -
  from rotation_verified obtain r where r: "verify_root_update trust_platform ''root'' ''rotation'' ''checkpoint'' (Some zeros) noon
      = Inr (Verified r)" by (elim exE conjE)
  from conjunct2 [OF rotation_needs_recovery_threshold [OF r]] show ?thesis
    by (elim exE conjE) (rule exI)+
qed

definition crash_root :: pydict where
  "crash_root = fields_of (dget (signed_of crash_value) ''new_root'')"

definition crash_key :: pydict where
  "crash_key = fields_of (hd (items_of (dget crash_root ''keys'')))"

end
