(* ===== verification/Snapshot_Build.thy ===== *)
theory Snapshot_Build
  imports Store Projection Snapshot_Validation
begin

text \<open>
  The static catalog snapshot (\<open>catalog/snapshot.py\<close>): the rows published from a database image, and
  their admission by the runtime validator.
\<close>

section \<open>One row\<close>

definition SNAPSHOT_DIMS :: "dimension list" where
  "SNAPSHOT_DIMS = [FileAccess, NetworkAccess, ShellExecution, Destructive, Exfiltration]"

text \<open>\<open>value.replace(tzinfo=UTC)\<close> when naive.\<close>

definition default_utc :: "pydt \<Rightarrow> pydt" where
  "default_utc d = (case dt_offset d of None \<Rightarrow> d\<lparr>dt_offset := Some 0\<rparr> | Some _ \<Rightarrow> d)"

definition has_image :: "scan_record \<Rightarrow> bool" where
  "has_image scan \<longleftrightarrow> (case sc_sandbox_image scan of None \<Rightarrow> False | Some img \<Rightarrow> img \<noteq> [])"

definition scan_mode_of :: "server \<Rightarrow> scan_record \<Rightarrow> string option \<Rightarrow> string \<times> pyval" where
  "scan_mode_of server scan verified =
     (let remote_live = (src_kind (sv_source server) = REMOTE \<and> src_command (sv_source server) = None);
          image = opt_str (sc_sandbox_image scan) in
      if remote_live then (''mcpaudit-remote-live-network'',
        PDict [(''mode'', PStr ''not_applicable''), (''reason'', PStr ''remote_endpoint_no_local_process'')])
      else if has_image scan \<and> verified = Some ''mcpaudit-local-network-off'' then (''mcpaudit-local-network-off'',
        PDict [(''mode'', PStr ''docker''), (''network'', PStr ''none''), (''image'', image)])
      else if has_image scan then (''mcpaudit-local-network-unknown'',
        PDict [(''mode'', PStr ''docker''), (''network'', PStr ''unknown''), (''image'', image)])
      else (''mcpaudit-local-provenance-unknown'',
        PDict [(''mode'', PStr ''unknown''), (''network'', PStr ''unknown''), (''image'', PNone)]))"

definition dump_grade_change :: "platform \<Rightarrow> grade_change \<Rightarrow> pyval" where
  "dump_grade_change pf g = PDict [(''changed_at'', PStr (dump_datetime pf (gc_changed_at g))),
     (''previous_grade'', PStr (trust_grade_str (gc_previous_grade g))),
     (''current_grade'', PStr (trust_grade_str (gc_current_grade g))),
     (''cause'', PStr (drift_cause_str (gc_cause g))),
     (''surface_comparison'', PStr (surface_comparison_str (gc_surface_comparison g)))]"

definition public_finding :: "finding \<Rightarrow> pyval" where
  "public_finding f = PDict [(''rule_id'', PStr (fd_rule_id f)), (''title'', PStr (fd_title f)),
     (''severity'', PStr (severity_str (fd_severity f))), (''category'', PStr (fd_category f))]"

definition public_source :: "server_source \<Rightarrow> pyval" where
  "public_source s = PDict [(''kind'', PStr (source_kind_str (src_kind s))), (''reference'', PStr (src_reference s)),
     (''env_keys'', PList (map PStr (src_env_keys s)))]"

definition snapshot_row :: "platform \<Rightarrow> server \<Rightarrow> scan_record \<Rightarrow> grade_change option \<Rightarrow> string option \<Rightarrow> rat \<Rightarrow> int \<Rightarrow> pydict" where
  "snapshot_row pf server scan change verified age_days stale_after =
     [(''slug'', PStr (sv_slug server)), (''name'', PStr (sv_name server)),
      (''description'', PStr (sv_description server)), (''homepage'', opt_str (sv_homepage server)),
      (''grade'', PStr (trust_grade_str (sc_grade scan))),
      (''transparency'', PStr (transparency_str (sc_transparency scan))),
      (''danger_score'', pfin (py_round 2 (danger_score (sc_risk scan)))),
      (''dimensions'', PDict (map (\<lambda>dim. (dimension_str dim, pfin (py_round 2 (risk_dim (sc_risk scan) dim)))) SNAPSHOT_DIMS)),
      (''annotation_coverage'', pfin (py_round 2 (rk_annotation_coverage (sc_risk scan)))),
      (''findings'', PList (map public_finding (sc_findings scan))),
      (''evidence'', (case sc_evidence scan of None \<Rightarrow> PNone | Some e \<Rightarrow> dump_evidence e)),
      (''source'', public_source (sv_source server)),
      (''engine'', PStr (sc_engine_name scan)), (''engine_version'', PStr (sc_engine_version scan)),
      (''scan_mode'', PStr (fst (scan_mode_of server scan verified))),
      (''sandbox'', snd (scan_mode_of server scan verified)),
      (''scanned_at'', PStr (iso_format pf (sc_scanned_at scan))),
      (''scan_age_days'', pfin (py_round 6 age_days)),
      (''stale_after'', PStr (iso_format pf (utc_dt stale_after))),
      (''grade_change'', (case change of None \<Rightarrow> PNone | Some g \<Rightarrow> dump_grade_change pf g)),
      (''requires_credentials'', PBool (src_env_keys (sv_source server) \<noteq> []))]"

text \<open>A grade change is published only when every scan behind it is by a real engine.\<close>

definition published_change :: "scan_record list \<Rightarrow> grade_change option res" where
  "published_change hist = (if list_all (\<lambda>item. is_real_engine (sc_engine_name item)) hist
     then latest_grade_change hist else Inr None)"

text \<open>The loop body: nothing for a server that is left out, otherwise its row.\<close>

definition snapshot_entry :: "platform \<Rightarrow> store_codec \<Rightarrow> db \<Rightarrow> string set \<Rightarrow> string set \<Rightarrow> (string \<Rightarrow> string option) option \<Rightarrow>
    (string \<times> scan_record) list \<Rightarrow> pydt \<Rightarrow> server \<Rightarrow> (pydict \<times> string) option res" where
  "snapshot_entry pf cd d excluded masked modes records fixed_now server =
     (if sv_slug server \<in> excluded \<or> sv_slug server \<in> masked then Inr None
      else case map_of records (sv_slug server) of
        None \<Rightarrow> Inr None
      | Some scan \<Rightarrow>
          if \<not> is_real_engine (sc_engine_name scan) then Inr None
          else bind_res (history cd d (sv_slug server) None) (\<lambda>hist.
            bind_res (published_change hist) (\<lambda>change.
            bind_res (assess_scan_freshness pf (TsDt (default_utc (sc_scanned_at scan))) fixed_now True STALE_AFTER_DAYS) (\<lambda>freshness.
              if sf_state freshness = FUnknown then Inl ValueError
              else Inr (Some (snapshot_row pf server scan change
                     (case modes of None \<Rightarrow> None | Some m \<Rightarrow> m (sc_id scan))
                     (the (sf_scan_age_days freshness)) (the (sf_stale_after freshness)),
                   iso_format pf (sc_scanned_at scan)))))))"

fun snapshot_entries :: "(server \<Rightarrow> (pydict \<times> string) option res) \<Rightarrow> server list \<Rightarrow> (pydict \<times> string) list res" where
  "snapshot_entries entry [] = Inr []"
| "snapshot_entries entry (s # ss) = bind_res (entry s) (\<lambda>e. bind_res (snapshot_entries entry ss) (\<lambda>es.
     Inr (case e of None \<Rightarrow> es | Some row \<Rightarrow> row # es)))"

definition build_snapshot_from_connection :: "platform \<Rightarrow> store_codec \<Rightarrow> db \<Rightarrow> string set \<Rightarrow> string set \<Rightarrow>
    (string \<Rightarrow> string option) option \<Rightarrow> pydt \<Rightarrow> pydict res" where
  "build_snapshot_from_connection pf cd d excluded masked modes now =
     (let fixed_now = default_utc now in
      bind_res (latest_all_readback cd d) (\<lambda>readback.
      if rb_unreadable readback \<noteq> {} then Inl ValueError
      else bind_res (list_servers cd d) (\<lambda>servers.
      bind_res (snapshot_entries (snapshot_entry pf cd d excluded masked modes (rb_records readback) fixed_now)
          (sort_key sv_slug servers)) (\<lambda>entries.
        Inr [(''schema_version'', PInt 2), (''generated_at'', PStr (iso_format pf fixed_now)),
             (''generated_from_scan_at'', PStr (foldl max [] (map snd entries))),
             (''server_count'', PInt (int (length entries))), (''servers'', PList (map (PDict \<circ> fst) entries))]))))"

section \<open>The published servers\<close>

definition published :: "store_codec \<Rightarrow> db \<Rightarrow> string set \<Rightarrow> string set \<Rightarrow> server \<Rightarrow> scan_record \<Rightarrow> bool" where
  "published cd d excluded masked server scan \<longleftrightarrow>
     sv_slug server \<notin> excluded \<and> sv_slug server \<notin> masked \<and> latest cd d (sv_slug server) = Inr (Some scan)
   \<and> is_real_engine (sc_engine_name scan)"

definition entry_for :: "platform \<Rightarrow> store_codec \<Rightarrow> db \<Rightarrow> string set \<Rightarrow> string set \<Rightarrow> (string \<Rightarrow> string option) option \<Rightarrow> pydt \<Rightarrow>
    server \<Rightarrow> pydict \<times> string \<Rightarrow> bool" where
  "entry_for pf cd d excluded masked modes fixed_now server e \<longleftrightarrow> (\<exists>scan hist change freshness.
     published cd d excluded masked server scan \<and> history cd d (sv_slug server) None = Inr hist
   \<and> published_change hist = Inr change
   \<and> assess_scan_freshness pf (TsDt (default_utc (sc_scanned_at scan))) fixed_now True STALE_AFTER_DAYS = Inr freshness
   \<and> sf_state freshness \<noteq> FUnknown
   \<and> e = (snapshot_row pf server scan change (case modes of None \<Rightarrow> None | Some m \<Rightarrow> m (sc_id scan))
            (the (sf_scan_age_days freshness)) (the (sf_stale_after freshness)), iso_format pf (sc_scanned_at scan)))"

lemma snapshot_entry_Some:
  assumes "distinct (map scr_id (scans_t d))" "latest_all_readback cd d = Inr rb"
  shows "snapshot_entry pf cd d excluded masked modes (rb_records rb) fixed_now server = Inr (Some e) \<Longrightarrow>
      entry_for pf cd d excluded masked modes fixed_now server e"
    and "snapshot_entry pf cd d excluded masked modes (rb_records rb) fixed_now server = Inr None \<Longrightarrow>
      \<nexists>scan. published cd d excluded masked server scan"
proof -
  note L = readback_at_slug [OF assms, of "sv_slug server"]
  show "entry_for pf cd d excluded masked modes fixed_now server e"
    if "snapshot_entry pf cd d excluded masked modes (rb_records rb) fixed_now server = Inr (Some e)"
  proof -
    from that obtain scan where scan: "map_of (rb_records rb) (sv_slug server) = Some scan"
      and out: "sv_slug server \<notin> excluded" "sv_slug server \<notin> masked" and real: "is_real_engine (sc_engine_name scan)"
      by (auto simp: snapshot_entry_def split: if_splits option.splits)
    have "latest cd d (sv_slug server) = Inr (Some scan)" using L scan by (auto split: sum.splits option.splits)
    then have pub: "published cd d excluded masked server scan" using out real by (simp add: published_def)
    from that scan out real obtain hist change freshness where
      "history cd d (sv_slug server) None = Inr hist"
      "published_change hist = Inr change"
      "assess_scan_freshness pf (TsDt (default_utc (sc_scanned_at scan))) fixed_now True STALE_AFTER_DAYS = Inr freshness"
      "sf_state freshness \<noteq> FUnknown"
      "e = (snapshot_row pf server scan change (case modes of None \<Rightarrow> None | Some m \<Rightarrow> m (sc_id scan))
            (the (sf_scan_age_days freshness)) (the (sf_stale_after freshness)), iso_format pf (sc_scanned_at scan))"
      unfolding snapshot_entry_def by (auto split: if_split_asm)
    with pub show ?thesis unfolding entry_for_def by blast
  qed
  show "\<nexists>scan. published cd d excluded masked server scan"
    if "snapshot_entry pf cd d excluded masked modes (rb_records rb) fixed_now server = Inr None"
    using that L unfolding snapshot_entry_def published_def
    by (auto split: if_splits option.splits sum.splits)
qed

lemma snapshot_entries_rel:
  "snapshot_entries entry ss = Inr es \<Longrightarrow>
     list_all2 (\<lambda>s e. entry s = Inr (Some e)) (filter (\<lambda>s. entry s \<noteq> Inr None) ss) es \<and> (\<forall>s\<in>set ss. \<exists>r. entry s = Inr r)"
  by (induction ss arbitrary: es) (auto split: option.splits)

lemma sort_key_sorted: "sorted_wrt (<) (map f xs) \<Longrightarrow> sort_key f xs = xs"
  by (simp add: sort_key_id_if_sorted strict_sorted_iff)

lemma build_snapshot_entries:
  assumes b: "build_snapshot_from_connection pf cd d excluded masked modes now = Inr snap"
    and d: "store_reachable cd d" "codec_tame cd"
  shows "\<exists>servers entries. list_servers cd d = Inr servers \<and> sorted_wrt (<) (map sv_slug servers)
    \<and> list_all2 (entry_for pf cd d excluded masked modes (default_utc now))
        (filter (\<lambda>s. \<exists>scan. published cd d excluded masked s scan) servers) entries
    \<and> snap = [(''schema_version'', PInt 2), (''generated_at'', PStr (iso_format pf (default_utc now))),
        (''generated_from_scan_at'', PStr (foldl max [] (map snd entries))),
        (''server_count'', PInt (int (length entries))), (''servers'', PList (map (PDict \<circ> fst) entries))]"
proof -
  from b obtain rb servers entries where rb: "latest_all_readback cd d = Inr rb" and l: "list_servers cd d = Inr servers"
    and es: "snapshot_entries (snapshot_entry pf cd d excluded masked modes (rb_records rb) (default_utc now))
      (sort_key sv_slug servers) = Inr entries"
    and snap: "snap = [(''schema_version'', PInt 2), (''generated_at'', PStr (iso_format pf (default_utc now))),
        (''generated_from_scan_at'', PStr (foldl max [] (map snd entries))),
        (''server_count'', PInt (int (length entries))), (''servers'', PList (map (PDict \<circ> fst) entries))]"
    by (auto simp: build_snapshot_from_connection_def Let_def split: if_splits)
  have ids: "distinct (map scr_id (scans_t d))" by (rule store_integrity_ids [OF d(1)])
  have sorted: "sorted_wrt (<) (map sv_slug servers)" using list_servers_spec [OF d(2,1)] l by auto
  let ?entry = "snapshot_entry pf cd d excluded masked modes (rb_records rb) (default_utc now)"
  note rel = snapshot_entries_rel [OF es, unfolded sort_key_sorted [OF sorted]]
  note E = snapshot_entry_Some [OF ids rb, of pf excluded masked modes "default_utc now"]
  have "filter (\<lambda>s. ?entry s \<noteq> Inr None) servers = filter (\<lambda>s. \<exists>scan. published cd d excluded masked s scan) servers"
  proof (rule filter_cong [OF refl])
    fix s assume "s \<in> set servers"
    then obtain r where r: "?entry s = Inr r" using rel by blast
    show "?entry s \<noteq> Inr None \<longleftrightarrow> (\<exists>scan. published cd d excluded masked s scan)"
    proof (cases r)
      case None
      then show ?thesis using E(2) [of s] r by simp
    next
      case (Some e)
      then show ?thesis using E(1) [of s e] r by (auto simp: entry_for_def)
    qed
  qed
  moreover have "list_all2 (entry_for pf cd d excluded masked modes (default_utc now))
      (filter (\<lambda>s. ?entry s \<noteq> Inr None) servers) entries"
    using conjunct1 [OF rel] by (rule list_all2_mono) (rule E(1))
  ultimately show ?thesis using l sorted snap by auto
qed

section \<open>Rounded numbers\<close>

lemma py_round2_range:
  assumes "0 \<le> x" "x \<le> of_nat m" "m \<le> 10"
  shows "0 \<le> py_round 2 x \<and> py_round 2 x \<le> of_nat m"
proof -
  let ?k = "rint (x * 100)"
  have m10: "(of_nat m :: rat) \<le> 10" using assms(3) by (metis of_nat_le_iff of_nat_numeral)
  have nonneg: "0 \<le> ?k" using assms(1) by (simp add: rint_nonneg)
  then have low: "0 \<le> py_round 2 x" by (simp add: py_round_def f64_nonneg)
  have "of_int ?k \<le> 100 * of_nat m + (1 / 2 :: rat)" using rint_error [of "x * 100"] assms(2) by linarith
  then have "(of_int ?k :: rat) < of_int (100 * int m + 1)" by simp
  then have "?k \<le> 100 * int m" by linarith
  then consider "?k = 100 * int m" | "?k \<le> 100 * int m - 1" by linarith
  then have "py_round 2 x \<le> of_nat m"
  proof cases
    case 1
    have "\<bar>int m\<bar> < 2 ^ 53" using assms(3) by simp
    then have "f64 (of_nat m) = of_nat m" using f64_of_int [of "int m"] by simp
    then show ?thesis by (simp add: py_round_def 1)
  next
    case 2
    then have "(of_int ?k :: rat) \<le> of_int (100 * int m - 1)" by (simp only: of_int_le_iff)
    then have k: "of_int ?k / 100 \<le> (of_nat m :: rat) - 1 / 100" by (simp add: field_simps)
    have k0: "0 \<le> (of_int ?k :: rat) / 100" using nonneg by simp
    have "\<bar>f64 (of_int ?k / 100) - of_int ?k / 100\<bar> \<le> 1 / 2 ^ 50" using k k0 m10 by (intro f64_near) linarith
    moreover have "(1 :: rat) / 2 ^ 50 < 1 / 100" by simp
    moreover have "py_round 2 x = f64 (of_int ?k / 100)" by (simp add: py_round_def)
    ultimately show ?thesis using k by linarith
  qed
  with low show ?thesis by blast
qed

lemma py_round6_idem:
  assumes "\<bar>x\<bar> < 4194303"
  shows "py_round 6 (py_round 6 x) = py_round 6 x"
proof -
  let ?k = "rint (x * 10 ^ 6)"
  have k: "\<bar>of_int ?k - x * 10 ^ 6\<bar> \<le> 1 / 2" by (rule rint_error)
  then have near: "\<bar>of_int ?k / 10 ^ 6 - x\<bar> \<le> 1 / 2 / 10 ^ 6" by (simp add: abs_le_iff field_simps)
  moreover have "(1 / 2 / 10 ^ 6 :: rat) < 1" by simp
  ultimately have "\<bar>of_int ?k / 10 ^ 6\<bar> < (4194304 :: rat)" using assms by linarith
  then have "\<bar>f64 (of_int ?k / 10 ^ 6) - of_int ?k / 10 ^ 6\<bar> \<le> pow2 (- 32)"
    using f64_error [of "of_int ?k / 10 ^ 6" 22] by (simp add: pow2_def [of 22])
  then have e: "\<bar>f64 (of_int ?k / 10 ^ 6) - of_int ?k / 10 ^ 6\<bar> \<le> 1 / 2 ^ 32" by (simp add: pow2_def)
  have "rint (f64 (of_int ?k / 10 ^ 6) * 10 ^ 6) = ?k"
  proof -
    let ?y = "f64 (of_int ?k / 10 ^ 6) * 10 ^ 6"
    have "\<bar>?y - of_int ?k\<bar> \<le> 10 ^ 6 / 2 ^ 32" using e by (simp add: abs_le_iff field_simps)
    moreover have "(10 ^ 6 / 2 ^ 32 :: rat) < 1 / 2" by simp
    moreover have "\<bar>of_int (rint ?y) - ?y\<bar> \<le> 1 / 2" by (rule rint_error)
    ultimately have "\<bar>of_int (rint ?y) - (of_int ?k :: rat)\<bar> < 1" by linarith
    then have "(of_int \<bar>rint ?y - ?k\<bar> :: rat) < of_int 1" by simp
    then show ?thesis by linarith
  qed
  then show ?thesis by (simp add: py_round_def)
qed

text \<open>An age between two instants of the calendar, in days.\<close>

lemma age_days_bound:
  assumes "dt_in_range s" "dt_in_range g"
  shows "\<bar>f64 (total_seconds (g - s) / 86400)\<bar> < 4194303"
proof -
  let ?y = "of_int (g - s) / 1000000 :: rat"
  have "\<bar>g - s\<bar> < 315537897600000000"
    using assms by (auto simp: dt_in_range_def dt_limit_def us_per_day_def abs_less_iff)
  then have "(of_int \<bar>g - s\<bar> :: rat) < of_int 315537897600000000" by (simp only: of_int_less_iff)
  then have y: "\<bar>?y\<bar> < 315537897600" by (simp add: abs_less_iff field_simps)
  then have "\<bar>f64 ?y - ?y\<bar> \<le> 1"
    using f64_error [of ?y 39] by (simp add: pow2_def [of 39] pow2_def [of "- 15"])
  then have t: "\<bar>total_seconds (g - s)\<bar> < 315537897602" using y unfolding total_seconds_def by linarith
  then have d: "\<bar>total_seconds (g - s) / 86400\<bar> < 3652060" by (simp add: abs_less_iff field_simps)
  then have "\<bar>f64 (total_seconds (g - s) / 86400) - total_seconds (g - s) / 86400\<bar> \<le> 1"
    using f64_error [of "total_seconds (g - s) / 86400" 22] by (simp add: pow2_def [of 22] pow2_def [of "- 32"])
  then show ?thesis using d by linarith
qed

section \<open>What the builder needs of its records\<close>

definition nonblank :: "string \<Rightarrow> bool" where
  "nonblank s \<longleftrightarrow> py_strip s \<noteq> []"

definition short :: "string \<Rightarrow> bool" where
  "short s \<longleftrightarrow> length s \<le> MAX_PUBLIC_STRING"

definition server_ready :: "server \<Rightarrow> bool" where
  "server_ready s \<longleftrightarrow> nonblank (sv_name s) \<and> short (sv_name s) \<and> short (sv_description s)
   \<and> (case sv_homepage s of None \<Rightarrow> True | Some h \<Rightarrow> nonblank h \<and> short h)
   \<and> nonblank (src_reference (sv_source s)) \<and> short (src_reference (sv_source s))
   \<and> slug_re (sv_slug s) \<and> make_source (sv_source s) = Inr (sv_source s)"

definition evidence_ready :: "scan_evidence \<Rightarrow> bool" where
  "evidence_ready e \<longleftrightarrow> ev_tool_count e = int (length (ev_tools e)) \<and> length (ev_tools e) \<le> MAX_TOOLS
   \<and> 0 \<le> ev_prompt_count e \<and> 0 \<le> ev_resource_count e \<and> ev_schema_hash_algorithm e = ''sha256''
   \<and> distinct (map te_name (ev_tools e))
   \<and> (\<forall>t\<in>set (ev_tools e). nonblank (te_name t)
        \<and> (if te_has_input_schema t then \<exists>h. te_input_schema_sha256 t = Some h \<and> is_sha256 h
           else te_input_schema_sha256 t = None))"

definition finding_ready :: "finding \<Rightarrow> bool" where
  "finding_ready f \<longleftrightarrow> nonblank (fd_rule_id f) \<and> nonblank (fd_title f) \<and> nonblank (fd_category f)"

definition aware_dt :: "pydt \<Rightarrow> bool" where
  "aware_dt d \<longleftrightarrow> valid_dt d \<and> dt_offset d \<noteq> None"

definition scan_ready :: "scan_record \<Rightarrow> bool" where
  "scan_ready s \<longleftrightarrow> sc_engine_name s = ''mcpaudit'' \<and> nonblank (sc_engine_version s) \<and> short (sc_engine_version s)
   \<and> valid_risk (sc_risk s) \<and> grade (sc_risk s) = Inr (sc_grade s) \<and> sc_transparency s = transparency (sc_risk s)
   \<and> ((\<exists>f\<in>set (sc_findings s). fd_severity f = Critical) \<longleftrightarrow> 0 < risk_count (sc_risk s) Critical)
   \<and> length (sc_findings s) \<le> MAX_FINDINGS \<and> list_all finding_ready (sc_findings s)
   \<and> (case sc_evidence s of None \<Rightarrow> True | Some e \<Rightarrow> evidence_ready e)
   \<and> (case sc_sandbox_image s of None \<Rightarrow> True | Some img \<Rightarrow> img = [] \<or> nonblank img)
   \<and> aware_dt (sc_scanned_at s)"

text \<open>The documented shape of the two datetime printers: \<open>isoformat\<close> writes no \<open>Z\<close>, and what pydantic writes
  of an aware datetime reads back as one.\<close>

definition iso_clean :: "platform \<Rightarrow> bool" where
  "iso_clean pf \<longleftrightarrow> (\<forall>d. valid_dt d \<longrightarrow> iso_format pf d \<noteq> [] \<and> CHR ''Z'' \<notin> set (iso_format pf d))"

definition dump_readable :: "platform \<Rightarrow> bool" where
  "dump_readable pf \<longleftrightarrow> (\<forall>d. aware_dt d \<longrightarrow> timezone_aware_datetime pf (PStr (dump_datetime pf d)))"

section \<open>Field by field\<close>

lemma row_fields [simp]:
  "dget (snapshot_row pf v c g m a t) ''slug'' = PStr (sv_slug v)"
  "dget (snapshot_row pf v c g m a t) ''name'' = PStr (sv_name v)"
  "dget (snapshot_row pf v c g m a t) ''description'' = PStr (sv_description v)"
  "dget (snapshot_row pf v c g m a t) ''homepage'' = opt_str (sv_homepage v)"
  "dget (snapshot_row pf v c g m a t) ''grade'' = PStr (trust_grade_str (sc_grade c))"
  "dget (snapshot_row pf v c g m a t) ''transparency'' = PStr (transparency_str (sc_transparency c))"
  "dget (snapshot_row pf v c g m a t) ''danger_score'' = pfin (py_round 2 (danger_score (sc_risk c)))"
  "dget (snapshot_row pf v c g m a t) ''annotation_coverage'' = pfin (py_round 2 (rk_annotation_coverage (sc_risk c)))"
  "dget (snapshot_row pf v c g m a t) ''findings'' = PList (map public_finding (sc_findings c))"
  "dget (snapshot_row pf v c g m a t) ''evidence'' = (case sc_evidence c of None \<Rightarrow> PNone | Some e \<Rightarrow> dump_evidence e)"
  "dget (snapshot_row pf v c g m a t) ''source'' = public_source (sv_source v)"
  "dget (snapshot_row pf v c g m a t) ''engine'' = PStr (sc_engine_name c)"
  "dget (snapshot_row pf v c g m a t) ''engine_version'' = PStr (sc_engine_version c)"
  "dget (snapshot_row pf v c g m a t) ''scan_mode'' = PStr (fst (scan_mode_of v c m))"
  "dget (snapshot_row pf v c g m a t) ''sandbox'' = snd (scan_mode_of v c m)"
  "dget (snapshot_row pf v c g m a t) ''scanned_at'' = PStr (iso_format pf (sc_scanned_at c))"
  "dget (snapshot_row pf v c g m a t) ''scan_age_days'' = pfin (py_round 6 a)"
  "dget (snapshot_row pf v c g m a t) ''stale_after'' = PStr (iso_format pf (utc_dt t))"
  "dget (snapshot_row pf v c g m a t) ''grade_change'' = (case g of None \<Rightarrow> PNone | Some x \<Rightarrow> dump_grade_change pf x)"
  "dget (snapshot_row pf v c g m a t) ''requires_credentials'' = PBool (src_env_keys (sv_source v) \<noteq> [])"
  "dget (snapshot_row pf v c g m a t) ''dimensions'' =
     PDict (map (\<lambda>dim. (dimension_str dim, pfin (py_round 2 (risk_dim (sc_risk c) dim)))) SNAPSHOT_DIMS)"
  by (simp_all add: snapshot_row_def)

lemma row_complete: "filter (\<lambda>k. \<not> has_key (snapshot_row pf v c g m a t) k) SERVER_REQUIRED_FIELDS = []"
  by (simp add: SERVER_REQUIRED_FIELDS_def has_key_def snapshot_row_def)

lemma row_stale_key: "has_key (snapshot_row pf v c g m a t) ''stale_after''"
  by (simp add: has_key_def snapshot_row_def)

lemma pfin_in_range: "number_in_range (pfin x) lo (Some hi) \<longleftrightarrow> lo \<le> x \<and> x \<le> hi" "number_in_range (pfin x) lo None \<longleftrightarrow> lo \<le> x"
  by (simp_all add: number_in_range_def)

lemma basic_fields_ok:
  assumes "server_ready v" "scan_ready c"
  shows "validate_basic_fields (snapshot_row pf v c g m a t) = {}"
  using assms
  by (simp add: validate_basic_fields_def server_ready_def scan_ready_def nonblank_def short_def too_long_def opt_str_def
      split: option.splits)

lemma letter_supported: "g \<noteq> Unscanned \<Longrightarrow> trust_grade_str g \<in> set GRADES"
  by (cases g) (simp_all add: GRADES_def)

lemma scan_ready_letter: "scan_ready c \<Longrightarrow> sc_grade c \<noteq> Unscanned"
proof -
  assume "scan_ready c"
  then have "grade (sc_risk c) = Inr (sc_grade c)" by (simp add: scan_ready_def)
  moreover have "band x \<noteq> Unscanned" "max (band x) D \<noteq> Unscanned" for x
    by (auto simp: band_letters max_def)
  ultimately show ?thesis by (auto simp: grade_eq split: if_splits)
qed

lemma score2_range: "0 \<le> x \<Longrightarrow> x \<le> 10 \<Longrightarrow> 0 \<le> py_round 2 x \<and> py_round 2 x \<le> 10"
  using py_round2_range [of x 10] by simp

lemma coverage2_range: "0 \<le> x \<Longrightarrow> x \<le> 1 \<Longrightarrow> 0 \<le> py_round 2 x \<and> py_round 2 x \<le> 1"
  using py_round2_range [of x 1] by simp

lemma grade_fields_ok:
  assumes "scan_ready c"
  shows "validate_grade_fields (snapshot_row pf v c g m a t) = {}"
proof -
  have "transparency_str (sc_transparency c) \<in> set TRANSPARENCY_LEVELS"
    by (cases "sc_transparency c") (simp_all add: TRANSPARENCY_LEVELS_def)
  then show ?thesis
    using assms letter_supported [OF scan_ready_letter [OF assms]] danger_score_range [of "sc_risk c"]
      score2_range [of "danger_score (sc_risk c)"] coverage2_range [of "rk_annotation_coverage (sc_risk c)"]
    by (simp add: validate_grade_fields_def scan_ready_def valid_risk_def pfin_in_range)
qed

lemma dimensions_ok:
  assumes "scan_ready c"
  shows "validate_dimensions (dget (snapshot_row pf v c g m a t) ''dimensions'') = {}"
proof -
  have "0 \<le> py_round 2 (risk_dim (sc_risk c) dim) \<and> py_round 2 (risk_dim (sc_risk c) dim) \<le> 10" for dim
    using assms score2_range by (cases dim) (simp_all add: scan_ready_def valid_risk_def score_ok_def)
  then have "0 \<le> py_round 2 (rk_file_access (sc_risk c)) \<and> py_round 2 (rk_file_access (sc_risk c)) \<le> 10"
    "0 \<le> py_round 2 (rk_network_access (sc_risk c)) \<and> py_round 2 (rk_network_access (sc_risk c)) \<le> 10"
    "0 \<le> py_round 2 (rk_shell_execution (sc_risk c)) \<and> py_round 2 (rk_shell_execution (sc_risk c)) \<le> 10"
    "0 \<le> py_round 2 (rk_destructive (sc_risk c)) \<and> py_round 2 (rk_destructive (sc_risk c)) \<le> 10"
    "0 \<le> py_round 2 (rk_exfiltration (sc_risk c)) \<and> py_round 2 (rk_exfiltration (sc_risk c)) \<le> 10"
    using risk_dim.simps by metis+
  then show ?thesis
    by (simp add: validate_dimensions_def SNAPSHOT_DIMS_def DIMENSIONS_def has_key_def pfin_in_range)
qed

lemma findings_ok:
  assumes "scan_ready c"
  shows "validate_findings (dget (snapshot_row pf v c g m a t) ''findings'') = {}"
proof -
  have "validate_finding (public_finding f) = {}" if "finding_ready f" for f
    using that by (cases "fd_severity f")
      (simp_all add: validate_finding_def public_finding_def finding_ready_def nonblank_def has_key_def FINDING_SEVERITIES_def)
  then show ?thesis using assms by (auto simp: validate_findings_def scan_ready_def list_all_iff)
qed

lemma critical_published: "has_critical (PList (map public_finding fs)) \<longleftrightarrow> (\<exists>f\<in>set fs. fd_severity f = Critical)"
proof -
  have "severity_str s = ''critical'' \<longleftrightarrow> s = Critical" for s by (cases s) simp_all
  then show ?thesis by (auto simp: has_critical_def is_critical_def public_finding_def list_ex_iff)
qed

lemma binding_ok:
  assumes "scan_ready c"
  shows "validate_grade_binding (snapshot_row pf v c g m a t) = {}"
  using assms by (intro published_grade_passes_binding [of "sc_risk c" "sc_grade c"])
    (simp_all add: scan_ready_def critical_published)

lemma tools_ok:
  assumes "\<forall>t\<in>set ts. nonblank (te_name t)
        \<and> (if te_has_input_schema t then \<exists>h. te_input_schema_sha256 t = Some h \<and> is_sha256 h
           else te_input_schema_sha256 t = None)"
    and "distinct (map te_name ts)" "te_name ` set ts \<inter> names = {}"
  shows "validate_tools names (map dump_tool ts) = {}"
  using assms
proof (induction ts arbitrary: names)
  case (Cons t ts)
  have "validate_tool names (dump_tool t) = ({}, insert (te_name t) names)"
    using Cons.prems by (auto simp: validate_tool_def dump_tool_def has_key_def nonblank_def opt_str_def Let_def flag_def
        split: if_splits)
  then show ?case using Cons by auto
qed simp

lemma evidence_ok:
  assumes "scan_ready c"
  shows "validate_evidence (dget (snapshot_row pf v c g m a t) ''evidence'') = {}"
proof (cases "sc_evidence c")
  case (Some e)
  then have e: "evidence_ready e" using assms by (simp add: scan_ready_def)
  then have "validate_tools {} (map dump_tool (ev_tools e)) = {}"
    by (intro tools_ok) (simp_all add: evidence_ready_def)
  then show ?thesis using e
    by (simp add: Some validate_evidence_def dump_evidence_def has_key_def negative_count_def evidence_ready_def)
qed (simp add: validate_evidence_def)

lemma source_ok:
  assumes "server_ready v"
  shows "validate_source (public_source (sv_source v)) =
    ({}, Some (PStr (source_kind_str (src_kind (sv_source v))), PStr (src_reference (sv_source v))),
     Some (src_env_keys (sv_source v) \<noteq> []))"
proof -
  have k: "source_kind_str (src_kind (sv_source v)) \<in> set SOURCE_KINDS"
    by (cases "src_kind (sv_source v)") (simp_all add: SOURCE_KINDS_def)
  have "make_source (sv_source v) = Inr (sv_source v)" using assms by (simp add: server_ready_def)
  then have "distinct (src_env_keys (sv_source v))" "\<forall>k\<in>set (src_env_keys (sv_source v)). env_key_re k"
    by (auto simp: make_source_Inr_iff)
  then have "distinct (map PStr (src_env_keys (sv_source v)))" "list_all credential_name (map PStr (src_env_keys (sv_source v)))"
    by (auto simp: distinct_map inj_on_def list_all_iff credential_name_def)
  then show ?thesis using assms k
    by (simp add: validate_source_def public_source_def has_key_def server_ready_def nonblank_def short_def too_long_def flag_def)
qed

lemma sandbox_ok:
  assumes "scan_ready c"
  shows "validate_sandbox (snd (scan_mode_of v c m)) (PStr (fst (scan_mode_of v c m))) = {}"
    "fst (scan_mode_of v c m) \<in> set SCAN_MODES"
  using assms
  by (auto simp: scan_mode_of_def Let_def validate_sandbox_def expected_sandbox_def has_key_def has_image_def opt_str_def
      scan_ready_def nonblank_def flag_def SCAN_MODES_def split: option.splits if_splits)

lemma iso_text_aware:
  assumes "iso_roundtrip pf" "iso_clean pf" "aware_dt d"
  shows "timezone_aware_datetime pf (PStr (iso_format pf d))"
    and "dt_in_range (utc_instant d) \<Longrightarrow> parse_aware_datetime pf (PStr (iso_format pf d)) = Inr (Some (utc_instant d))"
proof -
  have t: "iso_parse pf (iso_format pf d) = Some d" "iso_format pf d \<noteq> []" "CHR ''Z'' \<notin> set (iso_format pf d)"
    and off: "dt_offset d \<noteq> None"
    using assms by (simp_all add: iso_roundtrip_def iso_clean_def aware_dt_def)
  then have "\<not> ends_with_Z (iso_format pf d)" unfolding ends_with_Z_def by (metis last_in_set)
  with t off show "timezone_aware_datetime pf (PStr (iso_format pf d))"
    by (simp add: timezone_aware_datetime_def)
  show "parse_aware_datetime pf (PStr (iso_format pf d)) = Inr (Some (utc_instant d))" if "dt_in_range (utc_instant d)"
    using that t off by (simp add: parse_aware_datetime_def replace_Z_id as_utc_def)
qed

text \<open>What a freshness verdict other than unknown records.\<close>

lemma assessed_times:
  assumes "assess_scan_freshness pf (TsDt d) now True h = Inr f" "sf_state f \<noteq> FUnknown"
  shows "dt_in_range (utc_instant now) \<and> dt_in_range (utc_instant d) \<and> dt_in_range (utc_instant d + h * us_per_day)
    \<and> \<not> total_seconds (utc_instant now - utc_instant d) < 0
    \<and> sf_scan_age_days f = Some (py_round 6 (f64 (total_seconds (utc_instant now - utc_instant d) / 86400)))
    \<and> sf_stale_after f = Some (utc_instant d + h * us_per_day)"
  using assms by (auto simp: assess_scan_freshness_def assess_parsed_def no_verdict_def Let_def split: if_splits)

lemma default_utc_aware [simp]: "dt_offset d \<noteq> None \<Longrightarrow> default_utc d = d"
  by (auto simp: default_utc_def)

lemma aware_default_utc: "valid_dt d \<Longrightarrow> aware_dt (default_utc d)"
  by (auto simp: aware_dt_def default_utc_def valid_dt_def us_per_day_def split: option.splits)

lemma freshness_ok:
  fixes v g m
  assumes "iso_roundtrip pf" "iso_clean pf" "aware_dt (sc_scanned_at c)" "aware_dt now"
    and "assess_scan_freshness pf (TsDt (sc_scanned_at c)) now True STALE_AFTER_DAYS = Inr f" "sf_state f \<noteq> FUnknown"
  defines "row \<equiv> snapshot_row pf v c g m (the (sf_scan_age_days f)) (the (sf_stale_after f))"
  shows "validate_freshness_binding pf row (PStr (iso_format pf now)) = Inr {} \<and> number_in_range (dget row ''scan_age_days'') 0 None"
proof -
  let ?u = "utc_instant (sc_scanned_at c)" and ?n = "utc_instant now"
  let ?age = "py_round 6 (f64 (total_seconds (?n - ?u) / 86400))"
  note T = assessed_times [OF assms(5,6)]
  have age: "py_round 6 ?age = ?age" using T age_days_bound [of ?u ?n] by (intro py_round6_idem) blast
  have fields: "dget row ''scanned_at'' = PStr (iso_format pf (sc_scanned_at c))" "dget row ''scan_age_days'' = pfin ?age"
    "dget row ''stale_after'' = PStr (iso_format pf (utc_dt (?u + 90 * us_per_day)))" "has_key row ''stale_after''"
    using T age by (simp_all add: row_def row_stale_key STALE_AFTER_DAYS_def)
  have gen: "parse_aware_datetime pf (PStr (iso_format pf now)) = Inr (Some ?n)"
    and scan: "parse_aware_datetime pf (PStr (iso_format pf (sc_scanned_at c))) = Inr (Some ?u)"
    using iso_text_aware(2) [OF assms(1,2)] assms(3,4) T by blast+
  have r: "dt_in_range (?u + 90 * us_per_day)" using T by (simp add: STALE_AFTER_DAYS_def)
  then have "aware_dt (utc_dt (?u + 90 * us_per_day))" by (simp add: aware_dt_def utc_dt_def valid_dt_def us_per_day_def)
  then have stale: "parse_aware_datetime pf (PStr (iso_format pf (utc_dt (?u + 90 * us_per_day)))) = Inr (Some (?u + 90 * us_per_day))"
    using iso_text_aware(2) [OF assms(1,2)] r by simp
  have "validate_stale_after pf row ?u = Inr {}"
    using r by (simp add: validate_stale_after_def fields stale flag_def)
  moreover have "\<not> f64 (1 / 1000000) < 0" using f64_nonneg [of "1 / 1000000"] by simp
  then have "age_mismatch (pfin ?age) ?age = Inr False" by (simp add: age_mismatch_def)
  moreover have "0 \<le> ?age"
  proof -
    have "0 \<le> total_seconds (?n - ?u)" using T by linarith
    then show ?thesis by (simp add: py_round_def f64_nonneg rint_nonneg)
  qed
  ultimately show ?thesis using T
    by (simp add: validate_freshness_binding_def gen scan fields Let_def flag_def pfin_in_range)
qed

lemma attributed_cause: "moved \<Longrightarrow> attribute_cause cmp moved eng \<noteq> NoChange"
  by (simp add: attribute_cause_def)

lemma latest_grade_change_facts:
  "latest_grade_change hist = Inr (Some gc) \<Longrightarrow>
     gc_current_grade gc = sc_grade (hd hist) \<and> gc_previous_grade gc \<noteq> gc_current_grade gc \<and> gc_cause gc \<noteq> NoChange
   \<and> (\<exists>s\<in>set hist. gc_changed_at gc = sc_scanned_at s) \<and> (\<exists>s\<in>set hist. gc_previous_grade gc = sc_grade s)"
proof (induction hist rule: latest_grade_change.induct)
  case (1 newest prior rest)
  from "1.prems" obtain d where d: "diff prior newest = Inr d"
    and "(if dr_previous_grade d \<noteq> dr_current_grade d then Inr (Some (grade_change_of d))
      else latest_grade_change (prior # rest)) = Inr (Some gc)" by auto
  have fields: "dr_previous_grade d = sc_grade prior" "dr_current_grade d = sc_grade newest"
    "dr_current_scanned_at d = sc_scanned_at newest" "sc_grade prior \<noteq> sc_grade newest \<Longrightarrow> dr_cause d \<noteq> NoChange"
    using d by (auto simp: diff_def Let_def scores_moved_def attributed_cause split: if_splits)
  show ?case
  proof (cases "sc_grade prior = sc_grade newest")
    case True
    then have rest: "latest_grade_change (prior # rest) = Inr (Some gc)" using "1.prems" d fields by simp
    have "\<not> dr_previous_grade d \<noteq> dr_current_grade d" using True fields by simp
    from "1.IH" [OF this rest] show ?thesis using True by auto
  next
    case False
    then have "gc = grade_change_of d" using "1.prems" d fields by simp
    then show ?thesis using False fields by (simp add: grade_change_of_def)
  qed
qed simp_all

lemma grade_change_ok:
  assumes "latest_grade_change hist = Inr (Some gc)" "hist \<noteq> []" "hd hist = c" "dump_readable pf"
    and "\<forall>s\<in>set hist. aware_dt (sc_scanned_at s) \<and> sc_grade s \<noteq> Unscanned"
  shows "validate_grade_change pf (dump_grade_change pf gc) (PStr (trust_grade_str (sc_grade c))) = {}"
proof -
  note F = latest_grade_change_facts [OF assms(1)]
  have aware: "timezone_aware_datetime pf (PStr (dump_datetime pf (gc_changed_at gc)))"
    using F assms(4,5) by (auto simp: dump_readable_def)
  have g: "trust_grade_str (gc_previous_grade gc) \<in> set GRADES" "trust_grade_str (gc_current_grade gc) \<in> set GRADES"
    using F assms(2,3,5) letter_supported by fastforce+
  have ne: "trust_grade_str (gc_previous_grade gc) \<noteq> trust_grade_str (gc_current_grade gc)"
    using F grades.val_eq_iff by blast
  have c: "drift_cause_str (gc_cause gc) \<in> set GRADE_CHANGE_CAUSES \<and> drift_cause_str (gc_cause gc) \<noteq> ''no-change''"
    using F by (cases "gc_cause gc") (simp_all add: GRADE_CHANGE_CAUSES_def)
  have s: "surface_comparison_str (gc_surface_comparison gc) \<in> set SURFACE_COMPARISONS"
    by (cases "gc_surface_comparison gc") (simp_all add: SURFACE_COMPARISONS_def)
  have cur: "gc_current_grade gc = sc_grade c" using F assms(3) by simp
  show ?thesis using aware g ne c s
    by (simp add: validate_grade_change_def dump_grade_change_def has_key_def Let_def flag_def cur)
qed

lemma row_codes_ok:
  assumes "server_ready v" "scan_ready c" "iso_roundtrip pf" "iso_clean pf"
    and "number_in_range (dget (snapshot_row pf v c g m a t) ''scan_age_days'') 0 None"
    and "validate_grade_change pf (dget (snapshot_row pf v c g m a t) ''grade_change'') (PStr (trust_grade_str (sc_grade c))) = {}"
  shows "server_codes pf (snapshot_row pf v c g m a t) = {}"
proof -
  have aware: "timezone_aware_datetime pf (PStr (iso_format pf (sc_scanned_at c)))"
    using iso_text_aware(1) [OF assms(3,4)] assms(2) by (simp add: scan_ready_def)
  show ?thesis
    using basic_fields_ok [OF assms(1,2)] grade_fields_ok [OF assms(2)] dimensions_ok [OF assms(2)] findings_ok [OF assms(2)]
      binding_ok [OF assms(2)] evidence_ok [OF assms(2)] source_ok [OF assms(1)] sandbox_ok [OF assms(2)] assms(5,6) aware
    by (simp add: server_codes_def row_complete add_missing_field_reasons_def check_credentials_def flag_def Let_def)
qed

lemma validate_servers_ok:
  assumes "\<forall>r\<in>set rows. server_codes pf r = {} \<and> validate_freshness_binding pf r g = Inr {}
      \<and> (\<exists>s. dget r ''slug'' = PStr s \<and> slug_re s \<and> s \<notin> slugs)
      \<and> (\<exists>c. fst (snd (validate_source (dget r ''source''))) = Some c \<and> c \<notin> coords)"
    and "distinct (map (\<lambda>r. dget r ''slug'') rows)"
    and "distinct (map (\<lambda>r. fst (snd (validate_source (dget r ''source'')))) rows)"
  shows "validate_servers pf g slugs coords (map PDict rows) = Inr {}"
  using assms
proof (induction rows arbitrary: slugs coords)
  case (Cons r rows)
  then obtain s c where s: "dget r ''slug'' = PStr s" "slug_re s" "s \<notin> slugs"
    and c: "fst (snd (validate_source (dget r ''source''))) = Some c" "c \<notin> coords" by auto
  have "validate_servers pf g (insert s slugs) (insert c coords) (map PDict rows) = Inr {}"
  proof (rule Cons.IH)
    show "\<forall>r\<in>set rows. server_codes pf r = {} \<and> validate_freshness_binding pf r g = Inr {}
      \<and> (\<exists>t. dget r ''slug'' = PStr t \<and> slug_re t \<and> t \<notin> insert s slugs)
      \<and> (\<exists>d. fst (snd (validate_source (dget r ''source''))) = Some d \<and> d \<notin> insert c coords)"
      using Cons.prems s c by (fastforce simp: image_iff)
  qed (use Cons.prems in simp_all)
  then show ?case using Cons.prems(1) s c by (simp add: check_slug_def check_coordinate_def Let_def)
qed simp

section \<open>The registry a snapshot is built from\<close>

definition published_servers :: "store_codec \<Rightarrow> db \<Rightarrow> string set \<Rightarrow> string set \<Rightarrow> server list" where
  "published_servers cd d excluded masked = (case list_servers cd d of Inl _ \<Rightarrow> []
     | Inr servers \<Rightarrow> filter (\<lambda>s. \<exists>scan. published cd d excluded masked s scan) servers)"

text \<open>Every published server has usable public fields and its scans are graded, dated and by the real engine.\<close>

definition registry_ready :: "store_codec \<Rightarrow> db \<Rightarrow> string set \<Rightarrow> string set \<Rightarrow> bool" where
  "registry_ready cd d excluded masked \<longleftrightarrow>
     length (published_servers cd d excluded masked) \<le> MAX_SERVERS
   \<and> distinct (map (\<lambda>v. (src_kind (sv_source v), src_reference (sv_source v))) (published_servers cd d excluded masked))
   \<and> (\<forall>v\<in>set (published_servers cd d excluded masked). server_ready v
        \<and> (\<forall>hist. history cd d (sv_slug v) None = Inr hist \<longrightarrow>
             (\<forall>s\<in>set hist. aware_dt (sc_scanned_at s) \<and> sc_grade s \<noteq> Unscanned) \<and> (hist \<noteq> [] \<longrightarrow> scan_ready (hd hist))))"

lemma latest_is_head:
  assumes "latest cd d k = Inr (Some c)" "history cd d k None = Inr hist"
  shows "hist \<noteq> [] \<and> hd hist = c"
  using repo.last_hist [OF assms(2)] assms(1) by (auto split: list.splits)

lemma entry_admitted:
  assumes e: "entry_for pf cd d excluded masked modes now v e"
    and pf: "iso_roundtrip pf" "iso_clean pf" "dump_readable pf" "aware_dt now"
    and v: "server_ready v"
    and h: "\<forall>hist. history cd d (sv_slug v) None = Inr hist \<longrightarrow>
      (\<forall>s\<in>set hist. aware_dt (sc_scanned_at s) \<and> sc_grade s \<noteq> Unscanned) \<and> (hist \<noteq> [] \<longrightarrow> scan_ready (hd hist))"
  shows "server_codes pf (fst e) = {} \<and> validate_freshness_binding pf (fst e) (PStr (iso_format pf now)) = Inr {}
    \<and> dget (fst e) ''slug'' = PStr (sv_slug v) \<and> slug_re (sv_slug v)
    \<and> fst (snd (validate_source (dget (fst e) ''source''))) =
        Some (PStr (source_kind_str (src_kind (sv_source v))), PStr (src_reference (sv_source v)))
    \<and> timezone_aware_datetime pf (PStr (snd e))"
proof -
  from e obtain scan hist change f where pub: "published cd d excluded masked v scan"
    and hist: "history cd d (sv_slug v) None = Inr hist" and change: "published_change hist = Inr change"
    and fresh: "assess_scan_freshness pf (TsDt (default_utc (sc_scanned_at scan))) now True STALE_AFTER_DAYS = Inr f"
      "sf_state f \<noteq> FUnknown"
    and eq: "e = (snapshot_row pf v scan change (case modes of None \<Rightarrow> None | Some m \<Rightarrow> m (sc_id scan))
            (the (sf_scan_age_days f)) (the (sf_stale_after f)), iso_format pf (sc_scanned_at scan))"
    unfolding entry_for_def by blast
  have head: "hist \<noteq> [] \<and> hd hist = scan"
    using pub hist by (intro latest_is_head) (simp_all add: published_def)
  then have ready: "scan_ready scan" using h hist by blast
  then have aware: "aware_dt (sc_scanned_at scan)" by (simp add: scan_ready_def)
  then have "default_utc (sc_scanned_at scan) = sc_scanned_at scan" by (simp add: aware_dt_def)
  note F = freshness_ok [OF pf(1,2) aware pf(4) fresh(1) [unfolded this] fresh(2)]
  have "validate_grade_change pf (case change of None \<Rightarrow> PNone | Some g \<Rightarrow> dump_grade_change pf g)
      (PStr (trust_grade_str (sc_grade scan))) = {}"
  proof (cases change)
    case (Some gc)
    then have "latest_grade_change hist = Inr (Some gc)" using change by (simp add: published_change_def split: if_splits)
    then show ?thesis using grade_change_ok [OF _ _ _ pf(3)] head h hist Some by simp
  qed (simp add: validate_grade_change_def)
  then have "server_codes pf (fst e) = {}"
    unfolding eq fst_conv using F by (intro row_codes_ok [OF v ready pf(1,2)]) simp_all
  then show ?thesis
    using F source_ok [OF v] v iso_text_aware(1) [OF pf(1,2) aware] by (simp add: eq server_ready_def)
qed

lemma foldl_max_mem: "foldl max (a :: string) xs = a \<or> foldl max a xs \<in> set xs"
proof (induction xs arbitrary: a)
  case (Cons x xs)
  show ?case using Cons.IH [of "max a x"] by (auto simp: max_def split: if_splits)
qed simp

lemma foldl_max_ge: "(a :: string) \<le> foldl max a xs \<and> (\<forall>x\<in>set xs. x \<le> foldl max a xs)"
proof (induction xs arbitrary: a)
  case (Cons x xs)
  show ?case using Cons.IH [of "max a x"] by auto
qed simp

section \<open>Properties\<close>


text \<open>C17. What the builder publishes, the runtime validator admits: over a registry of usable records, every snapshot
  that is built passes the whole validation with no reason code.\<close>

theorem built_snapshot_is_admitted:
  assumes b: "build_snapshot_from_connection pf cd d excluded masked modes now = Inr snap"
    and d: "store_reachable cd d" "codec_tame cd"
    and pf: "iso_roundtrip pf" "iso_clean pf" "dump_readable pf" and now: "valid_dt now"
    and ready: "registry_ready cd d excluded masked"
  shows "validation_reasons pf snap = Inr {}"
proof -
  let ?now = "default_utc now" and ?vs = "published_servers cd d excluded masked"
  from build_snapshot_entries [OF b d] obtain servers entries where l: "list_servers cd d = Inr servers"
    and sorted: "sorted_wrt (<) (map sv_slug servers)"
    and rel: "list_all2 (entry_for pf cd d excluded masked modes ?now)
        (filter (\<lambda>s. \<exists>scan. published cd d excluded masked s scan) servers) entries"
    and snap: "snap = [(''schema_version'', PInt 2), (''generated_at'', PStr (iso_format pf ?now)),
        (''generated_from_scan_at'', PStr (foldl max [] (map snd entries))),
        (''server_count'', PInt (int (length entries))), (''servers'', PList (map (PDict \<circ> fst) entries))]"
    by auto
  have vs: "?vs = filter (\<lambda>s. \<exists>scan. published cd d excluded masked s scan) servers"
    by (simp add: published_servers_def l)
  note rel = rel [folded vs]
  have now': "aware_dt ?now" using now by (rule aware_default_utc)
  have entry: "server_codes pf (fst e) = {} \<and> validate_freshness_binding pf (fst e) (PStr (iso_format pf ?now)) = Inr {}
      \<and> dget (fst e) ''slug'' = PStr (sv_slug v) \<and> slug_re (sv_slug v)
      \<and> fst (snd (validate_source (dget (fst e) ''source''))) =
          Some (PStr (source_kind_str (src_kind (sv_source v))), PStr (src_reference (sv_source v)))
      \<and> timezone_aware_datetime pf (PStr (snd e))"
    if "entry_for pf cd d excluded masked modes ?now v e" "v \<in> set ?vs" for v e
    using entry_admitted [OF that(1) pf now'] ready that(2) unfolding registry_ready_def by blast
  have len: "length entries = length ?vs" using rel by (simp add: list_all2_lengthD)
  have nth: "entry_for pf cd d excluded masked modes ?now (?vs ! i) (entries ! i)" "?vs ! i \<in> set ?vs" if "i < length entries" for i
    using rel that len by (auto simp: list_all2_conv_all_nth)
  have at_i: "dget (fst (entries ! i)) ''slug'' = PStr (sv_slug (?vs ! i))"
    "fst (snd (validate_source (dget (fst (entries ! i)) ''source''))) =
      Some (PStr (source_kind_str (src_kind (sv_source (?vs ! i)))), PStr (src_reference (sv_source (?vs ! i))))"
    if "i < length entries" for i
    using entry [OF nth(1) [OF that] nth(2) [OF that]] by blast+
  have slugs: "map (\<lambda>r. dget r ''slug'') (map fst entries) = map (\<lambda>v. PStr (sv_slug v)) ?vs"
    by (rule nth_equalityI) (simp_all add: len at_i [unfolded len])
  have coords: "map (\<lambda>r. fst (snd (validate_source (dget r ''source'')))) (map fst entries)
      = map (\<lambda>v. Some (PStr (source_kind_str (src_kind (sv_source v))), PStr (src_reference (sv_source v)))) ?vs"
    by (rule nth_equalityI) (simp_all add: len at_i [unfolded len])
  have "sorted_wrt (<) (map sv_slug ?vs)" using sorted by (auto simp: vs sorted_wrt_map intro: sorted_wrt_filter)
  then have "distinct (map sv_slug ?vs)" by (simp add: strict_sorted_iff)
  then have ds: "distinct (map (\<lambda>r. dget r ''slug'') (map fst entries))"
    unfolding slugs by (auto simp: distinct_map inj_on_def)
  have "distinct (map (\<lambda>v. (src_kind (sv_source v), src_reference (sv_source v))) ?vs)"
    using ready by (simp add: registry_ready_def)
  then have dc: "distinct (map (\<lambda>r. fst (snd (validate_source (dget r ''source'')))) (map fst entries))"
    unfolding coords by (auto simp: distinct_map inj_on_def kinds.val_eq_iff)
  have "validate_servers pf (PStr (iso_format pf ?now)) {} {} (map PDict (map fst entries)) = Inr {}"
  proof (rule validate_servers_ok [OF _ ds dc], rule ballI)
    fix r assume "r \<in> set (map fst entries)"
    then obtain i where "i < length entries" "r = fst (entries ! i)" by (auto simp: in_set_conv_nth)
    then show "server_codes pf r = {} \<and> validate_freshness_binding pf r (PStr (iso_format pf ?now)) = Inr {}
      \<and> (\<exists>s. dget r ''slug'' = PStr s \<and> slug_re s \<and> s \<notin> {})
      \<and> (\<exists>c. fst (snd (validate_source (dget r ''source''))) = Some c \<and> c \<notin> {})"
      using entry [OF nth] by auto
  qed
  moreover have "timezone_aware_datetime pf (PStr (foldl max [] (map snd entries)))
      \<or> foldl max [] (map snd entries) = [] \<and> entries = []"
  proof (cases entries)
    case (Cons e es)
    have aware: "timezone_aware_datetime pf (PStr (snd x))" if "x \<in> set entries" for x
      using that entry [OF nth] by (auto simp: in_set_conv_nth)
    have ne: "snd e \<noteq> []" using aware [of e] Cons by (auto simp: timezone_aware_datetime_def)
    have "snd e \<le> foldl max [] (map snd entries)" using foldl_max_ge [of "[]" "map snd entries"] Cons by simp
    then have "foldl max [] (map snd entries) \<noteq> []" using ne by (cases "snd e") auto
    then have "foldl max [] (map snd entries) \<in> snd ` set entries" using foldl_max_mem [of "[]" "map snd entries"] by auto
    then show ?thesis using aware by auto
  qed simp
  moreover have "timezone_aware_datetime pf (PStr (iso_format pf ?now))" by (rule iso_text_aware(1) [OF pf(1,2) now'])
  moreover have "length entries \<le> MAX_SERVERS" using ready len by (simp add: registry_ready_def)
  ultimately show ?thesis
    by (auto simp: validation_reasons_def snap count_codes_def servers_codes_def has_key_def flag_def)
qed

section \<open>Witnesses\<close>

text \<open>A datetime printer in unary, read back exactly.\<close>

definition unary :: "int \<Rightarrow> string" where
  "unary z = (if z < 0 then CHR ''n'' else CHR ''p'') # replicate (nat \<bar>z\<bar>) CHR ''i''"

definition int_of_unary :: "string \<Rightarrow> int" where
  "int_of_unary s = (case s of [] \<Rightarrow> 0 | c # cs \<Rightarrow> if c = CHR ''n'' then - int (length cs) else int (length cs))"

definition text_of_dt :: "pydt \<Rightarrow> string" where
  "text_of_dt d = unary (dt_local d) @ CHR ''T'' # (case dt_offset d of None \<Rightarrow> [] | Some off \<Rightarrow> unary off)"

definition dt_of_text :: "string \<Rightarrow> pydt option" where
  "dt_of_text s = (case py_split CHR ''T'' s of
     [a, b] \<Rightarrow> Some \<lparr>dt_local = int_of_unary a, dt_offset = (if b = [] then None else Some (int_of_unary b))\<rparr>
   | _ \<Rightarrow> None)"

definition unary_platform :: platform where
  "unary_platform = sample_platform\<lparr>iso_parse := dt_of_text, iso_format := text_of_dt, dump_datetime := text_of_dt\<rparr>"

lemma py_split_single: "sep \<notin> set s \<Longrightarrow> py_split sep s = [s]"
  by (induction s) auto

lemma py_split_pair: "sep \<notin> set a \<Longrightarrow> sep \<notin> set b \<Longrightarrow> py_split sep (a @ sep # b) = [a, b]"
  by (induction a) (auto simp: py_split_single)

lemma unary_facts: "int_of_unary (unary z) = z" "unary z \<noteq> []" "c \<in> set (unary z) \<Longrightarrow> c = CHR ''n'' \<or> c = CHR ''p'' \<or> c = CHR ''i''"
  by (auto simp: unary_def int_of_unary_def split: if_splits)

lemma unary_T: "CHR ''T'' \<notin> set (unary z)" "CHR ''Z'' \<notin> set (unary z)"
  using unary_facts(3) [of "CHR ''T''" z] unary_facts(3) [of "CHR ''Z''" z] by auto

lemma dt_text_roundtrip: "dt_of_text (text_of_dt d) = Some d"
proof (cases "dt_offset d")
  case None
  then have "py_split CHR ''T'' (text_of_dt d) = [unary (dt_local d), []]"
    using py_split_pair [of "CHR ''T''" "unary (dt_local d)" "[]"] unary_T by (simp add: text_of_dt_def)
  then show ?thesis by (simp add: dt_of_text_def unary_facts None)
next
  case (Some off)
  then have "py_split CHR ''T'' (text_of_dt d) = [unary (dt_local d), unary off]"
    using py_split_pair [of "CHR ''T''" "unary (dt_local d)" "unary off"] unary_T by (simp add: text_of_dt_def)
  then show ?thesis by (simp add: dt_of_text_def unary_facts Some)
qed

lemma unary_platform_simps [simp]: "iso_parse unary_platform = dt_of_text" "iso_format unary_platform = text_of_dt"
  "dump_datetime unary_platform = text_of_dt"
  by (simp_all add: unary_platform_def)

lemma unary_platform_laws: "iso_roundtrip unary_platform" "iso_clean unary_platform" "dump_readable unary_platform"
proof -
  show r: "iso_roundtrip unary_platform" by (simp add: iso_roundtrip_def dt_text_roundtrip)
  show c: "iso_clean unary_platform"
    by (auto simp: iso_clean_def text_of_dt_def unary_T split: option.splits)
  show "dump_readable unary_platform"
    using iso_text_aware(1) [OF r c] by (simp add: dump_readable_def)
qed

text \<open>A registry of one server with one critical finding.\<close>

definition critical_finding :: finding where
  "critical_finding = sample_finding\<lparr>fd_severity := Critical\<rparr>"

definition one_codec :: store_codec where
  "one_codec = sample_codec\<lparr>cd_finding := (\<lambda>v. Inr critical_finding)\<rparr>"

definition one_scan :: scan_record where
  "one_scan = sample_scan\<lparr>sc_findings := [critical_finding]\<rparr>"

definition one_db :: db where
  "one_db = sample_db\<lparr>scans_t := [scan_to_row one_codec one_scan]\<rparr>"

definition one_listed :: server where
  "one_listed = sample_server\<lparr>sv_added_at := utc_dt (710 * us_per_day)\<rparr>"

lemma one_codec_tame: "codec_tame one_codec"
  by (simp add: codec_tame_def one_codec_def sample_codec_def)

lemma one_db_reachable: "store_reachable one_codec one_db"
proof -
  have u: "upsert one_codec sample_server init_schema = sample_db"
    by (simp add: sample_db_def upsert_def one_codec_def server_to_row_def sample_codec_def)
  have r: "record_scan one_codec one_scan sample_db = Inr one_db"
    by (simp add: record_scan_def sample_db_def upsert_def init_schema_def server_to_row_def one_db_def
        sample_server_def sample_scan_def one_scan_def)
  have "store_reachable one_codec sample_db"
    unfolding u [symmetric] by (rule store_reachable.Step [OF store_reachable.Init store_step.Upsert])
  then show ?thesis by (rule store_reachable.Step [OF _ store_step.Record [OF r]])
qed

lemma one_row: "row_to_scan one_codec (scan_to_row one_codec one_scan) = Inr one_scan"
proof (rule row_to_scan_to_row)
  show "make_scan_record one_scan = Inr one_scan" "valid_risk (sc_risk one_scan)"
    using sample_scan_ok by (simp_all add: one_scan_def)
  show "reads_back one_codec one_scan"
    by (simp add: reads_back_def one_codec_def sample_codec_def one_scan_def sample_scan_def load_stored_json_def
        MAX_STORED_JSON_BYTES_def utf8_length_def too_many_tools_def)
  show "length (sc_findings one_scan) \<le> MAX_STORED_FINDINGS" by (simp add: one_scan_def MAX_STORED_FINDINGS_def)
qed

lemma one_history: "history one_codec one_db ''demo-server'' None = Inr [one_scan]"
  "latest one_codec one_db ''demo-server'' = Inr (Some one_scan)"
  using one_row
  by (simp_all add: history_None latest_def newest_first_def one_db_def scan_to_row_def sample_scan_def one_scan_def)

lemma one_readback: "latest_all_readback one_codec one_db = Inr \<lparr>rb_records = [(''demo-server'', one_scan)], rb_unreadable = {}\<rparr>"
proof -
  have "scr_server_slug (scan_to_row one_codec one_scan) = ''demo-server''"
    by (simp add: scan_to_row_def one_scan_def sample_scan_def)
  then show ?thesis using one_row
    by (simp add: latest_all_readback_def latest_rows_def one_db_def at_group_max_def Let_def)
qed

lemma one_list: "list_servers one_codec one_db = Inr [one_listed]"
proof -
  have rows: "servers_t one_db = [server_to_row one_codec sample_server]"
    by (simp add: one_db_def sample_db_def upsert_def init_schema_def server_to_row_def one_codec_def sample_codec_def)
  have src: "make_source sample_source = Inr sample_source"
    by (simp add: make_source_Inr_iff sample_source_def env_key_re_def is_upper_char_def is_digit_char_def)
  have slug: "slug_re ''demo-server''"
    by (simp add: slug_re_def slug_char_def is_lower_char_def)
  have "row_to_server one_codec (server_to_row one_codec sample_server) = Inr (Some one_listed)"
    using src slug by (simp add: row_to_server_def decode_server_def server_to_row_def one_codec_def sample_codec_def
        load_stored_json_def MAX_STORED_JSON_BYTES_def utf8_length_def sample_server_def one_listed_def sample_scan_def
        make_server_def validate_slug_value_def)
  then show ?thesis by (simp add: list_servers_def rows)
qed

lemma one_build: "\<exists>snap. build_snapshot_from_connection unary_platform one_codec one_db {} {} None sample_now = Inr snap
    \<and> dget snap ''server_count'' = PInt 1"
proof -
  have at_d: "sc_scanned_at one_scan = utc_dt (710 * us_per_day)" "sc_engine_name one_scan = ''mcpaudit''"
    by (simp_all add: one_scan_def sample_scan_def)
  have real: "is_real_engine ''mcpaudit''" by code_simp
  have now: "default_utc sample_now = sample_now" "default_utc (utc_dt t) = utc_dt t" for t
    by (simp_all add: sample_now_def utc_dt_def)
  have slug: "sv_slug one_listed = ''demo-server''" by (simp add: one_listed_def sample_server_def)
  have change: "published_change [one_scan] = Inr None" by (simp add: published_change_def)
  show ?thesis
    by (simp add: build_snapshot_from_connection_def now one_readback one_list slug snapshot_entry_def at_d real one_history
        change fresh_sample STALE_AFTER_DAYS_def)
qed

lemma one_published: "published_servers one_codec one_db {} {} = [one_listed]"
proof -
  have "is_real_engine ''mcpaudit''" by code_simp
  then show ?thesis
    by (simp add: published_servers_def one_list published_def one_history one_listed_def sample_server_def one_scan_def sample_scan_def)
qed

lemma one_ready: "registry_ready one_codec one_db {} {}"
proof -
  have strip: "py_strip ''Demo'' \<noteq> []" "py_strip ''pkg@1.0.0'' \<noteq> []" "py_strip ''2.7.0'' \<noteq> []" "py_strip ''run'' \<noteq> []"
    "py_strip ''MCP007'' \<noteq> []" "py_strip ''t'' \<noteq> []" "py_strip ''c'' \<noteq> []" "slug_re ''demo-server''"
    by code_simp+
  have src: "make_source sample_source = Inr sample_source"
    by (simp add: make_source_Inr_iff sample_source_def env_key_re_def is_upper_char_def is_digit_char_def)
  have server: "server_ready one_listed"
    using strip src by (simp add: server_ready_def one_listed_def sample_server_def nonblank_def short_def MAX_PUBLIC_STRING_def)
      (simp add: sample_source_def)
  have "dt_in_range (710 * us_per_day)" by (simp add: dt_in_range_def dt_limit_def us_per_day_def)
  then have aware: "aware_dt (utc_dt (710 * us_per_day))" by (simp add: aware_dt_def) (simp add: utc_dt_def)
  have "band (danger_score sample_risk) = band (49 / 10)"
    using band_stable [OF danger_score_error [OF sample_risk_facts(1), unfolded danger_eps_def]]
    by (simp add: sample_risk_facts BANDS_def)
  then have graded: "grade sample_risk = Inr D"
    by (simp add: grade_eq sample_risk_facts band_def BANDS_def max_def grade_le_rank)
  have clear: "transparency sample_risk = TMedium" by code_simp
  have ev: "evidence_ready sample_evidence"
    using strip by (simp add: evidence_ready_def sample_evidence_def MAX_TOOLS_def nonblank_def)
  have scan: "scan_ready one_scan"
    using strip aware graded clear ev sample_risk_facts
    by (simp add: scan_ready_def one_scan_def sample_scan_def critical_finding_def sample_finding_def finding_ready_def
        nonblank_def short_def MAX_PUBLIC_STRING_def MAX_FINDINGS_def)
  have slug: "sv_slug one_listed = ''demo-server''" by (simp add: one_listed_def sample_server_def)
  show ?thesis
    using server scan aware one_history
    by (simp add: registry_ready_def one_published slug MAX_SERVERS_def) (simp add: one_scan_def sample_scan_def)
qed


theorem built_snapshot_is_admitted_witness:
  "\<exists>snap. validation_reasons unary_platform snap = Inr {} \<and> dget snap ''server_count'' = PInt 1"
proof -
  from one_build obtain snap where s: "build_snapshot_from_connection unary_platform one_codec one_db {} {} None sample_now = Inr snap"
    "dget snap ''server_count'' = PInt 1" by blast
  have "valid_dt sample_now" by (simp add: sample_now_def dt_in_range_def dt_limit_def us_per_day_def)
  from built_snapshot_is_admitted [OF s(1) one_db_reachable one_codec_tame unary_platform_laws this one_ready] s(2)
  show ?thesis by blast
qed

end
