(* ===== verification/Host_Capacity.thy ===== *)
theory Host_Capacity
  imports Snapshot_Build Strict_Json
begin

text \<open>
  Host-capacity receipts (\<open>host_capacity.py\<close>): two observations of a filesystem, the receipt that binds
  them, its validation, and the gate that requires a current one. The filesystem counters, the clock and the
  sleep are inputs; an error is the program's own \<open>HostCapacityError\<close> with its message, or another exception.
\<close>

section \<open>Constants\<close>

definition HOST_CAPACITY_SCHEMA :: string where "HOST_CAPACITY_SCHEMA = ''McpTrustHostCapacityReceiptV1''"
definition QUALIFICATION_CAPACITY_SCHEMA :: string where
  "QUALIFICATION_CAPACITY_SCHEMA = ''McpTrustQualificationCapacityReceiptV1''"
definition MIN_AVAILABLE_BYTES :: int where "MIN_AVAILABLE_BYTES = 5 * 1024 ^ 3"
definition MIN_INTERVAL_SECONDS :: int where "MIN_INTERVAL_SECONDS = 30"
definition MAX_AGE_SECONDS :: int where "MAX_AGE_SECONDS = 120"
definition REQUIRED_READINGS :: nat where "REQUIRED_READINGS = 2"

definition CLAIM_CEILING :: string where
  "CLAIM_CEILING = ''Host-filesystem capacity observations only; this receipt does not prove Colima was '' @
    ''stopped, observation authenticity or same-user tamper resistance, Docker or MCP '' @
    ''isolation, scan safety, publication, deployment, scheduler operation, production '' @
    ''freshness, or endorsement.''"

definition QUALIFICATION_CLAIM_CEILING :: string where
  "QUALIFICATION_CLAIM_CEILING = ''One fresh host-capacity observation scoped to one local image-qualification or '' @
    ''interruption-cleanup invocation. It does not prove Docker cleanup, image '' @
    ''qualification, MCP execution, publication, deployment, scheduler operation, '' @
    ''production freshness, or endorsement.''"

definition RECEIPT_KEYS :: "string list" where
  "RECEIPT_KEYS = [''schema'', ''observed_at'', ''status'', ''safe_to_start_runtime'', ''exit_classification'', ''policy'',
     ''anchor'', ''readings'', ''reasons'', ''authority'', ''claim_ceiling'', ''receipt_digest'']"

definition READING_KEYS :: "string list" where
  "READING_KEYS = [''sequence'', ''observed_at'', ''device_id'', ''total_bytes'', ''available_bytes'', ''used_bytes'',
     ''capacity_percent'']"

definition POLICY :: pydict where
  "POLICY = [(''minimum_available_bytes'', PInt MIN_AVAILABLE_BYTES), (''maximum_capacity_percent_exclusive'', PInt 100),
     (''required_readings'', PInt (int REQUIRED_READINGS)), (''minimum_interval_seconds'', PInt MIN_INTERVAL_SECONDS),
     (''maximum_receipt_age_seconds'', PInt MAX_AGE_SECONDS)]"

definition AUTHORITY :: pydict where
  "AUTHORITY = [(''observation_only'', PBool True), (''colima_start_performed'', PBool False),
     (''docker_invoked'', PBool False), (''mcp_execution'', PBool False), (''database_accessed'', PBool False),
     (''publication_performed'', PBool False), (''deployment_performed'', PBool False),
     (''scheduler_change_performed'', PBool False)]"

definition QUALIFICATION_OPERATIONS :: "string list" where
  "QUALIFICATION_OPERATIONS = [''qualification'', ''cleanup'']"

definition QUALIFICATION_COHORTS :: "string list" where
  "QUALIFICATION_COHORTS = [''reference'', ''live-batch'', ''batch3'', ''batch4'', ''basic-memory'']"

definition QUALIFICATION_RECEIPT_KEYS :: "string list" where
  "QUALIFICATION_RECEIPT_KEYS = [''schema'', ''operation'', ''receipt_set'', ''cohort'', ''host_capacity'', ''authority'',
     ''claim_ceiling'', ''receipt_digest'']"

definition QUALIFICATION_AUTHORITY :: pydict where
  "QUALIFICATION_AUTHORITY = AUTHORITY @ [(''qualification_scope_only'', PBool True)]"

text \<open>\<open>^v[0-9]+(?:[-._][A-Za-z0-9][A-Za-z0-9._-]{0,119})?$\<close>.\<close>

definition receipt_set_re :: "string \<Rightarrow> bool" where
  "receipt_set_re s = (case s of [] \<Rightarrow> False
     | c # cs \<Rightarrow> c = CHR ''v'' \<and> takeWhile is_digit_char cs \<noteq> []
         \<and> (case dropWhile is_digit_char cs of [] \<Rightarrow> True
            | sep # rest \<Rightarrow> sep \<in> {CHR ''-'', CHR ''.'', CHR ''_''}
                \<and> (case rest of [] \<Rightarrow> False
                   | d # ds \<Rightarrow> is_alnum_char d \<and> length ds \<le> 119
                       \<and> list_all (\<lambda>x. is_alnum_char x \<or> x \<in> {CHR ''.'', CHR ''_'', CHR ''-''}) ds)))"

section \<open>Errors, digests and times\<close>

datatype hc_error = HostCapacityError string | Raised exn

type_synonym 'a hc = "hc_error + 'a"

definition raised :: "'a res \<Rightarrow> 'a hc" where
  "raised m = map_sum Raised id m"

lemma raised_simps [simp]: "raised (Inr x) = Inr x" "raised (Inl e) = Inl (Raised e)"
  by (simp_all add: raised_def)

lemma raised_eq_Inr [simp]: "raised m = Inr x \<longleftrightarrow> m = Inr x"
  by (cases m) simp_all

definition receipt_digest_of :: "platform \<Rightarrow> pydict \<Rightarrow> string" where
  "receipt_digest_of pf payload = ''sha256:'' @ sha256_hex pf (json_ascii pf (PDict payload) @ [CHR 0x0A])"

definition hc_utc :: "pydt \<Rightarrow> int hc" where
  "hc_utc value = (if dt_offset value = None then Inl (HostCapacityError ''capacity timestamp must be timezone-aware'')
     else raised (as_utc value))"

lemma hc_utc_Inr [simp]: "hc_utc d = Inr t \<longleftrightarrow> dt_offset d \<noteq> None \<and> dt_in_range (utc_instant d) \<and> t = utc_instant d"
  by (simp add: hc_utc_def)

section \<open>Readings\<close>

text \<open>A sample's fields are unchecked until \<open>_validate_sample\<close>.\<close>

record capacity_sample =
  cs_device_id :: pyval
  cs_total_bytes :: pyval
  cs_available_bytes :: pyval

definition valid_sample :: "capacity_sample \<Rightarrow> bool" where
  "valid_sample s \<longleftrightarrow> is_int_min (cs_device_id s) 0 \<and> is_int_min (cs_total_bytes s) 1 \<and> is_int_min (cs_available_bytes s) 0
     \<and> int_of (cs_available_bytes s) \<le> int_of (cs_total_bytes s)"

definition validate_sample :: "capacity_sample \<Rightarrow> unit hc" where
  "validate_sample s = (if valid_sample s then Inr ()
     else Inl (HostCapacityError ''host capacity counters are inconsistent''))"

text \<open>\<open>os.statvfs\<close> and \<open>os.stat\<close> of the anchor, when neither raises \<open>OSError\<close>.\<close>

record filesystem_stat =
  fs_frsize :: int
  fs_bsize :: int
  fs_blocks :: int
  fs_bavail :: int
  fs_device :: int

definition read_host_capacity :: "filesystem_stat option \<Rightarrow> capacity_sample hc" where
  "read_host_capacity stat = (case stat of None \<Rightarrow> Inl (HostCapacityError ''host capacity is unreadable'')
     | Some f \<Rightarrow>
         let fragment_size = (if fs_frsize f \<noteq> 0 then fs_frsize f else fs_bsize f);
             sample = \<lparr>cs_device_id = PInt (fs_device f), cs_total_bytes = PInt (fs_blocks f * fragment_size),
               cs_available_bytes = PInt (fs_bavail f * fragment_size)\<rparr> in
         bind_res (validate_sample sample) (\<lambda>_. Inr sample))"

text \<open>\<open>(used * 100) / total\<close> is the correctly rounded quotient, at most 100.\<close>

definition capacity_reading :: "platform \<Rightarrow> capacity_sample \<Rightarrow> int \<Rightarrow> pydt \<Rightarrow> pydict hc" where
  "capacity_reading pf s sequence observed_at =
     bind_res (validate_sample s) (\<lambda>_.
     bind_res (hc_utc observed_at) (\<lambda>t.
       let total = int_of (cs_total_bytes s); available = int_of (cs_available_bytes s); used = total - available in
       Inr [(''sequence'', PInt sequence), (''observed_at'', PStr (iso_format pf (utc_dt t))),
            (''device_id'', cs_device_id s), (''total_bytes'', cs_total_bytes s),
            (''available_bytes'', cs_available_bytes s), (''used_bytes'', PInt used),
            (''capacity_percent'', pfin (py_round 6 (f64 (of_int (used * 100) / of_int total))))]))"

definition num_of :: "pyval \<Rightarrow> rat" where
  "num_of v = (case as_num v of None \<Rightarrow> 0 | Some x \<Rightarrow> x)"

definition reading_reasons :: "pydict \<Rightarrow> string list" where
  "reading_reasons reading =
     (if num_of (dget reading ''available_bytes'') < of_int MIN_AVAILABLE_BYTES then [''available_bytes_below_5_gib''] else [])
   @ (if 100 \<le> num_of (dget reading ''capacity_percent'') then [''capacity_not_below_100_percent''] else [])"

section \<open>Building a receipt\<close>

text \<open>What the reader, the clock and the sleep return, in the order they are called; the last clock reading is
  taken only when there is no reading.\<close>

record observation =
  ob_first :: "capacity_sample hc"
  ob_first_at :: pydt
  ob_sleep :: "unit hc"
  ob_second :: "capacity_sample hc"
  ob_second_at :: pydt
  ob_fallback_at :: pydt

definition observed_once :: "platform \<Rightarrow> capacity_sample hc \<Rightarrow> pydt \<Rightarrow> int \<Rightarrow> (capacity_sample \<times> int \<times> pydict) hc" where
  "observed_once pf reader_result clock sequence =
     bind_res reader_result (\<lambda>s. bind_res (hc_utc clock) (\<lambda>t.
       bind_res (capacity_reading pf s sequence (utc_dt t)) (\<lambda>r. Inr (s, t, r))))"

text \<open>\<open>str(exc).replace(" ", "_")\<close>, the fixed reason of the caught exceptions, or the exception itself.\<close>

definition caught_reason :: "hc_error \<Rightarrow> string hc" where
  "caught_reason err = (case err of
     HostCapacityError msg \<Rightarrow> Inr (map (\<lambda>c. if c = CHR '' '' then CHR ''_'' else c) msg)
   | Raised e \<Rightarrow> (if e \<in> {OSError, OverflowError, TypeError, ValueError} then Inr ''host_capacity_observation_failed''
       else Inl (Raised e)))"

definition pair_reasons :: "capacity_sample \<Rightarrow> int \<Rightarrow> capacity_sample \<Rightarrow> int \<Rightarrow> string list" where
  "pair_reasons first first_at second second_at =
     (if \<not> py_eq (cs_device_id second) (cs_device_id first) then [''capacity_anchor_device_changed''] else [])
   @ (if \<not> py_eq (cs_total_bytes second) (cs_total_bytes first) then [''capacity_anchor_total_changed''] else [])
   @ (if total_seconds (second_at - first_at) < of_int MIN_INTERVAL_SECONDS then [''capacity_readings_too_close''] else [])"

definition observe :: "platform \<Rightarrow> observation \<Rightarrow> (pydict list \<times> string list) hc" where
  "observe pf ob = (case observed_once pf (ob_first ob) (ob_first_at ob) 1 of
     Inl err \<Rightarrow> bind_res (caught_reason err) (\<lambda>reason. Inr ([], [reason]))
   | Inr (first, first_at, r1) \<Rightarrow>
       if reading_reasons r1 \<noteq> [] then Inr ([r1], reading_reasons r1)
       else (case bind_res (ob_sleep ob) (\<lambda>_. observed_once pf (ob_second ob) (ob_second_at ob) 2) of
           Inl err \<Rightarrow> bind_res (caught_reason err) (\<lambda>reason. Inr ([r1], [reason]))
         | Inr (second, second_at, r2) \<Rightarrow>
             Inr ([r1, r2], reading_reasons r2 @ pair_reasons first first_at second second_at)))"

definition receipt_payload :: "pyval \<Rightarrow> bool \<Rightarrow> pydict list \<Rightarrow> string list \<Rightarrow> pydict" where
  "receipt_payload observed_at ready readings reasons =
     [(''schema'', PStr HOST_CAPACITY_SCHEMA), (''observed_at'', observed_at),
      (''status'', PStr (if ready then ''READY'' else ''BLOCKED'')), (''safe_to_start_runtime'', PBool ready),
      (''exit_classification'', PStr (if ready then ''ready'' else ''capacity-blocked'')), (''policy'', PDict POLICY),
      (''anchor'', PDict (case readings of
          [] \<Rightarrow> [(''kind'', PStr ''host-filesystem-device''), (''device_id'', PNone), (''total_bytes'', PNone)]
        | r # _ \<Rightarrow> [(''kind'', PStr ''host-filesystem-device''), (''device_id'', dget r ''device_id''),
            (''total_bytes'', dget r ''total_bytes'')])),
      (''readings'', PList (map PDict readings)), (''reasons'', PList (map PStr (sorted_set reasons))),
      (''authority'', PDict AUTHORITY), (''claim_ceiling'', PStr CLAIM_CEILING)]"

definition sealed :: "platform \<Rightarrow> pydict \<Rightarrow> pydict" where
  "sealed pf payload = payload @ [(''receipt_digest'', PStr (receipt_digest_of pf payload))]"

definition build_host_capacity_receipt :: "platform \<Rightarrow> observation \<Rightarrow> pydict hc" where
  "build_host_capacity_receipt pf ob =
     bind_res (observe pf ob) (\<lambda>(readings, reasons).
     bind_res (if readings \<noteq> [] then Inr (dget (last readings) ''observed_at'')
               else bind_res (hc_utc (ob_fallback_at ob)) (\<lambda>t. Inr (PStr (iso_format pf (utc_dt t))))) (\<lambda>observed_at.
       Inr (sealed pf (receipt_payload observed_at (length readings = REQUIRED_READINGS \<and> reasons = []) readings reasons))))"

section \<open>Validating a receipt\<close>

definition unsigned_of :: "pydict \<Rightarrow> pydict" where
  "unsigned_of receipt = filter (\<lambda>(k, v). k \<noteq> ''receipt_digest'') receipt"

definition hc_guard :: "bool \<Rightarrow> string \<Rightarrow> unit hc" where
  "hc_guard ok msg = (if ok then Inr () else Inl (HostCapacityError msg))"

lemma hc_guard_Inr [simp]: "hc_guard ok msg = Inr u \<longleftrightarrow> ok"
  by (simp add: hc_guard_def)

text \<open>\<open>datetime.fromisoformat(str(value))\<close>: the text of a value that is no string is never an aware datetime.\<close>

definition receipt_time :: "platform \<Rightarrow> pyval \<Rightarrow> string \<Rightarrow> int hc" where
  "receipt_time pf value msg = (case value of
     PStr s \<Rightarrow> (case iso_parse pf s of
         None \<Rightarrow> Inl (HostCapacityError msg)
       | Some d \<Rightarrow> if dt_offset d = None then Inl (HostCapacityError msg) else raised (as_utc d))
   | _ \<Rightarrow> Inl (HostCapacityError msg))"

text \<open>\<open>except OverflowError\<close> around one call.\<close>

definition overflow_as :: "string \<Rightarrow> 'a hc \<Rightarrow> 'a hc" where
  "overflow_as msg m = (case m of Inl (Raised OverflowError) \<Rightarrow> Inl (HostCapacityError msg) | _ \<Rightarrow> m)"

lemma overflow_as_Inr [simp]: "overflow_as msg m = Inr x \<longleftrightarrow> m = Inr x"
  by (auto simp: overflow_as_def split: sum.splits hc_error.splits exn.splits)

definition sample_of :: "pydict \<Rightarrow> capacity_sample" where
  "sample_of r = \<lparr>cs_device_id = dget r ''device_id'', cs_total_bytes = dget r ''total_bytes'',
     cs_available_bytes = dget r ''available_bytes''\<rparr>"

definition anchor_ok :: "pyval \<Rightarrow> bool" where
  "anchor_ok a \<longleftrightarrow> (case a of PDict d \<Rightarrow> dkeys d = {''kind'', ''device_id'', ''total_bytes''}
     \<and> dget d ''kind'' = PStr ''host-filesystem-device'' \<and> is_int_min (dget d ''device_id'') 0
     \<and> is_int_min (dget d ''total_bytes'') 1 | _ \<Rightarrow> False)"

definition validate_reading :: "platform \<Rightarrow> pydict \<Rightarrow> int \<Rightarrow> pyval \<Rightarrow> int hc" where
  "validate_reading pf anchor sequence value =
     bind_res (hc_guard (case value of PDict d \<Rightarrow> dkeys d = set READING_KEYS | _ \<Rightarrow> False)
       ''host capacity reading fields are invalid'') (\<lambda>_.
     let r = fields_of value in
     bind_res (hc_guard (py_eq (dget r ''sequence'') (PInt sequence)) ''host capacity reading sequence is invalid'') (\<lambda>_.
     bind_res (receipt_time pf (dget r ''observed_at'') ''host capacity reading timestamp is invalid'') (\<lambda>observed_at.
     bind_res (validate_sample (sample_of r)) (\<lambda>_.
     bind_res (hc_guard (is_integer (dget r ''used_bytes'')
         \<and> (case dget r ''capacity_percent'' of PInt _ \<Rightarrow> True | PFloat _ \<Rightarrow> True | _ \<Rightarrow> False))
       ''host capacity reading arithmetic is invalid'') (\<lambda>_.
     bind_res (overflow_as ''host capacity reading arithmetic is invalid''
         (capacity_reading pf (sample_of r) sequence (utc_dt observed_at))) (\<lambda>expected.
     bind_res (hc_guard (py_eq value (PDict expected)
         \<and> int_of (dget r ''used_bytes'') + int_of (dget r ''available_bytes'') = int_of (dget r ''total_bytes''))
       ''host capacity reading arithmetic is invalid'') (\<lambda>_.
     bind_res (hc_guard (reading_reasons r = []) ''host capacity reading does not satisfy policy'') (\<lambda>_.
     bind_res (hc_guard (py_eq (dget r ''device_id'') (dget anchor ''device_id'')
         \<and> py_eq (dget r ''total_bytes'') (dget anchor ''total_bytes'')) ''host capacity reading anchor differs'') (\<lambda>_.
       Inr observed_at)))))))))"

fun validate_readings :: "platform \<Rightarrow> pydict \<Rightarrow> int \<Rightarrow> pyval list \<Rightarrow> int list hc" where
  "validate_readings pf anchor sequence [] = Inr []"
| "validate_readings pf anchor sequence (r # rs) = bind_res (validate_reading pf anchor sequence r) (\<lambda>t.
     bind_res (validate_readings pf anchor (sequence + 1) rs) (\<lambda>ts. Inr (t # ts)))"

definition validate_host_capacity_receipt :: "platform \<Rightarrow> pyval \<Rightarrow> pydict hc" where
  "validate_host_capacity_receipt pf receipt =
     bind_res (hc_guard (case receipt of PDict d \<Rightarrow> dkeys d = set RECEIPT_KEYS | _ \<Rightarrow> False)
       ''host capacity receipt fields are invalid'') (\<lambda>_.
     let r = fields_of receipt in
     bind_res (hc_guard (dget r ''schema'' = PStr HOST_CAPACITY_SCHEMA
         \<and> dget r ''receipt_digest'' = PStr (receipt_digest_of pf (unsigned_of r)))
       ''host capacity receipt integrity is invalid'') (\<lambda>_.
     bind_res (hc_guard (py_eq (dget r ''policy'') (PDict POLICY) \<and> py_eq (dget r ''authority'') (PDict AUTHORITY))
       ''host capacity receipt policy is invalid'') (\<lambda>_.
     bind_res (hc_guard (dget r ''claim_ceiling'' = PStr CLAIM_CEILING)
       ''host capacity receipt claim ceiling is invalid'') (\<lambda>_.
     let anchor = dget r ''anchor''; readings = items_of (dget r ''readings'') in
     bind_res (hc_guard (anchor_ok anchor \<and> is_list (dget r ''readings'') \<and> length readings = REQUIRED_READINGS)
       ''host capacity receipt anchor or readings are invalid'') (\<lambda>_.
     bind_res (validate_readings pf (fields_of anchor) 1 readings) (\<lambda>times.
     bind_res (hc_guard (\<not> total_seconds (times ! 1 - times ! 0) < of_int MIN_INTERVAL_SECONDS)
       ''host capacity reading interval is invalid'') (\<lambda>_.
     bind_res (hc_guard (py_eq (dget r ''observed_at'') (dget (fields_of (last readings)) ''observed_at''))
       ''host capacity receipt timestamp differs'') (\<lambda>_.
     bind_res (hc_guard (dget r ''status'' = PStr ''READY'' \<and> dget r ''safe_to_start_runtime'' = PBool True
         \<and> dget r ''exit_classification'' = PStr ''ready'' \<and> dget r ''reasons'' = PList [])
       ''host capacity receipt is not READY'') (\<lambda>_. Inr r)))))))))"

section \<open>Requiring a current receipt\<close>

definition require_current_host_capacity :: "platform \<Rightarrow> pyval \<Rightarrow> pydt \<Rightarrow> capacity_sample hc \<Rightarrow> pydict hc" where
  "require_current_host_capacity pf receipt now reader_result =
     bind_res (validate_host_capacity_receipt pf receipt) (\<lambda>validated.
     bind_res (hc_utc now) (\<lambda>current_time.
     bind_res (receipt_time pf (dget validated ''observed_at'') ''host capacity receipt timestamp is invalid'') (\<lambda>observed_at.
     let age = total_seconds (current_time - observed_at) in
     bind_res (hc_guard (\<not> (age < 0 \<or> of_int MAX_AGE_SECONDS < age)) ''host capacity receipt is stale or future-dated'') (\<lambda>_.
     bind_res reader_result (\<lambda>current.
     bind_res (capacity_reading pf current 1 (utc_dt current_time)) (\<lambda>current_reading.
     let anchor = fields_of (dget validated ''anchor'') in
     bind_res (hc_guard (py_eq (cs_device_id current) (dget anchor ''device_id'')
         \<and> py_eq (cs_total_bytes current) (dget anchor ''total_bytes'')) ''host capacity anchor changed'') (\<lambda>_.
     bind_res (hc_guard (reading_reasons current_reading = []) ''current host capacity does not satisfy policy'') (\<lambda>_.
       Inr [(''receipt_digest'', dget validated ''receipt_digest''), (''observed_at'', dget validated ''observed_at''),
            (''device_id'', cs_device_id current), (''total_bytes'', cs_total_bytes current),
            (''current_available_bytes'', cs_available_bytes current),
            (''current_capacity_percent'', dget current_reading ''capacity_percent'')]))))))))"

section \<open>Qualification receipts\<close>

definition qualification_payload :: "string \<Rightarrow> string \<Rightarrow> string \<Rightarrow> pydict \<Rightarrow> pydict" where
  "qualification_payload operation receipt_set cohort host =
     [(''schema'', PStr QUALIFICATION_CAPACITY_SCHEMA), (''operation'', PStr operation), (''receipt_set'', PStr receipt_set),
      (''cohort'', PStr cohort), (''host_capacity'', PDict host), (''authority'', PDict QUALIFICATION_AUTHORITY),
      (''claim_ceiling'', PStr QUALIFICATION_CLAIM_CEILING)]"

definition build_qualification_capacity_receipt :: "platform \<Rightarrow> string \<Rightarrow> string \<Rightarrow> string \<Rightarrow> observation \<Rightarrow> pydict hc" where
  "build_qualification_capacity_receipt pf operation receipt_set cohort ob =
     bind_res (hc_guard (operation \<in> set QUALIFICATION_OPERATIONS) ''qualification capacity operation is invalid'') (\<lambda>_.
     bind_res (hc_guard (cohort \<in> set QUALIFICATION_COHORTS) ''qualification capacity cohort is invalid'') (\<lambda>_.
     bind_res (hc_guard (receipt_set_re receipt_set) ''qualification capacity receipt set is invalid'') (\<lambda>_.
     bind_res (build_host_capacity_receipt pf ob) (\<lambda>host.
       Inr (sealed pf (qualification_payload operation receipt_set cohort host))))))"

definition validate_qualification_capacity_receipt :: "platform \<Rightarrow> pyval \<Rightarrow> string \<Rightarrow> string \<Rightarrow> string \<Rightarrow> pydict hc" where
  "validate_qualification_capacity_receipt pf receipt operation receipt_set cohort =
     bind_res (hc_guard (operation \<in> set QUALIFICATION_OPERATIONS \<and> cohort \<in> set QUALIFICATION_COHORTS
         \<and> receipt_set_re receipt_set) ''qualification capacity expected scope is invalid'') (\<lambda>_.
     bind_res (hc_guard (case receipt of PDict d \<Rightarrow> dkeys d = set QUALIFICATION_RECEIPT_KEYS | _ \<Rightarrow> False)
       ''qualification capacity receipt fields are invalid'') (\<lambda>_.
     let r = fields_of receipt in
     bind_res (hc_guard (dget r ''schema'' = PStr QUALIFICATION_CAPACITY_SCHEMA
         \<and> dget r ''receipt_digest'' = PStr (receipt_digest_of pf (unsigned_of r)))
       ''qualification capacity receipt integrity is invalid'') (\<lambda>_.
     bind_res (hc_guard (dget r ''operation'' = PStr operation \<and> dget r ''receipt_set'' = PStr receipt_set
         \<and> dget r ''cohort'' = PStr cohort) ''qualification capacity receipt scope differs'') (\<lambda>_.
     bind_res (hc_guard (py_eq (dget r ''authority'') (PDict QUALIFICATION_AUTHORITY)
         \<and> dget r ''claim_ceiling'' = PStr QUALIFICATION_CLAIM_CEILING)
       ''qualification capacity receipt authority is invalid'') (\<lambda>_.
     bind_res (validate_host_capacity_receipt pf (dget r ''host_capacity'')) (\<lambda>_. Inr r))))))"

section \<open>What a receipt shows\<close>

definition capacity_percent :: "capacity_sample \<Rightarrow> rat" where
  "capacity_percent s = py_round 6 (f64 (of_int ((int_of (cs_total_bytes s) - int_of (cs_available_bytes s)) * 100)
     / of_int (int_of (cs_total_bytes s))))"

definition sample_safe :: "capacity_sample \<Rightarrow> bool" where
  "sample_safe s \<longleftrightarrow> valid_sample s \<and> MIN_AVAILABLE_BYTES \<le> int_of (cs_available_bytes s) \<and> capacity_percent s < 100"

definition same_filesystem :: "capacity_sample \<Rightarrow> capacity_sample \<Rightarrow> bool" where
  "same_filesystem s s' \<longleftrightarrow> cs_device_id s = cs_device_id s' \<and> cs_total_bytes s = cs_total_bytes s'"

definition reading_of :: "platform \<Rightarrow> capacity_sample \<Rightarrow> int \<Rightarrow> int \<Rightarrow> pydict" where
  "reading_of pf s sequence t =
     [(''sequence'', PInt sequence), (''observed_at'', PStr (iso_format pf (utc_dt t))),
      (''device_id'', cs_device_id s), (''total_bytes'', cs_total_bytes s), (''available_bytes'', cs_available_bytes s),
      (''used_bytes'', PInt (int_of (cs_total_bytes s) - int_of (cs_available_bytes s))),
      (''capacity_percent'', pfin (capacity_percent s))]"

lemma reading_of_fields [simp]:
  "dget (reading_of pf s n t) ''sequence'' = PInt n"
  "dget (reading_of pf s n t) ''observed_at'' = PStr (iso_format pf (utc_dt t))"
  "dget (reading_of pf s n t) ''device_id'' = cs_device_id s"
  "dget (reading_of pf s n t) ''total_bytes'' = cs_total_bytes s"
  "dget (reading_of pf s n t) ''available_bytes'' = cs_available_bytes s"
  "dget (reading_of pf s n t) ''used_bytes'' = PInt (int_of (cs_total_bytes s) - int_of (cs_available_bytes s))"
  "dget (reading_of pf s n t) ''capacity_percent'' = pfin (capacity_percent s)"
  "dkeys (reading_of pf s n t) = set READING_KEYS"
  "sample_of (reading_of pf s n t) = s"
  by (simp_all add: reading_of_def dkeys_def READING_KEYS_def sample_of_def)

lemma validate_sample_Inr [simp]: "validate_sample s = Inr u \<longleftrightarrow> valid_sample s"
  by (simp add: validate_sample_def)

lemma valid_sample_ints:
  assumes "valid_sample s"
  obtains d t a where "s = \<lparr>cs_device_id = PInt d, cs_total_bytes = PInt t, cs_available_bytes = PInt a\<rparr>"
    "0 \<le> d" "1 \<le> t" "0 \<le> a" "a \<le> t"
  using assms by (cases s) (auto simp: valid_sample_def is_int_min_def split: pyval.splits)

lemma dt_offset_utc_dt [simp]: "dt_offset (utc_dt t) = Some 0"
  by (simp add: utc_dt_def)

lemma capacity_reading_Inr [simp]:
  "capacity_reading pf s sequence (utc_dt t) = Inr r \<longleftrightarrow> valid_sample s \<and> dt_in_range t \<and> r = reading_of pf s sequence t"
  by (auto simp: capacity_reading_def reading_of_def capacity_percent_def Let_def)

lemma reading_reasons_Nil [simp]:
  assumes "valid_sample s"
  shows "reading_reasons (reading_of pf s sequence t) = [] \<longleftrightarrow> sample_safe s"
  using assms by (elim valid_sample_ints) (auto simp: reading_reasons_def reading_of_def num_of_def sample_safe_def
    valid_sample_def is_int_min_def not_less not_le)

lemma pair_reasons_Nil:
  assumes "valid_sample s1" "valid_sample s2"
  shows "pair_reasons s1 t1 s2 t2 = [] \<longleftrightarrow> same_filesystem s1 s2 \<and> t1 + 30000000 \<le> t2"
  using total_seconds_less_iff(1) [of 30 "t2 - t1"] assms
  by (elim valid_sample_ints) (auto simp: pair_reasons_def same_filesystem_def MIN_INTERVAL_SECONDS_def not_less)

lemma observed_once_Inr: "observed_once pf m c n = Inr (s, t, r) \<longleftrightarrow>
    m = Inr s \<and> hc_utc c = Inr t \<and> valid_sample s \<and> r = reading_of pf s n t"
  by (auto simp: observed_once_def)

text \<open>The conditions under which an observation is ready, in terms of what was read.\<close>

definition observation_ready :: "observation \<Rightarrow> capacity_sample \<Rightarrow> int \<Rightarrow> capacity_sample \<Rightarrow> int \<Rightarrow> bool" where
  "observation_ready ob s1 t1 s2 t2 \<longleftrightarrow>
     ob_first ob = Inr s1 \<and> hc_utc (ob_first_at ob) = Inr t1 \<and> ob_sleep ob = Inr ()
   \<and> ob_second ob = Inr s2 \<and> hc_utc (ob_second_at ob) = Inr t2
   \<and> sample_safe s1 \<and> sample_safe s2 \<and> same_filesystem s1 s2 \<and> t1 + 30000000 \<le> t2"

lemma observe_ready:
  assumes "observation_ready ob s1 t1 s2 t2"
  shows "observe pf ob = Inr ([reading_of pf s1 1 t1, reading_of pf s2 2 t2], [])"
proof -
  have "observed_once pf (ob_first ob) (ob_first_at ob) 1 = Inr (s1, t1, reading_of pf s1 1 t1)"
    "observed_once pf (ob_second ob) (ob_second_at ob) 2 = Inr (s2, t2, reading_of pf s2 2 t2)"
    using assms by (auto simp: observed_once_Inr observation_ready_def sample_safe_def)
  then show ?thesis using assms by (simp add: observe_def observation_ready_def sample_safe_def pair_reasons_Nil)
qed

lemma observe_cases:
  assumes "observe pf ob = Inr (readings, reasons)"
  obtains (ready) s1 t1 s2 t2 where "observation_ready ob s1 t1 s2 t2"
      "readings = [reading_of pf s1 1 t1, reading_of pf s2 2 t2]" "reasons = []"
  | (blocked) "reasons \<noteq> []" "\<nexists>s1 t1 s2 t2. observation_ready ob s1 t1 s2 t2"
proof (cases "\<exists>s1 t1 s2 t2. observation_ready ob s1 t1 s2 t2")
  case True
  then obtain s1 t1 s2 t2 where r: "observation_ready ob s1 t1 s2 t2" by blast
  then show thesis using assms ready [OF r] by (simp add: observe_ready)
next
  case False
  have "reasons \<noteq> []"
  proof
    assume n: "reasons = []"
    obtain s1 t1 where 1: "observed_once pf (ob_first ob) (ob_first_at ob) 1 = Inr (s1, t1, reading_of pf s1 1 t1)" "valid_sample s1"
      using assms n by (cases "observed_once pf (ob_first ob) (ob_first_at ob) 1") (auto simp: observe_def observed_once_Inr)
    have safe: "sample_safe s1" using assms n 1 by (auto simp: observe_def split: if_splits)
    have sl: "ob_sleep ob = Inr ()" using assms n 1 safe
      by (cases "ob_sleep ob") (auto simp: observe_def)
    obtain s2 t2 where 2: "observed_once pf (ob_second ob) (ob_second_at ob) 2 = Inr (s2, t2, reading_of pf s2 2 t2)" "valid_sample s2"
      using assms n 1 safe sl
      by (cases "observed_once pf (ob_second ob) (ob_second_at ob) 2") (auto simp: observe_def observed_once_Inr)
    have "observation_ready ob s1 t1 s2 t2"
      using assms n 1 2 safe sl by (auto simp: observe_def observation_ready_def observed_once_Inr pair_reasons_Nil)
    then show False using False by blast
  qed
  then show thesis using blocked False by blast
qed

lemma build_cases:
  assumes "build_host_capacity_receipt pf ob = Inr receipt"
  obtains (ready) s1 t1 s2 t2 where "observation_ready ob s1 t1 s2 t2"
      "receipt = sealed pf (receipt_payload (PStr (iso_format pf (utc_dt t2))) True
         [reading_of pf s1 1 t1, reading_of pf s2 2 t2] [])"
  | (blocked) t readings reasons where "\<nexists>s1 t1 s2 t2. observation_ready ob s1 t1 s2 t2"
      "receipt = sealed pf (receipt_payload t False readings reasons)"
proof -
  from assms obtain readings reasons observed_at where o: "observe pf ob = Inr (readings, reasons)"
    and r: "receipt = sealed pf (receipt_payload observed_at (length readings = REQUIRED_READINGS \<and> reasons = []) readings reasons)"
    and at: "(if readings \<noteq> [] then Inr (dget (last readings) ''observed_at'')
      else bind_res (hc_utc (ob_fallback_at ob)) (\<lambda>t. Inr (PStr (iso_format pf (utc_dt t))))) = Inr observed_at"
    unfolding build_host_capacity_receipt_def by (auto split: prod.splits)
  from o show thesis
  proof (cases rule: observe_cases)
    case (ready s1 t1 s2 t2)
    then show thesis using at r by (intro that(1) [OF ready(1)]) (simp add: REQUIRED_READINGS_def reading_of_def)
  next
    case blocked
    then show thesis using r by (intro that(2) [OF blocked(2)]) simp
  qed
qed

lemma unsigned_sealed: "''receipt_digest'' \<notin> dkeys payload \<Longrightarrow> unsigned_of (sealed pf payload) = payload"
  by (auto simp: unsigned_of_def sealed_def dkeys_def filter_id_conv intro: rev_image_eqI)

lemma receipt_payload_keys: "dkeys (receipt_payload t ready rs reasons) = set RECEIPT_KEYS - {''receipt_digest''}"
  by (auto simp: dkeys_def receipt_payload_def RECEIPT_KEYS_def)

lemma reading_valid:
  assumes "iso_roundtrip pf" "dt_in_range t" "sample_safe s"
    "dget anchor ''device_id'' = cs_device_id s" "dget anchor ''total_bytes'' = cs_total_bytes s"
  shows "validate_reading pf anchor n (PDict (reading_of pf s n t)) = Inr t"
proof -
  have v: "valid_sample s" using assms(3) by (simp add: sample_safe_def)
  have p: "iso_parse pf (iso_format pf (utc_dt t)) = Some (utc_dt t)"
    using assms by (simp add: iso_roundtrip_def)
  have "receipt_time pf (PStr (iso_format pf (utc_dt t))) msg = Inr t" for msg
    using p assms(2) by (simp add: receipt_time_def)
  moreover have "py_eq (PDict (reading_of pf s n t)) (PDict (reading_of pf s n t))"
    using v by (elim valid_sample_ints) (simp add: reading_of_def)
  ultimately show ?thesis using assms v
    by (auto simp: validate_reading_def Let_def elim!: valid_sample_ints)
qed

lemma py_eq_dict_get:
  assumes "py_eq (PDict d) (PDict e)" "k \<in> dkeys d"
  shows "k \<in> dkeys e" "py_eq (dget d k) (dget e k)"
proof -
  from assms(2) obtain v where v: "map_of d k = Some v"
    by (cases "map_of d k") (auto simp: dkeys_def map_of_eq_None_iff)
  then have "(k, v) \<in> set d" by (rule map_of_SomeD)
  with assms(1) obtain w where "map_of e k = Some w" "py_eq v w"
    by (auto simp: list_all_iff split: option.splits)
  with v show "k \<in> dkeys e" "py_eq (dget d k) (dget e k)"
    by (auto simp: dget_def dkeys_def dest: map_of_SomeD intro: rev_image_eqI)
qed

lemma py_eq_int [simp]: "py_eq (PInt a) (PInt b) \<longleftrightarrow> a = b"
  by simp

lemma py_eq_num: "py_eq v (pfin x) \<Longrightarrow> num_of v = x"
  by (cases v; auto simp: num_of_def split: option.splits if_splits)

lemma receipt_time_Inr: "receipt_time pf v msg = Inr t \<longleftrightarrow>
    (\<exists>s d. v = PStr s \<and> iso_parse pf s = Some d \<and> dt_offset d \<noteq> None \<and> as_utc d = Inr t)"
  by (cases v) (auto simp: receipt_time_def split: option.splits)

lemma validate_reading_sound:
  assumes "validate_reading pf anchor n v = Inr t" "is_int_min (dget anchor ''device_id'') 0"
    "is_int_min (dget anchor ''total_bytes'') 1"
  shows "\<exists>r. v = PDict r \<and> sample_safe (sample_of r) \<and> receipt_time pf (dget r ''observed_at'') [] = Inr t
    \<and> dget r ''device_id'' = dget anchor ''device_id'' \<and> dget r ''total_bytes'' = dget anchor ''total_bytes''"
proof -
  from assms(1) obtain r where r: "v = PDict r" "dkeys r = set READING_KEYS"
    by (cases v) (auto simp: validate_reading_def)
  with assms(1) have t: "receipt_time pf (dget r ''observed_at'') [] = Inr t" and s: "valid_sample (sample_of r)"
    and e: "py_eq (PDict r) (PDict (reading_of pf (sample_of r) n t))" and ok: "reading_reasons r = []"
    and a: "py_eq (dget r ''device_id'') (dget anchor ''device_id'')" "py_eq (dget r ''total_bytes'') (dget anchor ''total_bytes'')"
    by (auto simp: validate_reading_def Let_def receipt_time_Inr simp del: py_eq.simps)
  have "''capacity_percent'' \<in> dkeys r" using r by (simp add: READING_KEYS_def)
  from py_eq_dict_get(2) [OF e this] have "num_of (dget r ''capacity_percent'') = capacity_percent (sample_of r)"
    by (intro py_eq_num) simp
  moreover have "dget r ''available_bytes'' = cs_available_bytes (sample_of r)" by (simp add: sample_of_def)
  ultimately have "sample_safe (sample_of r)" using ok s
    by (elim valid_sample_ints) (auto simp: sample_safe_def reading_reasons_def num_of_def valid_sample_def is_int_min_def
        not_less not_le split: if_splits)
  moreover have "dget r ''device_id'' = dget anchor ''device_id''" "dget r ''total_bytes'' = dget anchor ''total_bytes''"
    using a assms(2,3) s by (auto simp: valid_sample_def sample_of_def is_int_min_def split: pyval.splits)
  ultimately show ?thesis using r t by blast
qed

lemma validated_receipt:
  assumes "validate_host_capacity_receipt pf v = Inr r"
  shows "v = PDict r \<and> (\<exists>r1 r2 t1 t2. dget r ''readings'' = PList [PDict r1, PDict r2]
    \<and> sample_safe (sample_of r1) \<and> sample_safe (sample_of r2)
    \<and> dget r1 ''device_id'' = dget (fields_of (dget r ''anchor'')) ''device_id''
    \<and> dget r2 ''device_id'' = dget (fields_of (dget r ''anchor'')) ''device_id''
    \<and> dget r1 ''total_bytes'' = dget (fields_of (dget r ''anchor'')) ''total_bytes''
    \<and> dget r2 ''total_bytes'' = dget (fields_of (dget r ''anchor'')) ''total_bytes''
    \<and> receipt_time pf (dget r1 ''observed_at'') [] = Inr t1 \<and> receipt_time pf (dget r2 ''observed_at'') [] = Inr t2
    \<and> t1 + 30000000 \<le> t2 \<and> dget r ''observed_at'' = dget r2 ''observed_at''
    \<and> dget r ''receipt_digest'' = PStr (receipt_digest_of pf (unsigned_of r)))"
proof -
  from assms obtain d where v: "v = PDict d" by (cases v) (auto simp: validate_host_capacity_receipt_def)
  with assms have r: "r = d" by (auto simp: validate_host_capacity_receipt_def Let_def)
  let ?a = "fields_of (dget r ''anchor'')"
  from assms [unfolded v r] have dig: "dget r ''receipt_digest'' = PStr (receipt_digest_of pf (unsigned_of r))"
    and anchor: "anchor_ok (dget r ''anchor'')" and l: "is_list (dget r ''readings'')"
    and two: "length (items_of (dget r ''readings'')) = 2"
    and st: "py_eq (dget r ''observed_at'') (dget (fields_of (last (items_of (dget r ''readings'')))) ''observed_at'')"
    unfolding r by (auto simp: validate_host_capacity_receipt_def Let_def REQUIRED_READINGS_def)
  from assms [unfolded v r] obtain ts where ts: "validate_readings pf ?a 1 (items_of (dget r ''readings'')) = Inr ts"
    and gap: "\<not> total_seconds (ts ! 1 - ts ! 0) < of_int MIN_INTERVAL_SECONDS"
    unfolding r by (auto simp: validate_host_capacity_receipt_def Let_def)
  from two l obtain x1 x2 where xs: "dget r ''readings'' = PList [x1, x2]"
    by (cases "dget r ''readings''") (auto simp: numeral_2_eq_2 length_Suc_conv)
  from ts [unfolded xs] obtain t1 t2 where t: "validate_reading pf ?a 1 x1 = Inr t1" "validate_reading pf ?a 2 x2 = Inr t2"
    "ts = [t1, t2]" by auto
  have a: "is_int_min (dget ?a ''device_id'') 0" "is_int_min (dget ?a ''total_bytes'') 1"
    using anchor by (auto simp: anchor_ok_def split: pyval.splits)
  from validate_reading_sound [OF t(1) a] validate_reading_sound [OF t(2) a] obtain r1 r2 where R: "x1 = PDict r1" "x2 = PDict r2"
    "sample_safe (sample_of r1)" "sample_safe (sample_of r2)"
    "receipt_time pf (dget r1 ''observed_at'') [] = Inr t1" "receipt_time pf (dget r2 ''observed_at'') [] = Inr t2"
    "dget r1 ''device_id'' = dget ?a ''device_id''" "dget r2 ''device_id'' = dget ?a ''device_id''"
    "dget r1 ''total_bytes'' = dget ?a ''total_bytes''" "dget r2 ''total_bytes'' = dget ?a ''total_bytes''" by blast
  moreover have "t1 + 30000000 \<le> t2"
    using gap total_seconds_less_iff(1) [of 30 "t2 - t1"] t(3) by (simp add: MIN_INTERVAL_SECONDS_def)
  moreover have "dget r ''observed_at'' = dget r2 ''observed_at''"
    using st R(6) by (auto simp: xs R(2) receipt_time_Inr)
  ultimately show ?thesis using v r dig xs by blast
qed

lemma validate_ready:
  assumes pf: "iso_roundtrip pf" and o: "observation_ready ob s1 t1 s2 t2"
  defines "r \<equiv> sealed pf (receipt_payload (PStr (iso_format pf (utc_dt t2))) True [reading_of pf s1 1 t1, reading_of pf s2 2 t2] [])"
  shows "validate_host_capacity_receipt pf (PDict r) = Inr r"
proof -
  let ?p = "receipt_payload (PStr (iso_format pf (utc_dt t2))) True [reading_of pf s1 1 t1, reading_of pf s2 2 t2] []"
  have get: "dget r k = dget ?p k" if "k \<noteq> ''receipt_digest''" for k
    using that by (simp add: r_def sealed_def receipt_payload_def)
  have dig: "dget r ''receipt_digest'' = PStr (receipt_digest_of pf ?p)"
    by (simp add: r_def sealed_def receipt_payload_def)
  have keys: "dkeys r = set RECEIPT_KEYS"
    using receipt_payload_keys [of "PStr (iso_format pf (utc_dt t2))" True] by (auto simp: r_def sealed_def dkeys_def RECEIPT_KEYS_def)
  have un: "unsigned_of r = ?p" unfolding r_def by (rule unsigned_sealed) (simp add: receipt_payload_keys)
  let ?a = "[(''kind'', PStr ''host-filesystem-device''), (''device_id'', cs_device_id s1), (''total_bytes'', cs_total_bytes s1)]"
  have rng: "dt_in_range t1" "dt_in_range t2" using o by (simp_all add: observation_ready_def)
  have safe: "sample_safe s1" "sample_safe s2" "same_filesystem s1 s2" "t1 + 30000000 \<le> t2"
    using o by (simp_all add: observation_ready_def)
  have v: "valid_sample s1" using safe by (simp add: sample_safe_def)
  have "validate_reading pf ?a 1 (PDict (reading_of pf s1 1 t1)) = Inr t1"
    by (rule reading_valid [OF pf rng(1) safe(1)]) simp_all
  moreover have "validate_reading pf ?a 2 (PDict (reading_of pf s2 2 t2)) = Inr t2"
    by (rule reading_valid [OF pf rng(2) safe(2)]) (use safe(3) in \<open>simp_all add: same_filesystem_def\<close>)
  moreover have "\<not> total_seconds (t2 - t1) < of_int MIN_INTERVAL_SECONDS"
    using safe(4) total_seconds_less_iff(1) [of 30 "t2 - t1"] by (simp add: MIN_INTERVAL_SECONDS_def)
  moreover have "anchor_ok (PDict ?a)" using v by (auto simp: anchor_ok_def dkeys_def valid_sample_def)
  moreover have "py_eq (PDict POLICY) (PDict POLICY)" "py_eq (PDict AUTHORITY) (PDict AUTHORITY)"
    by (simp_all add: POLICY_def AUTHORITY_def)
  ultimately show ?thesis
    by (simp add: validate_host_capacity_receipt_def Let_def keys dig un get receipt_payload_def sorted_set_def REQUIRED_READINGS_def
        del: py_eq.simps)
qed

lemma validate_blocked:
  "validate_host_capacity_receipt pf (PDict (sealed pf (receipt_payload t False readings reasons))) \<noteq> Inr r"
  by (auto simp: validate_host_capacity_receipt_def Let_def sealed_def receipt_payload_def)

lemma require_ready:
  assumes pf: "iso_roundtrip pf" and o: "observation_ready ob s1 t1 s2 t2" and b: "build_host_capacity_receipt pf ob = Inr r"
    and s: "sample_safe s" "same_filesystem s1 s" and now: "hc_utc now = Inr t" "t2 \<le> t" "t \<le> t2 + 120000000"
  shows "\<exists>out. require_current_host_capacity pf (PDict r) now (Inr s) = Inr out"
proof -
  from b o have r: "r = sealed pf (receipt_payload (PStr (iso_format pf (utc_dt t2))) True
         [reading_of pf s1 1 t1, reading_of pf s2 2 t2] [])"
    by (elim build_cases) (auto simp: observation_ready_def)
  have v: "validate_host_capacity_receipt pf (PDict r) = Inr r" unfolding r by (rule validate_ready [OF pf o])
  have rng: "dt_in_range t2" "dt_in_range t" using o now by (simp_all add: observation_ready_def)
  then have tm: "receipt_time pf (dget r ''observed_at'') msg = Inr t2" for msg
    using pf by (simp add: r receipt_time_def sealed_def receipt_payload_def iso_roundtrip_def)
  have age: "\<not> (total_seconds (t - t2) < 0 \<or> of_int MAX_AGE_SECONDS < total_seconds (t - t2))"
    using total_seconds_less_iff(2) [of 120 "t - t2"] now by (simp add: MAX_AGE_SECONDS_def)
  have val: "valid_sample s" "valid_sample s1" using s o by (simp_all add: sample_safe_def observation_ready_def)
  have anchor: "dget (fields_of (dget r ''anchor'')) ''device_id'' = cs_device_id s"
    "dget (fields_of (dget r ''anchor'')) ''total_bytes'' = cs_total_bytes s"
    using s(2) by (simp_all add: r sealed_def receipt_payload_def same_filesystem_def)
  have "py_eq (cs_device_id s) (cs_device_id s)" "py_eq (cs_total_bytes s) (cs_total_bytes s)"
    using val(1) by (auto elim!: valid_sample_ints)
  then show ?thesis using v now rng tm age val s
    by (auto simp: require_current_host_capacity_def Let_def anchor simp del: py_eq.simps)
qed

section \<open>Properties\<close>

text \<open>C19. A receipt that is built passes its own validation exactly when the observation is ready: both readings
  succeeded with consistent counters, at least 5 GiB available and a capacity below 100 percent, on the same device with
  the same size, and thirty seconds or more apart.\<close>

theorem capacity_receipt_valid_iff_ready:
  assumes "build_host_capacity_receipt pf ob = Inr receipt" and "iso_roundtrip pf"
  shows "validate_host_capacity_receipt pf (PDict receipt) = Inr receipt \<longleftrightarrow> (\<exists>s1 t1 s2 t2. observation_ready ob s1 t1 s2 t2)"
  using assms(1)
proof (cases rule: build_cases)
  case (ready s1 t1 s2 t2)
  then show ?thesis using validate_ready [OF assms(2) ready(1)] by auto
qed (auto simp: validate_blocked)

text \<open>C20. Whatever receipt is presented, the gate opens only on an intact receipt of two safe readings of one filesystem,
  thirty seconds or more apart and at most two minutes old, and only when the same filesystem is safe now.\<close>

theorem current_capacity_is_safe:
  assumes "require_current_host_capacity pf receipt now reader_result = Inr out"
  shows "\<exists>r r1 r2 s t1 t2. receipt = PDict r \<and> dget r ''receipt_digest'' = PStr (receipt_digest_of pf (unsigned_of r))
    \<and> dget r ''readings'' = PList [PDict r1, PDict r2] \<and> reader_result = Inr s
    \<and> receipt_time pf (dget r1 ''observed_at'') [] = Inr t1 \<and> receipt_time pf (dget r2 ''observed_at'') [] = Inr t2
    \<and> t1 + 30000000 \<le> t2 \<and> t2 \<le> utc_instant now \<and> utc_instant now \<le> t2 + 120000000
    \<and> (\<forall>c\<in>{sample_of r1, sample_of r2, s}. sample_safe c \<and> same_filesystem c s)
    \<and> dget out ''device_id'' = cs_device_id s \<and> dget out ''current_available_bytes'' = cs_available_bytes s"
proof -
  from assms obtain r t s t2 where v: "validate_host_capacity_receipt pf receipt = Inr r" and now: "hc_utc now = Inr t"
    and t2: "receipt_time pf (dget r ''observed_at'') ''host capacity receipt timestamp is invalid'' = Inr t2"
    and s: "reader_result = Inr s" "valid_sample s" "reading_reasons (reading_of pf s 1 t) = []"
    and age: "\<not> (total_seconds (t - t2) < 0 \<or> of_int MAX_AGE_SECONDS < total_seconds (t - t2))"
    and a: "py_eq (cs_device_id s) (dget (fields_of (dget r ''anchor'')) ''device_id'')"
      "py_eq (cs_total_bytes s) (dget (fields_of (dget r ''anchor'')) ''total_bytes'')"
    and out: "dget out ''device_id'' = cs_device_id s" "dget out ''current_available_bytes'' = cs_available_bytes s"
    unfolding require_current_host_capacity_def Let_def by (auto simp del: py_eq.simps)
  from validated_receipt [OF v] obtain r1 r2 t1 t2' where R: "receipt = PDict r"
    "dget r ''readings'' = PList [PDict r1, PDict r2]" "sample_safe (sample_of r1)" "sample_safe (sample_of r2)"
    "dget r1 ''device_id'' = dget (fields_of (dget r ''anchor'')) ''device_id''"
    "dget r2 ''device_id'' = dget (fields_of (dget r ''anchor'')) ''device_id''"
    "dget r1 ''total_bytes'' = dget (fields_of (dget r ''anchor'')) ''total_bytes''"
    "dget r2 ''total_bytes'' = dget (fields_of (dget r ''anchor'')) ''total_bytes''"
    "receipt_time pf (dget r1 ''observed_at'') [] = Inr t1" "receipt_time pf (dget r2 ''observed_at'') [] = Inr t2'"
    "t1 + 30000000 \<le> t2'" "dget r ''observed_at'' = dget r2 ''observed_at''"
    "dget r ''receipt_digest'' = PStr (receipt_digest_of pf (unsigned_of r))" by blast
  have "t2' = t2" using R(10,12) t2 by (auto simp: receipt_time_Inr)
  moreover have "t2 \<le> utc_instant now" "utc_instant now \<le> t2 + 120000000"
    using age now total_seconds_less_iff(2) [of 120 "t - t2"] by (auto simp: MAX_AGE_SECONDS_def)
  moreover have "sample_safe s" using s by simp
  moreover have "cs_device_id s = dget r1 ''device_id''" "cs_total_bytes s = dget r1 ''total_bytes''"
    using a R(3,5,7) s(2) by (auto simp: sample_safe_def valid_sample_def sample_of_def is_int_min_def split: pyval.splits)
  then have "same_filesystem (sample_of r1) s" "same_filesystem (sample_of r2) s"
    using R(5-8) by (simp_all add: same_filesystem_def sample_of_def)
  ultimately show ?thesis using R s(1) out by (auto simp: same_filesystem_def)
qed

text \<open>A qualification receipt is valid for exactly the operation, receipt set and cohort it was built for, and only
  when its host observation is ready.\<close>

lemma qualification_receipt_is_scoped:
  assumes "build_qualification_capacity_receipt pf operation receipt_set cohort ob = Inr receipt" and "iso_roundtrip pf"
  shows "validate_qualification_capacity_receipt pf (PDict receipt) operation' receipt_set' cohort' = Inr receipt \<longleftrightarrow>
    operation' = operation \<and> receipt_set' = receipt_set \<and> cohort' = cohort \<and> (\<exists>s1 t1 s2 t2. observation_ready ob s1 t1 s2 t2)"
proof -
  from assms(1) obtain host where scope: "operation \<in> set QUALIFICATION_OPERATIONS" "cohort \<in> set QUALIFICATION_COHORTS"
      "receipt_set_re receipt_set" and host: "build_host_capacity_receipt pf ob = Inr host"
    and r: "receipt = sealed pf (qualification_payload operation receipt_set cohort host)"
    by (auto simp: build_qualification_capacity_receipt_def)
  have "unsigned_of receipt = qualification_payload operation receipt_set cohort host"
    unfolding r by (rule unsigned_sealed) (simp add: qualification_payload_def dkeys_def)
  moreover have "dkeys receipt = set QUALIFICATION_RECEIPT_KEYS"
    by (simp add: r sealed_def qualification_payload_def dkeys_def QUALIFICATION_RECEIPT_KEYS_def)
  moreover have "py_eq (PDict QUALIFICATION_AUTHORITY) (PDict QUALIFICATION_AUTHORITY)"
    by (simp add: QUALIFICATION_AUTHORITY_def AUTHORITY_def)
  ultimately have "validate_qualification_capacity_receipt pf (PDict receipt) operation' receipt_set' cohort' = Inr receipt \<longleftrightarrow>
    operation' = operation \<and> receipt_set' = receipt_set \<and> cohort' = cohort
    \<and> (\<exists>h. validate_host_capacity_receipt pf (PDict host) = Inr h)"
    using scope by (auto simp: validate_qualification_capacity_receipt_def Let_def r sealed_def qualification_payload_def
        simp del: py_eq.simps)
  moreover have "(\<exists>h. validate_host_capacity_receipt pf (PDict host) = Inr h) \<longleftrightarrow> (\<exists>s1 t1 s2 t2. observation_ready ob s1 t1 s2 t2)"
    using host
  proof (cases rule: build_cases)
    case (ready s1 t1 s2 t2)
    then show ?thesis using validate_ready [OF assms(2) ready(1)] by auto
  qed (auto simp: validate_blocked)
  ultimately show ?thesis by blast
qed

section \<open>Witnesses\<close>

definition sample_stat :: filesystem_stat where
  "sample_stat = \<lparr>fs_frsize = 0, fs_bsize = 4096, fs_blocks = 4194304, fs_bavail = 2097152, fs_device = 7\<rparr>"

definition sample_capacity :: capacity_sample where
  "sample_capacity = \<lparr>cs_device_id = PInt 7, cs_total_bytes = PInt 17179869184, cs_available_bytes = PInt 8589934592\<rparr>"

definition sample_observation :: observation where
  "sample_observation = \<lparr>ob_first = read_host_capacity (Some sample_stat), ob_first_at = utc_dt 0, ob_sleep = Inr (),
     ob_second = read_host_capacity (Some sample_stat), ob_second_at = utc_dt 30010000, ob_fallback_at = utc_dt 0\<rparr>"

lemma sample_capacity_read: "read_host_capacity (Some sample_stat) = Inr sample_capacity"
  by (simp add: read_host_capacity_def sample_stat_def sample_capacity_def validate_sample_def valid_sample_def is_int_min_def)

lemma sample_capacity_safe: "sample_safe sample_capacity"
proof -
  have "capacity_percent sample_capacity < 100" by code_simp
  then show ?thesis by (simp add: sample_safe_def sample_capacity_def valid_sample_def is_int_min_def MIN_AVAILABLE_BYTES_def)
qed

lemma sample_observation_ready: "observation_ready sample_observation sample_capacity 0 sample_capacity 30010000"
  by (simp add: observation_ready_def sample_observation_def sample_capacity_read sample_capacity_safe same_filesystem_def
      dt_in_range_def dt_limit_def us_per_day_def)

lemma build_ready:
  assumes "observation_ready ob s1 t1 s2 t2"
  shows "\<exists>r. build_host_capacity_receipt pf ob = Inr r"
  by (simp add: build_host_capacity_receipt_def observe_ready [OF assms])

theorem capacity_receipt_valid_iff_ready_witness:
  "\<exists>r. build_host_capacity_receipt unary_platform sample_observation = Inr r
    \<and> validate_host_capacity_receipt unary_platform (PDict r) = Inr r"
  using build_ready [OF sample_observation_ready, of unary_platform] sample_observation_ready
    capacity_receipt_valid_iff_ready [OF _ unary_platform_laws(1), of sample_observation] by blast

theorem current_capacity_is_safe_witness:
  "\<exists>r out. require_current_host_capacity unary_platform (PDict r) (utc_dt 40000000) (Inr sample_capacity) = Inr out
    \<and> dget out ''device_id'' = PInt 7 \<and> dget r ''receipt_digest'' = PStr (receipt_digest_of unary_platform (unsigned_of r))"
proof -
  from build_ready [OF sample_observation_ready] obtain r where
    b: "build_host_capacity_receipt unary_platform sample_observation = Inr r" by blast
  have "hc_utc (utc_dt 40000000) = Inr 40000000" by (simp add: dt_in_range_def dt_limit_def us_per_day_def)
  from require_ready [OF unary_platform_laws(1) sample_observation_ready b sample_capacity_safe _ this]
  obtain out where out: "require_current_host_capacity unary_platform (PDict r) (utc_dt 40000000) (Inr sample_capacity) = Inr out"
    by (auto simp: same_filesystem_def)
  from current_capacity_is_safe [OF out] show ?thesis using out by (auto simp: sample_capacity_def)
qed

end
