(* ===== verification/Mcp_Server.thy ===== *)
theory Mcp_Server
  imports Snapshot_Validation Governance
begin

text \<open>
  The read-only MCP server (\<open>mcp_server.py\<close>): the cached snapshot, the record with its freshness recomputed
  at response time, and the two catalog tools. The packaged resource, the clock and the request are inputs.
  The methodology text and the FastMCP wiring are not modelled.
\<close>

section \<open>The cached snapshot\<close>

text \<open>What reading the packaged file gives: its text, or an \<open>OSError\<close> or \<open>UnicodeError\<close>.\<close>

datatype resource = ResourceText string | ResourceUnreadable

text \<open>\<open>_snapshot\<close> under \<open>lru_cache\<close>: a success is kept for the life of the process, an exception is not.\<close>

definition snapshot :: "platform \<Rightarrow> resource \<Rightarrow> pydict option \<Rightarrow> (admission \<times> pydict option) res" where
  "snapshot pf raw cache = (case cache of
     Some snap \<Rightarrow> Inr (Admitted snap, cache)
   | None \<Rightarrow> (case raw of
       ResourceUnreadable \<Rightarrow> Inr (rejected {''SNAPSHOT_RESOURCE_UNREADABLE''}, None)
     | ResourceText t \<Rightarrow> bind_res (parse_catalog_snapshot pf t) (\<lambda>a. case a of
           Admitted snap \<Rightarrow> Inr (a, Some snap)
         | Rejected codes \<Rightarrow> Inr (a, None))))"

text \<open>\<open>d[k]\<close>, and the records of a list. An admitted snapshot holds only objects there, so reading them all first
  raises nothing the loop would not.\<close>

definition subscript :: "pydict \<Rightarrow> string \<Rightarrow> pyval res" where
  "subscript d k = (case map_of d k of None \<Rightarrow> Inl KeyError | Some v \<Rightarrow> Inr v)"

fun records :: "pyval list \<Rightarrow> pydict list res" where
  "records [] = Inr []"
| "records (v # vs) = (case v of PDict d \<Rightarrow> bind_res (records vs) (\<lambda>ds. Inr (d # ds)) | _ \<Rightarrow> Inl TypeError)"

definition servers_of :: "pydict \<Rightarrow> pydict list res" where
  "servers_of snap = bind_res (subscript snap ''servers'') (\<lambda>v. case v of PList vs \<Rightarrow> records vs | _ \<Rightarrow> Inl TypeError)"

definition catalog_snapshot_error_payload :: "string list \<Rightarrow> pydict" where
  "catalog_snapshot_error_payload reason_codes =
     [(''schema'', PStr ''mcp-trust-mcp-error.v1''), (''status'', PStr ''UNKNOWN''),
      (''error_code'', PStr ''CATALOG_SNAPSHOT_INVALID''), (''reason_codes'', PList (map PStr reason_codes)),
      (''server_count_served'', PInt 0)]"

section \<open>One record\<close>

definition GRADE_FIELDS :: "string list" where
  "GRADE_FIELDS = [''grade'', ''transparency'', ''danger_score'', ''dimensions'', ''findings'', ''evidence'', ''grade_change'']"

definition blank_field :: "pydict \<Rightarrow> string \<Rightarrow> pydict" where
  "blank_field record field = (if has_key record field then dict_set field PNone record else record)"

definition freshness_stamps :: "platform \<Rightarrow> scan_freshness \<Rightarrow> pydict" where
  "freshness_stamps pf freshness =
     [(''freshness_state'', PStr (freshness_str (sf_state freshness))),
      (''freshness_reason'', PStr (sf_reason freshness)),
      (''scan_age_days'', (case sf_scan_age_days freshness of None \<Rightarrow> PNone | Some a \<Rightarrow> PFloat (Fin a))),
      (''stale_after'', (case sf_stale_after freshness of None \<Rightarrow> PNone | Some t \<Rightarrow> PStr (iso_format pf (utc_dt t)))),
      (''stale'', (case sf_state freshness of Fresh \<Rightarrow> PBool False | Stale \<Rightarrow> PBool True | _ \<Rightarrow> PNone))]"

definition current_server_record :: "platform \<Rightarrow> pydict \<Rightarrow> pydt \<Rightarrow> pydict res" where
  "current_server_record pf server now = (case dget server ''scanned_at'' of
     PStr scanned_at \<Rightarrow>
       bind_res (assess_scan_freshness pf (TsStr scanned_at) now True STALE_AFTER_DAYS) (\<lambda>freshness.
         let stamped = foldl (\<lambda>r (k, v). dict_set k v r) server (freshness_stamps pf freshness)
         in Inr (if sf_state freshness = FUnknown then foldl blank_field stamped GRADE_FIELDS else stamped))
   | _ \<Rightarrow> Inr (dict_set ''stale'' PNone (dict_set ''scan_age_days'' PNone server)))"

section \<open>The tools\<close>

text \<open>\<open>repr\<close> of a string on the admitted code points.\<close>

definition repr_char :: "char \<Rightarrow> char \<Rightarrow> string" where
  "repr_char quote c = (let n = of_char c :: nat; hex = (\<lambda>k. ''0123456789abcdef'' ! k) in
     if c = quote \<or> c = CHR 0x5C then [CHR 0x5C, c]
     else if n = 9 then [CHR 0x5C, CHR ''t''] else if n = 10 then [CHR 0x5C, CHR ''n'']
     else if n = 13 then [CHR 0x5C, CHR ''r'']
     else if n < 32 \<or> (127 \<le> n \<and> n \<le> 160) \<or> n = 173 then [CHR 0x5C, CHR ''x'', hex (n div 16), hex (n mod 16)]
     else [c])"

definition py_repr :: "string \<Rightarrow> string" where
  "py_repr s = (let quote = (if CHR 0x27 \<in> set s \<and> CHR 0x22 \<notin> set s then CHR 0x22 else CHR 0x27) in
     quote # concat (map (repr_char quote) s) @ [quote])"

definition list_row :: "platform \<Rightarrow> pydt \<Rightarrow> pydict \<Rightarrow> pyval res" where
  "list_row pf now server =
     bind_res (current_server_record pf server now) (\<lambda>record.
     bind_res (subscript record ''slug'') (\<lambda>slug. bind_res (subscript record ''name'') (\<lambda>name.
     bind_res (subscript record ''grade'') (\<lambda>grade. bind_res (subscript record ''transparency'') (\<lambda>transparency.
     bind_res (subscript record ''danger_score'') (\<lambda>danger_score.
     bind_res (subscript record ''requires_credentials'') (\<lambda>requires_credentials.
     bind_res (subscript record ''scan_age_days'') (\<lambda>scan_age_days. bind_res (subscript record ''stale'') (\<lambda>stale.
       Inr (PDict [(''slug'', slug), (''name'', name), (''grade'', grade), (''transparency'', transparency),
         (''danger_score'', danger_score), (''requires_credentials'', requires_credentials),
         (''scanned_at'', dget record ''scanned_at''), (''scan_age_days'', scan_age_days), (''stale'', stale)]))))))))))"

definition list_servers_value :: "platform \<Rightarrow> admission \<Rightarrow> pydt \<Rightarrow> pydict res" where
  "list_servers_value pf a now = (case a of
     Rejected codes \<Rightarrow> Inr (catalog_snapshot_error_payload codes)
   | Admitted snap \<Rightarrow> bind_res (servers_of snap) (\<lambda>servers. bind_res (map_res (list_row pf now) servers) (\<lambda>rows.
       Inr [(''server_count'', PInt (int (length rows))), (''servers'', PList rows)])))"

fun find_server :: "string \<Rightarrow> pydict list \<Rightarrow> pydict option res" where
  "find_server slug [] = Inr None"
| "find_server slug (s # ss) = bind_res (subscript s ''slug'') (\<lambda>v.
     if v = PStr slug then Inr (Some s) else find_server slug ss)"

definition check_server_value :: "platform \<Rightarrow> admission \<Rightarrow> string \<Rightarrow> pydt \<Rightarrow> pydict res" where
  "check_server_value pf a slug now = (case a of
     Rejected codes \<Rightarrow> Inr (catalog_snapshot_error_payload codes)
   | Admitted snap \<Rightarrow> bind_res (servers_of snap) (\<lambda>servers. bind_res (find_server slug servers) (\<lambda>found. case found of
       Some s \<Rightarrow> current_server_record pf s now
     | None \<Rightarrow> bind_res (map_res (\<lambda>s. subscript s ''slug'') servers) (\<lambda>slugs.
         Inr [(''error'', PStr (''No graded server with slug '' @ py_repr slug @ ''.'')), (''known_slugs'', PList slugs)]))))"

text \<open>One tool call: the value of its JSON answer, and the cache it leaves.\<close>

datatype request = ListServers | CheckServer string

definition answer_value :: "platform \<Rightarrow> request \<Rightarrow> admission \<Rightarrow> pydt \<Rightarrow> pydict res" where
  "answer_value pf req a now = (case req of
     ListServers \<Rightarrow> list_servers_value pf a now | CheckServer slug \<Rightarrow> check_server_value pf a slug now)"

definition call :: "platform \<Rightarrow> request \<Rightarrow> resource \<Rightarrow> pydt \<Rightarrow> pydict option \<Rightarrow> pydict res \<times> pydict option" where
  "call pf req raw now cache = (case snapshot pf raw cache of
     Inl e \<Rightarrow> (Inl e, cache) | Inr (a, cache') \<Rightarrow> (answer_value pf req a now, cache'))"

fun serve :: "platform \<Rightarrow> (request \<times> resource \<times> pydt) list \<Rightarrow> pydict option \<Rightarrow> pydict res list" where
  "serve pf [] cache = []"
| "serve pf ((req, raw, now) # calls) cache =
     (case call pf req raw now cache of (answer, cache') \<Rightarrow> answer # serve pf calls cache')"

definition payload :: "platform \<Rightarrow> pydict res \<Rightarrow> string res" where
  "payload pf answer = bind_res answer (\<lambda>v. Inr (json_response pf (PDict v)))"

section \<open>Facts about one record\<close>

lemma map_of_blank_fields:
  "map_of (foldl blank_field d fs) k = (if k \<in> set fs \<and> map_of d k \<noteq> None then Some PNone else map_of d k)"
  by (induction fs arbitrary: d) (auto simp: blank_field_def has_key_def)

text \<open>The age of a stored scan time at an instant, when the time can be read at all.\<close>

definition read_time :: "platform \<Rightarrow> pydict \<Rightarrow> pydt option" where
  "read_time pf server = (case dget server ''scanned_at'' of PStr s \<Rightarrow> iso_parse pf (replace_Z s) | _ \<Rightarrow> None)"

text \<open>A record as served at \<open>now\<close>: either the stored verdict on a scan that is not in the future, marked stale
  exactly when the scan is more than ninety days old, or no verdict at all.\<close>

definition served_current :: "platform \<Rightarrow> pydt \<Rightarrow> pydict \<Rightarrow> pydict \<Rightarrow> bool" where
  "served_current pf now server record \<longleftrightarrow>
     (\<exists>d. read_time pf server = Some d \<and> utc_instant d \<le> utc_instant now
        \<and> (\<forall>k\<in>{''grade'', ''transparency'', ''danger_score''}. dget record k = dget server k)
        \<and> dget record ''stale'' = PBool (90 * us_per_day < utc_instant now - utc_instant d)
        \<and> dget record ''scan_age_days'' \<noteq> PNone)
   \<or> ((\<forall>d. read_time pf server = Some d \<longrightarrow> utc_instant now < utc_instant d)
        \<and> (\<forall>k\<in>{''grade'', ''transparency'', ''danger_score'', ''stale'', ''scan_age_days''}. dget record k = PNone))"

lemma assess_string:
  assumes "assess_scan_freshness pf (TsStr s) now True STALE_AFTER_DAYS = Inr f"
  shows "(\<exists>d. iso_parse pf (replace_Z s) = Some d \<and> utc_instant d \<le> utc_instant now
      \<and> sf_state f = (if 90 * us_per_day < utc_instant now - utc_instant d then Stale else Fresh)
      \<and> sf_scan_age_days f \<noteq> None)
    \<or> ((\<forall>d. iso_parse pf (replace_Z s) = Some d \<longrightarrow> utc_instant now < utc_instant d)
      \<and> sf_state f = FUnknown \<and> sf_scan_age_days f = None)"
proof (cases "iso_parse pf (replace_Z s)")
  case None
  then show ?thesis using assms by (auto simp: assess_scan_freshness_def no_verdict_def)
next
  case (Some d)
  with assms have f: "assess_parsed d (utc_instant now) STALE_AFTER_DAYS = Inr f"
    by (auto simp: assess_scan_freshness_def)
  have st: "sf_state f = policy_state (utc_instant d) (utc_instant now) 90"
    and age: "sf_state f = Fresh \<or> sf_state f = Stale \<longleftrightarrow> sf_scan_age_days f \<noteq> None"
    using assess_parsed_state(1,2) [OF f] by (simp_all add: STALE_AFTER_DAYS_def)
  show ?thesis
  proof (cases "utc_instant now < utc_instant d")
    case True
    then show ?thesis using st age Some by simp
  next
    case False
    then show ?thesis using st age Some by (cases "utc_instant now - utc_instant d \<le> 90 * us_per_day") simp_all
  qed
qed

lemma assess_string_state:
  assumes "assess_scan_freshness pf (TsStr s) now True STALE_AFTER_DAYS = Inr f"
  shows "sf_state f \<noteq> NotApplicable"
  using assess_string [OF assms] by (auto split: if_splits)

lemma current_record_fields:
  assumes "current_server_record pf server now = Inr record" "dget server ''scanned_at'' = PStr s"
  obtains f where "assess_scan_freshness pf (TsStr s) now True STALE_AFTER_DAYS = Inr f"
    "dget record ''stale'' = (if sf_state f = FUnknown then PNone else PBool (sf_state f = Stale))"
    "dget record ''scan_age_days'' = (case sf_scan_age_days f of None \<Rightarrow> PNone | Some a \<Rightarrow> PFloat (Fin a))"
    "\<And>k. k \<in> set GRADE_FIELDS \<Longrightarrow> dget record k = (if sf_state f = FUnknown then PNone else dget server k)"
    "\<And>k. k \<in> {''slug'', ''name'', ''scanned_at'', ''requires_credentials''} \<Longrightarrow> map_of record k = map_of server k"
    "\<And>k. map_of server k \<noteq> None \<Longrightarrow> map_of record k \<noteq> None"
    "map_of record ''stale'' \<noteq> None" "map_of record ''scan_age_days'' \<noteq> None"
proof -
  from assms obtain f where f: "assess_scan_freshness pf (TsStr s) now True STALE_AFTER_DAYS = Inr f"
    by (auto simp: current_server_record_def)
  have st: "sf_state f \<noteq> NotApplicable" using assess_string_state [OF f] .
  let ?st = "foldl (\<lambda>r (k, v). dict_set k v r) server (freshness_stamps pf f)"
  have rec: "record = (if sf_state f = FUnknown then foldl blank_field ?st GRADE_FIELDS else ?st)"
    using assms f by (simp add: current_server_record_def Let_def)
  have stamp: "map_of ?st k = (map_of server ++ map_of (rev (freshness_stamps pf f))) k" for k
    by (simp add: foldl_dict_set_map_of)
  let ?m = "map_of server ++ map_of (rev (freshness_stamps pf f))"
  have rec': "map_of record k = (if sf_state f = FUnknown \<and> k \<in> set GRADE_FIELDS \<and> ?m k \<noteq> None then Some PNone else ?m k)" for k
    unfolding rec by (cases "sf_state f = FUnknown") (auto simp: map_of_blank_fields stamp)
  have stamps: "map_of (rev (freshness_stamps pf f)) k = None" if "k \<notin> {''freshness_state'', ''freshness_reason'', ''scan_age_days'', ''stale_after'', ''stale''}" for k
    using that by (auto simp: freshness_stamps_def)
  have apart: "k \<in> P \<Longrightarrow> P \<inter> Q = {} \<Longrightarrow> k \<notin> Q" for k :: string and P Q by blast
  have fields: "{''slug'', ''name'', ''scanned_at'', ''requires_credentials''} \<inter> set GRADE_FIELDS = {}"
    "set GRADE_FIELDS \<inter> {''freshness_state'', ''freshness_reason'', ''scan_age_days'', ''stale_after'', ''stale''} = {}"
    "{''slug'', ''name'', ''scanned_at'', ''requires_credentials''}
      \<inter> {''freshness_state'', ''freshness_reason'', ''scan_age_days'', ''stale_after'', ''stale''} = {}"
    by (simp_all add: GRADE_FIELDS_def)
  show thesis
  proof (rule that [OF f])
    show "dget record ''stale'' = (if sf_state f = FUnknown then PNone else PBool (sf_state f = Stale))"
      using st by (cases "sf_state f") (simp_all add: dget_def rec' freshness_stamps_def GRADE_FIELDS_def)
    show "dget record ''scan_age_days'' = (case sf_scan_age_days f of None \<Rightarrow> PNone | Some a \<Rightarrow> PFloat (Fin a))"
      by (simp add: dget_def rec' freshness_stamps_def GRADE_FIELDS_def)
    show "map_of record ''stale'' \<noteq> None" "map_of record ''scan_age_days'' \<noteq> None"
      by (simp_all add: rec' freshness_stamps_def GRADE_FIELDS_def)
    show "dget record k = (if sf_state f = FUnknown then PNone else dget server k)" if "k \<in> set GRADE_FIELDS" for k
    proof -
      have "map_of (rev (freshness_stamps pf f)) k = None" by (rule stamps [OF apart [OF that fields(2)]])
      then show ?thesis using that by (cases "map_of server k") (auto simp: dget_def rec' map_add_def)
    qed
    show "map_of record k = map_of server k" if "k \<in> {''slug'', ''name'', ''scanned_at'', ''requires_credentials''}" for k
    proof -
      have "map_of (rev (freshness_stamps pf f)) k = None" by (rule stamps [OF apart [OF that fields(3)]])
      moreover have "k \<notin> set GRADE_FIELDS" by (rule apart [OF that fields(1)])
      ultimately show ?thesis by (simp add: rec' map_add_def)
    qed
    show "map_of record k \<noteq> None" if "map_of server k \<noteq> None" for k
      using that by (auto simp: rec' map_add_def split: option.splits)
  qed
qed

lemma served_current_record:
  assumes "current_server_record pf server now = Inr record" "dget server ''scanned_at'' = PStr s"
  shows "served_current pf now server record"
proof -
  from assms obtain f where f: "assess_scan_freshness pf (TsStr s) now True STALE_AFTER_DAYS = Inr f"
    and stale: "dget record ''stale'' = (if sf_state f = FUnknown then PNone else PBool (sf_state f = Stale))"
    and age: "dget record ''scan_age_days'' = (case sf_scan_age_days f of None \<Rightarrow> PNone | Some a \<Rightarrow> PFloat (Fin a))"
    and fields: "\<And>k. k \<in> set GRADE_FIELDS \<Longrightarrow> dget record k = (if sf_state f = FUnknown then PNone else dget server k)"
    by (rule current_record_fields) blast
  have g: "dget record k = (if sf_state f = FUnknown then PNone else dget server k)"
    if "k \<in> {''grade'', ''transparency'', ''danger_score''}" for k
    using that by (intro fields) (auto simp: GRADE_FIELDS_def)
  have rt: "read_time pf server = iso_parse pf (replace_Z s)" using assms(2) by (simp add: read_time_def)
  from assess_string [OF f] show ?thesis
  proof (elim disjE exE conjE)
    fix d assume "iso_parse pf (replace_Z s) = Some d" "utc_instant d \<le> utc_instant now"
      "sf_state f = (if 90 * us_per_day < utc_instant now - utc_instant d then Stale else Fresh)" "sf_scan_age_days f \<noteq> None"
    then show ?thesis using g [of "''grade''"] g [of "''transparency''"] g [of "''danger_score''"] stale age
      by (simp add: served_current_def rt split: if_splits)
  next
    assume "\<forall>d. iso_parse pf (replace_Z s) = Some d \<longrightarrow> utc_instant now < utc_instant d"
      "sf_state f = FUnknown" "sf_scan_age_days f = None"
    then show ?thesis using g [of "''grade''"] g [of "''transparency''"] g [of "''danger_score''"] stale age
      by (simp add: served_current_def rt)
  qed
qed

section \<open>Facts about an admitted snapshot\<close>

lemma records_Inr_iff: "records vs = Inr ds \<longleftrightarrow> vs = map PDict ds"
  by (induction vs arbitrary: ds) (auto split: pyval.splits)

lemma admitted_servers:
  assumes "parse_catalog_snapshot pf t = Inr (Admitted snap)"
  shows "\<exists>servers. servers_of snap = Inr servers \<and> dget snap ''servers'' = PList (map PDict servers)
    \<and> (\<forall>d\<in>set servers. server_codes pf d = {})"
proof -
  from parse_admitted [OF assms] have r: "validation_reasons pf snap = Inr {}" by blast
  from admitted_shape [OF r] obtain vs where vs: "dget snap ''servers'' = PList vs"
    and ok: "validate_servers pf (dget snap ''generated_at'') {} {} vs = Inr {}" by blast
  from validate_servers_empty [OF ok] have d: "\<forall>v\<in>set vs. \<exists>d. v = PDict d \<and> server_codes pf d = {}" by blast
  then obtain f where f: "\<forall>v\<in>set vs. v = PDict (f v) \<and> server_codes pf (f v) = {}" by metis
  then have m: "vs = map PDict (map f vs)" by (auto intro: map_idI [symmetric] simp: comp_def)
  have "map_of snap ''servers'' = Some (PList vs)" using vs by (auto simp: dget_def split: option.splits)
  then have "servers_of snap = Inr (map f vs)" using m by (simp add: servers_of_def subscript_def records_Inr_iff)
  then show ?thesis using m vs f by (intro exI [of _ "map f vs"]) auto
qed

lemma admitted_row_fields:
  assumes "server_codes pf d = {}"
  shows "\<exists>s. dget d ''scanned_at'' = PStr s" "\<And>k. k \<in> set SERVER_REQUIRED_FIELDS \<Longrightarrow> map_of d k \<noteq> None"
proof -
  have "flag (filter (\<lambda>k. \<not> has_key d k) SERVER_REQUIRED_FIELDS \<noteq> []) ''SERVER_REQUIRED_FIELD_MISSING'' = {}"
    and aware: "flag (\<not> timezone_aware_datetime pf (dget d ''scanned_at'')) ''SCANNED_AT_INVALID'' = {}"
    using assms by (simp_all only: server_codes_def Let_def Un_empty)
  then show "map_of d k \<noteq> None" if "k \<in> set SERVER_REQUIRED_FIELDS" for k
    using that by (auto simp: flag_def has_key_def filter_empty_conv split: if_splits)
  show "\<exists>s. dget d ''scanned_at'' = PStr s"
    using aware by (auto simp: flag_def timezone_aware_datetime_def split: if_splits pyval.splits)
qed

lemma only_overflow_as_utc: "only_overflow (as_utc d)"
  by (simp add: only_overflow_def as_utc_def)

lemma only_overflow_assess_parsed: "only_overflow (assess_parsed d ev h)"
  unfolding assess_parsed_def
  by (auto intro!: only_overflow_bind only_overflow_as_utc only_overflow_add_days simp: Let_def)

lemma only_overflow_assess: "only_overflow (assess_scan_freshness pf ts now b h)"
  unfolding assess_scan_freshness_def
  by (auto intro!: only_overflow_bind only_overflow_as_utc only_overflow_assess_parsed split: ts_arg.split option.split)

lemma current_record_only_overflow: "current_server_record pf server now = Inl e \<Longrightarrow> e = OverflowError"
  using only_overflow_assess by (auto simp: current_server_record_def bind_res_eq_Inl Let_def only_overflow_def split: pyval.splits)

lemma dget_subscript: "map_of d k \<noteq> None \<Longrightarrow> subscript d k = Inr (dget d k)"
  by (auto simp: subscript_def dget_def)

lemma required_fields:
  "''slug'' \<in> set SERVER_REQUIRED_FIELDS" "''name'' \<in> set SERVER_REQUIRED_FIELDS" "''grade'' \<in> set SERVER_REQUIRED_FIELDS"
  "''transparency'' \<in> set SERVER_REQUIRED_FIELDS" "''danger_score'' \<in> set SERVER_REQUIRED_FIELDS"
  "''requires_credentials'' \<in> set SERVER_REQUIRED_FIELDS"
  by (simp_all add: SERVER_REQUIRED_FIELDS_def)

lemma list_row_Inr:
  assumes "server_codes pf server = {}" "current_server_record pf server now = Inr record"
  shows "list_row pf now server = Inr (PDict [(''slug'', dget record ''slug''), (''name'', dget record ''name''),
     (''grade'', dget record ''grade''), (''transparency'', dget record ''transparency''),
     (''danger_score'', dget record ''danger_score''), (''requires_credentials'', dget record ''requires_credentials''),
     (''scanned_at'', dget record ''scanned_at''), (''scan_age_days'', dget record ''scan_age_days''),
     (''stale'', dget record ''stale'')])"
proof -
  obtain s where s: "dget server ''scanned_at'' = PStr s" using admitted_row_fields(1) [OF assms(1)] by blast
  from assms(2) s obtain f where k: "\<And>k. map_of server k \<noteq> None \<Longrightarrow> map_of record k \<noteq> None"
    "map_of record ''stale'' \<noteq> None" "map_of record ''scan_age_days'' \<noteq> None"
    by (rule current_record_fields) blast
  have m: "subscript record k = Inr (dget record k)" if "k \<in> set SERVER_REQUIRED_FIELDS" for k
    using k(1) [OF admitted_row_fields(2) [OF assms(1) that]] by (rule dget_subscript)
  show ?thesis
    by (simp add: list_row_def assms(2) m required_fields dget_subscript [OF k(2)] dget_subscript [OF k(3)])
qed

lemma served_slug:
  assumes "server_codes pf server = {}" "current_server_record pf server now = Inr record"
  shows "dget record ''slug'' = dget server ''slug'' \<and> served_current pf now server record"
proof -
  obtain s where s: "dget server ''scanned_at'' = PStr s" using admitted_row_fields(1) [OF assms(1)] by blast
  have "map_of record ''slug'' = map_of server ''slug''" by (rule current_record_fields [OF assms(2) s]) simp
  then show ?thesis using served_current_record [OF assms(2) s] by (simp add: dget_def)
qed

text \<open>A row or record about one admitted server: its slug, and its verdict as of \<open>now\<close>, capped with a critical finding.\<close>

definition row_about :: "platform \<Rightarrow> pydt \<Rightarrow> pydict \<Rightarrow> pydict \<Rightarrow> bool" where
  "row_about pf now server row \<longleftrightarrow> dget row ''slug'' = dget server ''slug'' \<and> served_current pf now server row
     \<and> (has_critical (dget server ''findings'') \<longrightarrow> dget row ''grade'' \<in> {PNone, PStr ''D'', PStr ''F''})"

lemma row_about_record:
  assumes p: "parse_catalog_snapshot pf t = Inr (Admitted snap)" "dget snap ''servers'' = PList (map PDict servers)"
    and d: "d \<in> set servers" "server_codes pf d = {}" and r: "current_server_record pf d now = Inr record"
  shows "row_about pf now d record"
proof -
  have cap: "has_critical (dget d ''findings'') \<longrightarrow> dget d ''grade'' = PStr ''D'' \<or> dget d ''grade'' = PStr ''F''"
    using grade_binding_spec [OF p, of d] d(1) by auto
  have "dget record ''grade'' = PNone \<or> dget record ''grade'' = dget d ''grade''"
    using served_slug [OF d(2) r] by (auto simp: served_current_def)
  then show ?thesis using served_slug [OF d(2) r] cap by (auto simp: row_about_def)
qed

definition answers :: "platform \<Rightarrow> pydt \<Rightarrow> request \<Rightarrow> pydict list \<Rightarrow> pydict \<Rightarrow> bool" where
  "answers pf now req servers answer \<longleftrightarrow> (case req of
     ListServers \<Rightarrow> \<exists>rows. dget answer ''servers'' = PList (map PDict rows) \<and> list_all2 (row_about pf now) servers rows
   | CheckServer slug \<Rightarrow>
       if PStr slug \<in> set (map (\<lambda>s. dget s ''slug'') servers)
       then \<exists>s\<in>set servers. dget s ''slug'' = PStr slug \<and> row_about pf now s answer
       else dget answer ''known_slugs'' = PList (map (\<lambda>s. dget s ''slug'') servers) \<and> dget answer ''grade'' = PNone)"

lemma find_server_spec:
  assumes "\<forall>s\<in>set servers. map_of s ''slug'' \<noteq> None"
  shows "find_server slug servers = Inr (find (\<lambda>s. dget s ''slug'' = PStr slug) servers)"
  using assms by (induction servers) (auto simp: dget_subscript)

lemma map_res_all: "\<forall>x\<in>set xs. f x = Inr (g x) \<Longrightarrow> map_res f xs = Inr (map g xs)"
  by (induction xs) auto

lemma admitted_answer:
  assumes p: "parse_catalog_snapshot pf t = Inr (Admitted snap)"
  shows "(\<forall>e. answer_value pf req (Admitted snap) now = Inl e \<longrightarrow> e = OverflowError)
    \<and> (\<forall>ans. answer_value pf req (Admitted snap) now = Inr ans \<longrightarrow>
        (\<exists>servers. dget snap ''servers'' = PList (map PDict servers) \<and> answers pf now req servers ans))"
proof -
  from admitted_servers [OF p] obtain servers where so: "servers_of snap = Inr servers"
    and sv: "dget snap ''servers'' = PList (map PDict servers)" and codes: "\<forall>d\<in>set servers. server_codes pf d = {}" by blast
  have about: "row_about pf now d r" if "d \<in> set servers" "current_server_record pf d now = Inr r" for d r
    using row_about_record [OF p sv that(1) _ that(2)] codes that(1) by blast
  show ?thesis
  proof (cases req)
    case ListServers
    have row: "(\<exists>r. list_row pf now d = Inr (PDict r) \<and> row_about pf now d r) \<or> list_row pf now d = Inl OverflowError"
      if d: "d \<in> set servers" for d
    proof (cases "current_server_record pf d now")
      case (Inl e)
      then show ?thesis using current_record_only_overflow [OF Inl] by (simp add: list_row_def)
    next
      case (Inr r)
      define row where "row = [(''slug'', dget r ''slug''), (''name'', dget r ''name''),
        (''grade'', dget r ''grade''), (''transparency'', dget r ''transparency''),
        (''danger_score'', dget r ''danger_score''), (''requires_credentials'', dget r ''requires_credentials''),
        (''scanned_at'', dget r ''scanned_at''), (''scan_age_days'', dget r ''scan_age_days''), (''stale'', dget r ''stale'')]"
      have "list_row pf now d = Inr (PDict row)" unfolding row_def using codes d Inr by (intro list_row_Inr) auto
      moreover have "row_about pf now d row"
        using about [OF d Inr] by (simp add: row_about_def served_current_def row_def)
      ultimately show ?thesis by blast
    qed
    have rows: "(\<exists>rows. map_res (list_row pf now) ds = Inr (map PDict rows) \<and> list_all2 (row_about pf now) ds rows)
        \<or> map_res (list_row pf now) ds = Inl OverflowError" if "set ds \<subseteq> set servers" for ds
      using that
    proof (induction ds)
      case (Cons d ds)
      then have "list_row pf now d = Inl OverflowError \<or> map_res (list_row pf now) ds = Inl OverflowError
        \<or> (\<exists>r rs. list_row pf now d = Inr (PDict r) \<and> row_about pf now d r
             \<and> map_res (list_row pf now) ds = Inr (map PDict rs) \<and> list_all2 (row_about pf now) ds rs)"
        using row [of d] by auto
      then show ?case
      proof (elim disjE exE conjE)
        fix r rs assume "list_row pf now d = Inr (PDict r)" "row_about pf now d r"
          "map_res (list_row pf now) ds = Inr (map PDict rs)" "list_all2 (row_about pf now) ds rs"
        then show ?thesis by (intro disjI1 exI [of _ "r # rs"]) simp
      next
        assume "map_res (list_row pf now) ds = Inl OverflowError"
        then show ?thesis using row [of d] Cons.prems by auto
      qed simp
    qed simp
    from rows [OF subset_refl] show ?thesis
    proof
      assume "\<exists>rs. map_res (list_row pf now) servers = Inr (map PDict rs) \<and> list_all2 (row_about pf now) servers rs"
      then obtain rs where rs: "map_res (list_row pf now) servers = Inr (map PDict rs)" "list_all2 (row_about pf now) servers rs"
        by blast
      then have "answer_value pf req (Admitted snap) now
          = Inr [(''server_count'', PInt (int (length rs))), (''servers'', PList (map PDict rs))]"
        by (simp add: ListServers answer_value_def list_servers_value_def so)
      then show ?thesis using sv rs(2) by (auto simp: ListServers answers_def)
    next
      assume "map_res (list_row pf now) servers = Inl OverflowError"
      then have "answer_value pf req (Admitted snap) now = Inl OverflowError"
        by (simp add: ListServers answer_value_def list_servers_value_def so)
      then show ?thesis by simp
    qed
  next
    case (CheckServer slug)
    have keys: "\<forall>s\<in>set servers. map_of s ''slug'' \<noteq> None"
      using codes admitted_row_fields(2) required_fields(1) by blast
    have slugs: "map_res (\<lambda>s. subscript s ''slug'') servers = Inr (map (\<lambda>s. dget s ''slug'') servers)"
      using keys by (intro map_res_all) (simp add: dget_subscript)
    show ?thesis
    proof (cases "find (\<lambda>s. dget s ''slug'' = PStr slug) servers")
      case None
      then have "PStr slug \<notin> set (map (\<lambda>s. dget s ''slug'') servers)" by (auto simp: find_None_iff)
      with None show ?thesis using so sv CheckServer
        by (auto simp: answer_value_def check_server_value_def answers_def find_server_spec [OF keys] slugs)
    next
      case (Some s)
      then have s: "s \<in> set servers" "dget s ''slug'' = PStr slug" by (auto simp: find_Some_iff)
      then have "PStr slug \<in> set (map (\<lambda>s. dget s ''slug'') servers)" by force
      with Some s show ?thesis using so sv CheckServer about current_record_only_overflow
        by (auto simp: answer_value_def check_server_value_def answers_def find_server_spec [OF keys])
    qed
  qed
qed

text \<open>One call, from a cache that holds an admitted snapshot or nothing.\<close>

definition admitted_from :: "platform \<Rightarrow> string set \<Rightarrow> pydict \<Rightarrow> bool" where
  "admitted_from pf texts snap \<longleftrightarrow> (\<exists>t\<in>texts. parse_catalog_snapshot pf t = Inr (Admitted snap))"

definition texts_of :: "(request \<times> resource \<times> pydt) list \<Rightarrow> string set" where
  "texts_of calls = {t. ResourceText t \<in> set (map (\<lambda>(req, raw, now). raw) calls)}"

definition served :: "platform \<Rightarrow> string set \<Rightarrow> request \<Rightarrow> pydt \<Rightarrow> pydict res \<Rightarrow> bool" where
  "served pf texts req now answer \<longleftrightarrow> (case answer of
     Inl e \<Rightarrow> e = OverflowError
   | Inr v \<Rightarrow> (\<exists>codes. codes \<noteq> [] \<and> v = catalog_snapshot_error_payload codes)
       \<or> (\<exists>snap servers. admitted_from pf texts snap \<and> dget snap ''servers'' = PList (map PDict servers)
            \<and> answers pf now req servers v))"

lemma rejected_codes: "rejected codes = Rejected cs \<Longrightarrow> finite codes \<Longrightarrow> codes \<noteq> {} \<Longrightarrow> cs \<noteq> []"
  by (auto simp: rejected_def)

lemma parse_rejected_nonempty:
  assumes "parse_catalog_snapshot pf t = Inr (Rejected codes)"
  shows "codes \<noteq> []"
proof -
  have "finite cs" if "validation_reasons pf v = Inr cs" for v cs
    using finite_validation_reasons [of pf v] that by (simp add: fin_res_def)
  then show ?thesis using assms
    by (auto simp: parse_catalog_snapshot_def rejected_def split: if_splits option.splits sum.splits prod.splits pyval.splits)
qed

lemma call_served:
  assumes "\<forall>snap. cache = Some snap \<longrightarrow> admitted_from pf texts snap" "call pf req raw now cache = (answer, cache')"
  shows "served pf (texts \<union> {t. raw = ResourceText t}) req now answer
    \<and> (\<forall>snap. cache' = Some snap \<longrightarrow> admitted_from pf (texts \<union> {t. raw = ResourceText t}) snap)"
proof -
  let ?T = "texts \<union> {t. raw = ResourceText t}"
  have ok: "served pf ?T req now (answer_value pf req (Admitted snap) now)" if s: "admitted_from pf ?T snap" for snap
  proof -
    from s obtain t where "parse_catalog_snapshot pf t = Inr (Admitted snap)" by (auto simp: admitted_from_def)
    from admitted_answer [OF this, of req now] s show ?thesis
      by (auto simp: served_def split: sum.split)
  qed
  have rej: "served pf ?T req now (answer_value pf req (Rejected codes) now)" if "codes \<noteq> []" for codes
    using that by (cases req) (auto simp: served_def answer_value_def list_servers_value_def check_server_value_def)
  show ?thesis
  proof (cases cache)
    case (Some snap)
    then have "admitted_from pf ?T snap" using assms(1) by (auto simp: admitted_from_def)
    moreover have "answer = answer_value pf req (Admitted snap) now" "cache' = cache"
      using assms(2) Some by (simp_all add: call_def snapshot_def)
    ultimately show ?thesis using ok Some by simp
  next
    case None
    show ?thesis
    proof (cases raw)
      case ResourceUnreadable
      then have "answer = answer_value pf req (Rejected [''SNAPSHOT_RESOURCE_UNREADABLE'']) now" "cache' = None"
        using assms(2) None by (simp_all add: call_def snapshot_def rejected_def)
      then show ?thesis using rej by simp
    next
      case (ResourceText t)
      show ?thesis
      proof (cases "parse_catalog_snapshot pf t")
        case (Inl e)
        then have "answer = Inl e" "cache' = None"
          using assms(2) None ResourceText by (simp_all add: call_def snapshot_def)
        then show ?thesis using parse_overflow [OF Inl] by (simp add: served_def)
      next
        case (Inr a)
        show ?thesis
        proof (cases a)
          case (Admitted snap)
          then have "answer = answer_value pf req (Admitted snap) now" "cache' = Some snap"
            using assms(2) None ResourceText Inr by (simp_all add: call_def snapshot_def)
          moreover have "admitted_from pf ?T snap" using Inr Admitted ResourceText by (auto simp: admitted_from_def)
          ultimately show ?thesis using ok by simp
        next
          case (Rejected codes)
          then have "answer = answer_value pf req (Rejected codes) now" "cache' = None"
            using assms(2) None ResourceText Inr by (simp_all add: call_def snapshot_def)
          then show ?thesis using rej parse_rejected_nonempty [of pf t codes] Inr Rejected by simp
        qed
      qed
    qed
  qed
qed

lemma served_mono: "served pf T req now a \<Longrightarrow> T \<subseteq> T' \<Longrightarrow> served pf T' req now a"
  unfolding served_def admitted_from_def by (cases a) (simp_all, blast)

lemma serve_spec:
  assumes "\<forall>snap. cache = Some snap \<longrightarrow> admitted_from pf texts snap"
  shows "list_all2 (\<lambda>(req, raw, now) answer. served pf (texts \<union> texts_of calls) req now answer) calls (serve pf calls cache)"
  using assms
proof (induction calls arbitrary: cache texts)
  case (Cons c calls)
  obtain req raw now where c: "c = (req, raw, now)" by (cases c) auto
  obtain answer cache' where k: "call pf req raw now cache = (answer, cache')" by fastforce
  let ?T = "texts \<union> {t. raw = ResourceText t}"
  have T: "texts_of (c # calls) = {t. raw = ResourceText t} \<union> texts_of calls" by (auto simp: texts_of_def c)
  from call_served [OF Cons.prems k] have s: "served pf ?T req now answer"
    and i: "\<forall>snap. cache' = Some snap \<longrightarrow> admitted_from pf ?T snap" by auto
  have "served pf (texts \<union> texts_of (c # calls)) req now answer"
    by (rule served_mono [OF s]) (auto simp: T)
  moreover have "list_all2 (\<lambda>(req, raw, now) answer. served pf (texts \<union> texts_of (c # calls)) req now answer) calls (serve pf calls cache')"
    using Cons.IH [OF i] by (simp add: T Un_assoc)
  ultimately show ?case by (simp add: c k)
qed simp

section \<open>Properties\<close>

text \<open>C18. In every run of the server, whatever the packaged file holds at each call, an answer is an overflow,
  the typed error that serves nothing, or about a snapshot that was read and admitted: each listed row, and the
  record found by slug, carries the stored verdict only for a scan that is not in the future, is marked stale exactly
  past ninety days at response time, and never shows better than D with a critical finding.\<close>

theorem answers_are_admitted_and_current:
  assumes "i < length calls" "calls ! i = (req, raw, now)" "serve pf calls None ! i = answer"
  shows "answer = Inl OverflowError
    \<or> (\<exists>codes. codes \<noteq> [] \<and> answer = Inr (catalog_snapshot_error_payload codes))
    \<or> (\<exists>v t snap servers. answer = Inr v \<and> t \<in> texts_of calls \<and> parse_catalog_snapshot pf t = Inr (Admitted snap)
         \<and> dget snap ''servers'' = PList (map PDict servers) \<and> answers pf now req servers v)"
proof -
  have "served pf (texts_of calls) req now answer"
    using serve_spec [of None pf "{}" calls] assms by (auto simp: list_all2_conv_all_nth)
  then show ?thesis by (cases answer) (auto simp: served_def admitted_from_def)
qed

lemma admitted_slugs_distinct:
  assumes "parse_catalog_snapshot pf t = Inr (Admitted snap)" "dget snap ''servers'' = PList (map PDict servers)"
  shows "distinct (map (\<lambda>s. dget s ''slug'') servers)"
proof -
  from parse_admitted [OF assms(1)] have r: "validation_reasons pf snap = Inr {}" by blast
  from admitted_shape [OF r] assms(2) have ok: "validate_servers pf (dget snap ''generated_at'') {} {} (map PDict servers) = Inr {}"
    by auto
  have "distinct (map slug_of (map PDict servers))" using validate_servers_empty [OF ok] by blast
  then show ?thesis by (simp add: slug_of_def comp_def)
qed

text \<open>The two tools agree: for every row of the list, looking its slug up returns a record with the same name,
  verdict, score, scan time, age and staleness.\<close>

lemma check_agrees_with_list:
  assumes p: "parse_catalog_snapshot pf t = Inr (Admitted snap)" and l: "list_servers_value pf (Admitted snap) now = Inr listing"
    and row: "dget listing ''servers'' = PList rows" "PDict row \<in> set rows" "dget row ''slug'' = PStr slug"
  shows "\<exists>r. check_server_value pf (Admitted snap) slug now = Inr r \<and> dget r ''slug'' = PStr slug
    \<and> (\<forall>k\<in>{''name'', ''grade'', ''transparency'', ''danger_score'', ''requires_credentials'', ''scanned_at'', ''scan_age_days'', ''stale''}.
         dget row k = dget r k)"
proof -
  from admitted_servers [OF p] obtain servers where so: "servers_of snap = Inr servers"
    and sv: "dget snap ''servers'' = PList (map PDict servers)" and codes: "\<forall>d\<in>set servers. server_codes pf d = {}" by blast
  have rows: "map_res (list_row pf now) servers = Inr rows" using l row(1) by (auto simp: list_servers_value_def so)
  then obtain i where i: "i < length servers" "list_row pf now (servers ! i) = Inr (PDict row)"
    using row(2) map_res_length [OF rows] by (auto simp: in_set_conv_nth map_res_nth)
  let ?d = "servers ! i"
  have d: "?d \<in> set servers" "server_codes pf ?d = {}" using i codes by auto
  obtain r where r: "current_server_record pf ?d now = Inr r"
    using i(2) by (auto simp: list_row_def)
  have fields: "\<forall>k\<in>{''slug'', ''name'', ''grade'', ''transparency'', ''danger_score'', ''requires_credentials'', ''scanned_at'',
      ''scan_age_days'', ''stale''}. dget row k = dget r k"
    using i(2) list_row_Inr [OF d(2) r] by auto
  have slug: "dget ?d ''slug'' = PStr slug" using fields row(3) served_slug [OF d(2) r] by simp
  have keys: "\<forall>s\<in>set servers. map_of s ''slug'' \<noteq> None"
    using codes admitted_row_fields(2) required_fields(1) by blast
  have same: "s = ?d" if "s \<in> set servers" "dget s ''slug'' = PStr slug" for s
    using admitted_slugs_distinct [OF p sv] that slug d(1) by (simp add: distinct_map inj_on_def)
  have "find (\<lambda>s. dget s ''slug'' = PStr slug) servers = Some ?d"
  proof (cases "find (\<lambda>s. dget s ''slug'' = PStr slug) servers")
    case None
    then show ?thesis using d(1) slug by (simp add: find_None_iff)
  next
    case (Some s)
    then have "s \<in> set servers" "dget s ''slug'' = PStr slug" by (auto simp: find_Some_iff)
    then have "s = ?d" by (rule same)
    then show ?thesis using Some by simp
  qed
  then have "check_server_value pf (Admitted snap) slug now = Inr r"
    by (simp add: check_server_value_def so find_server_spec [OF keys] r)
  then show ?thesis using fields row(3) by auto
qed

section \<open>Witnesses\<close>

text \<open>The example snapshot, listed and looked up a day after its scan.\<close>

definition a_day_later :: pydt where
  "a_day_later = utc_dt (740000 * us_per_day)"

definition sample_calls :: "(request \<times> resource \<times> pydt) list" where
  "sample_calls = [(ListServers, ResourceUnreadable, a_day_later), (ListServers, ResourceText [], a_day_later),
     (CheckServer ''demo-server'', ResourceUnreadable, a_day_later)]"

lemma snap_record: "\<exists>r. current_server_record (snap_platform scan) snap_server a_day_later = Inr r"
proof -
  have "iso_parse (snap_platform scan) (replace_Z ''2026-07-01T00:00:00+00:00'') = Some (utc_dt (739999 * us_per_day))"
    by code_simp
  moreover have "dt_in_range (739999 * us_per_day)" "dt_in_range (740000 * us_per_day)"
    "dt_in_range (739999 * us_per_day + STALE_AFTER_DAYS * us_per_day)"
    by (simp_all add: dt_in_range_def dt_limit_def us_per_day_def STALE_AFTER_DAYS_def)
  moreover have "dget snap_server ''scanned_at'' = PStr ''2026-07-01T00:00:00+00:00''" by (simp add: snap_server_def)
  ultimately have "\<exists>f. assess_scan_freshness (snap_platform scan) (TsStr ''2026-07-01T00:00:00+00:00'') a_day_later True STALE_AFTER_DAYS = Inr f"
    using assess_parsed_total [of "utc_dt (739999 * us_per_day)" STALE_AFTER_DAYS "740000 * us_per_day"]
    by (auto simp: assess_scan_freshness_def a_day_later_def)
  then show ?thesis using \<open>dget snap_server ''scanned_at'' = _\<close> by (auto simp: current_server_record_def Let_def)
qed

lemma snap_servers: "servers_of snap_value = Inr [snap_server]"
  by (simp add: servers_of_def snap_value_def subscript_def)

lemma snap_slug: "dget snap_server ''slug'' = PStr ''demo-server''" "map_of snap_server ''slug'' = Some (PStr ''demo-server'')"
  by (simp_all add: snap_server_def)

theorem answers_are_admitted_and_current_witness:
  "\<exists>v. serve (snap_platform (\<lambda>s. None)) sample_calls None ! 2 = Inr v \<and> dget v ''slug'' = PStr ''demo-server''
     \<and> dget v ''grade'' \<in> {PNone, PStr ''D'', PStr ''F''}"
proof -
  let ?pf = "snap_platform (\<lambda>s. None)"
  obtain r where r: "current_server_record ?pf snap_server a_day_later = Inr r" using snap_record by blast
  have u: "snapshot ?pf ResourceUnreadable None = Inr (Rejected [''SNAPSHOT_RESOURCE_UNREADABLE''], None)"
    by (simp add: snapshot_def rejected_def)
  have a: "snapshot ?pf (ResourceText []) None = Inr (Admitted snap_value, Some snap_value)"
    by (simp add: snapshot_def snap_admitted)
  have c: "snapshot ?pf ResourceUnreadable (Some snap_value) = Inr (Admitted snap_value, Some snap_value)"
    by (simp add: snapshot_def)
  have v: "serve ?pf sample_calls None ! 2 = Inr r"
    by (simp add: sample_calls_def call_def u a c answer_value_def check_server_value_def snap_servers subscript_def snap_slug r)
  have "2 < length sample_calls" "sample_calls ! 2 = (CheckServer ''demo-server'', ResourceUnreadable, a_day_later)"
    by (simp_all add: sample_calls_def)
  from answers_are_admitted_and_current [OF this v] obtain codes t snap servers where
    "codes \<noteq> [] \<and> r = catalog_snapshot_error_payload codes
      \<or> t \<in> texts_of sample_calls \<and> parse_catalog_snapshot ?pf t = Inr (Admitted snap)
         \<and> dget snap ''servers'' = PList (map PDict servers) \<and> answers ?pf a_day_later (CheckServer ''demo-server'') servers r"
    by auto
  moreover have "t = []" if "t \<in> texts_of sample_calls" using that by (auto simp: texts_of_def sample_calls_def)
  ultimately show ?thesis
  proof (elim disjE conjE)
    assume "r = catalog_snapshot_error_payload codes"
    then show ?thesis using served_slug [OF snap_codes r] by (simp add: catalog_snapshot_error_payload_def snap_slug)
  next
    assume t: "t \<in> texts_of sample_calls" "parse_catalog_snapshot ?pf t = Inr (Admitted snap)"
      "dget snap ''servers'' = PList (map PDict servers)" "answers ?pf a_day_later (CheckServer ''demo-server'') servers r"
    then have "snap = snap_value" using \<open>t \<in> _ \<Longrightarrow> t = []\<close> snap_admitted by simp
    then have "servers = [snap_server]" using t(3) by (auto simp: snap_value_def)
    then show ?thesis using t(4) v by (auto simp: answers_def snap_slug row_about_def has_critical_def is_critical_def snap_server_def)
  qed
qed

end
