(* ===== verification/Url_Text.thy ===== *)
theory Url_Text
  imports Urls
begin

text \<open>
  The parts of a split URL (\<open>hostname\<close>, \<open>port\<close>, \<open>path\<close>, \<open>query\<close>, \<open>fragment\<close>), its reassembly by \<open>urlunsplit\<close>,
  percent-decoding, and the small string functions of Python that several components share.
\<close>

section \<open>Strings\<close>

definition after_last :: "char \<Rightarrow> string \<Rightarrow> string" where
  "after_last c s = rev (takeWhile (\<lambda>x. x \<noteq> c) (rev s))"

fun decimal :: "nat \<Rightarrow> string" where
  "decimal n = (if n < 10 then [''0123456789'' ! n] else decimal (n div 10) @ [''0123456789'' ! (n mod 10)])"

declare decimal.simps [simp del]

lemma decimal_digits: "set (decimal n) \<subseteq> set ''0123456789''"
proof (induction n rule: decimal.induct)
  case (1 n)
  have "''0123456789'' ! (n mod 10) \<in> set ''0123456789''" by (rule nth_mem) simp
  moreover have "n < 10 \<Longrightarrow> n mod 10 = n" by simp
  ultimately show ?case using "1.IH" by (cases "n < 10") (simp_all only: decimal.simps [of n] set_append list.set if_True if_False, auto)
qed

lemma decimal_nonempty [simp]: "decimal n \<noteq> []"
  by (simp add: decimal.simps [of n])

text \<open>\<open>s.split()\<close>.\<close>

function py_words :: "string \<Rightarrow> string list" where
  "py_words s = (case dropWhile is_space_char s of [] \<Rightarrow> []
     | c # cs \<Rightarrow> takeWhile (\<lambda>x. \<not> is_space_char x) (c # cs) # py_words (dropWhile (\<lambda>x. \<not> is_space_char x) (c # cs)))"
  by pat_completeness auto

termination py_words
proof (relation "measure length")
  fix s c cs assume d: "dropWhile is_space_char s = c # cs"
  then have c: "\<not> is_space_char c" by (metis hd_dropWhile list.distinct(1) list.sel(1))
  have "length (dropWhile (\<lambda>x. \<not> is_space_char x) cs) \<le> length cs" by (rule length_dropWhile_le)
  moreover have "length (c # cs) \<le> length s" using length_dropWhile_le [of is_space_char s] by (simp add: d)
  ultimately show "(dropWhile (\<lambda>x. \<not> is_space_char x) (c # cs), s) \<in> measure length" using c by simp
qed simp

text \<open>\<open>s.rstrip(c)\<close> and \<open>s.strip(c)\<close> of one character.\<close>

definition rstrip_char :: "char \<Rightarrow> string \<Rightarrow> string" where
  "rstrip_char c s = rev (dropWhile (\<lambda>x. x = c) (rev s))"

definition strip_char :: "char \<Rightarrow> string \<Rightarrow> string" where
  "strip_char c s = rstrip_char c (dropWhile (\<lambda>x. x = c) s)"

text \<open>\<open>list(dict.fromkeys(xs))\<close>: the first occurrence of each value, in order.\<close>

definition py_unique :: "'a list \<Rightarrow> 'a list" where
  "py_unique xs = rev (remdups (rev xs))"

lemma set_py_unique [simp]: "set (py_unique xs) = set xs"
  by (simp add: py_unique_def)

lemma distinct_py_unique [simp]: "distinct (py_unique xs)"
  by (simp add: py_unique_def)

lemma py_unique_eq_Nil [simp]: "py_unique xs = [] \<longleftrightarrow> xs = []"
  by (simp add: py_unique_def)

text \<open>\<open>s.encode("utf-8")\<close> of a text with code points below 256.\<close>

definition utf8_encode :: "string \<Rightarrow> string" where
  "utf8_encode s = concat (map (\<lambda>c. let n = of_char c :: nat in
     if n < 128 then [c] else [char_of (192 + n div 64), char_of (128 + n mod 64)]) s)"

text \<open>A control character: \<open>ord(c) < 32\<close>.\<close>

definition control_char :: "char \<Rightarrow> bool" where
  "control_char c \<longleftrightarrow> (of_char c :: nat) < 32"

section \<open>Parts of a URL\<close>

definition url_path :: "split_url \<Rightarrow> string" where
  "url_path u = takeWhile (\<lambda>c. c \<noteq> CHR ''?'') (takeWhile (\<lambda>c. c \<noteq> CHR ''#'') (url_rest u))"

definition url_query :: "split_url \<Rightarrow> string" where
  "url_query u = (case dropWhile (\<lambda>c. c \<noteq> CHR ''?'') (takeWhile (\<lambda>c. c \<noteq> CHR ''#'') (url_rest u)) of [] \<Rightarrow> [] | _ # q \<Rightarrow> q)"

definition url_fragment :: "split_url \<Rightarrow> string" where
  "url_fragment u = (case dropWhile (\<lambda>c. c \<noteq> CHR ''#'') (url_rest u) of [] \<Rightarrow> [] | _ # f \<Rightarrow> f)"

text \<open>Host and port text of the network location, after the user information.\<close>

definition host_port :: "split_url \<Rightarrow> string \<times> string" where
  "host_port u = (let info = after_last (CHR ''@'') (url_netloc u); colon = (\<lambda>c. c \<noteq> CHR '':'');
       after = (\<lambda>s. tl (dropWhile colon s)) in
     if CHR ''['' \<in> set info
     then (let bracketed = tl (dropWhile (\<lambda>c. c \<noteq> CHR ''['') info) in
       (takeWhile (\<lambda>c. c \<noteq> CHR '']'') bracketed, after (tl (dropWhile (\<lambda>c. c \<noteq> CHR '']'') bracketed))))
     else (takeWhile colon info, after info))"

text \<open>\<open>hostname or ""\<close>: lower case up to an IPv6 zone.\<close>

definition url_host :: "split_url \<Rightarrow> string" where
  "url_host u = (let h = fst (host_port u); p = (\<lambda>c. c \<noteq> CHR ''%'') in py_lower (takeWhile p h) @ dropWhile p h)"

definition nat_digits :: "string \<Rightarrow> int" where
  "nat_digits s = foldl (\<lambda>n c. 10 * n + (int (of_char c) - 48)) 0 s"

text \<open>\<open>port\<close>: a \<open>ValueError\<close> unless it is a number up to 65535.\<close>

definition url_port :: "split_url \<Rightarrow> int option res" where
  "url_port u = (let p = snd (host_port u) in
     if p = [] then Inr None
     else if list_all is_digit_char p \<and> nat_digits p \<le> 65535 then Inr (Some (nat_digits p)) else Inl ValueError)"

text \<open>\<open>urlunsplit\<close>, with the schemes that take a network location.\<close>

definition USES_NETLOC :: "string list" where
  "USES_NETLOC = [[], ''ftp'', ''http'', ''gopher'', ''nntp'', ''telnet'', ''imap'', ''wais'', ''file'', ''mms'', ''https'',
     ''shttp'', ''snews'', ''prospero'', ''rtsp'', ''rtsps'', ''rtspu'', ''rsync'', ''svn'', ''svn+ssh'', ''sftp'', ''nfs'',
     ''git'', ''git+ssh'', ''ws'', ''wss'', ''itms-services'']"

definition urlunsplit :: "string \<Rightarrow> string \<Rightarrow> string \<Rightarrow> string \<Rightarrow> string \<Rightarrow> string" where
  "urlunsplit scheme netloc path query fragment =
     (let slashed = (if netloc \<noteq> [] then ''//'' @ netloc @ (if path \<noteq> [] \<and> hd path \<noteq> CHR ''/'' then CHR ''/'' # path else path)
        else if take 2 path = ''//'' then ''//'' @ path
        else if scheme \<noteq> [] \<and> scheme \<in> set USES_NETLOC \<and> (path = [] \<or> hd path = CHR ''/'') then ''//'' @ path
        else path)
      in (if scheme \<noteq> [] then scheme @ '':'' else []) @ slashed
         @ (if query \<noteq> [] then ''?'' @ query else []) @ (if fragment \<noteq> [] then ''#'' @ fragment else []))"

text \<open>Percent-decoding. A byte past 127 stands for itself where Python decodes UTF-8; the names looked for are ASCII.\<close>

definition hex_value :: "char \<Rightarrow> nat option" where
  "hex_value c = (let n = of_char c :: nat in if 48 \<le> n \<and> n \<le> 57 then Some (n - 48)
     else if 65 \<le> n \<and> n \<le> 70 then Some (n - 55) else if 97 \<le> n \<and> n \<le> 102 then Some (n - 87) else None)"

fun unquote :: "string \<Rightarrow> string" where
  "unquote (p # a # b # s) = (if p = CHR ''%'' then (case (hex_value a, hex_value b) of
       (Some i, Some j) \<Rightarrow> char_of (16 * i + j) # unquote s
     | _ \<Rightarrow> p # unquote (a # b # s)) else p # unquote (a # b # s))"
| "unquote s = s"

end
