(* ===== verification/Portability_Models.thy ===== *)
theory Portability_Models
  imports Snapshot_Validation Url_Text "HOL-Library.Sublist" "HOL-Library.Product_Lexorder"
begin

text \<open>
  The neutral MCP connection intent (\<open>portability/models.py\<close>), its validators, the redaction of secret
  arguments, and the report of semantic changes (\<open>portability/report.py\<close>).
\<close>

section \<open>Regular expressions\<close>

text \<open>\<open>^[A-Za-z_][A-Za-z0-9_]*$\<close> and \<open>^[A-Za-z0-9][A-Za-z0-9._-]{0,127}$\<close>.\<close>

definition ident_char :: "char \<Rightarrow> bool" where
  "ident_char c \<longleftrightarrow> is_alnum_char c \<or> c = CHR ''_''"

definition env_re :: "string \<Rightarrow> bool" where
  "env_re s \<longleftrightarrow> s \<noteq> [] \<and> list_all ident_char s \<and> \<not> is_digit_char (hd s)"

definition name_re :: "string \<Rightarrow> bool" where
  "name_re s \<longleftrightarrow> s \<noteq> [] \<and> length s \<le> 128 \<and> is_alnum_char (hd s)
     \<and> list_all (\<lambda>c. is_alnum_char c \<or> c \<in> {CHR ''.'', CHR ''_'', CHR ''-''}) s"

text \<open>The text starts with a lower-case pattern, ignoring case.\<close>

definition starts_ci :: "string \<Rightarrow> string \<Rightarrow> bool" where
  "starts_ci p s \<longleftrightarrow> take (length p) (map lower_char s) = p"

text \<open>\<open>search\<close>: some position matches, knowing the character before it.\<close>

fun search :: "(char option \<Rightarrow> string \<Rightarrow> bool) \<Rightarrow> char option \<Rightarrow> string \<Rightarrow> bool" where
  "search P prev [] = P prev []"
| "search P prev (c # cs) = (P prev (c # cs) \<or> search P (Some c) cs)"

text \<open>\<open>\w\<close>: an underscore or what \<open>str.isalnum\<close> accepts.\<close>

definition word_char :: "char \<Rightarrow> bool" where
  "word_char c \<longleftrightarrow> ident_char c \<or> (let n = of_char c :: nat in
     n \<in> {170, 178, 179, 181, 185, 186, 188, 189, 190} \<or> (192 \<le> n \<and> n \<noteq> 215 \<and> n \<noteq> 247))"

definition braced :: "string \<Rightarrow> string option" where
  "braced s = (if take 2 s = ''${'' \<and> 3 \<le> length s \<and> last s = CHR ''}'' then Some (butlast (drop 2 s)) else None)"

text \<open>\<open>^\$\{env:([A-Za-z_][A-Za-z0-9_]*)\}$\<close>.\<close>

definition placeholder_re :: "string \<Rightarrow> bool" where
  "placeholder_re s \<longleftrightarrow> (case braced s of None \<Rightarrow> False | Some b \<Rightarrow> take 4 b = ''env:'' \<and> env_re (drop 4 b))"

definition SENSITIVE_KEYWORDS :: "string list" where
  "SENSITIVE_KEYWORDS = [''token'', ''secret'', ''password'', ''passwd'', ''apikey'', ''api-key'', ''api_key'', ''authorization'']"

text \<open>A keyword, \<open>=\<close> or \<open>:\<close>, and a value that is no environment placeholder, with spaces between.\<close>

definition assignment_at :: "char option \<Rightarrow> string \<Rightarrow> bool" where
  "assignment_at prev s \<longleftrightarrow> list_ex (\<lambda>kw. starts_ci kw s \<and>
     (case dropWhile is_space_char (drop (length kw) s) of [] \<Rightarrow> False
      | c # rest \<Rightarrow> (c = CHR ''='' \<or> c = CHR '':'')
          \<and> (let v = dropWhile is_space_char rest in v \<noteq> [] \<and> \<not> starts_ci ''${env:'' v))) SENSITIVE_KEYWORDS"

definition sensitive_assignment :: "string \<Rightarrow> bool" where
  "sensitive_assignment s = search assignment_at None s"

definition SENSITIVE_FLAGS :: "string list" where
  "SENSITIVE_FLAGS = [''apikey'', ''api-key'', ''api_key'', ''token'', ''accesstoken'', ''access-token'', ''access_token'',
     ''secret'', ''password'', ''passwd'', ''authorization'']"

definition sensitive_flag :: "string \<Rightarrow> bool" where
  "sensitive_flag s \<longleftrightarrow> (case map lower_char s of
     a # w \<Rightarrow> a = CHR ''-'' \<and> (w \<in> set SENSITIVE_FLAGS
       \<or> (case w of b # w' \<Rightarrow> b = CHR ''-'' \<and> w' \<in> set SENSITIVE_FLAGS | [] \<Rightarrow> False))
   | [] \<Rightarrow> False)"

text \<open>\<open>Bearer x\<close>, \<open>sk-\<close> keys and GitHub tokens, each at a word boundary.\<close>

definition obvious_at :: "char option \<Rightarrow> string \<Rightarrow> bool" where
  "obvious_at prev s \<longleftrightarrow> (case prev of None \<Rightarrow> True | Some p \<Rightarrow> \<not> word_char p) \<and>
     ((starts_ci ''bearer'' s \<and> (let r = drop 6 s in r \<noteq> [] \<and> is_space_char (hd r) \<and> dropWhile is_space_char r \<noteq> []))
    \<or> (starts_ci ''sk-'' s \<and> 8 \<le> length (takeWhile (\<lambda>c. ident_char c \<or> c = CHR ''-'') (drop 3 s)))
    \<or> (starts_ci ''gh'' s \<and> (case drop 2 s of k # u # r \<Rightarrow> lower_char k \<in> set ''pousr'' \<and> u = CHR ''_''
          \<and> 8 \<le> length (takeWhile is_alnum_char r) | _ \<Rightarrow> False)))"

definition obvious_secret :: "string \<Rightarrow> bool" where
  "obvious_secret s = search obvious_at None s"

definition probable_secret :: "string \<Rightarrow> bool" where
  "probable_secret s \<longleftrightarrow> obvious_secret s \<or> sensitive_assignment s"

section \<open>Errors\<close>

text \<open>The package's own input errors, pydantic's \<open>ValidationError\<close>, and any other exception. Their messages are
  not modelled.\<close>

datatype port_error = InputError | UnsupportedHost | ValidationFailure | PortRaised exn

type_synonym 'a port = "port_error + 'a"

definition require :: "port_error \<Rightarrow> bool \<Rightarrow> unit port" where
  "require e ok = (if ok then Inr () else Inl e)"

lemma require_Inr [simp]: "require e ok = Inr u \<longleftrightarrow> ok"
  by (simp add: require_def)

lemma require_simps [simp]: "require e True = Inr ()" "require e False = Inl e"
  by (simp_all add: require_def)

section \<open>The intent\<close>

datatype value_kind = Environment | Prompt | UnknownSource

record value_source =
  vs_kind :: value_kind
  vs_key :: string
  vs_secret :: bool
  vs_required :: bool

record environment_binding =
  eb_name :: string
  eb_value :: value_source

record header_binding =
  hb_name :: string
  hb_value :: value_source

datatype transport =
    Stdio (st_command: string) (st_args: "string list") (st_cwd: "string option")
  | Http (ht_url: string) (ht_headers: "header_binding list")

datatype auth_kind = AuthNone | Bearer | Oauth | AuthHeaders | AuthUnknown

record auth_requirement =
  au_kind :: auth_kind
  au_required :: bool
  au_token :: "value_source option"
  au_scopes :: "string list"

record scope_policy =
  sp_allow :: "string list"
  sp_deny :: "string list"

record startup_policy =
  su_startup_timeout :: "rat option"
  su_tool_timeout :: "rat option"
  su_required :: "bool option"

datatype source_host = HostNeutral | HostCodex | HostClaudeCode | HostClaudeDesktop | HostVSCode | HostUnknown

record provenance =
  pv_host :: source_host
  pv_format :: string
  pv_as_of :: string
  pv_documentation_url :: "string option"

record server_intent =
  si_transport :: transport
  si_environment :: "environment_binding list"
  si_auth :: auth_requirement
  si_enabled :: bool
  si_tools :: scope_policy
  si_resources :: scope_policy
  si_startup :: startup_policy
  si_provenance :: provenance
  si_unknown :: "string list"

definition NEUTRAL_SCHEMA_VERSION :: string where "NEUTRAL_SCHEMA_VERSION = ''mcp-config-intent.v1''"
definition MCP_PROTOCOL_VERSION :: string where "MCP_PROTOCOL_VERSION = ''2026-07-28''"
definition MCP_REGISTRY_SCHEMA_VERSION :: string where "MCP_REGISTRY_SCHEMA_VERSION = ''2025-12-11''"

record neutral_config =
  nc_protocol :: string
  nc_registry_schema :: string
  nc_servers :: "(string \<times> server_intent) list"

section \<open>Validators\<close>

definition make_source :: "value_kind \<Rightarrow> string \<Rightarrow> value_source port" where
  "make_source kind key = bind_res (require ValidationFailure (1 \<le> length key \<and> length key \<le> 128 \<and> env_re key))
     (\<lambda>_. Inr \<lparr>vs_kind = kind, vs_key = key, vs_secret = True, vs_required = True\<rparr>)"

definition make_environment :: "string \<Rightarrow> value_source \<Rightarrow> environment_binding port" where
  "make_environment name src = bind_res (require ValidationFailure (env_re name))
     (\<lambda>_. Inr \<lparr>eb_name = name, eb_value = src\<rparr>)"

definition make_header :: "string \<Rightarrow> value_source \<Rightarrow> header_binding port" where
  "make_header name src = bind_res (require ValidationFailure (1 \<le> length name \<and> length name \<le> 256
       \<and> list_all (\<lambda>c. c \<notin> {CHR 0x0D, CHR 0x0A, CHR '':''}) name))
     (\<lambda>_. Inr \<lparr>hb_name = name, hb_value = src\<rparr>)"

definition single_line :: "string \<Rightarrow> bool" where
  "single_line s \<longleftrightarrow> list_all (\<lambda>c. c \<notin> {CHR 0x00, CHR 0x0D, CHR 0x0A}) s"

text \<open>The loop of \<open>reject_secret_arguments\<close> over the command and the arguments, the previous value at hand.\<close>

fun arguments_ok :: "string option \<Rightarrow> string list \<Rightarrow> bool" where
  "arguments_ok prev [] = True"
| "arguments_ok prev (v # vs) = (single_line v \<and> \<not> probable_secret v
     \<and> (case prev of None \<Rightarrow> True | Some p \<Rightarrow> sensitive_flag p \<longrightarrow> placeholder_re v)
     \<and> arguments_ok (Some v) vs)"

definition make_stdio :: "string \<Rightarrow> string list \<Rightarrow> string option \<Rightarrow> transport port" where
  "make_stdio command args cwd = bind_res (require ValidationFailure (1 \<le> length command \<and> length command \<le> 4096
       \<and> arguments_ok None (command # args)))
     (\<lambda>_. Inr (Stdio command args cwd))"

text \<open>Hostname, user information and query of a split URL.\<close>

definition url_hostname :: "split_url \<Rightarrow> string" where
  "url_hostname u = (let hostinfo = after_last (CHR ''@'') (url_netloc u) in
     if CHR ''['' \<in> set hostinfo
     then takeWhile (\<lambda>c. c \<noteq> CHR '']'') (tl (dropWhile (\<lambda>c. c \<noteq> CHR ''['') hostinfo))
     else takeWhile (\<lambda>c. c \<noteq> CHR '':'') hostinfo)"

text \<open>\<open>username or password\<close>: the user information is more than a single colon.\<close>

definition url_credentials :: "split_url \<Rightarrow> bool" where
  "url_credentials u \<longleftrightarrow> (case rev (dropWhile (\<lambda>x. x \<noteq> CHR ''@'') (rev (url_netloc u))) of
     [] \<Rightarrow> False | info_at \<Rightarrow> butlast info_at \<noteq> [] \<and> butlast info_at \<noteq> '':'')"

text \<open>The names of \<open>parse_qsl\<close>: fields without a value are dropped.\<close>

definition query_names :: "string \<Rightarrow> string list" where
  "query_names q = concat (map (\<lambda>f. let name = takeWhile (\<lambda>c. c \<noteq> CHR ''='') f in
     if length name + 1 < length f then [unquote (map (\<lambda>c. if c = CHR ''+'' then CHR '' '' else c) name)] else [])
     (py_split CHR ''&'' q))"

definition SENSITIVE_QUERY_NAMES :: "string list" where
  "SENSITIVE_QUERY_NAMES = [''token'', ''access_token'', ''api_key'', ''apikey'', ''secret'', ''client_secret'', ''password'',
     ''passwd'', ''auth'', ''authorization'', ''code'', ''credential'', ''key'', ''session'', ''sig'', ''signature'']"

definition sensitive_query_name :: "string \<Rightarrow> bool" where
  "sensitive_query_name name \<longleftrightarrow> (let n = map (\<lambda>c. if c = CHR ''-'' \<or> c = CHR ''.'' then CHR ''_'' else c) (py_lower name) in
     n \<in> set SENSITIVE_QUERY_NAMES
   \<or> list_ex (\<lambda>e. suffix e n) [''_credential'', ''_key'', ''_password'', ''_secret'', ''_signature'', ''_token''])"

definition validate_url :: "(string \<Rightarrow> bool) \<Rightarrow> string \<Rightarrow> bool" where
  "validate_url bracket_ok url = (case urlsplit bracket_ok url of Inl _ \<Rightarrow> False
     | Inr u \<Rightarrow> (url_scheme u = ''http'' \<or> url_scheme u = ''https'') \<and> url_hostname u \<noteq> [] \<and> \<not> url_credentials u
         \<and> \<not> list_ex sensitive_query_name (query_names (url_query u)))"

definition make_http :: "(string \<Rightarrow> bool) \<Rightarrow> string \<Rightarrow> header_binding list \<Rightarrow> transport port" where
  "make_http bracket_ok url headers = bind_res (require ValidationFailure (1 \<le> length url \<and> length url \<le> 8192
       \<and> validate_url bracket_ok url))
     (\<lambda>_. Inr (Http url headers))"

definition make_auth :: "auth_kind \<Rightarrow> bool \<Rightarrow> value_source option \<Rightarrow> string list \<Rightarrow> auth_requirement port" where
  "make_auth kind required token scopes = bind_res (require ValidationFailure ((kind = Bearer) = (token \<noteq> None)))
     (\<lambda>_. Inr \<lparr>au_kind = kind, au_required = required, au_token = token, au_scopes = sorted_set scopes\<rparr>)"

definition no_auth :: auth_requirement where
  "no_auth = \<lparr>au_kind = AuthNone, au_required = False, au_token = None, au_scopes = []\<rparr>"

definition make_policy :: "string list \<Rightarrow> string list \<Rightarrow> scope_policy" where
  "make_policy allow deny = \<lparr>sp_allow = sorted_set allow, sp_deny = sorted_set deny\<rparr>"

definition MIN_TIMEOUT_SECONDS :: rat where "MIN_TIMEOUT_SECONDS = f64 (1 / 1000)"
definition MAX_TIMEOUT_MILLISECONDS :: int where "MAX_TIMEOUT_MILLISECONDS = 2 ^ 53 - 1"
definition MAX_TIMEOUT_SECONDS :: rat where "MAX_TIMEOUT_SECONDS = f64 (of_int MAX_TIMEOUT_MILLISECONDS / 1000)"

definition timeout_ok :: "rat option \<Rightarrow> bool" where
  "timeout_ok t \<longleftrightarrow> (case t of None \<Rightarrow> True | Some x \<Rightarrow> MIN_TIMEOUT_SECONDS \<le> x \<and> x \<le> MAX_TIMEOUT_SECONDS)"

definition make_startup :: "rat option \<Rightarrow> rat option \<Rightarrow> bool option \<Rightarrow> startup_policy port" where
  "make_startup startup tool required = bind_res (require ValidationFailure (timeout_ok startup \<and> timeout_ok tool))
     (\<lambda>_. Inr \<lparr>su_startup_timeout = startup, su_tool_timeout = tool, su_required = required\<rparr>)"

definition unique_bindings :: "server_intent \<Rightarrow> bool" where
  "unique_bindings s \<longleftrightarrow> distinct (map eb_name (si_environment s))
     \<and> (case si_transport s of Http url headers \<Rightarrow> distinct (map (\<lambda>h. py_lower (hb_name h)) headers) | _ \<Rightarrow> True)"

definition make_intent :: "server_intent \<Rightarrow> server_intent port" where
  "make_intent s = bind_res (require ValidationFailure (unique_bindings s)) (\<lambda>_. Inr s)"

definition make_config :: "(string \<times> server_intent) list \<Rightarrow> neutral_config port" where
  "make_config servers = bind_res (require ValidationFailure (list_all (\<lambda>(name, s). name_re name) servers))
     (\<lambda>_. Inr \<lparr>nc_protocol = MCP_PROTOCOL_VERSION, nc_registry_schema = MCP_REGISTRY_SCHEMA_VERSION, nc_servers = servers\<rparr>)"

section \<open>Reports\<close>

datatype change_state = Preserved | Transformed | Dropped | Unsupported | Defaulted | Widened | StateUnknown

fun change_state_str :: "change_state \<Rightarrow> string" where
  "change_state_str Preserved = ''preserved''"
| "change_state_str Transformed = ''transformed''"
| "change_state_str Dropped = ''dropped''"
| "change_state_str Unsupported = ''unsupported''"
| "change_state_str Defaulted = ''defaulted''"
| "change_state_str Widened = ''widened''"
| "change_state_str StateUnknown = ''UNKNOWN''"

record semantic_change =
  sc_server :: string
  sc_path :: string
  sc_state :: change_state
  sc_explanation :: string

definition change :: "string \<Rightarrow> string \<Rightarrow> change_state \<Rightarrow> string \<Rightarrow> semantic_change" where
  "change server path st explanation =
     \<lparr>sc_server = server, sc_path = path, sc_state = st, sc_explanation = explanation\<rparr>"

record portability_report =
  pr_operation :: string
  pr_host :: string
  pr_format_version :: string
  pr_changes :: "semantic_change list"
  pr_summary :: "change_state \<Rightarrow> nat"

definition change_key :: "semantic_change \<Rightarrow> string \<times> string \<times> string \<times> string" where
  "change_key c = (sc_server c, sc_path c, change_state_str (sc_state c), sc_explanation c)"

definition build_report :: "string \<Rightarrow> string \<Rightarrow> string \<Rightarrow> semantic_change list \<Rightarrow> portability_report" where
  "build_report operation host format_version changes =
     \<lparr>pr_operation = operation, pr_host = host, pr_format_version = format_version,
      pr_changes = sort_key change_key changes,
      pr_summary = (\<lambda>st. length (filter (\<lambda>c. sc_state c = st) (sort_key change_key changes)))\<rparr>"

section \<open>Redaction of host arguments\<close>

definition redacted_placeholder :: "nat \<Rightarrow> string" where
  "redacted_placeholder n = ''${env:REDACTED_SECRET_'' @ decimal n @ ''}''"

definition redaction :: "string \<Rightarrow> semantic_change" where
  "redaction server = change server ''transport.args'' Transformed
     ''A probable secret argument value was replaced by an environment placeholder; the original value was not retained.''"

text \<open>\<open>redact_host_args\<close>, on the texts of the values: the flag of the previous value, and the next placeholder number.\<close>

fun redact_loop :: "string \<Rightarrow> bool \<Rightarrow> nat \<Rightarrow> string list \<Rightarrow> string list \<times> semantic_change list" where
  "redact_loop server previous n [] = ([], [])"
| "redact_loop server previous n (value # values) =
     (let redact = (previous \<or> probable_secret value);
          out = (if redact then redacted_placeholder n else value);
          (outs, changes) = redact_loop server (sensitive_flag out) (if redact then Suc n else n) values
      in (out # outs, (if redact then [redaction server] else []) @ changes))"

definition redact_host_args :: "string list \<Rightarrow> string \<Rightarrow> string list \<times> semantic_change list" where
  "redact_host_args values server = redact_loop server False 1 values"

section \<open>Conversion of host values (\<open>portability/adapters/base.py\<close>)\<close>

definition upper_char :: "char \<Rightarrow> char" where
  "upper_char c = (if is_lower_char c then char_of (of_char c - 32 :: nat) else c)"

definition portable_key :: "string \<Rightarrow> string \<Rightarrow> string" where
  "portable_key value pre =
     (let under = (\<lambda>c. c = CHR ''_'');
          upper = map upper_char (map (\<lambda>c. if ident_char c then c else CHR ''_'') value);
          stripped = rev (dropWhile under (rev (dropWhile under upper)));
          named = (if stripped = [] then pre else stripped);
          led = (if is_digit_char (hd named) then pre @ ''_'' @ named else named)
      in take 128 led)"

text \<open>\<open>^\$\{(?:env:)?([A-Za-z_][A-Za-z0-9_]*)\}$\<close> and \<open>^\$\{input:([^}]+)\}$\<close>: the group, when they match.\<close>

definition env_expansion :: "string \<Rightarrow> string option" where
  "env_expansion s = (case braced s of None \<Rightarrow> None
     | Some b \<Rightarrow> if take 4 b = ''env:'' \<and> env_re (drop 4 b) then Some (drop 4 b)
         else if env_re b then Some b else None)"

definition input_expansion :: "string \<Rightarrow> string option" where
  "input_expansion s = (case braced s of None \<Rightarrow> None
     | Some b \<Rightarrow> if take 6 b = ''input:'' \<and> drop 6 b \<noteq> [] \<and> CHR ''}'' \<notin> set b then Some (drop 6 b) else None)"

text \<open>A reference for a host value, with the change it records; a literal leaves only a placeholder.\<close>

definition source_from_host_value :: "pyval \<Rightarrow> string \<Rightarrow> string \<Rightarrow> string \<Rightarrow> (value_source \<times> semantic_change) port" where
  "source_from_host_value value fallback_key server path =
     (let t = (case value of PStr s \<Rightarrow> s | _ \<Rightarrow> []) in
      case env_expansion t of
        Some key \<Rightarrow> bind_res (make_source Environment key) (\<lambda>src.
          Inr (src, change server path Preserved ''Environment reference preserved.''))
      | None \<Rightarrow> (case input_expansion t of
          Some key \<Rightarrow> bind_res (make_source Prompt (portable_key key ''INPUT'')) (\<lambda>src.
            Inr (src, change server path Transformed ''Host input reference normalized to a prompt placeholder.''))
        | None \<Rightarrow> bind_res (make_source Prompt (portable_key fallback_key ''VALUE'')) (\<lambda>src.
            Inr (src, change server path Transformed
              ''A host literal was replaced by a placeholder; the original value was not retained.''))))"

definition note_unknown_fields :: "string \<Rightarrow> pydict \<Rightarrow> string set \<Rightarrow> string list \<times> semantic_change list" where
  "note_unknown_fields server raw known =
     (let fields = sort (filter (\<lambda>k. k \<notin> known) (map fst raw)) in
      (fields, map (\<lambda>f. change server (''host.'' @ f) StateUnknown
         ''The host field is not represented by the neutral schema; its value was not retained.'') fields))"

section \<open>Facts about redaction\<close>

text \<open>A text without the first letters of the keywords holds no secret pattern.\<close>

definition harmless :: "char \<Rightarrow> bool" where
  "harmless c \<longleftrightarrow> lower_char c \<notin> set ''tspabg''"

lemma starts_ci_Cons [simp]: "starts_ci (k # ks) (c # cs) \<longleftrightarrow> lower_char c = k \<and> starts_ci ks cs" "starts_ci [] s" "\<not> starts_ci (k # ks) []"
  by (auto simp: starts_ci_def)

lemma harmless_no_match:
  assumes "s = [] \<or> harmless (hd s)"
  shows "\<not> assignment_at prev s" "\<not> obvious_at prev s"
  using assms by (cases s; simp add: assignment_at_def obvious_at_def SENSITIVE_KEYWORDS_def harmless_def)+

lemma harmless_no_search:
  assumes "list_all harmless s"
  shows "\<not> search assignment_at prev s" "\<not> search obvious_at prev s"
  using assms
proof (induction s arbitrary: prev)
  case Nil
  { case 1 show ?case using harmless_no_match [of "[]"] by simp }
  { case 2 show ?case using harmless_no_match [of "[]"] by simp }
next
  case (Cons c s)
  { case 1 then show ?case using Cons.IH harmless_no_match [of "c # s"] by simp }
  { case 2 then show ?case using Cons.IH harmless_no_match [of "c # s"] by simp }
qed

lemma digits_harmless: "list_all harmless (decimal n @ ''}'')"
proof -
  have "list_all harmless ''0123456789''" "harmless CHR ''}''" by code_simp+
  then show ?thesis using decimal_digits [of n] unfolding list_all_iff by auto
qed

lemma placeholder_chars: "map lower_char ''${env:RDACTS_'' = ''${env:rdacts_''" "list_all (\<lambda>c. \<not> is_space_char c) ''${env:RDACTS_''"
  by code_simp+

lemma placeholder_safe: "\<not> probable_secret (redacted_placeholder n)"
proof -
  note tail = harmless_no_search [OF digits_harmless [of n]]
  have "\<not> sensitive_assignment (redacted_placeholder n)"
    using tail(1) by (simp add: sensitive_assignment_def redacted_placeholder_def assignment_at_def SENSITIVE_KEYWORDS_def
        placeholder_chars [simplified])
  moreover have "\<not> obvious_secret (redacted_placeholder n)"
    using tail(2) by (simp add: obvious_secret_def redacted_placeholder_def obvious_at_def placeholder_chars [simplified])
  ultimately show ?thesis by (simp add: probable_secret_def)
qed

lemma placeholder_shape: "placeholder_re (redacted_placeholder n)" "single_line (redacted_placeholder n)"
  "\<not> sensitive_flag (redacted_placeholder n)"
proof -
  have d: "\<forall>c\<in>set (decimal n). ident_char c \<and> c \<notin> {CHR 0x00, CHR 0x0D, CHR 0x0A}"
  proof -
    have "\<forall>c\<in>set ''0123456789''. ident_char c \<and> c \<notin> {CHR 0x00, CHR 0x0D, CHR 0x0A}" by code_simp
    then show ?thesis using decimal_digits [of n] by blast
  qed
  have "list_all ident_char ''REDACTED_SECRET_''" "\<not> is_digit_char CHR ''R''" by code_simp+
  then have "env_re (''REDACTED_SECRET_'' @ decimal n)" using d by (simp add: env_re_def list_all_iff)
  moreover have "braced (redacted_placeholder n) = Some (''env:REDACTED_SECRET_'' @ decimal n)"
    by (simp add: braced_def redacted_placeholder_def butlast_append)
  ultimately show "placeholder_re (redacted_placeholder n)" by (simp add: placeholder_re_def)
  show "single_line (redacted_placeholder n)" using d by (auto simp: single_line_def redacted_placeholder_def list_all_iff)
  show "\<not> sensitive_flag (redacted_placeholder n)"
    using placeholder_chars(1) by (simp add: sensitive_flag_def redacted_placeholder_def)
qed

lemma redact_loop_ok:
  assumes "list_all single_line vals"
  shows "arguments_ok (Some p) (fst (redact_loop server (sensitive_flag p) n vals))"
  using assms
proof (induction vals arbitrary: p n)
  case (Cons v vs)
  then show ?case
    by (auto simp: Let_def case_prod_unfold placeholder_shape placeholder_safe)
qed simp

lemma redact_loop_length: "length (fst (redact_loop server b n vals)) = length vals"
  by (induction vals arbitrary: b n) (simp_all add: Let_def case_prod_unfold)

text \<open>Two argument lists that agree wherever the redaction keeps a value.\<close>

fun same_arguments :: "bool \<Rightarrow> string list \<Rightarrow> string list \<Rightarrow> bool" where
  "same_arguments previous [] [] = True"
| "same_arguments previous (v # vs) (w # ws) =
     (if previous \<or> probable_secret v then (previous \<or> probable_secret w) \<and> same_arguments False vs ws
      else v = w \<and> same_arguments (sensitive_flag v) vs ws)"
| "same_arguments previous _ _ = False"

lemma redact_loop_same: "same_arguments b vs ws \<Longrightarrow> redact_loop server b n vs = redact_loop server b n ws"
proof (induction b vs ws arbitrary: n rule: same_arguments.induct)
  case (2 previous v vs w ws)
  then show ?case
  proof (cases "previous \<or> probable_secret v")
    case True
    then have "previous \<or> probable_secret w" "same_arguments False vs ws" using "2.prems" by auto
    then show ?thesis using True "2.IH"(1) [OF True] by (simp add: placeholder_shape Let_def)
  next
    case False
    then show ?thesis using "2.prems" "2.IH"(2) [OF False] by (auto simp: Let_def)
  qed
qed auto

lemma same_arguments_refl [simp]: "same_arguments b vs vs"
  by (induction vs arbitrary: b) auto

end
