(* ===== verification/Portability_Hosts.thy ===== *)
theory Portability_Hosts
  imports Portability_Models
begin

text \<open>
  The adapters for Claude Code, Claude Desktop and VS Code (\<open>portability/adapters/json_hosts.py\<close>): rendering a
  neutral intent to a host document, and inspecting a host document into an intent. The JSON printer and scanner,
  \<open>str\<close> of a value that is no string, and the check of a bracketed host are parameters.
\<close>

section \<open>Profiles\<close>

datatype json_host = ClaudeCode | ClaudeDesktop | VSCode

record host_profile =
  hp_host :: string
  hp_format_version :: string
  hp_docs_url :: string
  hp_server_key :: string
  hp_remote :: bool
  hp_cwd :: bool
  hp_tool_timeout :: bool
  hp_vscode_style :: bool

fun profile :: "json_host \<Rightarrow> host_profile" where
  "profile ClaudeCode = \<lparr>hp_host = ''claude-code'',
     hp_format_version = ''.mcp.json current format (Claude Code docs through v2.1.221; as of 2026-08-11)'',
     hp_docs_url = ''https://code.claude.com/docs/en/mcp'', hp_server_key = ''mcpServers'',
     hp_remote = True, hp_cwd = False, hp_tool_timeout = True, hp_vscode_style = False\<rparr>"
| "profile ClaudeDesktop = \<lparr>hp_host = ''claude-desktop'',
     hp_format_version = ''claude_desktop_config.json local developer format (no published version; as of 2026-08-11)'',
     hp_docs_url = ''https://modelcontextprotocol.io/docs/2026-07-28/develop/connect-local-servers'',
     hp_server_key = ''mcpServers'', hp_remote = False, hp_cwd = False, hp_tool_timeout = False, hp_vscode_style = False\<rparr>"
| "profile VSCode = \<lparr>hp_host = ''vscode'',
     hp_format_version = ''mcp.json current format (no published version; VS Code docs as of 2026-08-11)'',
     hp_docs_url = ''https://code.visualstudio.com/docs/agents/reference/mcp-configuration'', hp_server_key = ''servers'',
     hp_remote = True, hp_cwd = True, hp_tool_timeout = False, hp_vscode_style = True\<rparr>"

fun source_host_of :: "json_host \<Rightarrow> source_host" where
  "source_host_of ClaudeCode = HostClaudeCode"
| "source_host_of ClaudeDesktop = HostClaudeDesktop"
| "source_host_of VSCode = HostVSCode"

section \<open>Rendering\<close>

text \<open>A value source becomes a reference; a VS Code prompt also declares an input, the last one of an id winning.\<close>

type_synonym inputs = "(string \<times> pydict) list"

definition input_id :: "string \<Rightarrow> string" where
  "input_id key = map (\<lambda>c. if c = CHR ''_'' then CHR ''-'' else c) (py_lower key)"

definition render_value_source :: "json_host \<Rightarrow> value_source \<Rightarrow> string \<Rightarrow> string \<Rightarrow> inputs \<Rightarrow> string \<times> inputs \<times> semantic_change" where
  "render_value_source h src server path inputs =
     (let key = vs_key src in
      if hp_vscode_style (profile h) then
        (if vs_kind src = Environment
         then (''${env:'' @ key @ ''}'', inputs, change server path Preserved ''Environment reference preserved.'')
         else (''${input:'' @ input_id key @ ''}'',
           dict_set (input_id key) [(''type'', PStr ''promptString''), (''id'', PStr (input_id key)),
             (''description'', PStr (''Value for '' @ key)), (''password'', PBool (vs_secret src))] inputs,
           change server path Preserved ''Prompt placeholder rendered as a VS Code input variable.''))
      else (''${'' @ key @ ''}'', inputs,
        if vs_kind src = Environment then change server path Preserved ''Environment reference preserved.''
        else if h = ClaudeCode then change server path Transformed
          ''Claude Code has no per-field prompt declaration; prompt source transformed to an environment reference.''
        else change server path StateUnknown
          ''Claude Desktop variable expansion is not established by current official developer-config documentation; a non-secret placeholder spelling was emitted.''))"

text \<open>Bindings in order: name, path and source of each; the rendered dict, the inputs and the changes.\<close>

fun render_bindings :: "json_host \<Rightarrow> string \<Rightarrow> (string \<times> string \<times> value_source) list \<Rightarrow> pydict \<Rightarrow> inputs \<Rightarrow>
    pydict \<times> inputs \<times> semantic_change list" where
  "render_bindings h server [] rendered inputs = (rendered, inputs, [])"
| "render_bindings h server ((name, path, src) # rest) rendered inputs =
     (let (t, inputs', c) = render_value_source h src server path inputs;
          (out, inputs'', cs) = render_bindings h server rest (dict_set name (PStr t) rendered) inputs'
      in (out, inputs'', c # cs))"

definition is_http :: "transport \<Rightarrow> bool" where
  "is_http t \<longleftrightarrow> (case t of Http _ _ \<Rightarrow> True | _ \<Rightarrow> False)"

text \<open>The transport part of a server, or \<open>None\<close> when the host has no remote servers.\<close>

definition render_transport :: "json_host \<Rightarrow> string \<Rightarrow> server_intent \<Rightarrow> inputs \<Rightarrow>
    pydict option \<times> inputs \<times> semantic_change list" where
  "render_transport h name server inputs = (case si_transport server of
     Stdio command args cwd \<Rightarrow>
       (let (env, inputs', cs) = render_bindings h name
              (map (\<lambda>b. (eb_name b, ''environment.'' @ eb_name b, eb_value b)) (sort_key eb_name (si_environment server))) [] inputs
        in (Some ([(''type'', PStr ''stdio''), (''command'', PStr command), (''args'', PList (map PStr args))]
              @ (case cwd of Some w \<Rightarrow> if hp_cwd (profile h) then [(''cwd'', PStr w)] else [] | None \<Rightarrow> [])
              @ (if si_environment server \<noteq> [] then [(''env'', PDict env)] else [])),
            inputs',
            [change name ''transport'' Preserved ''stdio transport preserved.'']
              @ (case cwd of None \<Rightarrow> []
                 | Some w \<Rightarrow> [if hp_cwd (profile h)
                     then change name ''transport.cwd'' Preserved ''Working directory preserved.''
                     else change name ''transport.cwd'' Unsupported
                       ''This host format has no documented per-server working-directory field.''])
              @ cs))
   | Http url headers \<Rightarrow>
       if \<not> hp_remote (profile h) then (None, inputs, [change name ''transport'' Unsupported
         ''Claude Desktop developer JSON supports local stdio servers; remote servers must be added through Connectors, so this server was omitted.''])
       else (let (hs, inputs', cs) = render_bindings h name
              (map (\<lambda>b. (hb_name b, ''transport.headers.'' @ hb_name b, hb_value b))
                (sort_key (\<lambda>b. py_lower (hb_name b)) headers)) [] inputs;
            (hs', inputs'', cs') = (case (au_kind (si_auth server), au_token (si_auth server)) of
                (Bearer, Some token) \<Rightarrow> (let (t, i, c) = render_value_source h token name ''auth.token'' inputs' in
                   (dict_set ''Authorization'' (PStr (''Bearer '' @ t)) hs, i, [c, change name ''auth'' Preserved
                     ''Bearer authentication rendered as a placeholder-backed Authorization header.'']))
              | _ \<Rightarrow> (hs, inputs', []))
        in (Some ([(''type'', PStr ''http''), (''url'', PStr url)] @ (if hs' \<noteq> [] then [(''headers'', PDict hs')] else [])),
            inputs'',
            [change name ''transport'' Transformed ''Neutral streamable-http rendered with this host's documented type=http spelling.'']
              @ cs @ cs')))"

text \<open>\<open>sep.join(xs)\<close>.\<close>

fun py_join :: "string \<Rightarrow> string list \<Rightarrow> string" where
  "py_join sep [] = []"
| "py_join sep [x] = x"
| "py_join sep (x # y # xs) = x @ sep @ py_join sep (y # xs)"

definition render_auth :: "json_host \<Rightarrow> string \<Rightarrow> server_intent \<Rightarrow> pydict \<times> semantic_change list" where
  "render_auth h name server =
     (let auth = si_auth server; http = is_http (si_transport server) in case au_kind auth of
        Bearer \<Rightarrow> ([], if http then [] else [change name ''auth'' Unsupported
          ''Bearer authentication is not a documented stdio server setting for this host; the requirement was not emitted.''])
      | Oauth \<Rightarrow>
          if h = ClaudeCode \<and> http then
            (if au_scopes auth \<noteq> []
             then [(''oauth'', PDict [(''scopes'', PStr (py_join '' '' (sort (au_scopes auth))))])] else [],
             [change name ''auth'' Preserved ''OAuth requirement and pinned scopes preserved.''])
          else if h = VSCode \<and> http then ([], [change name ''auth'' Defaulted
            ''VS Code OAuth discovery is host-managed; no client ID was invented.''])
          else ([], [change name ''auth'' Unsupported ''OAuth is not documented for this host/transport document.''])
      | AuthUnknown \<Rightarrow> ([], [change name ''auth'' StateUnknown ''Authentication requirement has no proven host representation.''])
      | _ \<Rightarrow> ([], []))"

definition has_policy :: "scope_policy \<Rightarrow> bool" where
  "has_policy p \<longleftrightarrow> sp_allow p \<noteq> [] \<or> sp_deny p \<noteq> []"

definition render_policies :: "string \<Rightarrow> server_intent \<Rightarrow> semantic_change list" where
  "render_policies name server =
     (if has_policy (si_tools server) then [change name ''tools'' Widened
       ''This server document cannot encode the neutral tool allow/deny policy; exposed tool scope may be broader.''] else [])
   @ (if has_policy (si_resources server) then [change name ''resources'' Widened
       ''This server document cannot encode the neutral resource allow/deny policy; exposed resource scope may be broader.''] else [])"

definition timeout_milliseconds :: "rat \<Rightarrow> int" where
  "timeout_milliseconds t = max 1 (rint (f64 (t * 1000)))"

definition render_startup :: "json_host \<Rightarrow> string \<Rightarrow> server_intent \<Rightarrow> pydict \<times> semantic_change list" where
  "render_startup h name server =
     (let su = si_startup server in
      (case su_tool_timeout su of
         Some t \<Rightarrow> if hp_tool_timeout (profile h) then [(''timeout'', PInt (timeout_milliseconds t))] else []
       | None \<Rightarrow> [],
       (case su_tool_timeout su of None \<Rightarrow> []
        | Some t \<Rightarrow> [if hp_tool_timeout (profile h)
            then change name ''startup.tool_timeout_seconds'' Transformed
              ''Tool timeout converted from seconds to host milliseconds.''
            else change name ''startup.tool_timeout_seconds'' Unsupported
              ''This host format has no documented per-server tool timeout.''])
       @ (if su_startup_timeout su \<noteq> None then [change name ''startup.startup_timeout_seconds'' Unsupported
            ''This host format has no documented per-server startup timeout.''] else [])
       @ (if su_required su \<noteq> None then [change name ''startup.required'' Unsupported
            ''This host format has no documented required-startup flag.''] else [])))"

definition render_unknown :: "string \<Rightarrow> server_intent \<Rightarrow> semantic_change list" where
  "render_unknown name server = map (\<lambda>field. change name (''unknown_semantics.'' @ field) Dropped
     ''Named unknown host semantic cannot be emitted because its source value was intentionally discarded.'') (si_unknown server)"

text \<open>The loop body: nothing for a disabled server or one the host cannot hold.\<close>

definition render_server :: "json_host \<Rightarrow> string \<Rightarrow> server_intent \<Rightarrow> inputs \<Rightarrow> pydict option \<times> inputs \<times> semantic_change list" where
  "render_server h name server inputs =
     (if \<not> si_enabled server then (None, inputs, [change name ''enabled'' Dropped
        ''This host stores enablement outside the rendered server document; the disabled server was omitted to avoid accidental activation.''])
      else case render_transport h name server inputs of
        (None, inputs', cs) \<Rightarrow> (None, inputs', cs)
      | (Some raw, inputs', cs) \<Rightarrow>
          (Some (raw @ fst (render_auth h name server) @ fst (render_startup h name server)), inputs',
           cs @ snd (render_auth h name server) @ render_policies name server @ snd (render_startup h name server)
             @ render_unknown name server))"

fun render_servers :: "json_host \<Rightarrow> (string \<times> server_intent) list \<Rightarrow> inputs \<Rightarrow> pydict \<times> inputs \<times> semantic_change list" where
  "render_servers h [] inputs = ([], inputs, [])"
| "render_servers h ((name, server) # rest) inputs =
     (let (raw, inputs', cs) = render_server h name server inputs;
          (out, inputs'', cs') = render_servers h rest inputs'
      in ((case raw of None \<Rightarrow> out | Some r \<Rightarrow> (name, PDict r) # out), inputs'', cs @ cs'))"

definition render_root :: "json_host \<Rightarrow> neutral_config \<Rightarrow> pydict \<times> semantic_change list" where
  "render_root h intent =
     (let (servers, inputs, cs) = render_servers h (sort_key fst (nc_servers intent)) [] in
      ([(hp_server_key (profile h), PDict servers)]
        @ (if h = VSCode \<and> inputs \<noteq> []
           then [(''inputs'', PList (map (\<lambda>k. PDict (the (map_of inputs k))) (sort (map fst inputs))))] else []), cs))"

record render_result =
  rr_document :: string
  rr_report :: portability_report

definition render :: "platform \<Rightarrow> json_host \<Rightarrow> neutral_config \<Rightarrow> render_result" where
  "render pf h intent = (let (root_value, cs) = render_root h intent in
     \<lparr>rr_document = json_indented pf (PDict root_value) @ [CHR 0x0A],
      rr_report = build_report ''render'' (hp_host (profile h)) (hp_format_version (profile h)) cs\<rparr>)"

section \<open>Reading a host document\<close>

text \<open>\<open>json.loads\<close> with \<open>_reject_duplicate_pairs\<close>. The scanner's refusal is the \<open>JSONDecodeError\<close> that becomes an
  input error; an integer literal of more than 4300 digits raises a plain \<open>ValueError\<close>.\<close>

definition json_constant :: "string \<Rightarrow> pyfloat" where
  "json_constant s = (if s = ''NaN'' then NaN else Inf (s = ''-Infinity''))"

fun host_build :: "platform \<Rightarrow> jraw \<Rightarrow> pyval port"
  and host_build_all :: "platform \<Rightarrow> jraw list \<Rightarrow> pyval list port"
  and host_build_pairs :: "platform \<Rightarrow> (string \<times> jraw) list \<Rightarrow> pydict port" where
  "host_build pf RNull = Inr PNone"
| "host_build pf (RBool b) = Inr (PBool b)"
| "host_build pf (RInt s) = (case int_of_literal s of Inl e \<Rightarrow> Inl (PortRaised e) | Inr n \<Rightarrow> Inr (PInt n))"
| "host_build pf (RFloat s) = Inr (PFloat (float_literal pf s))"
| "host_build pf (RConst s) = Inr (PFloat (json_constant s))"
| "host_build pf (RStr s) = Inr (PStr s)"
| "host_build pf (RArr xs) = bind_res (host_build_all pf xs) (\<lambda>vs. Inr (PList vs))"
| "host_build pf (RObj ps) = bind_res (host_build_pairs pf ps) (\<lambda>d.
     bind_res (require InputError (distinct (map fst d))) (\<lambda>_. Inr (PDict d)))"
| "host_build_all pf [] = Inr []"
| "host_build_all pf (x # xs) = bind_res (host_build pf x) (\<lambda>v. bind_res (host_build_all pf xs) (\<lambda>vs. Inr (v # vs)))"
| "host_build_pairs pf [] = Inr []"
| "host_build_pairs pf ((k, x) # ps) = bind_res (host_build pf x) (\<lambda>v.
     bind_res (host_build_pairs pf ps) (\<lambda>d. Inr ((k, v) # d)))"

definition load_json :: "platform \<Rightarrow> string \<Rightarrow> pydict port" where
  "load_json pf document = (case json_scan pf document of None \<Rightarrow> Inl InputError
     | Some raw \<Rightarrow> bind_res (host_build pf raw) (\<lambda>v. case v of PDict d \<Rightarrow> Inr d | _ \<Rightarrow> Inl InputError))"

text \<open>\<open>list(v or [])\<close>, \<open>v or {}\<close> that must be a dict, and \<open>str(v)\<close>.\<close>

definition list_or_empty :: "pyval \<Rightarrow> pyval list port" where
  "list_or_empty v = (if \<not> py_truthy v then Inr [] else case v of
     PList xs \<Rightarrow> Inr xs | PStr s \<Rightarrow> Inr (map (\<lambda>c. PStr [c]) s) | PDict d \<Rightarrow> Inr (map (\<lambda>(k, _). PStr k) d)
   | _ \<Rightarrow> Inl (PortRaised TypeError))"

definition dict_or_empty :: "pyval \<Rightarrow> pydict port" where
  "dict_or_empty v = (if \<not> py_truthy v then Inr [] else case v of PDict d \<Rightarrow> Inr d | _ \<Rightarrow> Inl InputError)"

definition str_text :: "(pyval \<Rightarrow> string) \<Rightarrow> pyval \<Rightarrow> string" where
  "str_text txt v = (case v of PStr s \<Rightarrow> s | _ \<Rightarrow> txt v)"

text \<open>\<open>^Bearer\s+\$\{(?:env:)?([A-Za-z_][A-Za-z0-9_]*)\}$\<close>, ignoring case: its group.\<close>

definition bearer_env :: "string \<Rightarrow> string option" where
  "bearer_env s = (let r = drop 6 s in
     if \<not> starts_ci ''bearer'' s \<or> r = [] \<or> \<not> is_space_char (hd r) then None
     else case braced (dropWhile is_space_char r) of None \<Rightarrow> None
       | Some b \<Rightarrow> if starts_ci ''env:'' b \<and> env_re (drop 4 b) then Some (drop 4 b)
           else if env_re b then Some b else None)"

section \<open>Inspecting\<close>

type_synonym text_of_value = "pyval \<Rightarrow> string"

definition inspect_cwd :: "json_host \<Rightarrow> pydict \<Rightarrow> string option port" where
  "inspect_cwd h raw = (if \<not> hp_cwd (profile h) then Inr None
     else case dget raw ''cwd'' of PNone \<Rightarrow> Inr None | PStr w \<Rightarrow> Inr (Some w) | _ \<Rightarrow> Inl ValidationFailure)"

definition inspect_stdio :: "text_of_value \<Rightarrow> json_host \<Rightarrow> string \<Rightarrow> pydict \<Rightarrow> (transport \<times> semantic_change list) port" where
  "inspect_stdio txt h name raw = (case dget raw ''command'' of
     PStr command \<Rightarrow>
       bind_res (list_or_empty (dget raw ''args'')) (\<lambda>vs.
       let (args, redactions) = redact_host_args (map (str_text txt) vs) name in
       bind_res (inspect_cwd h raw) (\<lambda>cwd.
       bind_res (make_stdio command args cwd) (\<lambda>t.
         Inr (t, redactions @ [change name ''transport'' Preserved ''stdio transport inspected.'']))))
   | _ \<Rightarrow> Inl InputError)"

text \<open>The loop over the headers: a bearer reference becomes the authentication, any other value a placeholder.\<close>

fun inspect_headers :: "string \<Rightarrow> (string \<times> pyval) list \<Rightarrow> auth_requirement \<Rightarrow>
    (header_binding list \<times> auth_requirement \<times> semantic_change list) port" where
  "inspect_headers name [] auth = Inr ([], auth, [])"
| "inspect_headers name ((header_name, host_value) # rest) auth =
     (case (if py_lower header_name = ''authorization'' then (case host_value of PStr s \<Rightarrow> bearer_env s | _ \<Rightarrow> None) else None) of
        Some key \<Rightarrow>
          bind_res (make_source Environment key) (\<lambda>src.
          bind_res (make_auth Bearer True (Some src) []) (\<lambda>auth'.
          bind_res (inspect_headers name rest auth') (\<lambda>(hs, auth'', cs).
            Inr (hs, auth'', change name ''auth'' Preserved ''Bearer environment reference inspected without reading a token.'' # cs))))
      | None \<Rightarrow>
          bind_res (source_from_host_value host_value (''HEADER_'' @ header_name) name (''transport.headers.'' @ header_name)) (\<lambda>(src, c).
          bind_res (make_header header_name src) (\<lambda>binding.
          bind_res (inspect_headers name rest auth) (\<lambda>(hs, auth', cs). Inr (binding # hs, auth', c # cs)))))"

definition inspect_http :: "(string \<Rightarrow> bool) \<Rightarrow> json_host \<Rightarrow> string \<Rightarrow> pydict \<Rightarrow> string \<Rightarrow>
    (transport \<times> auth_requirement \<times> semantic_change list) port" where
  "inspect_http bracket_ok h name raw server_type = (case dget raw ''url'' of
     PStr url \<Rightarrow>
       bind_res (dict_or_empty (dget raw ''headers'')) (\<lambda>raw_headers.
       bind_res (inspect_headers name (sort_key fst raw_headers) no_auth) (\<lambda>(headers, auth, cs).
       bind_res (make_http bracket_ok url headers) (\<lambda>t.
         Inr (t, auth, cs
           @ [if server_type = ''sse'' then change name ''transport.kind'' Transformed
                ''Deprecated SSE normalized to neutral remote URL semantics; transport behavior will not round-trip exactly.''
              else change name ''transport'' Transformed ''Host HTTP spelling normalized to streamable-http.'']
           @ (if hp_remote (profile h) then [] else [change name ''transport'' Unsupported
                ''Remote entries are not supported by Claude Desktop developer JSON.''])))))
   | _ \<Rightarrow> Inl InputError)"

text \<open>Missing types default to stdio, but not next to a url; a type that cannot be hashed raises \<open>TypeError\<close>.\<close>

definition inspect_transport :: "text_of_value \<Rightarrow> (string \<Rightarrow> bool) \<Rightarrow> json_host \<Rightarrow> string \<Rightarrow> pydict \<Rightarrow>
    (transport \<times> auth_requirement \<times> semantic_change list) port" where
  "inspect_transport txt bracket_ok h name raw = (case dget raw ''type'' of
     PNone \<Rightarrow> if has_key raw ''url'' then Inl InputError
       else bind_res (inspect_stdio txt h name raw) (\<lambda>(t, cs). Inr (t, no_auth,
         change name ''transport.kind'' Defaulted ''Missing type defaulted to stdio.'' # cs))
   | PStr server_type \<Rightarrow>
       if server_type = ''stdio'' then bind_res (inspect_stdio txt h name raw) (\<lambda>(t, cs). Inr (t, no_auth, cs))
       else if server_type \<in> {''http'', ''streamable-http'', ''sse''} then inspect_http bracket_ok h name raw server_type
       else Inl InputError
   | v \<Rightarrow> if hashable v then Inl InputError else Inl (PortRaised TypeError))"

fun inspect_environment :: "string \<Rightarrow> (string \<times> pyval) list \<Rightarrow> (environment_binding list \<times> semantic_change list) port" where
  "inspect_environment name [] = Inr ([], [])"
| "inspect_environment name ((env_name, host_value) # rest) =
     bind_res (source_from_host_value host_value env_name name (''environment.'' @ env_name)) (\<lambda>(src, c).
     bind_res (make_environment env_name src) (\<lambda>binding.
     bind_res (inspect_environment name rest) (\<lambda>(bs, cs). Inr (binding # bs, c # cs))))"

definition inspect_oauth :: "text_of_value \<Rightarrow> string \<Rightarrow> pydict \<Rightarrow> auth_requirement \<Rightarrow> (auth_requirement \<times> semantic_change list) port" where
  "inspect_oauth txt name raw auth = (case dget raw ''oauth'' of
     PDict oauth \<Rightarrow>
       (let scopes_value = dget oauth ''scopes'';
            scopes = (case scopes_value of PStr s \<Rightarrow> py_words s | PList xs \<Rightarrow> map (str_text txt) xs | _ \<Rightarrow> []) in
        bind_res (make_auth Oauth True None (sort scopes)) (\<lambda>auth'.
          Inr (auth', [change name ''auth'' Preserved
            ''OAuth requirement inspected; credential values are outside this schema.''])))
   | _ \<Rightarrow> Inr (auth, []))"

text \<open>\<open>float(timeout) / 1000\<close> of a number, a bool included; an infinity or a NaN fails validation.\<close>

definition inspect_timeout :: "pyval \<Rightarrow> rat option port" where
  "inspect_timeout v = (case v of
     PInt n \<Rightarrow> (case float_of_int n of Inl e \<Rightarrow> Inl (PortRaised e) | Inr x \<Rightarrow> Inr (Some (f64 (x / 1000))))
   | PBool b \<Rightarrow> Inr (Some (f64 ((if b then 1 else 0) / 1000)))
   | PFloat (Fin x) \<Rightarrow> Inr (Some (f64 (x / 1000)))
   | PFloat _ \<Rightarrow> Inl ValidationFailure
   | _ \<Rightarrow> Inr None)"

definition known_fields :: "json_host \<Rightarrow> string set" where
  "known_fields h = {''type'', ''command'', ''args'', ''env'', ''url'', ''headers'', ''oauth''}
     \<union> (if hp_cwd (profile h) then {''cwd''} else {}) \<union> (if hp_tool_timeout (profile h) then {''timeout''} else {})"

definition inspect_server :: "text_of_value \<Rightarrow> (string \<Rightarrow> bool) \<Rightarrow> json_host \<Rightarrow> string \<Rightarrow> pyval \<Rightarrow>
    (server_intent \<times> semantic_change list) port" where
  "inspect_server txt bracket_ok h name raw_value = (case raw_value of
     PDict raw \<Rightarrow>
       bind_res (inspect_transport txt bracket_ok h name raw) (\<lambda>(transport, header_auth, transport_changes).
       bind_res (dict_or_empty (dget raw ''env'')) (\<lambda>raw_env.
       bind_res (inspect_environment name (sort_key fst raw_env)) (\<lambda>(environment, env_changes).
       bind_res (inspect_oauth txt name raw header_auth) (\<lambda>(auth, auth_changes).
       let timeout = (if hp_tool_timeout (profile h) then dget raw ''timeout'' else PNone) in
       bind_res (inspect_timeout timeout) (\<lambda>tool_timeout.
       bind_res (make_startup None tool_timeout None) (\<lambda>startup.
       let (unknown, unknown_changes) = note_unknown_fields name raw (known_fields h) in
       bind_res (make_intent \<lparr>si_transport = transport, si_environment = environment, si_auth = auth, si_enabled = True,
           si_tools = make_policy [] [], si_resources = make_policy [] [], si_startup = startup,
           si_provenance = \<lparr>pv_host = source_host_of h, pv_format = hp_format_version (profile h),
             pv_as_of = ''2026-08-11'', pv_documentation_url = Some (hp_docs_url (profile h))\<rparr>,
           si_unknown = unknown\<rparr>) (\<lambda>intent.
         Inr (intent, transport_changes @ env_changes @ auth_changes
           @ (if timeout = PNone then [] else [change name ''startup.tool_timeout_seconds'' Transformed
                ''Host milliseconds normalized to seconds.''])
           @ [change name ''enabled'' Defaulted
                ''Enablement is stored outside this host document; enabled=true assumed for a present server.'']
           @ unknown_changes))))))))
   | _ \<Rightarrow> Inl InputError)"

fun inspect_servers :: "text_of_value \<Rightarrow> (string \<Rightarrow> bool) \<Rightarrow> json_host \<Rightarrow> (string \<times> pyval) list \<Rightarrow>
    ((string \<times> server_intent) list \<times> semantic_change list) port" where
  "inspect_servers txt bracket_ok h [] = Inr ([], [])"
| "inspect_servers txt bracket_ok h ((name, raw_value) # rest) =
     bind_res (inspect_server txt bracket_ok h name raw_value) (\<lambda>(s, cs).
     bind_res (inspect_servers txt bracket_ok h rest) (\<lambda>(ss, cs'). Inr ((name, s) # ss, cs @ cs')))"

record inspect_result =
  ir_intent :: neutral_config
  ir_report :: portability_report

text \<open>The changes about the top level of the document.\<close>

definition top_level_changes :: "json_host \<Rightarrow> pydict \<Rightarrow> semantic_change list" where
  "top_level_changes h document =
     (if h = VSCode \<and> has_key document ''sandbox'' then [change ''*'' ''sandbox'' StateUnknown
        ''VS Code sandbox policy is outside the neutral connection-intent schema; its value was not retained.''] else [])
   @ map (\<lambda>key. change ''*'' (''host.'' @ key) StateUnknown ''Unknown top-level host field was not retained.'')
       (sort (filter (\<lambda>k. k \<noteq> hp_server_key (profile h) \<and> (h = VSCode \<longrightarrow> k \<noteq> ''inputs'' \<and> k \<noteq> ''sandbox'')) (map fst document)))"

definition inspect_root :: "text_of_value \<Rightarrow> (string \<Rightarrow> bool) \<Rightarrow> json_host \<Rightarrow> pydict \<Rightarrow> inspect_result port" where
  "inspect_root txt bracket_ok h document = (case dget document (hp_server_key (profile h)) of
     PDict raw_servers \<Rightarrow>
       bind_res (inspect_servers txt bracket_ok h (sort_key fst raw_servers)) (\<lambda>(servers, cs).
       bind_res (make_config servers) (\<lambda>intent.
         Inr \<lparr>ir_intent = intent, ir_report = build_report ''inspect'' (hp_host (profile h)) (hp_format_version (profile h))
           (top_level_changes h document @ cs)\<rparr>))
   | _ \<Rightarrow> Inl InputError)"

definition inspect :: "platform \<Rightarrow> text_of_value \<Rightarrow> (string \<Rightarrow> bool) \<Rightarrow> json_host \<Rightarrow> string \<Rightarrow> inspect_result port" where
  "inspect pf txt bracket_ok h document = bind_res (load_json pf document) (inspect_root txt bracket_ok h)"

end
