(* ===== verification/Portability_Codex.thy ===== *)
theory Portability_Codex
  imports Portability_Hosts
begin

text \<open>
  The Codex adapter (\<open>portability/adapters/codex.py\<close>): \<open>config.toml\<close> lines from an intent, and an intent from
  the table \<open>tomllib\<close> reads. The TOML parser (a table, \<open>InputError\<close> for its decode error, or any other exception),
  the printing of a float with \<open>:g\<close>, the JSON quoting of a string and pydantic's reading of numbers and booleans are
  parameters.
\<close>

section \<open>Parameters\<close>

record codex_env =
  cx_toml :: "string \<Rightarrow> pydict port"
  cx_quote :: "string \<Rightarrow> string"
  cx_general :: "rat \<Rightarrow> string"
  cx_float :: "pyval \<Rightarrow> rat option port"
  cx_bool :: "pyval \<Rightarrow> bool option port"
  cx_str :: "pyval \<Rightarrow> string"

definition CODEX_FORMAT :: string where
  "CODEX_FORMAT = ''config.toml current format (no published format version; docs as of 2026-08-11)''"

definition CODEX_DOC_URL :: string where
  "CODEX_DOC_URL = ''https://learn.chatgpt.com/docs/extend/mcp?surface=cli''"

definition CODEX_KNOWN :: "string list" where
  "CODEX_KNOWN = [''args'', ''auth'', ''bearer_token_env_var'', ''command'', ''cwd'', ''default_tools_approval_mode'',
     ''disabled_tools'', ''enabled'', ''enabled_tools'', ''env'', ''env_http_headers'', ''env_vars'',
     ''experimental_environment'', ''http_headers'', ''oauth_resource'', ''required'', ''scopes'', ''startup_timeout_ms'',
     ''startup_timeout_sec'', ''tool_timeout_sec'', ''tools'', ''url'']"

section \<open>Rendering\<close>

definition toml_array :: "codex_env \<Rightarrow> string list \<Rightarrow> string" where
  "toml_array cx vs = ''['' @ py_join '', '' (map (cx_quote cx) vs) @ '']''"

definition toml_map :: "codex_env \<Rightarrow> (string \<times> string) list \<Rightarrow> string" where
  "toml_map cx d = ''{ '' @ py_join '', '' (map (\<lambda>(k, v). cx_quote cx k @ '' = '' @ cx_quote cx v) (sort_key fst d)) @ '' }''"

definition toml_bool :: "bool \<Rightarrow> string" where
  "toml_bool b = (if b then ''true'' else ''false'')"

definition codex_transport :: "codex_env \<Rightarrow> string \<Rightarrow> server_intent \<Rightarrow> string list \<times> semantic_change list" where
  "codex_transport cx name server = (case si_transport server of
     Stdio command args cwd \<Rightarrow>
       ([''command = '' @ cx_quote cx command, ''args = '' @ toml_array cx args]
         @ (case cwd of None \<Rightarrow> [] | Some w \<Rightarrow> [''cwd = '' @ cx_quote cx w])
         @ (if si_environment server \<noteq> [] then [''env_vars = '' @ toml_array cx (sort (map eb_name (si_environment server)))] else []),
        [change name ''transport'' Preserved ''stdio transport preserved.'']
         @ (case cwd of None \<Rightarrow> [] | Some w \<Rightarrow> [change name ''transport.cwd'' Preserved ''Working directory preserved.''])
         @ (if si_environment server \<noteq> [] then [change name ''environment'' Transformed
              ''Environment bindings rendered as Codex env_vars names; no values were emitted.''] else []))
   | Http url headers \<Rightarrow>
       (let kept = filter (\<lambda>h. vs_kind (hb_value h) = Environment) headers;
            lost = filter (\<lambda>h. vs_kind (hb_value h) \<noteq> Environment) headers;
            env_headers = dict_of (map (\<lambda>h. (hb_name h, vs_key (hb_value h))) kept) in
        ([''url = '' @ cx_quote cx url]
          @ (if env_headers \<noteq> [] then [''env_http_headers = '' @ toml_map cx env_headers] else []),
         [change name ''transport'' Preserved ''Streamable HTTP URL preserved.'']
          @ map (\<lambda>h. change name (''transport.headers.'' @ hb_name h) Unsupported
              ''Codex config has no host-prompt placeholder for this header; the header was omitted.'') lost
          @ (if env_headers \<noteq> [] then [change name ''transport.headers'' Preserved
              ''Header-to-environment references preserved without secret values.''] else []))))"

definition codex_startup :: "codex_env \<Rightarrow> string \<Rightarrow> server_intent \<Rightarrow> string list \<times> semantic_change list" where
  "codex_startup cx name server = (let su = si_startup server in
     ((case su_required su of None \<Rightarrow> [] | Some b \<Rightarrow> [''required = '' @ toml_bool b])
       @ (case su_startup_timeout su of None \<Rightarrow> [] | Some t \<Rightarrow> [''startup_timeout_sec = '' @ cx_general cx t])
       @ (case su_tool_timeout su of None \<Rightarrow> [] | Some t \<Rightarrow> [''tool_timeout_sec = '' @ cx_general cx t]),
      (if su_required su = None then [] else [change name ''startup.required'' Preserved ''Required-startup policy preserved.''])
       @ (if su_startup_timeout su = None then [] else [change name ''startup.startup_timeout_seconds'' Preserved
            ''Startup timeout preserved in seconds.''])
       @ (if su_tool_timeout su = None then [] else [change name ''startup.tool_timeout_seconds'' Preserved
            ''Tool timeout preserved in seconds.''])))"

definition codex_policies :: "codex_env \<Rightarrow> string \<Rightarrow> server_intent \<Rightarrow> string list \<times> semantic_change list" where
  "codex_policies cx name server = (let t = si_tools server in
     ((if sp_allow t \<noteq> [] then [''enabled_tools = '' @ toml_array cx (sort (sp_allow t))] else [])
       @ (if sp_deny t \<noteq> [] then [''disabled_tools = '' @ toml_array cx (sort (sp_deny t))] else []),
      (if sp_allow t \<noteq> [] then [change name ''tools.allow'' Preserved ''Tool allowlist preserved.''] else [])
       @ (if sp_deny t \<noteq> [] then [change name ''tools.deny'' Preserved ''Tool denylist preserved.''] else [])
       @ (if has_policy (si_resources server) then [change name ''resources'' Widened
            ''Codex config does not expose a resource allow/deny list; resource scope would be broader.''] else [])))"

definition codex_auth :: "codex_env \<Rightarrow> string \<Rightarrow> server_intent \<Rightarrow> string list \<times> semantic_change list" where
  "codex_auth cx name server = (let auth = si_auth server; http = is_http (si_transport server) in
     case (au_kind auth, au_token auth) of
       (Bearer, Some token) \<Rightarrow>
         if http \<and> vs_kind token = Environment
         then ([''bearer_token_env_var = '' @ cx_quote cx (vs_key token)],
               [change name ''auth'' Preserved ''Bearer token environment reference preserved.''])
         else ([], [change name ''auth'' Unsupported
               ''Bearer authentication could not be represented safely for this transport/source.''])
     | (Oauth, _) \<Rightarrow>
         if http
         then ([''auth = '' @ [CHR 0x22] @ ''oauth'' @ [CHR 0x22]]
                @ (if au_scopes auth \<noteq> [] then [''scopes = '' @ toml_array cx (sort (au_scopes auth))] else []),
               [change name ''auth'' Preserved ''OAuth requirement and requested scopes preserved.''])
         else ([], [change name ''auth'' Unsupported ''OAuth is not a Codex stdio transport setting.''])
     | (AuthNone, _) \<Rightarrow> ([], [])
     | (AuthHeaders, _) \<Rightarrow> ([], [])
     | _ \<Rightarrow> ([], [change name ''auth'' StateUnknown
               ''Authentication requirement is not safely representable in Codex config.'']))"

definition codex_unknown :: "string \<Rightarrow> server_intent \<Rightarrow> semantic_change list" where
  "codex_unknown name server = map (\<lambda>field. change name (''unknown_semantics.'' @ field) Dropped
     ''Named unknown host semantic cannot be emitted without its discarded source value.'') (si_unknown server)"

definition codex_server :: "codex_env \<Rightarrow> string \<times> server_intent \<Rightarrow> string list \<times> semantic_change list" where
  "codex_server cx p = (case p of (name, server) \<Rightarrow>
     ([[], ''[mcp_servers.'' @ cx_quote cx name @ '']'']
        @ fst (codex_transport cx name server) @ [''enabled = '' @ toml_bool (si_enabled server)]
        @ fst (codex_startup cx name server) @ fst (codex_policies cx name server) @ fst (codex_auth cx name server),
      snd (codex_transport cx name server) @ [change name ''enabled'' Preserved ''Enablement preserved.'']
        @ snd (codex_startup cx name server) @ snd (codex_policies cx name server) @ snd (codex_auth cx name server)
        @ codex_unknown name server))"

definition codex_render :: "codex_env \<Rightarrow> neutral_config \<Rightarrow> render_result" where
  "codex_render cx intent = (let parts = map (codex_server cx) (sort_key fst (nc_servers intent)) in
     \<lparr>rr_document = py_join [CHR 0x0A]
        (''# Generated by mcp-trust portability studio; review before manual use.'' # concat (map fst parts)) @ [CHR 0x0A],
      rr_report = build_report ''render'' ''codex'' CODEX_FORMAT (concat (map snd parts))\<rparr>)"

section \<open>Inspecting\<close>

definition string_or_none :: "pyval \<Rightarrow> string option port" where
  "string_or_none v = (case v of PNone \<Rightarrow> Inr None | PStr s \<Rightarrow> Inr (Some s) | _ \<Rightarrow> Inl ValidationFailure)"

fun codex_env_headers :: "codex_env \<Rightarrow> string \<Rightarrow> (string \<times> pyval) list \<Rightarrow> (header_binding list \<times> semantic_change list) port" where
  "codex_env_headers cx name [] = Inr ([], [])"
| "codex_env_headers cx name ((header_name, env_name) # rest) =
     bind_res (make_source Environment (str_text (cx_str cx) env_name)) (\<lambda>src.
     bind_res (make_header header_name src) (\<lambda>binding.
     bind_res (codex_env_headers cx name rest) (\<lambda>(hs, cs).
       Inr (binding # hs, change name (''transport.headers.'' @ header_name) Preserved ''Header environment reference preserved.'' # cs))))"

fun codex_literal_headers :: "string \<Rightarrow> bool \<Rightarrow> (string \<times> pyval) list \<Rightarrow> (header_binding list \<times> semantic_change list) port" where
  "codex_literal_headers name bearer [] = Inr ([], [])"
| "codex_literal_headers name bearer ((header_name, host_value) # rest) =
     (if py_lower header_name = ''authorization'' \<and> bearer then codex_literal_headers name bearer rest
      else bind_res (source_from_host_value host_value (''HEADER_'' @ header_name) name (''transport.headers.'' @ header_name)) (\<lambda>(src, c).
        bind_res (make_header header_name src) (\<lambda>binding.
        bind_res (codex_literal_headers name bearer rest) (\<lambda>(hs, cs). Inr (binding # hs, c # cs)))))"

definition codex_inspect_transport :: "codex_env \<Rightarrow> (string \<Rightarrow> bool) \<Rightarrow> string \<Rightarrow> pydict \<Rightarrow>
    (transport \<times> semantic_change list) port" where
  "codex_inspect_transport cx bracket_ok name raw = (case (dget raw ''command'', dget raw ''url'') of
     (PStr _, PStr _) \<Rightarrow> Inl InputError
   | (PStr command, _) \<Rightarrow>
       bind_res (list_or_empty (dget raw ''args'')) (\<lambda>vs.
       let (args, redactions) = redact_host_args (map (str_text (cx_str cx)) vs) name in
       bind_res (string_or_none (dget raw ''cwd'')) (\<lambda>cwd.
       bind_res (make_stdio command args cwd) (\<lambda>t.
         Inr (t, redactions @ [change name ''transport'' Preserved ''stdio transport inspected.'']))))
   | (_, PStr url) \<Rightarrow>
       bind_res (dict_or_empty (dget raw ''env_http_headers'')) (\<lambda>env_headers.
       bind_res (codex_env_headers cx name (sort_key fst env_headers)) (\<lambda>(hs, cs).
       bind_res (dict_or_empty (dget raw ''http_headers'')) (\<lambda>literal_headers.
       bind_res (codex_literal_headers name (py_truthy (dget raw ''bearer_token_env_var'')) (sort_key fst literal_headers)) (\<lambda>(hs', cs').
       bind_res (make_http bracket_ok url (hs @ hs')) (\<lambda>t.
         Inr (t, cs @ cs' @ [change name ''transport'' Preserved ''Streamable HTTP URL inspected.'']))))))
   | _ \<Rightarrow> Inl InputError)"

text \<open>The environment, a dict by name: the declared names, then the literal bindings, both as references.\<close>

definition declared_name :: "pyval \<Rightarrow> pyval" where
  "declared_name item = (case item of PStr _ \<Rightarrow> item | PDict d \<Rightarrow> dget d ''name'' | _ \<Rightarrow> PNone)"

fun codex_declared :: "codex_env \<Rightarrow> pyval list \<Rightarrow> (string \<times> environment_binding) list \<Rightarrow>
    (string \<times> environment_binding) list port" where
  "codex_declared cx [] env = Inr env"
| "codex_declared cx (item # items) env =
     (if \<not> py_truthy (declared_name item) then codex_declared cx items env
      else let n = str_text (cx_str cx) (declared_name item) in
        bind_res (make_source Environment n) (\<lambda>src.
        bind_res (make_environment n src) (\<lambda>b. codex_declared cx items (dict_set n b env))))"

fun codex_literals :: "string \<Rightarrow> string list \<Rightarrow> (string \<times> environment_binding) list \<Rightarrow>
    ((string \<times> environment_binding) list \<times> semantic_change list) port" where
  "codex_literals name [] env = Inr (env, [])"
| "codex_literals name (n # ns) env =
     bind_res (make_source Environment n) (\<lambda>src.
     bind_res (make_environment n src) (\<lambda>b.
     bind_res (codex_literals name ns (dict_set n b env)) (\<lambda>(env', cs).
       Inr (env', change name (''environment.'' @ n) Transformed
         ''Literal environment value replaced by an environment-name reference; the original value was not retained.'' # cs))))"

definition codex_environment :: "codex_env \<Rightarrow> string \<Rightarrow> pydict \<Rightarrow> (environment_binding list \<times> semantic_change list) port" where
  "codex_environment cx name raw =
     bind_res (if \<not> py_truthy (dget raw ''env_vars'') then Inr [] else case dget raw ''env_vars'' of
         PList xs \<Rightarrow> Inr xs | _ \<Rightarrow> Inl InputError) (\<lambda>items.
     bind_res (codex_declared cx items []) (\<lambda>declared.
     bind_res (dict_or_empty (dget raw ''env'')) (\<lambda>literal_env.
     bind_res (codex_literals name (sort (map fst literal_env)) declared) (\<lambda>(env, cs).
       Inr (map snd (sort_key fst env), cs @ (if env \<noteq> [] then [change name ''environment'' Preserved
         ''Environment key names preserved.''] else []))))))"

definition codex_inspect_auth :: "codex_env \<Rightarrow> string \<Rightarrow> pydict \<Rightarrow> (auth_requirement \<times> semantic_change list) port" where
  "codex_inspect_auth cx name raw = (case dget raw ''bearer_token_env_var'' of
     PStr key \<Rightarrow>
       bind_res (make_source Environment key) (\<lambda>src.
       bind_res (make_auth Bearer True (Some src) []) (\<lambda>a.
         Inr (a, [change name ''auth'' Preserved ''Bearer token environment reference preserved.''])))
   | _ \<Rightarrow>
       if dget raw ''auth'' = PStr ''oauth'' \<or> py_truthy (dget raw ''scopes'') then
         bind_res (list_or_empty (dget raw ''scopes'')) (\<lambda>scopes.
         bind_res (make_auth Oauth True None (sort (map (str_text (cx_str cx)) scopes))) (\<lambda>a.
           Inr (a, [change name ''auth'' Preserved ''OAuth requirement inspected.''])))
       else if dget raw ''auth'' = PStr ''chatgpt'' then
         bind_res (make_auth AuthUnknown False None []) (\<lambda>a.
           Inr (a, [change name ''auth'' StateUnknown ''ChatGPT-session authentication has no neutral portable equivalent.'']))
       else Inr (no_auth, []))"

text \<open>\<open>float(ms) / 1000\<close> of a value that need not be a number.\<close>

definition codex_milliseconds :: "codex_env \<Rightarrow> pyval \<Rightarrow> pyval port" where
  "codex_milliseconds cx v = (case v of
     PInt n \<Rightarrow> (case float_of_int n of Inl e \<Rightarrow> Inl (PortRaised e) | Inr x \<Rightarrow> Inr (PFloat (Fin (f64 (x / 1000)))))
   | PBool b \<Rightarrow> Inr (PFloat (Fin (f64 ((if b then 1 else 0) / 1000))))
   | PFloat (Fin x) \<Rightarrow> Inr (PFloat (Fin (f64 (x / 1000))))
   | PFloat x \<Rightarrow> Inr (PFloat x)
   | PStr s \<Rightarrow> bind_res (cx_float cx v) (\<lambda>x. case x of None \<Rightarrow> Inl (PortRaised ValueError) | Some r \<Rightarrow> Inr (PFloat (Fin (f64 (r / 1000)))))
   | _ \<Rightarrow> Inl (PortRaised TypeError))"

definition codex_startup_of :: "codex_env \<Rightarrow> string \<Rightarrow> pydict \<Rightarrow> (startup_policy \<times> semantic_change list) port" where
  "codex_startup_of cx name raw =
     (let from_ms = (dget raw ''startup_timeout_sec'' = PNone \<and> dget raw ''startup_timeout_ms'' \<noteq> PNone) in
     bind_res (if from_ms then codex_milliseconds cx (dget raw ''startup_timeout_ms'')
       else Inr (dget raw ''startup_timeout_sec'')) (\<lambda>seconds.
     bind_res (cx_float cx seconds) (\<lambda>startup_seconds.
     bind_res (cx_float cx (dget raw ''tool_timeout_sec'')) (\<lambda>tool_seconds.
     bind_res (cx_bool cx (dget raw ''required'')) (\<lambda>required.
     bind_res (make_startup startup_seconds tool_seconds required) (\<lambda>startup.
       Inr (startup, if from_ms then [change name ''startup.startup_timeout_seconds'' Transformed
         ''Milliseconds normalized to seconds.''] else [])))))))"

definition codex_policy_of :: "codex_env \<Rightarrow> pydict \<Rightarrow> scope_policy port" where
  "codex_policy_of cx raw =
     bind_res (list_or_empty (dget raw ''enabled_tools'')) (\<lambda>allow.
     bind_res (list_or_empty (dget raw ''disabled_tools'')) (\<lambda>deny.
       Inr (make_policy (sort (map (str_text (cx_str cx)) allow)) (sort (map (str_text (cx_str cx)) deny)))))"

definition codex_inspect_server :: "codex_env \<Rightarrow> (string \<Rightarrow> bool) \<Rightarrow> string \<Rightarrow> pyval \<Rightarrow>
    (server_intent \<times> semantic_change list) port" where
  "codex_inspect_server cx bracket_ok name raw_value = (case raw_value of
     PDict raw \<Rightarrow>
       bind_res (codex_inspect_transport cx bracket_ok name raw) (\<lambda>(transport, transport_changes).
       bind_res (codex_environment cx name raw) (\<lambda>(environment, env_changes).
       bind_res (codex_inspect_auth cx name raw) (\<lambda>(auth, auth_changes).
       bind_res (codex_startup_of cx name raw) (\<lambda>(startup, startup_changes).
       let (unknown, unknown_changes) = note_unknown_fields name raw (set CODEX_KNOWN) in
       bind_res (codex_policy_of cx raw) (\<lambda>tools.
       bind_res (make_intent \<lparr>si_transport = transport, si_environment = environment, si_auth = auth,
           si_enabled = (has_key raw ''enabled'' \<longrightarrow> py_truthy (dget raw ''enabled'')),
           si_tools = tools, si_resources = make_policy [] [], si_startup = startup,
           si_provenance = \<lparr>pv_host = HostCodex, pv_format = CODEX_FORMAT, pv_as_of = ''2026-08-11'',
             pv_documentation_url = Some CODEX_DOC_URL\<rparr>,
           si_unknown = unknown\<rparr>) (\<lambda>intent.
         Inr (intent, transport_changes @ env_changes @ auth_changes
           @ (if has_key raw ''enabled'' then [] else [change name ''enabled'' Defaulted ''Codex default enabled=true applied.''])
           @ startup_changes @ unknown_changes)))))))
   | _ \<Rightarrow> Inl InputError)"

fun codex_inspect_servers :: "codex_env \<Rightarrow> (string \<Rightarrow> bool) \<Rightarrow> (string \<times> pyval) list \<Rightarrow>
    ((string \<times> server_intent) list \<times> semantic_change list) port" where
  "codex_inspect_servers cx bracket_ok [] = Inr ([], [])"
| "codex_inspect_servers cx bracket_ok ((name, raw_value) # rest) =
     bind_res (codex_inspect_server cx bracket_ok name raw_value) (\<lambda>(s, cs).
     bind_res (codex_inspect_servers cx bracket_ok rest) (\<lambda>(ss, cs'). Inr ((name, s) # ss, cs @ cs')))"

definition codex_inspect :: "codex_env \<Rightarrow> (string \<Rightarrow> bool) \<Rightarrow> string \<Rightarrow> inspect_result port" where
  "codex_inspect cx bracket_ok document = bind_res (cx_toml cx document) (\<lambda>table.
     case dget table ''mcp_servers'' of
       PDict raw_servers \<Rightarrow>
         bind_res (codex_inspect_servers cx bracket_ok (sort_key fst raw_servers)) (\<lambda>(servers, cs).
         bind_res (make_config servers) (\<lambda>intent.
           Inr \<lparr>ir_intent = intent, ir_report = build_report ''inspect'' ''codex'' CODEX_FORMAT cs\<rparr>))
     | _ \<Rightarrow> Inl InputError)"

end
