(* ===== verification/Portability_Service.thy ===== *)
theory Portability_Service
  imports Portability_Codex
begin

text \<open>
  The portability operations (\<open>portability/service.py\<close>): rendering and inspection by host name with typed errors, the
  semantic view of an intent, its comparison, and the round trip through a host. The parser of neutral documents and
  the printed schema are pydantic's and are not part of this theory.
\<close>

section \<open>Hosts and inspection\<close>

datatype host = Codex | JsonHost json_host

definition adapter_for :: "string \<Rightarrow> host port" where
  "adapter_for name = (if name = ''codex'' then Inr Codex
     else if name = ''claude-code'' then Inr (JsonHost ClaudeCode)
     else if name = ''claude-desktop'' then Inr (JsonHost ClaudeDesktop)
     else if name = ''vscode'' then Inr (JsonHost VSCode)
     else Inl UnsupportedHost)"

definition adapter_render :: "platform \<Rightarrow> codex_env \<Rightarrow> host \<Rightarrow> neutral_config \<Rightarrow> render_result" where
  "adapter_render pf cx adapter intent = (case adapter of Codex \<Rightarrow> codex_render cx intent | JsonHost h \<Rightarrow> render pf h intent)"

definition adapter_inspect :: "platform \<Rightarrow> codex_env \<Rightarrow> (string \<Rightarrow> bool) \<Rightarrow> host \<Rightarrow> string \<Rightarrow> inspect_result port" where
  "adapter_inspect pf cx bracket_ok adapter document = (case adapter of
     Codex \<Rightarrow> codex_inspect cx bracket_ok document
   | JsonHost h \<Rightarrow> inspect pf (cx_str cx) bracket_ok h document)"

definition adapter_format :: "host \<Rightarrow> string" where
  "adapter_format adapter = (case adapter of Codex \<Rightarrow> CODEX_FORMAT | JsonHost h \<Rightarrow> hp_format_version (profile h))"

definition inspect_host :: "platform \<Rightarrow> codex_env \<Rightarrow> (string \<Rightarrow> bool) \<Rightarrow> string \<Rightarrow> string \<Rightarrow> inspect_result port" where
  "inspect_host pf cx bracket_ok document host = bind_res (adapter_for host) (\<lambda>adapter.
     case adapter_inspect pf cx bracket_ok adapter document of
       Inl ValidationFailure \<Rightarrow> Inl InputError
     | r \<Rightarrow> r)"

definition render_host :: "platform \<Rightarrow> codex_env \<Rightarrow> neutral_config \<Rightarrow> string \<Rightarrow> render_result port" where
  "render_host pf cx intent host = bind_res (adapter_for host) (\<lambda>adapter. Inr (adapter_render pf cx adapter intent))"

section \<open>The semantic view\<close>

fun value_kind_str :: "value_kind \<Rightarrow> string" where
  "value_kind_str Environment = ''environment''"
| "value_kind_str Prompt = ''prompt''"
| "value_kind_str UnknownSource = ''unknown''"

fun auth_kind_str :: "auth_kind \<Rightarrow> string" where
  "auth_kind_str AuthNone = ''none''"
| "auth_kind_str Bearer = ''bearer''"
| "auth_kind_str Oauth = ''oauth''"
| "auth_kind_str AuthHeaders = ''headers''"
| "auth_kind_str AuthUnknown = ''unknown''"

definition dump_source :: "value_source \<Rightarrow> pyval" where
  "dump_source v = PDict [(''kind'', PStr (value_kind_str (vs_kind v))), (''key'', PStr (vs_key v)),
     (''secret'', PBool (vs_secret v)), (''required'', PBool (vs_required v))]"

definition opt_val :: "('a \<Rightarrow> pyval) \<Rightarrow> 'a option \<Rightarrow> pyval" where
  "opt_val f x = (case x of None \<Rightarrow> PNone | Some y \<Rightarrow> f y)"

definition dump_transport :: "transport \<Rightarrow> pyval" where
  "dump_transport t = (case t of
     Stdio command args cwd \<Rightarrow> PDict [(''kind'', PStr ''stdio''), (''command'', PStr command),
       (''args'', PList (map PStr args)), (''cwd'', opt_val PStr cwd)]
   | Http url headers \<Rightarrow> PDict [(''kind'', PStr ''streamable-http''), (''url'', PStr url),
       (''headers'', PList (map (\<lambda>h. PDict [(''name'', PStr (hb_name h)), (''value_from'', dump_source (hb_value h))]) headers))])"

definition dump_policy :: "scope_policy \<Rightarrow> pyval" where
  "dump_policy p = PDict [(''allow'', PList (map PStr (sp_allow p))), (''deny'', PList (map PStr (sp_deny p)))]"

text \<open>\<open>model_dump\<close> of a server without its provenance and unknown semantics.\<close>

definition semantic_view :: "server_intent \<Rightarrow> pyval" where
  "semantic_view s = PDict [(''transport'', dump_transport (si_transport s)),
     (''environment'', PList (map (\<lambda>b. PDict [(''name'', PStr (eb_name b)), (''value_from'', dump_source (eb_value b))])
        (si_environment s))),
     (''auth'', PDict [(''kind'', PStr (auth_kind_str (au_kind (si_auth s)))), (''required'', PBool (au_required (si_auth s))),
        (''token'', opt_val dump_source (au_token (si_auth s))), (''scopes'', PList (map PStr (au_scopes (si_auth s))))]),
     (''enabled'', PBool (si_enabled s)), (''tools'', dump_policy (si_tools s)), (''resources'', dump_policy (si_resources s)),
     (''startup'', PDict [(''startup_timeout_seconds'', opt_val (\<lambda>x. PFloat (Fin x)) (su_startup_timeout (si_startup s))),
        (''tool_timeout_seconds'', opt_val (\<lambda>x. PFloat (Fin x)) (su_tool_timeout (si_startup s))),
        (''required'', opt_val PBool (su_required (si_startup s)))])]"

section \<open>Comparison\<close>

definition last_part :: "string \<Rightarrow> string" where
  "last_part path = after_last (CHR ''.'') path"

definition widened :: "string \<Rightarrow> pyval list \<Rightarrow> pyval list \<Rightarrow> bool" where
  "widened leaf before after =
     (if leaf = ''allow'' then before \<noteq> [] \<and> (after = [] \<or> \<not> set after \<subseteq> set before)
      else if leaf = ''deny'' then \<not> set before \<subseteq> set after
      else \<not> set after \<subseteq> set before)"

definition compare_scope_collection :: "pyval list \<Rightarrow> pyval list \<Rightarrow> string \<Rightarrow> string \<Rightarrow> semantic_change list" where
  "compare_scope_collection before after server path =
     (if set before = set after then
        (if before \<noteq> after then [change server path Preserved
           ''Semantic scope set preserved; ordering and duplicate entries are non-semantic.''] else [])
      else if widened (last_part path) before after then
        [change server path Widened ''Semantic scope set changed in a direction that may widen access.'']
      else [change server path Transformed ''Semantic scope set narrowed without widening access.''])"

text \<open>The classes of \<open>type(x)\<close> among the values.\<close>

fun same_type :: "pyval \<Rightarrow> pyval \<Rightarrow> bool" where
  "same_type PNone PNone = True"
| "same_type (PBool _) (PBool _) = True"
| "same_type (PInt _) (PInt _) = True"
| "same_type (PFloat _) (PFloat _) = True"
| "same_type (PStr _) (PStr _) = True"
| "same_type (PList _) (PList _) = True"
| "same_type (PDict _) (PDict _) = True"
| "same_type _ _ = False"

definition join_path :: "string \<Rightarrow> string \<Rightarrow> string" where
  "join_path path key = (if path \<noteq> [] then path @ ''.'' @ key else key)"

function (sequential) compare_values :: "pyval \<Rightarrow> pyval \<Rightarrow> string \<Rightarrow> string \<Rightarrow> semantic_change list" where
  "compare_values (PDict d) (PDict e) server path =
     concat (map (\<lambda>key. case map_of e key of
         None \<Rightarrow> [change server (join_path path key) (if key \<in> {''allow'', ''deny''} then Widened else Dropped)
           ''Semantic value was not present after round-trip.'']
       | Some w \<Rightarrow> (case map_of d key of
           None \<Rightarrow> [change server (join_path path key) Defaulted ''Host inspection introduced a default semantic value.'']
         | Some v \<Rightarrow> compare_values v w server (join_path path key)))
       (sorted_set (map fst d @ map fst e)))"
| "compare_values (PList xs) (PList ys) server path =
     (if last_part path \<in> {''allow'', ''deny'', ''scopes''} then compare_scope_collection xs ys server path
      else if \<not> py_eq (PList xs) (PList ys)
      then [change server path Transformed ''Ordered semantic collection changed during round-trip.''] else [])"
| "compare_values before after server path =
     (if \<not> same_type before after then [change server path Transformed ''Round-trip value type changed.'']
      else if \<not> py_eq before after then [change server path Transformed ''Semantic value changed during round-trip.'']
      else [change server path Preserved ''Semantic value survived round-trip.''])"
  by pat_completeness auto

termination compare_values
  by (relation "measure (\<lambda>(x, _). size x)") (auto dest!: map_of_SomeD size_mem_dict)

section \<open>The round trip\<close>

definition compare_servers :: "(string \<times> server_intent) list \<Rightarrow> (string \<times> server_intent) list \<Rightarrow> semantic_change list" where
  "compare_servers before after = concat (map (\<lambda>server.
     case map_of after server of
       None \<Rightarrow> [change server ''server'' Dropped ''Server was omitted by the host adapter and did not round-trip.'']
     | Some a \<Rightarrow> (case map_of before server of
         None \<Rightarrow> [change server ''server'' Defaulted ''Host inspection introduced an unexpected server.'']
       | Some b \<Rightarrow> compare_values (semantic_view b) (semantic_view a) server []))
     (sorted_set (map fst before @ map fst after)))"

definition round_trip :: "platform \<Rightarrow> codex_env \<Rightarrow> (string \<Rightarrow> bool) \<Rightarrow> neutral_config \<Rightarrow> string \<Rightarrow>
    (inspect_result \<times> portability_report) port" where
  "round_trip pf cx bracket_ok intent host = bind_res (adapter_for host) (\<lambda>adapter.
     let rendered = adapter_render pf cx adapter intent in
     bind_res (inspect_host pf cx bracket_ok (rr_document rendered) host) (\<lambda>inspected.
       Inr (inspected, build_report ''round-trip'' host (adapter_format adapter)
         (pr_changes (rr_report rendered) @ pr_changes (ir_report inspected)
          @ compare_servers (nc_servers intent) (nc_servers (ir_intent inspected))))))"

end
