(* ===== verification/Portability_Trust.thy ===== *)
theory Portability_Trust
  imports Portability_Service "HOL-Library.Multiset"
begin

text \<open>
  What the portability operations guarantee: a round trip never widens a tool or resource scope silently, inspection
  depends on a literal credential in no way, redacted arguments pass the validators, and the JSON hosts give back what
  they can express.
\<close>

section \<open>Scope policies\<close>

text \<open>The names a policy lets through: an empty allowlist allows every name.\<close>

definition permits :: "scope_policy \<Rightarrow> string \<Rightarrow> bool" where
  "permits p t \<longleftrightarrow> (sp_allow p = [] \<or> t \<in> set (sp_allow p)) \<and> t \<notin> set (sp_deny p)"

lemma compare_dict_member:
  assumes "map_of d key = Some v" "map_of e key = Some w"
  shows "set (compare_values v w server (join_path path key)) \<subseteq> set (compare_values (PDict d) (PDict e) server path)"
proof -
  have "key \<in> set (sorted_set (map fst d @ map fst e))"
    using assms(1) by (auto simp: sorted_set_def dest!: map_of_SomeD) (metis fst_conv image_eqI)
  then show ?thesis using assms by (auto intro!: bexI [of _ key])
qed

lemma after_last_append: "c \<notin> set k \<Longrightarrow> after_last c (s @ c # k) = k"
proof -
  assume "c \<notin> set k"
  then have "takeWhile (\<lambda>x. x \<noteq> c) (rev k @ c # rev s) = rev k" by (subst takeWhile_append2) auto
  then show ?thesis by (simp add: after_last_def)
qed

lemma after_last_self: "c \<notin> set k \<Longrightarrow> after_last c k = k"
proof -
  assume "c \<notin> set k"
  then have "takeWhile (\<lambda>x. x \<noteq> c) (rev k) = rev k" by (subst takeWhile_eq_all_conv) auto
  then show ?thesis by (simp only: after_last_def rev_rev_ident)
qed

lemma last_part_join: "CHR ''.'' \<notin> set key \<Longrightarrow> last_part (join_path path key) = key"
  by (simp add: last_part_def join_path_def after_last_append after_last_self)

lemma compare_scope_widened:
  assumes "widened (last_part path) xs ys" "set xs \<noteq> set ys"
  shows "change server path Widened ''Semantic scope set changed in a direction that may widen access.''
    \<in> set (compare_scope_collection xs ys server path)"
  using assms by (simp add: compare_scope_collection_def)

lemma change_fields [simp]: "sc_server (change s p st e) = s" "sc_state (change s p st e) = st"
  by (simp_all add: change_def)

lemma compare_policy:
  assumes "permits a t" "\<not> permits b t"
  shows "\<exists>c\<in>set (compare_values (dump_policy b) (dump_policy a) server path). sc_server c = server \<and> sc_state c = Widened"
proof -
  let ?cmp = "compare_values (dump_policy b) (dump_policy a) server path"
  have leaf: "last_part (join_path path ''allow'') = ''allow''" "last_part (join_path path ''deny'') = ''deny''"
    by (simp_all add: last_part_join)
  have sub: "set (compare_scope_collection (map PStr (sp_allow b)) (map PStr (sp_allow a)) server (join_path path ''allow'')) \<subseteq> set ?cmp"
    "set (compare_scope_collection (map PStr (sp_deny b)) (map PStr (sp_deny a)) server (join_path path ''deny'')) \<subseteq> set ?cmp"
    by (auto simp: dump_policy_def leaf)
  from assms consider "sp_allow b \<noteq> []" "sp_allow a = [] \<or> t \<in> set (sp_allow a)" "t \<notin> set (sp_allow b)"
    | "t \<in> set (sp_deny b)" "t \<notin> set (sp_deny a)"
    by (auto simp: permits_def)
  then show ?thesis
  proof cases
    case 1
    then have "widened ''allow'' (map PStr (sp_allow b)) (map PStr (sp_allow a))"
      "set (map PStr (sp_allow b)) \<noteq> set (map PStr (sp_allow a))"
      by (auto simp: widened_def)
    then have "change server (join_path path ''allow'') Widened ''Semantic scope set changed in a direction that may widen access.'' \<in> set ?cmp"
      by (intro subsetD [OF sub(1)] compare_scope_widened) (simp_all only: leaf simp_thms not_False_eq_True)
    then show ?thesis by (rule bexI [rotated]) (simp only: change_fields simp_thms)
  next
    case 2
    then have "widened ''deny'' (map PStr (sp_deny b)) (map PStr (sp_deny a))"
      "set (map PStr (sp_deny b)) \<noteq> set (map PStr (sp_deny a))"
      by (auto simp: widened_def)
    then have "change server (join_path path ''deny'') Widened ''Semantic scope set changed in a direction that may widen access.'' \<in> set ?cmp"
      by (intro subsetD [OF sub(2)] compare_scope_widened) (simp_all only: leaf simp_thms not_False_eq_True)
    then show ?thesis by (rule bexI [rotated]) (simp only: change_fields simp_thms)
  qed
qed

lemma compare_view:
  assumes "(permits (si_tools a) t \<and> \<not> permits (si_tools b) t) \<or> (permits (si_resources a) t \<and> \<not> permits (si_resources b) t)"
  shows "\<exists>c\<in>set (compare_values (semantic_view b) (semantic_view a) server []). sc_server c = server \<and> sc_state c = Widened"
proof -
  have m: "set (compare_values (dump_policy (si_tools b)) (dump_policy (si_tools a)) server ''tools'')
      \<subseteq> set (compare_values (semantic_view b) (semantic_view a) server [])"
    "set (compare_values (dump_policy (si_resources b)) (dump_policy (si_resources a)) server ''resources'')
      \<subseteq> set (compare_values (semantic_view b) (semantic_view a) server [])"
    unfolding semantic_view_def
    using compare_dict_member [where path = "[]" and key = "''tools''"]
      compare_dict_member [where path = "[]" and key = "''resources''"]
    by (simp_all add: join_path_def del: compare_values.simps)
  show ?thesis using assms compare_policy m by blast
qed

lemma summary_counts: "pr_summary (build_report op h f cs) st = length (filter (\<lambda>c. sc_state c = st) cs)"
proof -
  have "mset (filter (\<lambda>c. sc_state c = st) (sort_key change_key cs)) = mset (filter (\<lambda>c. sc_state c = st) cs)"
    by (simp only: mset_filter mset_sort)
  then show ?thesis by (simp add: build_report_def mset_eq_length)
qed

lemma compare_servers_member:
  assumes "map_of before s = Some b" "map_of after s = Some a"
  shows "set (compare_values (semantic_view b) (semantic_view a) s []) \<subseteq> set (compare_servers before after)"
proof -
  have "s \<in> set (sorted_set (map fst before @ map fst after))"
    using assms(1) by (auto simp: sorted_set_def dest!: map_of_SomeD) (metis fst_conv image_eqI)
  then show ?thesis unfolding compare_servers_def using assms by (auto intro!: bexI [of _ s])
qed

text \<open>C21. Whatever the host, when a round trip lets through a tool or resource name that the intent did not let through, the report lists a widened change for that server and its summary counts it.\<close>

lemma round_trip_never_widens_silently:
  assumes "round_trip pf cx bracket_ok intent host = Inr (inspected, report)"
    and "map_of (nc_servers intent) name = Some b"
    and "map_of (nc_servers (ir_intent inspected)) name = Some a"
    and "(permits (si_tools a) t \<and> \<not> permits (si_tools b) t) \<or> (permits (si_resources a) t \<and> \<not> permits (si_resources b) t)"
  shows "(\<exists>c\<in>set (pr_changes report). sc_server c = name \<and> sc_state c = Widened) \<and> 0 < pr_summary report Widened"
proof -
  from assms(1) obtain op h f cs where r: "report = build_report op h f (cs @ compare_servers (nc_servers intent) (nc_servers (ir_intent inspected)))"
    by (auto simp: round_trip_def Let_def) (metis append_assoc)
  have "\<exists>c\<in>set (compare_servers (nc_servers intent) (nc_servers (ir_intent inspected))). sc_server c = name \<and> sc_state c = Widened"
    using compare_view [OF assms(4)] compare_servers_member [OF assms(2,3)] by blast
  then show ?thesis by (auto simp: r build_report_def summary_counts [unfolded build_report_def] length_pos_if_in_set filter_empty_conv)
qed

section \<open>Redacted arguments\<close>

lemma redact_loop_values:
  "i < length vals \<Longrightarrow>
     (fst (redact_loop server b n vals) ! i = vals ! i \<and> \<not> probable_secret (vals ! i))
     \<or> (\<exists>k. fst (redact_loop server b n vals) ! i = redacted_placeholder k)"
proof (induction vals arbitrary: b n i)
  case (Cons v vs)
  then show ?case by (cases i) (auto simp: Let_def case_prod_unfold)
qed simp

lemma redaction_passes_validation:
  assumes "list_all single_line args" and "\<not> sensitive_flag command"
    and "1 \<le> length command" "length command \<le> 4096" "single_line command" "\<not> probable_secret command"
  shows "make_stdio command (fst (redact_host_args args name)) cwd = Inr (Stdio command (fst (redact_host_args args name)) cwd)
    \<and> (\<forall>i < length args. (fst (redact_host_args args name) ! i = args ! i \<and> \<not> probable_secret (args ! i))
        \<or> (\<exists>k. fst (redact_host_args args name) ! i = redacted_placeholder k))"
proof -
  have "arguments_ok (Some command) (fst (redact_loop name (sensitive_flag command) 1 args))"
    by (rule redact_loop_ok) (rule assms(1))
  then have "arguments_ok None (command # fst (redact_host_args args name))"
    using assms by (simp add: redact_host_args_def)
  then show ?thesis
    using assms(3,4) redact_loop_values [where b = False and n = 1] by (simp add: make_stdio_def redact_host_args_def)
qed

text \<open>Reading a redacted list again renumbers the placeholders: two secrets end up on one.\<close>

lemma secret_samples: "probable_secret ''sk-abcdefgh''" "\<not> probable_secret ''--token''" "\<not> probable_secret ''t''"
    "\<not> sensitive_flag ''sk-abcdefgh''" "sensitive_flag ''--token''"
  by code_simp+

lemma redaction_merges_placeholders:
  "let once = fst (redact_host_args [''sk-abcdefgh'', ''--token'', ''t''] s); twice = fst (redact_host_args once s)
   in once = [redacted_placeholder 1, ''--token'', redacted_placeholder 2]
    \<and> twice = [redacted_placeholder 1, ''--token'', redacted_placeholder 1]"
  by (simp add: redact_host_args_def secret_samples placeholder_safe placeholder_shape Let_def del: One_nat_def)

section \<open>Literals leave no trace\<close>

text \<open>A host value that is no reference, and two values that inspection cannot tell apart.\<close>

definition literal :: "pyval \<Rightarrow> bool" where
  "literal v \<longleftrightarrow> (case v of PStr s \<Rightarrow> env_expansion s = None \<and> input_expansion s = None \<and> bearer_env s = None | _ \<Rightarrow> True)"

definition alike :: "pyval \<Rightarrow> pyval \<Rightarrow> bool" where
  "alike v w \<longleftrightarrow> v = w \<or> literal v \<and> literal w"

definition alike_entries :: "pydict \<Rightarrow> pydict \<Rightarrow> bool" where
  "alike_entries d e \<longleftrightarrow> list_all2 (\<lambda>p q. fst p = fst q \<and> alike (snd p) (snd q)) d e"

definition alike_tables :: "pyval \<Rightarrow> pyval \<Rightarrow> bool" where
  "alike_tables v w \<longleftrightarrow> v = w \<or> (\<exists>d e. v = PDict d \<and> w = PDict e \<and> alike_entries d e)"

definition alike_arguments :: "(pyval \<Rightarrow> string) \<Rightarrow> pyval \<Rightarrow> pyval \<Rightarrow> bool" where
  "alike_arguments txt v w \<longleftrightarrow> v = w \<or> (\<exists>xs ys. v = PList xs \<and> w = PList ys
     \<and> same_arguments False (map (str_text txt) xs) (map (str_text txt) ys))"

text \<open>Two server entries that differ only in literal environment and header values and in arguments the redaction takes.\<close>

definition alike_servers :: "(pyval \<Rightarrow> string) \<Rightarrow> pyval \<Rightarrow> pyval \<Rightarrow> bool" where
  "alike_servers txt v w \<longleftrightarrow> v = w \<or> (\<exists>r s. v = PDict r \<and> w = PDict s \<and> map fst r = map fst s
     \<and> alike_arguments txt (dget r ''args'') (dget s ''args'')
     \<and> alike_tables (dget r ''env'') (dget s ''env'') \<and> alike_tables (dget r ''headers'') (dget s ''headers'')
     \<and> list_all (\<lambda>k. dget r k = dget s k) [''type'', ''command'', ''url'', ''cwd'', ''oauth'', ''timeout''])"

lemma source_literal:
  assumes "literal v"
  shows "source_from_host_value v k server path = bind_res (make_source Prompt (portable_key k ''VALUE'')) (\<lambda>src.
            Inr (src, change server path Transformed
              ''A host literal was replaced by a placeholder; the original value was not retained.''))"
proof -
  have "env_expansion [] = None" "input_expansion [] = None" by (simp_all add: env_expansion_def input_expansion_def braced_def)
  then show ?thesis
    using assms by (cases v) (simp_all only: source_from_host_value_def literal_def Let_def pyval.case option.case)
qed

lemma source_alike: "alike v w \<Longrightarrow> source_from_host_value v k server path = source_from_host_value w k server path"
  unfolding alike_def by (elim disjE conjE) (simp_all only: source_literal)

lemma insort_alike:
  assumes "list_all2 (\<lambda>p q. fst p = fst q \<and> P p q) d e" "fst a = fst b" "P a b"
  shows "list_all2 (\<lambda>p q. fst p = fst q \<and> P p q) (insort_key fst a d) (insort_key fst b e)"
  using assms by (induction d e rule: list_all2_induct) auto

lemma sort_alike:
  assumes "list_all2 (\<lambda>p q. fst p = fst q \<and> P p q) d e"
  shows "list_all2 (\<lambda>p q. fst p = fst q \<and> P p q) (sort_key fst d) (sort_key fst e)"
  using assms
proof (induction d e rule: list_all2_induct)
  case (Cons x xs y ys)
  then show ?case using insort_alike [of P "sort_key fst xs" "sort_key fst ys" x y] by simp
qed simp

lemma sort_entries: "alike_entries d e \<Longrightarrow> alike_entries (sort_key fst d) (sort_key fst e)"
  unfolding alike_entries_def by (rule sort_alike)

lemma environment_alike: "alike_entries d e \<Longrightarrow> inspect_environment name d = inspect_environment name e"
  unfolding alike_entries_def
proof (induction d e rule: list_all2_induct)
  case (Cons x xs y ys)
  then show ?case using source_alike [of "snd x" "snd y"] by (cases x; cases y) simp
qed simp

lemma headers_alike: "alike_entries d e \<Longrightarrow> inspect_headers name d auth = inspect_headers name e auth"
  unfolding alike_entries_def
proof (induction d e arbitrary: auth rule: list_all2_induct)
  case (Cons x xs y ys)
  obtain k v l w where p: "x = (k, v)" "y = (l, w)" by (cases x; cases y)
  have b: "(case v of PStr s \<Rightarrow> bearer_env s | _ \<Rightarrow> None) = (case w of PStr s \<Rightarrow> bearer_env s | _ \<Rightarrow> None)"
    using Cons.hyps p by (auto simp: alike_def literal_def split: pyval.splits)
  show ?case using Cons.hyps source_alike [of v w] b by (simp add: p Cons.IH split: option.split)
qed simp

lemma tables_alike:
  assumes "alike_tables v w"
  shows "rel_sum (=) alike_entries (dict_or_empty v) (dict_or_empty w)"
proof -
  have refl: "alike_entries d d" for d by (simp add: alike_entries_def list_all2_refl alike_def)
  from assms show ?thesis unfolding alike_tables_def
  proof (elim disjE exE conjE)
    assume "v = w"
    then show ?thesis by (cases "dict_or_empty w") (simp_all add: refl)
  next
    fix d e assume d: "v = PDict d" "w = PDict e" "alike_entries d e"
    then have "d = [] \<longleftrightarrow> e = []" by (auto simp: alike_entries_def)
    then show ?thesis using d by (cases "d = []") (simp_all add: dict_or_empty_def refl)
  qed
qed

lemma arguments_alike:
  assumes "alike_arguments txt v w"
  shows "bind_res (list_or_empty v) (\<lambda>vs. f (redact_host_args (map (str_text txt) vs) name))
    = bind_res (list_or_empty w) (\<lambda>vs. f (redact_host_args (map (str_text txt) vs) name))"
  using assms unfolding alike_arguments_def
proof (elim disjE exE conjE)
  fix xs ys assume "v = PList xs" "w = PList ys" and s: "same_arguments False (map (str_text txt) xs) (map (str_text txt) ys)"
  moreover have "xs = [] \<longleftrightarrow> ys = []" using s by (cases xs; cases ys) simp_all
  ultimately show ?thesis using redact_loop_same [OF s] by (simp add: list_or_empty_def redact_host_args_def)
qed simp

lemma bind_alike:
  assumes "rel_sum (=) R m n" "\<And>x y. R x y \<Longrightarrow> f x = g y"
  shows "bind_res m f = bind_res n g"
  using assms(1) by (cases m; cases n) (simp_all add: assms(2))

lemma server_alike:
  assumes "alike_servers txt v w"
  shows "inspect_server txt bracket_ok h name v = inspect_server txt bracket_ok h name w"
proof (cases "v = w")
  case False
  then obtain r s where p: "v = PDict r" "w = PDict s" and keys: "map fst r = map fst s"
    and args: "alike_arguments txt (dget r ''args'') (dget s ''args'')"
    and env: "alike_tables (dget r ''env'') (dget s ''env'')" and headers: "alike_tables (dget r ''headers'') (dget s ''headers'')"
    and fields: "dget r ''type'' = dget s ''type''" "dget r ''command'' = dget s ''command''" "dget r ''url'' = dget s ''url''"
      "dget r ''cwd'' = dget s ''cwd''" "dget r ''oauth'' = dget s ''oauth''" "dget r ''timeout'' = dget s ''timeout''"
    using assms by (auto simp: alike_servers_def)
  have stdio: "inspect_stdio txt h name r = inspect_stdio txt h name s"
    unfolding inspect_stdio_def inspect_cwd_def fields Let_def
    by (cases "dget s ''command''"; simp only: pyval.case; rule arguments_alike [OF args])
  have headers: "inspect_http bracket_ok h name r t = inspect_http bracket_ok h name s t" for t
  proof -
    have "bind_res (dict_or_empty (dget r ''headers'')) (\<lambda>d. bind_res (inspect_headers name (sort_key fst d) no_auth) f)
      = bind_res (dict_or_empty (dget s ''headers'')) (\<lambda>d. bind_res (inspect_headers name (sort_key fst d) no_auth) f)" for f ::
        "header_binding list \<times> auth_requirement \<times> semantic_change list \<Rightarrow> (transport \<times> auth_requirement \<times> semantic_change list) port"
      by (rule bind_alike [OF tables_alike [OF headers]]) (simp only: headers_alike [OF sort_entries])
    then show ?thesis by (simp add: inspect_http_def fields split: pyval.split)
  qed
  have "has_key r k = has_key s k" for k
    using keys by (simp only: has_key_iff dkeys_def)
  then have transport: "inspect_transport txt bracket_ok h name r = inspect_transport txt bracket_ok h name s"
    unfolding inspect_transport_def by (simp only: fields stdio headers)
  have env': "bind_res (dict_or_empty (dget r ''env'')) (\<lambda>d. bind_res (inspect_environment name (sort_key fst d)) f)
      = bind_res (dict_or_empty (dget s ''env'')) (\<lambda>d. bind_res (inspect_environment name (sort_key fst d)) f)" for f ::
        "environment_binding list \<times> semantic_change list \<Rightarrow> (server_intent \<times> semantic_change list) port"
    by (rule bind_alike [OF tables_alike [OF env]]) (simp only: environment_alike [OF sort_entries])
  have unknown: "note_unknown_fields name r K = note_unknown_fields name s K" for K
    by (simp add: note_unknown_fields_def keys)
  show ?thesis
    unfolding p inspect_server_def pyval.case transport env' unknown inspect_oauth_def fields by (rule refl)
qed simp

definition alike_documents :: "(pyval \<Rightarrow> string) \<Rightarrow> json_host \<Rightarrow> pydict \<Rightarrow> pydict \<Rightarrow> bool" where
  "alike_documents txt h d e \<longleftrightarrow> map fst d = map fst e
     \<and> (\<exists>ss ts. dget d (hp_server_key (profile h)) = PDict ss \<and> dget e (hp_server_key (profile h)) = PDict ts
        \<and> list_all2 (\<lambda>p q. fst p = fst q \<and> alike_servers txt (snd p) (snd q)) ss ts)"

lemma servers_alike:
  assumes "list_all2 (\<lambda>p q. fst p = fst q \<and> alike_servers txt (snd p) (snd q)) ss ts"
  shows "inspect_servers txt bracket_ok h ss = inspect_servers txt bracket_ok h ts"
  using assms
proof (induction ss ts rule: list_all2_induct)
  case (Cons x xs y ys)
  then show ?case using server_alike [of "txt" "snd x" "snd y"] by (cases x; cases y) simp
qed simp

lemma root_alike:
  assumes "alike_documents txt h d e"
  shows "inspect_root txt bracket_ok h d = inspect_root txt bracket_ok h e"
proof -
  obtain ss ts where p: "dget d (hp_server_key (profile h)) = PDict ss" "dget e (hp_server_key (profile h)) = PDict ts"
    and l: "list_all2 (\<lambda>p q. fst p = fst q \<and> alike_servers txt (snd p) (snd q)) ss ts" and keys: "map fst d = map fst e"
    using assms by (auto simp: alike_documents_def)
  have "has_key d k = has_key e k" for k using keys by (simp only: has_key_iff dkeys_def)
  then have "top_level_changes h d = top_level_changes h e" by (simp add: top_level_changes_def keys)
  then show ?thesis by (simp add: inspect_root_def p servers_alike [OF sort_alike [OF l]])
qed


section \<open>Errors that escape\<close>

text \<open>Only pydantic's refusal becomes an input error: an argument value that is no collection leaves as it is raised.\<close>

lemma inspect_host_errors:
  assumes "adapter_for host = Inr adapter"
  shows "inspect_host pf cx bracket_ok document host = Inl err \<longleftrightarrow>
    (err = InputError \<and> adapter_inspect pf cx bracket_ok adapter document = Inl ValidationFailure)
    \<or> (err \<noteq> ValidationFailure \<and> adapter_inspect pf cx bracket_ok adapter document = Inl err)"
  using assms by (cases "adapter_inspect pf cx bracket_ok adapter document"; cases err) (auto simp: inspect_host_def split: port_error.splits)

lemma numeric_args_raise:
  assumes "adapter_for host = Inr (JsonHost h)" and "load_json pf document = Inr d"
    and "dget d (hp_server_key (profile h)) = PDict [(name, PDict raw)]"
    and "dget raw ''type'' = PStr ''stdio''" "dget raw ''command'' = PStr command" "dget raw ''args'' = PInt n" "n \<noteq> 0"
  shows "inspect_host pf cx bracket_ok document host = Inl (PortRaised TypeError)"
proof -
  have "list_or_empty (PInt n) = Inl (PortRaised TypeError)" using assms(7) by (simp add: list_or_empty_def)
  then show ?thesis using assms
    by (simp add: inspect_host_def adapter_inspect_def inspect_def inspect_root_def inspect_server_def inspect_transport_def inspect_stdio_def)
qed

section \<open>What a rendered document leaves out\<close>

text \<open>The environment of a remote server is not rendered, and no change says so.\<close>

lemma remote_environment_is_silent:
  assumes "si_transport server = Http url headers"
  shows "render_server h name (server\<lparr>si_environment := env\<rparr>) inputs = render_server h name server inputs
    \<and> codex_server cx (name, server\<lparr>si_environment := env\<rparr>) = codex_server cx (name, server)"
proof -
  let ?s = "server\<lparr>si_environment := env\<rparr>"
  have u: "si_transport ?s = si_transport server" "si_auth ?s = si_auth server" "si_tools ?s = si_tools server"
    "si_resources ?s = si_resources server" "si_startup ?s = si_startup server" "si_unknown ?s = si_unknown server"
    "si_enabled ?s = si_enabled server"
    by simp_all
  have t: "render_transport h name ?s inputs = render_transport h name server inputs"
    "codex_transport cx name ?s = codex_transport cx name server"
    by (simp_all only: render_transport_def codex_transport_def u assms transport.case)
  have r: "render_auth h name ?s = render_auth h name server" "render_policies name ?s = render_policies name server"
    "render_startup h name ?s = render_startup h name server" "render_unknown name ?s = render_unknown name server"
    by (simp_all only: render_auth_def render_policies_def render_startup_def render_unknown_def u)
  have c: "codex_startup cx name ?s = codex_startup cx name server" "codex_policies cx name ?s = codex_policies cx name server"
    "codex_auth cx name ?s = codex_auth cx name server" "codex_unknown name ?s = codex_unknown name server"
    by (simp_all only: codex_startup_def codex_policies_def codex_auth_def codex_unknown_def u)
  show ?thesis by (simp only: render_server_def codex_server_def prod.case t r c u simp_thms)
qed

section \<open>What the JSON hosts give back\<close>

text \<open>The reference a host document holds for an environment variable.\<close>

definition host_reference :: "json_host \<Rightarrow> string \<Rightarrow> string" where
  "host_reference h key = (if h = VSCode then ''${env:'' else ''${'') @ key @ ''}''"

definition plain_source :: "value_source \<Rightarrow> bool" where
  "plain_source v \<longleftrightarrow> make_source Environment (vs_key v) = Inr v"

lemma plain_source_fields:
  assumes "plain_source v"
  shows "vs_kind v = Environment" "env_re (vs_key v)" "make_source Environment (vs_key v) = Inr v"
  using assms by (cases v; auto simp: plain_source_def make_source_def)+

lemma vscode_style [simp]: "hp_vscode_style (profile h) = (h = VSCode)"
  by (cases h) simp_all

lemma braced_reference: "braced (host_reference h key) = Some ((if h = VSCode then ''env:'' else []) @ key)"
  by (simp add: braced_def host_reference_def butlast_append)

lemma env_re_no_env: "env_re key \<Longrightarrow> take 4 key \<noteq> ''env:''" "env_re key \<Longrightarrow> \<not> starts_ci ''env:'' key"
proof -
  assume k: "env_re key"
  have c: "\<not> ident_char CHR '':''" by code_simp
  have low: "lower_char x = CHR '':'' \<Longrightarrow> x = CHR '':''" for x
  proof -
    assume l: "lower_char x = CHR '':''"
    show ?thesis
    proof (cases "(65 \<le> (of_char x :: nat) \<and> of_char x \<le> (90 :: nat)) \<or> (192 \<le> (of_char x :: nat) \<and> of_char x \<le> (222 :: nat) \<and> of_char x \<noteq> (215 :: nat))")
      case True
      then have "of_char (lower_char x) = (of_char x + 32 :: nat)" by (auto simp: lower_char_def Let_def of_char_of)
      then show ?thesis using True by (simp add: l)
    next
      case False
      then show ?thesis using l by (simp only: lower_char_def Let_def if_False)
    qed
  qed
  show "take 4 key \<noteq> ''env:''"
  proof
    assume "take 4 key = ''env:''"
    then have "CHR '':'' \<in> set key" by (metis in_set_takeD list.set_intros)
    then show False using k c by (auto simp: env_re_def list_all_iff)
  qed
  show "\<not> starts_ci ''env:'' key"
  proof
    assume "starts_ci ''env:'' key"
    then have "take 4 (map lower_char key) = ''env:''" by (simp add: starts_ci_def eval_nat_numeral)
    then have "CHR '':'' \<in> set (map lower_char key)" by (metis in_set_takeD list.set_intros)
    then obtain x where x: "x \<in> set key" "lower_char x = CHR '':''" by (auto simp del: list.map)
    then have "ident_char x" using k by (simp add: env_re_def list_all_iff)
    then show False using low [OF x(2)] c by simp
  qed
qed

lemma env_expansion_reference: "env_re key \<Longrightarrow> env_expansion (host_reference h key) = Some key"
  using env_re_no_env(1) by (simp add: env_expansion_def braced_reference)

lemma bearer_env_reference: "env_re key \<Longrightarrow> bearer_env (''Bearer '' @ host_reference h key) = Some key"
proof -
  assume k: "env_re key"
  have s: "is_space_char CHR '' ''" "\<not> is_space_char CHR ''$''" "map lower_char ''Bearer '' = ''bearer ''" "map lower_char ''env:'' = ''env:''" by code_simp+
  have h: "host_reference h key = CHR ''$'' # tl (host_reference h key)" by (simp add: host_reference_def)
  have d: "dropWhile is_space_char (host_reference h key) = host_reference h key" by (subst h, subst (2) h) (simp add: s)
  show ?thesis using k s(3,4) env_re_no_env(2) [OF k]
    by (simp add: bearer_env_def starts_ci_def s(1) d Let_def braced_reference)
qed

lemma source_round:
  assumes "plain_source v"
  shows "source_from_host_value (PStr (host_reference h (vs_key v))) k server path
    = Inr (v, change server path Preserved ''Environment reference preserved.'')"
  using plain_source_fields [OF assms] by (simp add: source_from_host_value_def env_expansion_reference)

lemma rendered_source:
  assumes "plain_source v"
  shows "render_value_source h v server path inputs
    = (host_reference h (vs_key v), inputs, change server path Preserved ''Environment reference preserved.'')"
  using plain_source_fields [OF assms] by (simp add: render_value_source_def host_reference_def)

lemma dict_set_fresh: "k \<notin> fst ` set d \<Longrightarrow> dict_set k v d = d @ [(k, v)]"
proof (induction d)
  case (Cons p d)
  then show ?case by (cases p) auto
qed simp

lemma rendered_bindings:
  assumes "list_all (\<lambda>(n, p, v). plain_source v) ps" "distinct (map fst rendered @ map fst ps)"
  shows "\<exists>cs. render_bindings h name ps rendered inputs
    = (rendered @ map (\<lambda>(n, p, v). (n, PStr (host_reference h (vs_key v)))) ps, inputs, cs)"
  using assms
proof (induction ps arbitrary: rendered)
  case (Cons q ps)
  obtain n p v where q: "q = (n, p, v)" by (cases q)
  have "dict_set n (PStr (host_reference h (vs_key v))) rendered = rendered @ [(n, PStr (host_reference h (vs_key v)))]"
    using Cons.prems(2) by (intro dict_set_fresh) (auto simp: q)
  then show ?case using Cons.IH [of "rendered @ [(n, PStr (host_reference h (vs_key v)))]"] Cons.prems
    by (auto simp: q rendered_source)
qed simp

lemma sort_key_map: "sort_key f (map g xs) = map g (sort_key (\<lambda>x. f (g x)) xs)"
proof -
  have "insort_key f (g x) (map g ys) = map g (insort_key (\<lambda>x. f (g x)) x ys)" for x ys by (induction ys) auto
  then show ?thesis by (induction xs) simp_all
qed

lemma sort_key_distinct:
  assumes "distinct (map f xs)" "set xs = set ys" "distinct (map f ys)"
  shows "sort_key f xs = sort_key f ys"
proof -
  have "inj_on f (set xs)" using assms(1) by (simp add: distinct_map)
  then show ?thesis
    using assms by (intro map_sorted_distinct_set_unique [where f = f])
      (simp_all add: distinct_map distinct_sort)
qed

lemma sort_key_idem [simp]: "sort_key f (sort_key f xs) = sort_key f xs"
  by (rule sort_key_id_if_sorted) simp

text \<open>The headers of a document: a binding, or the bearer token as the \<open>Authorization\<close> header.\<close>

definition header_ok :: "header_binding \<Rightarrow> bool" where
  "header_ok b \<longleftrightarrow> plain_source (hb_value b) \<and> make_header (hb_name b) (hb_value b) = Inr b \<and> py_lower (hb_name b) \<noteq> ''authorization''"

fun header_entry :: "json_host \<Rightarrow> header_binding + value_source \<Rightarrow> string \<times> pyval" where
  "header_entry h (Inl b) = (hb_name b, PStr (host_reference h (vs_key (hb_value b))))"
| "header_entry h (Inr t) = (''Authorization'', PStr (''Bearer '' @ host_reference h (vs_key t)))"

definition bearer_auth :: "value_source \<Rightarrow> auth_requirement" where
  "bearer_auth t = \<lparr>au_kind = Bearer, au_required = True, au_token = Some t, au_scopes = []\<rparr>"

definition bindings_of :: "(header_binding + value_source) list \<Rightarrow> header_binding list" where
  "bindings_of es = map projl (filter isl es)"

definition auth_of :: "(header_binding + value_source) list \<Rightarrow> auth_requirement \<Rightarrow> auth_requirement" where
  "auth_of es auth = foldl (\<lambda>a e. case e of Inl _ \<Rightarrow> a | Inr t \<Rightarrow> bearer_auth t) auth es"

lemma auth_of_filter: "auth_of es a = auth_of (filter (\<lambda>e. \<not> isl e) es) a"
  unfolding auth_of_def by (induction es arbitrary: a) (simp_all split: sum.split)

lemma make_bearer: "make_auth Bearer True (Some t) [] = Inr (bearer_auth t)"
  by (simp add: make_auth_def bearer_auth_def sorted_set_def)

lemma headers_round:
  assumes "list_all (\<lambda>e. case e of Inl b \<Rightarrow> header_ok b | Inr t \<Rightarrow> plain_source t) es"
  shows "\<exists>cs. inspect_headers name (map (header_entry h) es) auth = Inr (bindings_of es, auth_of es auth, cs)"
  using assms
proof (induction es arbitrary: auth)
  case Nil
  then show ?case by (simp add: bindings_of_def auth_of_def)
next
  case (Cons e es)
  have low: "py_lower ''Authorization'' = ''authorization''" by code_simp
  show ?case
  proof (cases e)
    case (Inl b)
    then obtain cs where "inspect_headers name (map (header_entry h) es) auth = Inr (bindings_of es, auth_of es auth, cs)"
      using Cons by auto
    then show ?thesis using Inl Cons.prems
      by (auto simp: header_ok_def source_round bindings_of_def auth_of_def)
  next
    case (Inr t)
    then obtain cs where "inspect_headers name (map (header_entry h) es) (bearer_auth t) = Inr (bindings_of es, auth_of es (bearer_auth t), cs)"
      using Cons by auto
    moreover have "env_re (vs_key t)" "make_source Environment (vs_key t) = Inr t"
      using Inr Cons.prems plain_source_fields by auto
    ultimately show ?thesis using Inr
      by (simp add: low bearer_env_reference [simplified] make_bearer bindings_of_def auth_of_def)
  qed
qed

definition environment_ok :: "environment_binding \<Rightarrow> bool" where
  "environment_ok b \<longleftrightarrow> plain_source (eb_value b) \<and> make_environment (eb_name b) (eb_value b) = Inr b"

definition environment_entry :: "json_host \<Rightarrow> environment_binding \<Rightarrow> string \<times> pyval" where
  "environment_entry h b = (eb_name b, PStr (host_reference h (vs_key (eb_value b))))"

lemma environment_round:
  "list_all environment_ok bs \<Longrightarrow> \<exists>cs. inspect_environment name (map (environment_entry h) bs) = Inr (bs, cs)"
  by (induction bs) (auto simp: environment_entry_def environment_ok_def source_round)

text \<open>What a JSON host can express of an intent, and the intent in the order the host gives it back.\<close>

definition expressible :: "json_host \<Rightarrow> (string \<Rightarrow> bool) \<Rightarrow> server_intent \<Rightarrow> bool" where
  "expressible h bracket_ok s \<longleftrightarrow> si_enabled s \<and> unique_bindings s
     \<and> (hp_tool_timeout (profile h) \<longrightarrow> su_tool_timeout (si_startup s) = None)
     \<and> (case si_transport s of
          Stdio command args cwd \<Rightarrow> make_stdio command args cwd = Inr (Stdio command args cwd)
            \<and> list_all (\<lambda>a. \<not> sensitive_flag a) args \<and> (cwd \<noteq> None \<longrightarrow> hp_cwd (profile h))
            \<and> list_all environment_ok (si_environment s) \<and> si_auth s = no_auth
        | Http url headers \<Rightarrow> hp_remote (profile h) \<and> make_http bracket_ok url headers = Inr (Http url headers)
            \<and> si_environment s = [] \<and> list_all header_ok headers
            \<and> (si_auth s = no_auth \<or> (\<exists>t. si_auth s = bearer_auth t \<and> plain_source t)))"

definition ordered_transport :: "transport \<Rightarrow> transport" where
  "ordered_transport t = (case t of Stdio command args cwd \<Rightarrow> Stdio command args cwd
     | Http url headers \<Rightarrow> Http url (sort_key hb_name headers))"

definition connection :: "server_intent \<Rightarrow> transport \<times> environment_binding list \<times> auth_requirement \<times> bool" where
  "connection s = (si_transport s, si_environment s, si_auth s, si_enabled s)"

definition ordered_connection :: "server_intent \<Rightarrow> transport \<times> environment_binding list \<times> auth_requirement \<times> bool" where
  "ordered_connection s = (ordered_transport (si_transport s), sort_key eb_name (si_environment s), si_auth s, si_enabled s)"

lemma redact_nothing:
  assumes "arguments_ok prev args" "list_all (\<lambda>a. \<not> sensitive_flag a) args"
  shows "redact_loop name False n args = (args, [])"
  using assms by (induction args arbitrary: prev) (auto simp: Let_def)

lemma rendered_environment:
  assumes "list_all environment_ok bs" "distinct (map eb_name bs)"
  shows "\<exists>cs. render_bindings h name (map (\<lambda>b. (eb_name b, ''environment.'' @ eb_name b, eb_value b)) bs) [] inputs
    = (map (environment_entry h) bs, inputs, cs)"
  using rendered_bindings [of "map (\<lambda>b. (eb_name b, ''environment.'' @ eb_name b, eb_value b)) bs" "[]" h name inputs] assms
  by (simp add: environment_ok_def list_all_iff comp_def environment_entry_def [abs_def])

lemma rendered_headers:
  assumes "list_all header_ok bs" "distinct (map hb_name bs)"
  shows "\<exists>cs. render_bindings h name (map (\<lambda>b. (hb_name b, ''transport.headers.'' @ hb_name b, hb_value b)) bs) [] inputs
    = (map (\<lambda>b. header_entry h (Inl b)) bs, inputs, cs)"
  using rendered_bindings [of "map (\<lambda>b. (hb_name b, ''transport.headers.'' @ hb_name b, hb_value b)) bs" "[]" h name inputs] assms
  by (simp add: header_ok_def list_all_iff comp_def)

lemma inspected_server:
  assumes "inspect_transport txt bracket_ok h name raw = Inr (t, auth, cs)"
    and "dict_or_empty (dget raw ''env'') = Inr env" and "inspect_environment name (sort_key fst env) = Inr (bs, cs')"
    and "dget raw ''oauth'' = PNone" and "dget raw ''timeout'' = PNone"
    and "distinct (map eb_name bs)" and "\<And>url hs. t = Http url hs \<Longrightarrow> distinct (map (\<lambda>h. py_lower (hb_name h)) hs)"
  shows "\<exists>i cs. inspect_server txt bracket_ok h name (PDict raw) = Inr (i, cs) \<and> connection i = (t, bs, auth, True)"
  using assms
  by (simp add: inspect_server_def inspect_oauth_def inspect_timeout_def make_startup_def timeout_ok_def Let_def
      make_intent_def unique_bindings_def connection_def note_unknown_fields_def split: transport.split)

lemma stdio_round:
  assumes "expressible h bracket_ok s" and t: "si_transport s = Stdio command args cwd"
  shows "\<exists>raw inputs' cs. render_server h name s inputs = (Some raw, inputs', cs)
    \<and> (\<exists>i cs. inspect_server txt bracket_ok h name (PDict raw) = Inr (i, cs) \<and> connection i = ordered_connection s)"
proof -
  let ?bs = "sort_key eb_name (si_environment s)"
  have s: "si_enabled s" "make_stdio command args cwd = Inr (Stdio command args cwd)" "list_all (\<lambda>a. \<not> sensitive_flag a) args"
    "cwd \<noteq> None \<Longrightarrow> hp_cwd (profile h)" "list_all environment_ok (si_environment s)" "si_auth s = no_auth"
    "distinct (map eb_name (si_environment s))" "hp_tool_timeout (profile h) \<Longrightarrow> su_tool_timeout (si_startup s) = None"
    using assms by (auto simp: expressible_def unique_bindings_def)
  have bs: "list_all environment_ok ?bs" "distinct (map eb_name ?bs)" using s(5,7) by (simp_all add: list_all_iff distinct_map)
  obtain cs where r: "render_bindings h name (map (\<lambda>b. (eb_name b, ''environment.'' @ eb_name b, eb_value b)) ?bs) [] inputs
      = (map (environment_entry h) ?bs, inputs, cs)"
    using rendered_environment [OF bs] by blast
  have auth: "render_auth h name s = ([], [])" using s(6) by (simp add: render_auth_def no_auth_def)
  have startup: "fst (render_startup h name s) = []"
    using s(8) by (cases "su_tool_timeout (si_startup s)") (auto simp: render_startup_def Let_def)
  let ?raw = "[(''type'', PStr ''stdio''), (''command'', PStr command), (''args'', PList (map PStr args))]
     @ (case cwd of Some w \<Rightarrow> if hp_cwd (profile h) then [(''cwd'', PStr w)] else [] | None \<Rightarrow> [])
     @ (if si_environment s \<noteq> [] then [(''env'', PDict (map (environment_entry h) ?bs))] else [])"
  have render: "\<exists>cs. render_server h name s inputs = (Some ?raw, inputs, cs)"
    by (simp add: render_server_def s(1) render_transport_def t r auth startup del: append_Cons)
  have args: "redact_host_args args name = (args, [])"
    using s(2,3) redact_nothing by (auto simp: make_stdio_def redact_host_args_def)
  have texts: "str_text txt \<circ> PStr = id" by (simp add: str_text_def fun_eq_iff)
  have list: "list_or_empty (PList (map PStr args)) = Inr (map PStr args)" by (cases args) (simp_all add: list_or_empty_def)
  have cwd: "inspect_cwd h ?raw = Inr cwd" using s(4) by (cases cwd) (simp_all add: inspect_cwd_def)
  have fields: "dget ?raw ''type'' = PStr ''stdio''" "dget ?raw ''command'' = PStr command" "dget ?raw ''args'' = PList (map PStr args)"
    by simp_all
  have "\<exists>cs. inspect_transport txt bracket_ok h name ?raw = Inr (Stdio command args cwd, no_auth, cs)"
    unfolding inspect_transport_def inspect_stdio_def fields pyval.case list bind_res_simps map_map texts cwd
    by (simp add: args s(2))
  moreover have env: "dict_or_empty (dget ?raw ''env'') = Inr (map (environment_entry h) ?bs)"
    by (cases "si_environment s") (auto simp: dict_or_empty_def split: option.split)
  moreover have "\<exists>cs. inspect_environment name (sort_key fst (map (environment_entry h) ?bs)) = Inr (?bs, cs)"
    using environment_round [OF bs(1)] by (simp add: sort_key_map environment_entry_def [abs_def])
  moreover have "dget ?raw ''oauth'' = PNone" "dget ?raw ''timeout'' = PNone" by (auto split: option.split)
  ultimately have "\<exists>i cs. inspect_server txt bracket_ok h name (PDict ?raw) = Inr (i, cs) \<and> connection i = (Stdio command args cwd, ?bs, no_auth, True)"
    using bs(2) inspected_server by (metis transport.distinct(1))
  then show ?thesis using render by (auto simp: ordered_connection_def ordered_transport_def t s(1,6))
qed

lemma http_round:
  assumes "expressible h bracket_ok s" and t: "si_transport s = Http url hs"
  shows "\<exists>raw inputs' cs. render_server h name s inputs = (Some raw, inputs', cs)
    \<and> (\<exists>i cs. inspect_server txt bracket_ok h name (PDict raw) = Inr (i, cs) \<and> connection i = ordered_connection s)"
proof -
  have s: "si_enabled s" "hp_remote (profile h)" "make_http bracket_ok url hs = Inr (Http url hs)" "si_environment s = []"
    "list_all header_ok hs" "distinct (map (\<lambda>b. py_lower (hb_name b)) hs)"
    "hp_tool_timeout (profile h) \<Longrightarrow> su_tool_timeout (si_startup s) = None"
    and auth: "si_auth s = no_auth \<or> (\<exists>t. si_auth s = bearer_auth t \<and> plain_source t)"
    using assms by (auto simp: expressible_def unique_bindings_def)
  define ls where "ls = sort_key (\<lambda>b. py_lower (hb_name b)) hs"
  define ts where "ts = (case au_token (si_auth s) of None \<Rightarrow> [] | Some t \<Rightarrow> [t])"
  have ts: "list_all plain_source ts" "si_auth s = (case ts of [] \<Rightarrow> no_auth | t # _ \<Rightarrow> bearer_auth t)" "ts = [] \<or> (\<exists>t. ts = [t])"
    using auth by (auto simp: ts_def no_auth_def bearer_auth_def)
  have names: "distinct (map hb_name hs)"
    using s(6) by (auto simp: distinct_map inj_on_def)
  have ls: "set ls = set hs" "distinct (map hb_name ls)" "list_all header_ok ls"
    using names s(5) by (simp_all add: ls_def distinct_map list_all_iff)
  define es where "es = map Inl ls @ map Inr ts"
  obtain cs where r: "render_bindings h name (map (\<lambda>b. (hb_name b, ''transport.headers.'' @ hb_name b, hb_value b)) ls) [] inputs
      = (map (\<lambda>b. header_entry h (Inl b)) ls, inputs, cs)"
    using rendered_headers [OF ls(3,2)] by blast
  have fresh: "dict_set ''Authorization'' v (map (\<lambda>b. header_entry h (Inl b)) ls) = map (\<lambda>b. header_entry h (Inl b)) ls @ [(''Authorization'', v)]" for v
  proof (rule dict_set_fresh)
    have "py_lower ''Authorization'' = ''authorization''" by code_simp
    then show "''Authorization'' \<notin> fst ` set (map (\<lambda>b. header_entry h (Inl b)) ls)"
      using ls(3) by (auto simp: header_ok_def list_all_iff)
  qed
  have startup: "fst (render_startup h name s) = []"
    using s(7) by (cases "su_tool_timeout (si_startup s)") (auto simp: render_startup_def Let_def)
  have noauth: "fst (render_auth h name s) = []"
    using auth by (auto simp: render_auth_def no_auth_def bearer_auth_def t is_http_def)
  let ?raw = "[(''type'', PStr ''http''), (''url'', PStr url)] @ (if map (header_entry h) es \<noteq> [] then [(''headers'', PDict (map (header_entry h) es))] else [])"
  have render: "\<exists>cs. render_server h name s inputs = (Some ?raw, inputs, cs)"
  proof (cases ts)
    case Nil
    then have a: "si_auth s = no_auth" using ts(2) by simp
    show ?thesis
      by (simp add: render_server_def s(1,2) render_transport_def t ls_def [symmetric] r a noauth startup no_auth_def es_def Nil
          Let_def comp_def del: append_Cons header_entry.simps(1))
  next
    case (Cons v vs)
    then have a: "si_auth s = bearer_auth v" "vs = []" and v: "plain_source v" using ts by auto
    show ?thesis
      by (simp add: render_server_def s(1,2) render_transport_def t ls_def [symmetric] r a noauth startup bearer_auth_def es_def Cons
          rendered_source [OF v] fresh Let_def comp_def del: append_Cons header_entry.simps(1))
  qed
  have sorted: "sort_key fst (map (header_entry h) es) = map (header_entry h) (sort_key (\<lambda>e. fst (header_entry h e)) es)"
    by (rule sort_key_map)
  let ?es = "sort_key (\<lambda>e. fst (header_entry h e)) es"
  have ok: "list_all (\<lambda>e. case e of Inl b \<Rightarrow> header_ok b | Inr t \<Rightarrow> plain_source t) ?es"
    using ls(3) ts(1) by (auto simp: es_def list_all_iff)
  have "bindings_of ?es = map projl (sort_key (\<lambda>e. fst (header_entry h e)) (map Inl ls))"
    by (simp add: bindings_of_def filter_sort es_def filter_map comp_def)
  also have "\<dots> = sort_key hb_name ls" by (simp add: sort_key_map comp_def)
  also have "\<dots> = sort_key hb_name hs" using ls names by (intro sort_key_distinct) simp_all
  finally have hs: "bindings_of ?es = sort_key hb_name hs" .
  have "filter (\<lambda>e. \<not> isl e) ?es = map Inr ts"
    using ts(3) by (auto simp: filter_sort es_def filter_map comp_def)
  then have "auth_of ?es no_auth = si_auth s"
    using ts(2,3) by (subst auth_of_filter) (auto simp: auth_of_def)
  then obtain cs' where i: "inspect_headers name (sort_key fst (map (header_entry h) es)) no_auth = Inr (sort_key hb_name hs, si_auth s, cs')"
    using headers_round [OF ok, of name h no_auth] unfolding sorted hs by metis
  have d: "dict_or_empty (dget ?raw ''headers'') = Inr (map (header_entry h) es)"
    by (cases es) (simp_all add: dict_or_empty_def)
  have m: "make_http bracket_ok url hs' = Inr (Http url hs')" for hs' using s(3) by (auto simp: make_http_def)
  have fields: "dget ?raw ''type'' = PStr ''http''" "dget ?raw ''url'' = PStr url" by simp_all
  have "\<exists>cs. inspect_transport txt bracket_ok h name ?raw = Inr (Http url (sort_key hb_name hs), si_auth s, cs)"
    unfolding inspect_transport_def inspect_http_def fields pyval.case d bind_res_simps i by (simp add: m)
  moreover have "dict_or_empty (dget ?raw ''env'') = Inr []" by (simp add: dict_or_empty_def)
  moreover have "inspect_environment name (sort_key fst []) = Inr ([], [])" by simp
  moreover have "dget ?raw ''oauth'' = PNone" "dget ?raw ''timeout'' = PNone" by simp_all
  moreover have "distinct (map (\<lambda>b. py_lower (hb_name b)) (sort_key hb_name hs))" using s(6) by (simp add: distinct_map)
  ultimately have "\<exists>i cs. inspect_server txt bracket_ok h name (PDict ?raw) = Inr (i, cs)
      \<and> connection i = (Http url (sort_key hb_name hs), [], si_auth s, True)"
    using inspected_server [where t = "Http url (sort_key hb_name hs)" and bs = "[]"] by fastforce
  then show ?thesis using render by (auto simp: ordered_connection_def ordered_transport_def t s(1,4))
qed

lemma servers_round:
  assumes "list_all (\<lambda>(n, s). expressible h bracket_ok s) ss"
  shows "\<exists>rs inputs' cs. render_servers h ss inputs = (rs, inputs', cs) \<and> map fst rs = map fst ss
    \<and> (\<exists>is cs. inspect_servers txt bracket_ok h rs = Inr (is, cs)
        \<and> map (\<lambda>(n, s). (n, connection s)) is = map (\<lambda>(n, s). (n, ordered_connection s)) ss)"
  using assms
proof (induction ss arbitrary: inputs)
  case (Cons p ss)
  obtain n s where p: "p = (n, s)" by (cases p)
  then have e: "expressible h bracket_ok s" using Cons.prems by simp
  obtain raw inputs' cs i cs' where one: "render_server h n s inputs = (Some raw, inputs', cs)"
      "inspect_server txt bracket_ok h n (PDict raw) = Inr (i, cs')" "connection i = ordered_connection s"
    using stdio_round [OF e] http_round [OF e] by (cases "si_transport s") metis+
  then show ?case using Cons.IH [of inputs'] Cons.prems by (auto simp: p)
qed simp

text \<open>C23. What a JSON host renders from servers it can express, its inspection gives back: the same names, transports, environment references, authentication and enablement, in the order of the host.\<close>

lemma json_host_round_trip:
  assumes "list_all (\<lambda>(n, s). name_re n \<and> expressible h bracket_ok s) (nc_servers intent)"
  shows "\<exists>res. inspect_root txt bracket_ok h (fst (render_root h intent)) = Inr res
    \<and> map (\<lambda>(n, s). (n, connection s)) (nc_servers (ir_intent res))
        = map (\<lambda>(n, s). (n, ordered_connection s)) (sort_key fst (nc_servers intent))"
proof -
  let ?ss = "sort_key fst (nc_servers intent)"
  have "list_all (\<lambda>(n, s). expressible h bracket_ok s) ?ss" using assms by (auto simp: list_all_iff)
  then obtain rs inputs' cs "is" cs' where r: "render_servers h ?ss [] = (rs, inputs', cs)" "map fst rs = map fst ?ss"
      "inspect_servers txt bracket_ok h rs = Inr (is, cs')"
      "map (\<lambda>(n, s). (n, connection s)) is = map (\<lambda>(n, s). (n, ordered_connection s)) ?ss"
    using servers_round by metis
  have sorted: "sort_key fst rs = rs" by (rule sort_key_id_if_sorted) (simp add: r(2))
  have "map fst is = map fst (map (\<lambda>(n, s). (n, connection s)) is)" by (simp add: comp_def case_prod_unfold)
  also have "\<dots> = map fst ?ss" unfolding r(4) by (simp add: comp_def case_prod_unfold)
  finally have "map fst is = map fst ?ss" .
  then have "fst ` set is = fst ` set (nc_servers intent)" by (metis list.set_map set_sort)
  then have names: "list_all (\<lambda>(n, s). name_re n) is" using assms by (force simp: list_all_iff)
  have "dget (fst (render_root h intent)) (hp_server_key (profile h)) = PDict rs" by (simp add: render_root_def r(1))
  then show ?thesis using names r(3,4) by (auto simp: inspect_root_def sorted make_config_def)
qed

section \<open>Examples\<close>

definition stdio_example :: "string list \<Rightarrow> environment_binding list \<Rightarrow> scope_policy \<Rightarrow> server_intent" where
  "stdio_example args env resources = \<lparr>si_transport = Stdio ''run'' args None, si_environment = env, si_auth = no_auth,
     si_enabled = True, si_tools = make_policy [] [], si_resources = resources,
     si_startup = \<lparr>su_startup_timeout = None, su_tool_timeout = None, su_required = None\<rparr>,
     si_provenance = \<lparr>pv_host = HostNeutral, pv_format = ''neutral'', pv_as_of = ''2026-08-11'', pv_documentation_url = None\<rparr>,
     si_unknown = []\<rparr>"

definition env_source :: "string \<Rightarrow> value_source" where
  "env_source key = \<lparr>vs_kind = Environment, vs_key = key, vs_secret = True, vs_required = True\<rparr>"

definition http_example :: server_intent where
  "http_example = (stdio_example [] [] (make_policy [] []))
     \<lparr>si_transport := Http ''https://x.org/mcp'' [\<lparr>hb_name = ''X'', hb_value = env_source ''K''\<rparr>],
      si_auth := bearer_auth (env_source ''T'')\<rparr>"

definition neutral_example :: "(string \<times> server_intent) list \<Rightarrow> neutral_config" where
  "neutral_example servers = \<lparr>nc_protocol = MCP_PROTOCOL_VERSION, nc_registry_schema = MCP_REGISTRY_SCHEMA_VERSION, nc_servers = servers\<rparr>"

lemma servers_neutral_example: "nc_servers (neutral_example servers) = servers"
  by (simp add: neutral_example_def)

text \<open>A TOML reader that finds one server without a resource scope.\<close>

definition codex_example :: codex_env where
  "codex_example = \<lparr>cx_toml = (\<lambda>_. Inr [(''mcp_servers'', PDict [(''s'', PDict [(''command'', PStr ''run'')])])]),
     cx_quote = (\<lambda>s. s), cx_general = (\<lambda>_. []), cx_float = (\<lambda>_. Inr None), cx_bool = (\<lambda>_. Inr None), cx_str = (\<lambda>_. [])\<rparr>"

text \<open>A JSON reader whose document is the secret itself.\<close>

definition secret_reader :: platform where
  "secret_reader = sample_platform\<lparr>json_scan := (\<lambda>s. Some (RObj [(''servers'', RObj [(''s'', RObj
     [(''type'', RStr ''stdio''), (''command'', RStr ''run''), (''args'', RArr [RStr ''--token'', RStr s]),
      (''env'', RObj [(''KEY'', RStr s)])])])]))\<rparr>"

lemma example_texts:
  "\<not> probable_secret ''run''" "single_line ''run''" "\<not> sensitive_flag ''run''" "name_re ''s''" "name_re ''w''"
  "\<not> probable_secret ''--token''" "sensitive_flag ''--token''" "single_line ''--token''" "single_line ''t''"
  "env_re ''K''" "env_re ''T''"
  by code_simp+

lemma codex_resources:
  assumes "codex_inspect_server cx b name v = Inr (i, cs)"
  shows "si_resources i = make_policy [] []"
proof (cases v)
  case (PDict raw)
  obtain us ucs where "note_unknown_fields name raw (set CODEX_KNOWN) = (us, ucs)" by fastforce
  then show ?thesis using assms unfolding PDict by (auto simp: codex_inspect_server_def make_intent_def)
qed (use assms in \<open>simp_all add: codex_inspect_server_def\<close>)

lemma codex_example_inspects:
  "\<exists>a rep. codex_inspect codex_example b doc = Inr \<lparr>ir_intent = neutral_example [(''s'', a)], ir_report = rep\<rparr>
     \<and> si_resources a = make_policy [] []"
proof -
  have "\<exists>x. codex_inspect_server codex_example b ''s'' (PDict [(''command'', PStr ''run'')]) = Inr x"
    by (simp add: codex_inspect_server_def codex_inspect_transport_def list_or_empty_def redact_host_args_def make_stdio_def example_texts
        string_or_none_def codex_environment_def dict_or_empty_def codex_inspect_auth_def codex_startup_of_def codex_example_def
        make_startup_def timeout_ok_def codex_policy_of_def make_intent_def unique_bindings_def Let_def split: prod.split)
  then obtain a cs where "codex_inspect_server codex_example b ''s'' (PDict [(''command'', PStr ''run'')]) = Inr (a, cs)"
      "si_resources a = make_policy [] []"
    using codex_resources by fastforce
  moreover have "cx_toml codex_example doc = Inr [(''mcp_servers'', PDict [(''s'', PDict [(''command'', PStr ''run'')])])]"
    by (simp add: codex_example_def)
  ultimately show ?thesis by (simp add: codex_inspect_def make_config_def example_texts neutral_example_def)
qed

lemma round_trip_never_widens_silently_witness:
  "\<exists>ins rep. round_trip sample_platform codex_example (\<lambda>_. False)
       (neutral_example [(''s'', stdio_example [] [] (make_policy [''doc''] []))]) ''codex'' = Inr (ins, rep)
     \<and> (\<exists>c\<in>set (pr_changes rep). sc_server c = ''s'' \<and> sc_state c = Widened) \<and> 0 < pr_summary rep Widened"
proof -
  let ?b = "stdio_example [] [] (make_policy [''doc''] [])"
  have codex: "adapter_for ''codex'' = Inr Codex" by (simp add: adapter_for_def)
  have "\<exists>ins rep a. round_trip sample_platform codex_example (\<lambda>_. False) (neutral_example [(''s'', ?b)]) ''codex'' = Inr (ins, rep)
    \<and> map_of (nc_servers (ir_intent ins)) ''s'' = Some a \<and> si_resources a = make_policy [] []"
  proof -
    obtain a rep where "codex_inspect codex_example (\<lambda>_. False) (rr_document (codex_render codex_example (neutral_example [(''s'', ?b)])))
        = Inr \<lparr>ir_intent = neutral_example [(''s'', a)], ir_report = rep\<rparr>" "si_resources a = make_policy [] []"
      using codex_example_inspects by blast
    then show ?thesis
      by (auto simp: round_trip_def inspect_host_def adapter_inspect_def adapter_render_def codex Let_def neutral_example_def)
  qed
  then obtain ins rep a where r: "round_trip sample_platform codex_example (\<lambda>_. False) (neutral_example [(''s'', ?b)]) ''codex'' = Inr (ins, rep)"
    "map_of (nc_servers (ir_intent ins)) ''s'' = Some a" "si_resources a = make_policy [] []" by blast
  have "map_of (nc_servers (neutral_example [(''s'', ?b)])) ''s'' = Some ?b" by (simp add: neutral_example_def)
  moreover have "permits (si_resources a) ''all''" "\<not> permits (si_resources ?b) ''all''"
    by (simp_all add: r(3) permits_def make_policy_def sorted_set_def stdio_example_def)
  ultimately show ?thesis using r round_trip_never_widens_silently [of sample_platform codex_example "\<lambda>_. False"
      "neutral_example [(''s'', ?b)]" "''codex''" ins rep "''s''" ?b a "''all''"] by blast
qed

lemma redaction_passes_validation_witness:
  "make_stdio ''run'' (fst (redact_host_args [''--token'', ''t''] ''s'')) None
     = Inr (Stdio ''run'' (fst (redact_host_args [''--token'', ''t''] ''s'')) None)"
  using redaction_passes_validation [of "[''--token'', ''t'']" "''run''" "''s''" None] by (simp add: example_texts)

definition secret_document :: "string \<Rightarrow> pydict" where
  "secret_document s = [(''servers'', PDict [(''s'', PDict
     [(''type'', PStr ''stdio''), (''command'', PStr ''run''), (''args'', PList [PStr ''--token'', PStr s]),
      (''env'', PDict [(''KEY'', PStr s)])])])]"

lemma secret_reader_loads: "load_json secret_reader s = Inr (secret_document s)"
  by (simp add: load_json_def secret_reader_def secret_document_def)


lemma json_host_round_trip_witness:
  "\<exists>res. inspect_root (\<lambda>_. []) (\<lambda>_. False) VSCode (fst (render_root VSCode (neutral_example
        [(''w'', http_example), (''s'', stdio_example [''-v''] [\<lparr>eb_name = ''K'', eb_value = env_source ''T''\<rparr>] (make_policy [] []))]))) = Inr res
    \<and> map fst (nc_servers (ir_intent res)) = [''s'', ''w'']"
proof -
  have x: "validate_url (\<lambda>_. False) ''https://x.org/mcp''" by code_simp
  have src: "plain_source (env_source ''K'')" "plain_source (env_source ''T'')"
    by (simp_all add: plain_source_def env_source_def make_source_def example_texts)
  have v: "single_line ''-v''" "\<not> probable_secret ''-v''" "\<not> sensitive_flag ''-v''" "py_lower ''X'' \<noteq> ''authorization''" by code_simp+
  have e: "expressible VSCode (\<lambda>_. False) http_example"
    using src x v(4) by (simp add: expressible_def http_example_def stdio_example_def unique_bindings_def make_http_def header_ok_def make_header_def)
       blast
  have f: "expressible VSCode (\<lambda>_. False) (stdio_example [''-v''] [\<lparr>eb_name = ''K'', eb_value = env_source ''T''\<rparr>] (make_policy [] []))"
    using src v by (simp add: expressible_def stdio_example_def unique_bindings_def make_stdio_def environment_ok_def make_environment_def example_texts)
  let ?servers = "[(''w'', http_example), (''s'', stdio_example [''-v''] [\<lparr>eb_name = ''K'', eb_value = env_source ''T''\<rparr>] (make_policy [] []))]"
  have "list_all (\<lambda>(n, s). name_re n \<and> expressible VSCode (\<lambda>_. False) s) (nc_servers (neutral_example ?servers))"
    by (simp only: servers_neutral_example list.pred_inject prod.case example_texts e f simp_thms)
  from json_host_round_trip [OF this] obtain res where r: "inspect_root (\<lambda>_. []) (\<lambda>_. False) VSCode (fst (render_root VSCode (neutral_example ?servers))) = Inr res"
    and m: "map (\<lambda>(n, s). (n, connection s)) (nc_servers (ir_intent res))
      = map (\<lambda>(n, s). (n, ordered_connection s)) (sort_key fst (nc_servers (neutral_example ?servers)))"
    by blast
  have "map fst (nc_servers (ir_intent res)) = map fst (map (\<lambda>(n, s). (n, connection s)) (nc_servers (ir_intent res)))"
    by (simp add: comp_def case_prod_unfold)
  also have "\<dots> = [''s'', ''w'']"
  proof -
    have "sort_key fst [(''w'', x), (''s'', y)] = [(''s'', y), (''w'', x)]" for x y :: server_intent by simp
    then show ?thesis unfolding m by (simp only: servers_neutral_example list.map prod.case fst_conv)
  qed
  finally have "map fst (nc_servers (ir_intent res)) = [''s'', ''w'']" .
  show ?thesis by (rule exI [of _ res], rule conjI, rule r, fact)
qed

lemma numeric_args_raise_witness:
  "inspect_host (sample_platform\<lparr>json_scan := (\<lambda>_. Some (RObj [(''servers'', RObj [(''s'', RObj
      [(''type'', RStr ''stdio''), (''command'', RStr ''run''), (''args'', RInt ''5'')])])]))\<rparr>) codex_example (\<lambda>_. False) [] ''vscode''
   = Inl (PortRaised TypeError)"
proof -
  have five: "int_of_literal ''5'' = Inr 5" by code_simp
  show ?thesis
    by (rule numeric_args_raise [where h = VSCode and n = 5 and name = "''s''" and command = "''run''"
        and d = "[(''servers'', PDict [(''s'', PDict [(''type'', PStr ''stdio''), (''command'', PStr ''run''), (''args'', PInt 5)])])]"
        and raw = "[(''type'', PStr ''stdio''), (''command'', PStr ''run''), (''args'', PInt 5)]"])
      (simp_all add: adapter_for_def load_json_def five)
qed

end
