(* ===== verification/Auth_Posture.thy ===== *)
theory Auth_Posture
  imports Snapshot_Validation Url_Text "HOL-Library.Sublist"
begin

text \<open>
  The credential-free preflight of an MCP authorization server (\<open>auth_posture.py\<close>): the binding of one candidate of a
  saved manifest, the fetcher that pins public addresses, and the probe over discovery documents. The network, the DNS
  resolver, IDNA, the recognition of IP literals and the parsing of HTTP dates are parameters.
\<close>

section \<open>Limits\<close>

definition MAX_METADATA_BYTES :: nat where "MAX_METADATA_BYTES = 64 * 1024"
definition MAX_HEADER_BYTES :: nat where "MAX_HEADER_BYTES = 8 * 1024"
definition MAX_TIMEOUT :: rat where "MAX_TIMEOUT = 10"
definition MAX_JSON_DEPTH :: nat where "MAX_JSON_DEPTH = 16"
definition MAX_JSON_NODES :: nat where "MAX_JSON_NODES = 2048"
definition MAX_AUTHORIZATION_SERVERS :: nat where "MAX_AUTHORIZATION_SERVERS = 8"
definition MAX_SCOPES :: nat where "MAX_SCOPES = 64"
definition MAX_RESOLVED_ADDRESSES :: nat where "MAX_RESOLVED_ADDRESSES = 16"
definition MAX_CLOCK_SKEW_SECONDS :: int where "MAX_CLOCK_SKEW_SECONDS = 300"
definition MAX_UNDIRECTED_CACHE_AGE_SECONDS :: int where "MAX_UNDIRECTED_CACHE_AGE_SECONDS = 3600"
definition MAX_ACCEPTED_CACHE_AGE_SECONDS :: int where "MAX_ACCEPTED_CACHE_AGE_SECONDS = 86400"

section \<open>Errors and services\<close>

text \<open>\<open>AuthPostureInputError\<close>, \<open>MetadataDocumentError\<close> with its reason code, and any other exception.\<close>

datatype posture_error = PostureInputError | MetadataError string | PostureRaised exn

type_synonym 'a posture = "posture_error + 'a"

definition ensure :: "posture_error \<Rightarrow> bool \<Rightarrow> unit posture" where
  "ensure e ok = (if ok then Inr () else Inl e)"

lemma ensure_Inr [simp]: "ensure e ok = Inr u \<longleftrightarrow> ok"
  by (simp add: ensure_def)

lemma ensure_simps [simp]: "ensure e True = Inr ()" "ensure e False = Inl e"
  by (simp_all add: ensure_def)

definition raised :: "'a res \<Rightarrow> 'a posture" where
  "raised r = (case r of Inl e \<Rightarrow> Inl (PostureRaised e) | Inr x \<Rightarrow> Inr x)"

lemma raised_Inr [simp]: "raised r = Inr x \<longleftrightarrow> r = Inr x"
  by (cases r) (auto simp: raised_def)

text \<open>\<open>encode("idna")\<close>, \<open>ipaddress.ip_address\<close> succeeding, the check of a bracketed host, \<open>parsedate_to_datetime\<close> and
  \<open>isoformat(timespec="seconds")\<close> of a UTC instant with \<open>+00:00\<close> as \<open>Z\<close>.\<close>

record posture_env =
  pe_idna :: "string \<Rightarrow> string option"
  pe_is_ip :: "string \<Rightarrow> bool"
  pe_bracket_ok :: "string \<Rightarrow> bool"
  pe_http_date :: "string \<Rightarrow> pydt option"
  pe_seconds :: "int \<Rightarrow> string"

section \<open>Bound URLs\<close>

record bound_url =
  bu_url :: string
  bu_hostname :: string
  bu_port :: int
  bu_path :: string
  bu_origin :: string

definition normalized_hostname :: "posture_env \<Rightarrow> string \<Rightarrow> string posture" where
  "normalized_hostname pe hostname = (case pe_idna pe (rstrip_char (CHR ''.'') hostname) of
     None \<Rightarrow> Inl PostureInputError
   | Some s \<Rightarrow> if py_lower s = [] then Inl PostureInputError else Inr (py_lower s))"

definition local_host :: "string \<Rightarrow> bool" where
  "local_host hostname \<longleftrightarrow> hostname = ''localhost'' \<or> suffix ''.localhost'' hostname"

definition url_text_ok :: "string \<Rightarrow> bool" where
  "url_text_ok raw \<longleftrightarrow> raw \<noteq> [] \<and> raw = py_strip raw \<and> length raw \<le> 2048
     \<and> CHR 0x5C \<notin> set raw \<and> \<not> list_ex control_char raw"

definition path_text_ok :: "string \<Rightarrow> bool" where
  "path_text_ok path \<longleftrightarrow> CHR 0x5C \<notin> set (unquote path) \<and> \<not> list_ex control_char (unquote path)"

definition port_or :: "int \<Rightarrow> int option \<Rightarrow> int" where
  "port_or d p = (case p of None \<Rightarrow> d | Some n \<Rightarrow> n)"

definition input_error :: "'a res \<Rightarrow> 'a posture" where
  "input_error r = (case r of Inl e \<Rightarrow> Inl PostureInputError | Inr x \<Rightarrow> Inr x)"

lemma input_error_Inr [simp]: "input_error r = Inr x \<longleftrightarrow> r = Inr x"
  by (cases r) (auto simp: input_error_def)

definition bound_of :: "string \<Rightarrow> int \<Rightarrow> string \<Rightarrow> bound_url" where
  "bound_of hostname port path = (let netloc = (if port = 443 then hostname else hostname @ '':'' @ decimal (nat port)) in
     \<lparr>bu_url = urlunsplit ''https'' netloc path [] [], bu_hostname = hostname, bu_port = port, bu_path = path,
      bu_origin = ''https://'' @ netloc\<rparr>)"

definition bound_https_url :: "posture_env \<Rightarrow> pyval \<Rightarrow> bound_url posture" where
  "bound_https_url pe value = (case value of
     PStr raw \<Rightarrow>
       bind_res (ensure PostureInputError (url_text_ok raw)) (\<lambda>_.
       bind_res (input_error (urlsplit (pe_bracket_ok pe) raw)) (\<lambda>parsed.
       bind_res (ensure PostureInputError (url_scheme parsed = ''https'' \<and> \<not> url_has_userinfo parsed
         \<and> url_query parsed = [] \<and> url_fragment parsed = [])) (\<lambda>_.
       bind_res (normalized_hostname pe (url_host parsed)) (\<lambda>hostname.
       bind_res (ensure PostureInputError (\<not> local_host hostname \<and> \<not> pe_is_ip pe hostname)) (\<lambda>_.
       bind_res (input_error (url_port parsed)) (\<lambda>parsed_port.
       let port = port_or 443 parsed_port; path = (if url_path parsed = [] then ''/'' else url_path parsed) in
       bind_res (ensure PostureInputError (1 \<le> port \<and> port \<le> 65535 \<and> hd path = CHR ''/'' \<and> path_text_ok path)) (\<lambda>_.
         Inr (bound_of hostname port path))))))))
   | _ \<Rightarrow> Inl PostureInputError)"

text \<open>Errors become the reason code of the document field.\<close>

definition metadata_url :: "posture_env \<Rightarrow> pyval \<Rightarrow> string \<Rightarrow> bound_url posture" where
  "metadata_url pe raw label = (case bound_https_url pe raw of
     Inl PostureInputError \<Rightarrow> Inl (MetadataError (label @ ''_invalid''))
   | r \<Rightarrow> r)"

definition https_endpoint :: "posture_env \<Rightarrow> pyval \<Rightarrow> string \<Rightarrow> string posture" where
  "https_endpoint pe value label = (let e = MetadataError (label @ ''_invalid'') in case value of
     PStr raw \<Rightarrow>
       if \<not> url_text_ok raw then Inl e
       else (case urlsplit (pe_bracket_ok pe) raw of
         Inl _ \<Rightarrow> Inl e
       | Inr parsed \<Rightarrow> (case (normalized_hostname pe (url_host parsed), url_port parsed) of
           (Inr hostname, Inr parsed_port) \<Rightarrow>
             if url_scheme parsed = ''https'' \<and> \<not> url_has_userinfo parsed \<and> url_fragment parsed = []
               \<and> 1 \<le> port_or 443 parsed_port \<and> port_or 443 parsed_port \<le> 65535
               \<and> \<not> local_host hostname \<and> \<not> pe_is_ip pe hostname
               \<and> path_text_ok (if url_path parsed = [] then ''/'' else url_path parsed)
             then Inr raw else Inl e
         | _ \<Rightarrow> Inl e))
   | _ \<Rightarrow> Inl e)"

section \<open>The candidate of a saved manifest\<close>

text \<open>\<open>json.loads\<close> without hooks: the last value of a repeated key wins, a literal of more than 4300 digits raises.\<close>

fun loads_build :: "platform \<Rightarrow> jraw \<Rightarrow> pyval res"
  and loads_all :: "platform \<Rightarrow> jraw list \<Rightarrow> pyval list res"
  and loads_pairs :: "platform \<Rightarrow> (string \<times> jraw) list \<Rightarrow> pydict res" where
  "loads_build pf RNull = Inr PNone"
| "loads_build pf (RBool b) = Inr (PBool b)"
| "loads_build pf (RInt s) = bind_res (int_of_literal s) (\<lambda>n. Inr (PInt n))"
| "loads_build pf (RFloat s) = Inr (PFloat (float_literal pf s))"
| "loads_build pf (RConst s) = Inr (PFloat (if s = ''NaN'' then NaN else Inf (s = ''-Infinity'')))"
| "loads_build pf (RStr s) = Inr (PStr s)"
| "loads_build pf (RArr xs) = bind_res (loads_all pf xs) (\<lambda>vs. Inr (PList vs))"
| "loads_build pf (RObj ps) = bind_res (loads_pairs pf ps) (\<lambda>d. Inr (PDict (dict_of d)))"
| "loads_all pf [] = Inr []"
| "loads_all pf (x # xs) = bind_res (loads_build pf x) (\<lambda>v. bind_res (loads_all pf xs) (\<lambda>vs. Inr (v # vs)))"
| "loads_pairs pf [] = Inr []"
| "loads_pairs pf ((k, x) # ps) = bind_res (loads_build pf x) (\<lambda>v. bind_res (loads_pairs pf ps) (\<lambda>d. Inr ((k, v) # d)))"

record registry_binding =
  bn_stable_id :: string
  bn_resource_url :: string
  bn_manifest_sha256 :: string
  bn_source_kind :: string

definition candidate_matches :: "string \<Rightarrow> pyval \<Rightarrow> bool" where
  "candidate_matches stable_id candidate \<longleftrightarrow> (case candidate of PDict c \<Rightarrow> dget c ''stable_id'' = PStr stable_id | _ \<Rightarrow> False)"

text \<open>The checks on the parsed manifest, and the whole function on the bytes the regular file gave.\<close>

definition bind_candidate :: "posture_env \<Rightarrow> pyval \<Rightarrow> string \<Rightarrow> bound_url posture" where
  "bind_candidate pe value stable_id = (case value of
     PDict d \<Rightarrow>
       bind_res (ensure PostureInputError (py_eq (dget d ''format_version'') (PInt 1))) (\<lambda>_.
       bind_res (ensure PostureInputError (case dget d ''source'' of
         PDict source \<Rightarrow> dget source ''kind'' = PStr ''official-mcp-registry-export'' | _ \<Rightarrow> False)) (\<lambda>_.
       (case dget d ''candidates'' of
          PList candidates \<Rightarrow>
            bind_res (ensure PostureInputError (length candidates \<le> 10000)) (\<lambda>_.
            (case filter (candidate_matches stable_id) candidates of
               [PDict c] \<Rightarrow> (case dget c ''remote_refs'' of
                  PList [PDict remote] \<Rightarrow>
                    bind_res (bound_https_url pe (dget remote ''url'')) (\<lambda>resource.
                    bind_res (ensure PostureInputError (dget remote ''normalized_url'' = PNone
                      \<or> dget remote ''normalized_url'' = PStr (rstrip_char (CHR ''/'') (bu_url resource)))) (\<lambda>_. Inr resource))
                | _ \<Rightarrow> Inl PostureInputError)
             | _ \<Rightarrow> Inl PostureInputError))
        | _ \<Rightarrow> Inl PostureInputError)))
   | _ \<Rightarrow> Inl PostureInputError)"

definition load_registry_binding :: "platform \<Rightarrow> posture_env \<Rightarrow> string posture \<Rightarrow> string \<Rightarrow> registry_binding posture" where
  "load_registry_binding pf pe file_bytes stable_id =
     bind_res (ensure PostureInputError (stable_id \<noteq> [] \<and> length stable_id \<le> 256)) (\<lambda>_.
     bind_res file_bytes (\<lambda>raw.
     case utf8_decode pf raw of None \<Rightarrow> Inl PostureInputError
     | Some t \<Rightarrow> (case json_scan pf t of None \<Rightarrow> Inl PostureInputError
        | Some tree \<Rightarrow>
            bind_res (raised (loads_build pf tree)) (\<lambda>value.
            bind_res (bind_candidate pe value stable_id) (\<lambda>resource.
              Inr \<lparr>bn_stable_id = stable_id, bn_resource_url = bu_url resource, bn_manifest_sha256 = sha256_hex pf raw,
                bn_source_kind = ''official-mcp-registry-export''\<rparr>)))))"

section \<open>The pinned fetcher\<close>

record fetch_response =
  fp_url :: string
  fp_status :: "int option"
  fp_content_type :: "string option"
  fp_http_date :: "string option"
  fp_cache_control :: "string option"
  fp_age :: "string option"
  fp_last_modified :: "string option"
  fp_body :: "string option"
  fp_reason :: "string option"

definition failed_fetch :: "string \<Rightarrow> string \<Rightarrow> fetch_response" where
  "failed_fetch url reason = \<lparr>fp_url = url, fp_status = None, fp_content_type = None, fp_http_date = None,
     fp_cache_control = None, fp_age = None, fp_last_modified = None, fp_body = None, fp_reason = Some reason\<rparr>"

text \<open>The resolver gives the socket addresses or fails; \<open>net_global\<close> is \<open>is_global\<close> of an address that parses; an exchange
  is the response of a connection to an address, or a network error.\<close>

record exchange =
  ex_status :: int
  ex_header :: "string \<Rightarrow> string option"
  ex_body :: string

record network =
  net_resolve :: "string \<Rightarrow> int \<Rightarrow> string list option"
  net_global :: "string \<Rightarrow> bool option"
  net_exchange :: "bound_url \<Rightarrow> string \<Rightarrow> exchange option"

definition bounded_response_header :: "exchange \<Rightarrow> string \<Rightarrow> string option" where
  "bounded_response_header r name = (case ex_header r name of None \<Rightarrow> None
     | Some v \<Rightarrow> if 512 < length v \<or> CHR 0x0D \<in> set v \<or> CHR 0x0A \<in> set v
         \<or> list_ex (\<lambda>c. control_char c \<and> c \<noteq> CHR 0x09) v then None else Some v)"

text \<open>\<open>_addresses\<close>: every distinct address must be global.\<close>

fun check_addresses :: "network \<Rightarrow> string list \<Rightarrow> string option" where
  "check_addresses net [] = None"
| "check_addresses net (a # rest) = (case net_global net a of
     None \<Rightarrow> Some ''dns_error''
   | Some g \<Rightarrow> if \<not> g then Some ''non_public_address'' else check_addresses net rest)"

definition addresses :: "network \<Rightarrow> bound_url \<Rightarrow> string + string list" where
  "addresses net target = (case net_resolve net (bu_hostname target) (bu_port target) of
     None \<Rightarrow> Inl ''dns_error''
   | Some answers \<Rightarrow>
       (let found = sorted_set (map (takeWhile (\<lambda>c. c \<noteq> CHR ''%'')) answers) in
        if found = [] \<or> MAX_RESOLVED_ADDRESSES < length found then Inl ''dns_error''
        else case check_addresses net found of Some reason \<Rightarrow> Inl reason | None \<Rightarrow> Inr found))"

definition request :: "network \<Rightarrow> bound_url \<Rightarrow> string \<Rightarrow> nat \<Rightarrow> fetch_response" where
  "request net target address max_body_bytes = (case net_exchange net target address of
     None \<Rightarrow> failed_fetch (bu_url target) ''network_error''
   | Some r \<Rightarrow>
       (let redirect = (300 \<le> ex_status r \<and> ex_status r \<le> 399); big = max_body_bytes < length (ex_body r) in
        \<lparr>fp_url = bu_url target, fp_status = Some (ex_status r), fp_content_type = ex_header r ''Content-Type'',
         fp_http_date = bounded_response_header r ''Date'', fp_cache_control = bounded_response_header r ''Cache-Control'',
         fp_age = bounded_response_header r ''Age'', fp_last_modified = bounded_response_header r ''Last-Modified'',
         fp_body = (if redirect \<or> big then None else Some (ex_body r)),
         fp_reason = (if redirect then Some ''redirect_not_allowed'' else if big then Some ''body_too_large'' else None)\<rparr>))"

fun try_addresses :: "network \<Rightarrow> bound_url \<Rightarrow> nat \<Rightarrow> string list \<Rightarrow> fetch_response \<Rightarrow> fetch_response" where
  "try_addresses net target max_body_bytes [] last_response = last_response"
| "try_addresses net target max_body_bytes (a # rest) last_response =
     (let r = request net target a max_body_bytes in
      if fp_reason r \<noteq> Some ''network_error'' then r else try_addresses net target max_body_bytes rest r)"

definition pinned_fetch :: "posture_env \<Rightarrow> network \<Rightarrow> string \<Rightarrow> nat \<Rightarrow> fetch_response posture" where
  "pinned_fetch pe net url max_body_bytes = bind_res (bound_https_url pe (PStr url)) (\<lambda>target.
     case addresses net target of
       Inl reason \<Rightarrow> Inr (failed_fetch (bu_url target) reason)
     | Inr found \<Rightarrow> Inr (try_addresses net target max_body_bytes found (failed_fetch (bu_url target) ''network_error'')))"

section \<open>The challenge\<close>

text \<open>\<open>(?:^|,)\s*Bearer(?:\s|$)\<close>, ignoring case.\<close>

definition bearer_here :: "string \<Rightarrow> bool" where
  "bearer_here s \<longleftrightarrow> (let t = dropWhile is_space_char s in
     take 6 (py_lower t) = ''bearer'' \<and> (drop 6 t = [] \<or> is_space_char (hd (drop 6 t))))"

fun bearer_after_comma :: "string \<Rightarrow> bool" where
  "bearer_after_comma [] = False"
| "bearer_after_comma (c # cs) = ((c = CHR '','' \<and> bearer_here cs) \<or> bearer_after_comma cs)"

definition bearer_re :: "string \<Rightarrow> bool" where
  "bearer_re s \<longleftrightarrow> bearer_here s \<or> bearer_after_comma s"

text \<open>\<open>_PARAM_RE\<close> after its leading anchor or separator: the name, the value and what follows the match.\<close>

definition name_char :: "char \<Rightarrow> bool" where
  "name_char c \<longleftrightarrow> is_alnum_char c \<or> c = CHR ''_'' \<or> c = CHR ''-''"

definition token_char :: "char \<Rightarrow> bool" where
  "token_char c \<longleftrightarrow> c \<noteq> CHR '','' \<and> c \<noteq> CHR '';'' \<and> \<not> is_space_char c"

definition quoted_value :: "string \<Rightarrow> (string \<times> string) option" where
  "quoted_value s = (case s of [] \<Rightarrow> None
     | q # t \<Rightarrow> if q \<noteq> CHR 0x22 then None
         else let inside = (\<lambda>c. c \<noteq> CHR 0x22 \<and> c \<noteq> CHR 0x5C) in
           (case dropWhile inside t of [] \<Rightarrow> None
            | c # rest \<Rightarrow> if c = CHR 0x22 then Some (takeWhile inside t, rest) else None))"

definition param_body :: "string \<Rightarrow> (string \<times> string \<times> string) option" where
  "param_body s = (let name = takeWhile name_char s; r = dropWhile is_space_char (dropWhile name_char s) in
     if name = [] \<or> \<not> (is_lower_char (hd s) \<or> is_upper_char (hd s)) then None
     else case r of [] \<Rightarrow> None
       | e # t \<Rightarrow> if e \<noteq> CHR ''='' then None
           else let v = dropWhile is_space_char t in
             (case quoted_value v of Some (body, rest) \<Rightarrow> Some (name, body, rest)
              | None \<Rightarrow> (let token = takeWhile token_char v in
                  if token = [] then None else Some (name, token, dropWhile token_char v))))"

definition param_here :: "bool \<Rightarrow> string \<Rightarrow> (string \<times> string \<times> string) option" where
  "param_here start s = (case (if start then param_body s else None) of
     Some r \<Rightarrow> Some r
   | None \<Rightarrow> (case s of [] \<Rightarrow> None | c # cs \<Rightarrow> if token_char c then None else param_body cs))"

lemma param_body_shorter:
  assumes "param_body s = Some (n, v, rest)"
  shows "length rest < length s"
proof -
  have d: "length (dropWhile P xs) \<le> length xs" for P and xs :: string by (rule length_dropWhile_le)
  let ?r = "dropWhile is_space_char (dropWhile name_char s)"
  from assms obtain e t where r: "?r = e # t"
    by (auto simp: param_body_def Let_def split: if_splits list.splits)
  have "length ?r \<le> length s" using d [of is_space_char "dropWhile name_char s"] d [of name_char s] by linarith
  then have t: "length t < length s" by (simp add: r)
  let ?v = "dropWhile is_space_char t"
  have v: "length ?v \<le> length t" by (rule d)
  have q: "length rest' \<le> length x" if qv: "quoted_value x = Some (b, rest')" for x b rest'
  proof -
    obtain q t c where x: "x = q # t" "dropWhile (\<lambda>c. c \<noteq> CHR 0x22 \<and> c \<noteq> CHR 0x5C) t = c # rest'"
      using qv by (auto simp: quoted_value_def Let_def split: list.splits if_splits)
    have "length (c # rest') \<le> length t" using d [of "\<lambda>c. c \<noteq> CHR 0x22 \<and> c \<noteq> CHR 0x5C" t] by (simp only: x(2))
    then show ?thesis by (simp add: x(1))
  qed
  have "length rest \<le> length ?v"
    using assms r q [of ?v] d [of token_char ?v] by (auto simp: param_body_def Let_def split: if_splits list.splits option.splits)
  then show ?thesis using t v by linarith
qed

lemma param_here_shorter:
  assumes "param_here start s = Some (n, v, rest)"
  shows "length rest < length s"
  using assms param_body_shorter [of s n v rest] param_body_shorter [of "tl s" n v rest]
  by (auto simp: param_here_def split: option.splits list.splits if_splits)

text \<open>\<open>_PARAM_RE.finditer\<close>: the names and values of the matches.\<close>

function find_params :: "bool \<Rightarrow> string \<Rightarrow> (string \<times> string) list" where
  "find_params start s = (case param_here start s of
     Some (name, value, rest) \<Rightarrow> (name, value) # find_params False rest
   | None \<Rightarrow> (case s of [] \<Rightarrow> [] | c # cs \<Rightarrow> find_params False cs))"
  by pat_completeness auto

termination find_params
  by (relation "measure (\<lambda>(b, s). length s)") (auto dest: param_here_shorter [OF sym] param_here_shorter)

definition challenge_parameter :: "string \<Rightarrow> string \<Rightarrow> string option posture" where
  "challenge_parameter header name =
     bind_res (ensure (MetadataError ''challenge_invalid'') (utf8_length header \<le> MAX_HEADER_BYTES
       \<and> CHR 0x0D \<notin> set header \<and> CHR 0x0A \<notin> set header \<and> bearer_re header)) (\<lambda>_.
     let found = map snd (filter (\<lambda>(n, v). py_lower n = py_lower name) (find_params True header)) in
     if 1 < length found then Inl (MetadataError ''challenge_duplicate_parameter'')
     else Inr (case found of [] \<Rightarrow> None | v # _ \<Rightarrow> Some v))"

definition challenge :: "string option \<Rightarrow> (string option \<times> string list) posture" where
  "challenge header = (case header of None \<Rightarrow> Inr (None, [])
   | Some h \<Rightarrow>
       bind_res (challenge_parameter h ''resource_metadata'') (\<lambda>url.
       bind_res (challenge_parameter h ''scope'') (\<lambda>scope.
       let scopes = (case scope of None \<Rightarrow> [] | Some s \<Rightarrow> py_unique (py_words s)) in
       bind_res (ensure (MetadataError ''challenge_scope_invalid'') (length scopes \<le> MAX_SCOPES)) (\<lambda>_.
         Inr (url, scopes)))))"

section \<open>Where metadata may be\<close>

definition resource_metadata_candidates :: "posture_env \<Rightarrow> bound_url \<Rightarrow> string option \<Rightarrow> (string \<times> string) list posture" where
  "resource_metadata_candidates pe resource challenge_url = (case challenge_url of
     Some u \<Rightarrow>
       bind_res (metadata_url pe (PStr u) ''resource_metadata_url'') (\<lambda>metadata.
       bind_res (ensure (MetadataError ''resource_metadata_origin_not_allowed'') (bu_origin metadata = bu_origin resource)) (\<lambda>_.
         Inr [(bu_url metadata, ''www-authenticate'')]))
   | None \<Rightarrow>
       (let path = rstrip_char (CHR ''/'') (bu_path resource) in
        Inr (py_unique ((if path \<noteq> [] then [(bu_origin resource @ ''/.well-known/oauth-protected-resource'' @ path, ''well-known-path'')] else [])
          @ [(bu_origin resource @ ''/.well-known/oauth-protected-resource'', ''well-known-root'')]))))"

definition authorization_metadata_candidates :: "bound_url \<Rightarrow> (string \<times> string) list" where
  "authorization_metadata_candidates issuer =
     (let path = strip_char (CHR ''/'') (bu_path issuer) in
      if path = [] then
        [(bu_origin issuer @ ''/.well-known/oauth-authorization-server'', ''rfc8414''),
         (bu_origin issuer @ ''/.well-known/openid-configuration'', ''openid-connect'')]
      else
        [(bu_origin issuer @ ''/.well-known/oauth-authorization-server/'' @ path, ''rfc8414-path-insertion''),
         (bu_origin issuer @ ''/.well-known/openid-configuration/'' @ path, ''openid-connect-path-insertion''),
         (bu_origin issuer @ ''/'' @ path @ ''/.well-known/openid-configuration'', ''openid-connect-path-append'')])"

section \<open>Freshness of a response\<close>

text \<open>\<open>s.split(";", 1)[0].strip().casefold()\<close>; the comparisons are with ASCII texts only.\<close>

definition content_type_is_json :: "string option \<Rightarrow> bool" where
  "content_type_is_json value = (case value of None \<Rightarrow> False
     | Some s \<Rightarrow> (let media = py_lower (py_strip (takeWhile (\<lambda>c. c \<noteq> CHR '';'') s)) in
         media = ''application/json'' \<or> (prefix ''application/'' media \<and> suffix ''+json'' media)))"

definition cache_error :: posture_error where
  "cache_error = MetadataError ''cache_control_invalid''"

text \<open>A quoted parameter without its quotes.\<close>

definition unquoted :: "string \<Rightarrow> string posture" where
  "unquoted p = (if p \<noteq> [] \<and> (hd p = CHR 0x22 \<or> last p = CHR 0x22)
     then (if length p < 2 \<or> \<not> (hd p = CHR 0x22 \<and> last p = CHR 0x22) then Inl cache_error else Inr (butlast (tl p)))
     else Inr p)"

fun max_ages :: "string list \<Rightarrow> int list posture" where
  "max_ages [] = Inr []"
| "max_ages (raw # rest) =
     (let d = py_strip raw; name = takeWhile (\<lambda>c. c \<noteq> CHR ''='') d; after = dropWhile (\<lambda>c. c \<noteq> CHR ''='') d in
      if py_lower name \<noteq> ''max-age'' then max_ages rest
      else bind_res (unquoted (py_strip (tl after))) (\<lambda>parameter.
        bind_res (ensure cache_error (after \<noteq> [] \<and> parameter \<noteq> [] \<and> list_all is_digit_char parameter)) (\<lambda>_.
        bind_res (raised (int_of_literal parameter)) (\<lambda>n.
        bind_res (max_ages rest) (\<lambda>ns. Inr (n # ns))))))"

definition cache_freshness_seconds :: "string option \<Rightarrow> int posture" where
  "cache_freshness_seconds value = (case value of None \<Rightarrow> Inr MAX_UNDIRECTED_CACHE_AGE_SECONDS
     | Some s \<Rightarrow> bind_res (max_ages (py_split CHR '','' s)) (\<lambda>ages.
         if 1 < length ages then Inl cache_error
         else Inr (min (case ages of [] \<Rightarrow> MAX_UNDIRECTED_CACHE_AGE_SECONDS | n # _ \<Rightarrow> n) MAX_ACCEPTED_CACHE_AGE_SECONDS)))"

record freshness_evidence =
  ev_http_date :: string
  ev_last_modified :: "string option"
  ev_cache_control :: "string option"
  ev_age_header :: "int option"
  ev_effective_age :: rat
  ev_policy :: int

definition header_age :: "string option \<Rightarrow> int posture" where
  "header_age age = (case age of None \<Rightarrow> Inr 0
     | Some a \<Rightarrow> (let t = py_strip a in
         if t = [] \<or> \<not> list_all is_digit_char t then Inl (MetadataError ''http_age_invalid'')
         else raised (int_of_literal t)))"

definition response_freshness :: "posture_env \<Rightarrow> fetch_response \<Rightarrow> int \<Rightarrow> freshness_evidence posture" where
  "response_freshness pe response observed_at = (case fp_http_date response of
     None \<Rightarrow> Inl (MetadataError ''http_date_missing'')
   | Some text \<Rightarrow> (case pe_http_date pe text of
       None \<Rightarrow> Inl (MetadataError ''http_date_invalid'')
     | Some d \<Rightarrow>
         bind_res (ensure (MetadataError ''http_date_invalid'') (dt_offset d \<noteq> None)) (\<lambda>_.
         bind_res (raised (as_utc d)) (\<lambda>source_date.
         bind_res (ensure (MetadataError ''http_date_future'')
           (total_seconds (source_date - observed_at) \<le> of_int MAX_CLOCK_SKEW_SECONDS)) (\<lambda>_.
         bind_res (header_age (fp_age response)) (\<lambda>age.
         bind_res (raised (float_of_int age)) (\<lambda>age_seconds.
         let effective = max (max 0 (total_seconds (observed_at - source_date))) age_seconds in
         bind_res (cache_freshness_seconds (fp_cache_control response)) (\<lambda>policy.
         bind_res (ensure (MetadataError ''metadata_response_stale'') (effective \<le> of_int (policy + MAX_CLOCK_SKEW_SECONDS))) (\<lambda>_.
           Inr \<lparr>ev_http_date = pe_seconds pe source_date, ev_last_modified = fp_last_modified response,
             ev_cache_control = fp_cache_control response,
             ev_age_header = (if fp_age response = None then None else Some age),
             ev_effective_age = py_round 3 effective, ev_policy = policy\<rparr>)))))))))"

section \<open>Bounded JSON documents\<close>

text \<open>The reader with \<open>_reject_duplicate_keys\<close>: \<open>None\<close> is a repeated key.\<close>

fun unique_build :: "platform \<Rightarrow> jraw \<Rightarrow> pyval option res"
  and unique_all :: "platform \<Rightarrow> jraw list \<Rightarrow> pyval list option res"
  and unique_pairs :: "platform \<Rightarrow> (string \<times> jraw) list \<Rightarrow> pydict option res" where
  "unique_build pf RNull = Inr (Some PNone)"
| "unique_build pf (RBool b) = Inr (Some (PBool b))"
| "unique_build pf (RInt s) = bind_res (int_of_literal s) (\<lambda>n. Inr (Some (PInt n)))"
| "unique_build pf (RFloat s) = Inr (Some (PFloat (float_literal pf s)))"
| "unique_build pf (RConst s) = Inr (Some (PFloat (if s = ''NaN'' then NaN else Inf (s = ''-Infinity''))))"
| "unique_build pf (RStr s) = Inr (Some (PStr s))"
| "unique_build pf (RArr xs) = bind_res (unique_all pf xs) (\<lambda>vs. Inr (map_option PList vs))"
| "unique_build pf (RObj ps) = bind_res (unique_pairs pf ps) (\<lambda>r. Inr (case r of None \<Rightarrow> None
     | Some d \<Rightarrow> if distinct (map fst d) then Some (PDict d) else None))"
| "unique_all pf [] = Inr (Some [])"
| "unique_all pf (x # xs) = bind_res (unique_build pf x) (\<lambda>r. case r of None \<Rightarrow> Inr None
     | Some v \<Rightarrow> bind_res (unique_all pf xs) (\<lambda>vs. Inr (map_option ((#) v) vs)))"
| "unique_pairs pf [] = Inr (Some [])"
| "unique_pairs pf ((k, x) # ps) = bind_res (unique_build pf x) (\<lambda>r. case r of None \<Rightarrow> Inr None
     | Some v \<Rightarrow> bind_res (unique_pairs pf ps) (\<lambda>d. Inr (map_option ((#) (k, v)) d)))"

text \<open>\<open>_bounded_json\<close>: the node count, or \<open>None\<close> when the value is too deep, too wide or has too long a key.\<close>

fun bounded_json :: "nat \<Rightarrow> pyval \<Rightarrow> nat option"
  and bounded_items :: "nat \<Rightarrow> pyval list \<Rightarrow> nat option"
  and bounded_entries :: "nat \<Rightarrow> (string \<times> pyval) list \<Rightarrow> nat option" where
  "bounded_json depth (PList xs) = (if MAX_JSON_DEPTH < depth then None else case bounded_items (Suc depth) xs of
     None \<Rightarrow> None | Some n \<Rightarrow> if MAX_JSON_NODES < Suc n then None else Some (Suc n))"
| "bounded_json depth (PDict d) = (if MAX_JSON_DEPTH < depth then None else case bounded_entries (Suc depth) d of
     None \<Rightarrow> None | Some n \<Rightarrow> if MAX_JSON_NODES < Suc n then None else Some (Suc n))"
| "bounded_json depth v = (if MAX_JSON_DEPTH < depth then None else Some 1)"
| "bounded_items depth [] = Some 0"
| "bounded_items depth (x # xs) = (case bounded_json depth x of None \<Rightarrow> None
     | Some n \<Rightarrow> (case bounded_items depth xs of None \<Rightarrow> None | Some m \<Rightarrow> Some (n + m)))"
| "bounded_entries depth [] = Some 0"
| "bounded_entries depth ((k, x) # d) = (if 256 < length k then None else case bounded_json depth x of None \<Rightarrow> None
     | Some n \<Rightarrow> (case bounded_entries depth d of None \<Rightarrow> None | Some m \<Rightarrow> Some (n + m)))"

datatype attempt_state = AttemptUnknown | AttemptFetched | AttemptInvalid | AttemptValidated

record attempt =
  ft_kind :: string
  ft_url :: string
  ft_status :: "int option"
  ft_content_type :: "string option"
  ft_body_bytes :: "nat option"
  ft_body_sha256 :: "string option"
  ft_freshness :: "freshness_evidence option"
  ft_state :: attempt_state
  ft_reason :: "string option"

text \<open>A fetcher answers the n-th request of a probe for a URL.\<close>

type_synonym fetcher = "nat \<Rightarrow> string \<Rightarrow> fetch_response posture"

text \<open>The body of a current JSON response: the document, or the reason it is refused.\<close>

definition decode_body :: "platform \<Rightarrow> string \<Rightarrow> (string + pydict) res" where
  "decode_body pf body = (case utf8_decode pf body of None \<Rightarrow> Inr (Inl ''json_invalid'')
     | Some t \<Rightarrow> (case json_scan pf t of None \<Rightarrow> Inr (Inl ''json_invalid'')
         | Some tree \<Rightarrow> bind_res (unique_build pf tree) (\<lambda>r. Inr (case r of
             None \<Rightarrow> Inl ''json_duplicate_key''
           | Some (PDict d) \<Rightarrow> if bounded_json 0 (PDict d) = None then Inl ''json_too_complex'' else Inr d
           | Some _ \<Rightarrow> Inl ''json_not_object''))))"

definition judge_response :: "platform \<Rightarrow> posture_env \<Rightarrow> string \<Rightarrow> int \<Rightarrow> fetch_response \<Rightarrow> (pydict option \<times> attempt) posture" where
  "judge_response pf pe kind observed_at response =
     (let attempt = \<lparr>ft_kind = kind, ft_url = fp_url response, ft_status = fp_status response, ft_content_type = fp_content_type response,
        ft_body_bytes = None, ft_body_sha256 = None, ft_freshness = None, ft_state = AttemptUnknown, ft_reason = fp_reason response\<rparr>;
        refuse = (\<lambda>a reason. Inr (None, a\<lparr>ft_reason := Some reason\<rparr>)) in
      if fp_reason response \<noteq> None then Inr (None, attempt)
      else if fp_status response \<noteq> Some 200 then
        refuse attempt (if fp_status response \<in> {Some 404, Some 410} then ''metadata_not_found'' else ''http_status_unexpected'')
      else if \<not> content_type_is_json (fp_content_type response) then refuse attempt ''content_type_invalid''
      else case response_freshness pe response observed_at of
        Inl (MetadataError reason) \<Rightarrow> refuse attempt reason
      | Inl e \<Rightarrow> Inl e
      | Inr ev \<Rightarrow>
          (let body = (case fp_body response of None \<Rightarrow> [] | Some b \<Rightarrow> b);
               read = attempt\<lparr>ft_freshness := Some ev, ft_body_bytes := Some (length body), ft_body_sha256 := Some (sha256_hex pf body)\<rparr> in
           bind_res (raised (decode_body pf body)) (\<lambda>r. case r of
             Inl reason \<Rightarrow> refuse read reason
           | Inr document \<Rightarrow> Inr (Some document, read\<lparr>ft_state := AttemptFetched, ft_reason := Some ''fetched''\<rparr>))))"

definition fetch_json :: "platform \<Rightarrow> posture_env \<Rightarrow> fetcher \<Rightarrow> nat \<Rightarrow> string \<Rightarrow> string \<Rightarrow> int \<Rightarrow> (pydict option \<times> attempt) posture" where
  "fetch_json pf pe fetch n url kind observed_at = bind_res (fetch n url) (judge_response pf pe kind observed_at)"

section \<open>Metadata documents\<close>

definition string_list :: "pyval \<Rightarrow> string \<Rightarrow> nat \<Rightarrow> bool \<Rightarrow> string list posture" where
  "string_list value label maximum required = (let e = MetadataError (label @ ''_invalid'') in
     if value = PNone \<and> \<not> required then Inr [] else case value of
       PList xs \<Rightarrow>
         if (required \<and> xs = []) \<or> maximum < length xs
           \<or> list_ex (\<lambda>x. case x of PStr s \<Rightarrow> s = [] \<or> 512 < length s | _ \<Rightarrow> True) xs then Inl e
         else (let strings = map (\<lambda>x. case x of PStr s \<Rightarrow> s | _ \<Rightarrow> []) xs in
           if distinct strings then Inr strings else Inl e)
     | _ \<Rightarrow> Inl e)"

record resource_metadata =
  rm_resource :: string
  rm_authorization_servers :: "string list"
  rm_scopes_supported :: "string list"

definition validate_resource_metadata :: "posture_env \<Rightarrow> pydict \<Rightarrow> bound_url \<Rightarrow> resource_metadata posture" where
  "validate_resource_metadata pe document resource =
     bind_res (metadata_url pe (dget document ''resource'') ''resource'') (\<lambda>declared.
     bind_res (ensure (MetadataError ''resource_mismatch'') (bu_url declared = bu_url resource)) (\<lambda>_.
     bind_res (string_list (dget document ''authorization_servers'') ''authorization_servers'' MAX_AUTHORIZATION_SERVERS True) (\<lambda>servers.
     bind_res (map_res (\<lambda>v. metadata_url pe (PStr v) ''authorization_server'') servers) (\<lambda>_.
     bind_res (string_list (dget document ''scopes_supported'') ''scopes_supported'' MAX_SCOPES False) (\<lambda>scopes.
       Inr \<lparr>rm_resource = bu_url declared, rm_authorization_servers = servers, rm_scopes_supported = scopes\<rparr>)))))"

record authorization_metadata =
  am_issuer :: string
  am_authorization_endpoint :: string
  am_token_endpoint :: string
  am_code_challenge_methods :: "string list"
  am_scopes_supported :: "string list"
  am_client_metadata :: "bool option"
  am_registration_endpoint :: "string option"
  am_iss_supported :: "bool option"

definition bool_or_none :: "pyval \<Rightarrow> string \<Rightarrow> bool option posture" where
  "bool_or_none value label = (case value of PNone \<Rightarrow> Inr None | PBool b \<Rightarrow> Inr (Some b)
     | _ \<Rightarrow> Inl (MetadataError (label @ ''_invalid'')))"

definition required_endpoint :: "posture_env \<Rightarrow> pydict \<Rightarrow> string \<Rightarrow> string posture" where
  "required_endpoint pe document key = https_endpoint pe (dget document key) key"

definition validate_authorization_metadata :: "posture_env \<Rightarrow> pydict \<Rightarrow> bound_url \<Rightarrow> string \<Rightarrow> authorization_metadata posture" where
  "validate_authorization_metadata pe document issuer expected_issuer =
     bind_res (ensure (MetadataError ''issuer_mismatch'') (dget document ''issuer'' = PStr expected_issuer)) (\<lambda>_.
     bind_res (metadata_url pe (dget document ''issuer'') ''issuer'') (\<lambda>declared.
     bind_res (ensure (MetadataError ''issuer_mismatch'') (bu_url declared = bu_url issuer)) (\<lambda>_.
     bind_res (string_list (dget document ''code_challenge_methods_supported'') ''code_challenge_methods_supported'' 16 True) (\<lambda>methods.
     bind_res (ensure (MetadataError ''pkce_s256_missing'') (''S256'' \<in> set methods)) (\<lambda>_.
     bind_res (string_list (dget document ''scopes_supported'') ''scopes_supported'' MAX_SCOPES False) (\<lambda>scopes.
     bind_res (bool_or_none (dget document ''client_id_metadata_document_supported'') ''client_id_metadata_document_supported'') (\<lambda>client.
     bind_res (bool_or_none (dget document ''authorization_response_iss_parameter_supported'')
       ''authorization_response_iss_parameter_supported'') (\<lambda>iss.
     bind_res (if dget document ''registration_endpoint'' = PNone then Inr None
       else bind_res (required_endpoint pe document ''registration_endpoint'') (\<lambda>u. Inr (Some u))) (\<lambda>registration.
     bind_res (required_endpoint pe document ''authorization_endpoint'') (\<lambda>authorization.
     bind_res (required_endpoint pe document ''token_endpoint'') (\<lambda>token.
       Inr \<lparr>am_issuer = expected_issuer, am_authorization_endpoint = authorization, am_token_endpoint = token,
         am_code_challenge_methods = methods, am_scopes_supported = scopes, am_client_metadata = client,
         am_registration_endpoint = registration, am_iss_supported = iss\<rparr>)))))))))))"

section \<open>The probe\<close>

datatype posture_state = PostureUnknown | MetadataReady

datatype eligibility = Blocked | PolicyReviewOnly

record server_result =
  sr_issuer :: string
  sr_state :: posture_state
  sr_metadata_url :: "string option"
  sr_discovery :: "string option"
  sr_metadata :: "authorization_metadata option"
  sr_reason_codes :: "string list"

record authorization_posture =
  ps_observed_at :: string
  ps_binding :: registry_binding
  ps_state :: posture_state
  ps_eligibility :: eligibility
  ps_authorization_required :: "bool option"
  ps_challenge_scopes :: "string list"
  ps_resource_metadata :: "(resource_metadata \<times> string \<times> string) option"
  ps_servers :: "server_result list"
  ps_fetches :: "attempt list"
  ps_reason_codes :: "string list"
  ps_capability_boundary :: pydict
  ps_claim_ceiling :: pydict

definition CAPABILITY_BOUNDARY :: pydict where
  "CAPABILITY_BOUNDARY = [(''network_methods'', PList [PStr ''GET'']), (''credentials_supported'', PBool False),
     (''proxy_environment_used'', PBool False), (''redirects_followed'', PBool False), (''dns_addresses_pinned'', PBool True),
     (''non_public_addresses_allowed'', PBool False), (''mutation_capabilities'', PList [])]"

definition POSTURE_CLAIM_CEILING :: pydict where
  "POSTURE_CLAIM_CEILING = [(''authorization_proven'', PBool False), (''credentials_available'', PBool False),
     (''trust_grade_authority'', PBool False), (''runtime_security_proven'', PBool False)]"

definition base_result :: "posture_env \<Rightarrow> registry_binding \<Rightarrow> int \<Rightarrow> authorization_posture" where
  "base_result pe binding observed_at = \<lparr>ps_observed_at = pe_seconds pe observed_at, ps_binding = binding, ps_state = PostureUnknown,
     ps_eligibility = Blocked, ps_authorization_required = None, ps_challenge_scopes = [], ps_resource_metadata = None,
     ps_servers = [], ps_fetches = [], ps_reason_codes = [], ps_capability_boundary = CAPABILITY_BOUNDARY,
     ps_claim_ceiling = POSTURE_CLAIM_CEILING\<rparr>"

text \<open>What an attempt contributes when it gives no validated document: its reason code as text, \<open>None\<close> included.\<close>

definition reason_text :: "attempt \<Rightarrow> string" where
  "reason_text a = (case ft_reason a of None \<Rightarrow> ''None'' | Some r \<Rightarrow> r)"

definition invalid_attempt :: "attempt \<Rightarrow> string \<Rightarrow> attempt" where
  "invalid_attempt a reason = a\<lparr>ft_state := AttemptInvalid, ft_reason := Some reason\<rparr>"

definition validated_attempt :: "attempt \<Rightarrow> string \<Rightarrow> attempt" where
  "validated_attempt a reason = a\<lparr>ft_state := AttemptValidated, ft_reason := Some reason\<rparr>"

text \<open>The loop over candidate URLs, with a validator: the first validated document with its URL and discovery kind, the
  attempts and the errors so far.\<close>

fun discover :: "(nat \<Rightarrow> string \<Rightarrow> string \<Rightarrow> (pydict option \<times> attempt) posture) \<Rightarrow> string \<Rightarrow> string \<Rightarrow> (pydict \<Rightarrow> 'a posture) \<Rightarrow> nat \<Rightarrow>
    (string \<times> string) list \<Rightarrow> (('a \<times> string \<times> string) option \<times> attempt list \<times> string list) posture" where
  "discover get kind valid validate n [] = Inr (None, [], [])"
| "discover get kind valid validate n ((url, discovery) # rest) =
     bind_res (get n url (kind @ '':'' @ discovery)) (\<lambda>(document, attempt). case document of
       None \<Rightarrow> bind_res (discover get kind valid validate (Suc n) rest) (\<lambda>(found, attempts, errors).
         Inr (found, attempt # attempts, reason_text attempt # errors))
     | Some d \<Rightarrow> (case validate d of
         Inl (MetadataError reason) \<Rightarrow> bind_res (discover get kind valid validate (Suc n) rest) (\<lambda>(found, attempts, errors).
           Inr (found, invalid_attempt attempt reason # attempts, reason # errors))
       | Inl e \<Rightarrow> Inl e
       | Inr m \<Rightarrow> Inr (Some (m, url, discovery), [validated_attempt attempt valid], [])))"

definition probe_server :: "platform \<Rightarrow> posture_env \<Rightarrow> fetcher \<Rightarrow> int \<Rightarrow> nat \<Rightarrow> string \<Rightarrow> (server_result \<times> attempt list) posture" where
  "probe_server pf pe fetch observed_at n issuer_value =
     bind_res (metadata_url pe (PStr issuer_value) ''authorization_server'') (\<lambda>issuer.
     bind_res (discover (\<lambda>n url kind. fetch_json pf pe fetch n url kind observed_at) ''authorization-server''
         ''authorization_server_metadata_valid'' (\<lambda>d. validate_authorization_metadata pe d issuer issuer_value) n
         (authorization_metadata_candidates issuer)) (\<lambda>(found, attempts, errors).
       Inr (case found of
         None \<Rightarrow> \<lparr>sr_issuer = issuer_value, sr_state = PostureUnknown, sr_metadata_url = None, sr_discovery = None, sr_metadata = None,
           sr_reason_codes = py_unique (if errors = [] then [''authorization_server_metadata_unavailable''] else errors)\<rparr>
       | Some (m, url, discovery) \<Rightarrow> \<lparr>sr_issuer = issuer_value, sr_state = MetadataReady, sr_metadata_url = Some url,
           sr_discovery = Some discovery, sr_metadata = Some m,
           sr_reason_codes = ''metadata_ready'' # (if am_registration_endpoint m \<noteq> None \<and> am_client_metadata m \<noteq> Some True
             then [''deprecated_registration''] else [])\<rparr>, attempts)))"

fun probe_servers :: "platform \<Rightarrow> posture_env \<Rightarrow> fetcher \<Rightarrow> int \<Rightarrow> nat \<Rightarrow> string list \<Rightarrow> (server_result list \<times> attempt list) posture" where
  "probe_servers pf pe fetch observed_at n [] = Inr ([], [])"
| "probe_servers pf pe fetch observed_at n (issuer # rest) =
     bind_res (probe_server pf pe fetch observed_at n issuer) (\<lambda>(r, attempts).
     bind_res (probe_servers pf pe fetch observed_at (n + length attempts) rest) (\<lambda>(rs, more). Inr (r # rs, attempts @ more)))"

definition conclude :: "authorization_posture \<Rightarrow> server_result list \<Rightarrow> authorization_posture" where
  "conclude result servers = (let ready = length (filter (\<lambda>r. sr_state r = MetadataReady) servers) in
     if ready \<noteq> 0 then result\<lparr>ps_servers := servers, ps_state := MetadataReady, ps_eligibility := PolicyReviewOnly,
       ps_reason_codes := ''metadata_ready'' # (if ready \<noteq> length servers then [''authorization_server_partial''] else [])\<rparr>
     else result\<lparr>ps_servers := servers, ps_reason_codes := [''authorization_server_metadata_unavailable'']\<rparr>)"

text \<open>The probe after its start: challenge, resource metadata, then every listed authorization server.\<close>

definition probe_from :: "platform \<Rightarrow> posture_env \<Rightarrow> fetcher \<Rightarrow> bound_url \<Rightarrow> string option \<Rightarrow> int \<Rightarrow> authorization_posture \<Rightarrow>
    authorization_posture posture" where
  "probe_from pf pe fetch resource www_authenticate observed_at result =
     (case bind_res (challenge www_authenticate) (\<lambda>(url, scopes).
         bind_res (resource_metadata_candidates pe resource url) (\<lambda>candidates. Inr (scopes, candidates))) of
       Inl (MetadataError reason) \<Rightarrow> Inr (result\<lparr>ps_reason_codes := [reason]\<rparr>)
     | Inl e \<Rightarrow> Inl e
     | Inr (scopes, candidates) \<Rightarrow>
         (let started = result\<lparr>ps_authorization_required := (if www_authenticate = None then None else Some True),
              ps_challenge_scopes := scopes\<rparr> in
          bind_res (discover (\<lambda>n url kind. fetch_json pf pe fetch n url kind observed_at) ''resource-metadata''
              ''resource_metadata_valid'' (\<lambda>d. validate_resource_metadata pe d resource) 0 candidates) (\<lambda>(found, attempts, errors).
            case found of
              None \<Rightarrow> Inr (started\<lparr>ps_fetches := attempts,
                ps_reason_codes := py_unique (if errors = [] then [''resource_metadata_unavailable''] else errors)\<rparr>)
            | Some (m, url, discovery) \<Rightarrow>
                bind_res (probe_servers pf pe fetch observed_at (length attempts) (rm_authorization_servers m)) (\<lambda>(servers, more).
                  Inr (conclude (started\<lparr>ps_resource_metadata := Some (m, url, discovery), ps_fetches := attempts @ more\<rparr>) servers)))))"

definition observation_time :: "pydt \<Rightarrow> int posture" where
  "observation_time value = bind_res (ensure PostureInputError (dt_offset value \<noteq> None)) (\<lambda>_. raised (as_utc value))"

definition probe_authorization_posture :: "platform \<Rightarrow> posture_env \<Rightarrow> fetcher \<Rightarrow> registry_binding \<Rightarrow> string option \<Rightarrow> rat \<Rightarrow> pydt \<Rightarrow>
    authorization_posture posture" where
  "probe_authorization_posture pf pe fetch binding www_authenticate timeout_seconds observed_at =
     bind_res (ensure PostureInputError (0 < timeout_seconds \<and> timeout_seconds \<le> MAX_TIMEOUT)) (\<lambda>_.
     bind_res (bound_https_url pe (PStr (bn_resource_url binding))) (\<lambda>resource.
     bind_res (observation_time observed_at) (\<lambda>time.
       probe_from pf pe fetch resource www_authenticate time (base_result pe binding time))))"

end
