(* ===== verification/Auth_Posture_Laws.thy ===== *)
theory Auth_Posture_Laws
  imports Auth_Posture
begin

text \<open>
  What the authorization preflight guarantees: it contacts nothing but the origin of the bound resource and of the
  issuers that resource names, through global addresses only; a ready verdict rests on validated, current documents;
  and it answers with reason codes.
\<close>

section \<open>Bound URLs\<close>

lemma bound_url_form:
  assumes "bound_https_url pe v = Inr b"
  shows "\<not> local_host (bu_hostname b)" "\<not> pe_is_ip pe (bu_hostname b)" "1 \<le> bu_port b" "bu_port b \<le> 65535"
    "\<exists>p. bu_path b = CHR ''/'' # p" "bu_url b = bu_origin b @ bu_path b"
proof -
  from assms obtain hostname port path where b: "b = bound_of hostname port path" and h: "hostname \<noteq> []"
    "\<not> local_host hostname" "\<not> pe_is_ip pe hostname" and p: "1 \<le> port" "port \<le> 65535" "path \<noteq> []" "hd path = CHR ''/''"
    by (auto simp: bound_https_url_def Let_def normalized_hostname_def split: pyval.splits option.splits if_splits)
  from p obtain q where q: "path = CHR ''/'' # q" by (cases path) auto
  show "\<not> local_host (bu_hostname b)" "\<not> pe_is_ip pe (bu_hostname b)" "1 \<le> bu_port b" "bu_port b \<le> 65535"
    "\<exists>p. bu_path b = CHR ''/'' # p" "bu_url b = bu_origin b @ bu_path b"
    using h p q by (simp_all add: b bound_of_def Let_def urlunsplit_def)
qed

lemma metadata_url_bound: "metadata_url pe v label = Inr b \<Longrightarrow> bound_https_url pe v = Inr b"
  by (auto simp: metadata_url_def split: sum.splits posture_error.splits)

text \<open>A URL under an origin.\<close>

definition under_origin :: "bound_url \<Rightarrow> string \<Rightarrow> bool" where
  "under_origin b url \<longleftrightarrow> prefix (bu_origin b @ ''/'') url"

lemma resource_candidates_under:
  assumes "resource_metadata_candidates pe resource challenge_url = Inr cs" "(url, d) \<in> set cs"
  shows "under_origin resource url"
proof (cases challenge_url)
  case None
  then show ?thesis using assms by (auto simp: resource_metadata_candidates_def Let_def under_origin_def split: if_splits)
next
  case (Some u)
  then obtain m where m: "metadata_url pe (PStr u) ''resource_metadata_url'' = Inr m" "bu_origin m = bu_origin resource" "url = bu_url m"
    using assms by (auto simp: resource_metadata_candidates_def)
  then show ?thesis using bound_url_form(5,6) [OF metadata_url_bound [OF m(1)]] by (auto simp: under_origin_def)
qed

lemma issuer_candidates_under: "(url, d) \<in> set (authorization_metadata_candidates issuer) \<Longrightarrow> under_origin issuer url"
  by (auto simp: authorization_metadata_candidates_def Let_def under_origin_def split: if_splits)

section \<open>Only global addresses are contacted\<close>

lemma check_addresses_None: "check_addresses net as = None \<Longrightarrow> a \<in> set as \<Longrightarrow> net_global net a = Some True"
  by (induction "as") (auto split: option.splits if_splits)

lemma try_addresses_agree:
  assumes "\<And>a. a \<in> set as \<Longrightarrow> net_exchange net target a = net_exchange net' target a"
  shows "try_addresses net target m as r = try_addresses net' target m as r"
  using assms by (induction "as" arbitrary: r) (auto simp: request_def Let_def)

text \<open>C28. The pinned fetcher connects only to addresses the resolver gave that are global, and only for a host that is
  neither local nor an IP literal: networks that differ in any other exchange give the same answer.\<close>

lemma pinned_fetch_contacts_only_global:
  assumes "net_resolve net = net_resolve net'" "net_global net = net_global net'"
    and "\<And>target a. \<not> local_host (bu_hostname target) \<Longrightarrow> \<not> pe_is_ip pe (bu_hostname target) \<Longrightarrow> net_global net a = Some True \<Longrightarrow>
      net_exchange net target a = net_exchange net' target a"
  shows "pinned_fetch pe net url m = pinned_fetch pe net' url m"
proof (cases "bound_https_url pe (PStr url)")
  case (Inr target)
  have c: "check_addresses net as = check_addresses net' as" for "as"
    using assms(2) by (induction "as") (auto split: option.split)
  have a: "addresses net target = addresses net' target" unfolding addresses_def assms(1) c by (rule refl)
  show ?thesis
  proof (cases "addresses net target")
    case (Inr found)
    then have "check_addresses net found = None"
      by (auto simp: addresses_def Let_def split: option.splits if_splits)
    then have "try_addresses net target m found r = try_addresses net' target m found r" for r
      using check_addresses_None assms(3) bound_url_form [OF \<open>bound_https_url pe (PStr url) = Inr target\<close>]
      by (intro try_addresses_agree) blast
    then show ?thesis using Inr by (simp add: pinned_fetch_def \<open>bound_https_url pe (PStr url) = Inr target\<close> flip: a)
  qed (simp add: pinned_fetch_def \<open>bound_https_url pe (PStr url) = Inr target\<close> flip: a)
qed (simp add: pinned_fetch_def)

section \<open>What a ready posture rests on\<close>

text \<open>The fetcher gave, for this URL, a response the probe accepts as this document.\<close>

definition served :: "platform \<Rightarrow> posture_env \<Rightarrow> fetcher \<Rightarrow> int \<Rightarrow> string \<Rightarrow> pydict \<Rightarrow> bool" where
  "served pf pe fetch t url d \<longleftrightarrow> (\<exists>n kind response a. fetch n url = Inr response
     \<and> judge_response pf pe kind t response = Inr (Some d, a))"

lemma judged_current:
  assumes "judge_response pf pe kind t response = Inr (Some d, a)"
  shows "fp_status response = Some 200" "fp_reason response = None" "content_type_is_json (fp_content_type response)"
    "\<exists>ev. response_freshness pe response t = Inr ev"
    "decode_body pf (case fp_body response of None \<Rightarrow> [] | Some b \<Rightarrow> b) = Inr (Inr d)"
  using assms by (auto simp: judge_response_def Let_def split: if_splits sum.splits posture_error.splits) (metis sum.exhaust)

text \<open>A current response: dated at most 300 seconds in the future and aged at most its policy and 300 seconds.\<close>

lemma response_current:
  assumes "response_freshness pe response t = Inr ev"
  shows "\<exists>date d. fp_http_date response = Some date \<and> pe_http_date pe date = Some d
    \<and> utc_instant d - t \<le> 300 * 1000000 \<and> t - utc_instant d \<le> (MAX_ACCEPTED_CACHE_AGE_SECONDS + 300) * 1000000"
proof -
  from assms obtain date d age s policy where d: "fp_http_date response = Some date" "pe_http_date pe date = Some d"
    and future: "total_seconds (utc_instant d - t) \<le> of_int MAX_CLOCK_SKEW_SECONDS"
    and policy: "cache_freshness_seconds (fp_cache_control response) = Inr policy"
    and age: "max (max 0 (total_seconds (t - utc_instant d))) s \<le> of_int (policy + MAX_CLOCK_SKEW_SECONDS)"
    by (auto simp: response_freshness_def Let_def split: option.splits)
  have p: "policy \<le> MAX_ACCEPTED_CACHE_AGE_SECONDS"
    using policy by (auto simp: cache_freshness_seconds_def MAX_UNDIRECTED_CACHE_AGE_SECONDS_def MAX_ACCEPTED_CACHE_AGE_SECONDS_def
        split: option.splits if_splits)
  have "\<not> 300 * 1000000 < utc_instant d - t"
    using future total_seconds_less_iff(2) [of 300 "utc_instant d - t"] by (simp add: MAX_CLOCK_SKEW_SECONDS_def)
  moreover have "total_seconds (t - utc_instant d) \<le> of_int (policy + MAX_CLOCK_SKEW_SECONDS)" using age by simp
  then have "total_seconds (t - utc_instant d) \<le> of_int (MAX_ACCEPTED_CACHE_AGE_SECONDS + MAX_CLOCK_SKEW_SECONDS)"
    by (rule order_trans) (use p in \<open>simp only: of_int_le_iff\<close>)
  then have "\<not> (MAX_ACCEPTED_CACHE_AGE_SECONDS + 300) * 1000000 < t - utc_instant d"
    using total_seconds_less_iff(2) [of "MAX_ACCEPTED_CACHE_AGE_SECONDS + 300" "t - utc_instant d"]
    by (simp add: MAX_CLOCK_SKEW_SECONDS_def MAX_ACCEPTED_CACHE_AGE_SECONDS_def)
  ultimately show ?thesis using d by auto
qed

lemma discover_found:
  assumes "discover (\<lambda>n url kind. fetch_json pf pe f n url kind t) kind valid validate n cs = Inr (Some (m, url, disc), attempts, errors)"
  shows "\<exists>d. (url, disc) \<in> set cs \<and> served pf pe f t url d \<and> validate d = Inr m"
  using assms
proof (induction cs arbitrary: n attempts errors)
  case (Cons c cs)
  obtain u k where c: "c = (u, k)" by (cases c)
  from Cons.prems obtain doc attempt where g: "fetch_json pf pe f n u (kind @ '':'' @ k) t = Inr (doc, attempt)"
    by (auto simp: c)
  show ?case
  proof (cases "\<exists>d m'. doc = Some d \<and> validate d = Inr m'")
    case True
    then obtain d m' where d: "doc = Some d" "validate d = Inr m'" by blast
    have "served pf pe f t u d" using g d(1) by (auto simp: fetch_json_def served_def)
    then show ?thesis using Cons.prems g d by (auto simp: c)
  next
    case False
    then obtain attempts' errors' where "discover (\<lambda>n url kind. fetch_json pf pe f n url kind t) kind valid validate (Suc n) cs
        = Inr (Some (m, url, disc), attempts', errors')"
      using Cons.prems g by (auto simp: c split: option.splits sum.splits posture_error.splits)
    from Cons.IH [OF this] show ?thesis by auto
  qed
qed simp

lemma probe_server_ready:
  assumes "probe_server pf pe f t n issuer = Inr (r, attempts)" "sr_state r = MetadataReady"
  shows "\<exists>b url d am. metadata_url pe (PStr issuer) ''authorization_server'' = Inr b \<and> sr_issuer r = issuer
    \<and> sr_metadata r = Some am \<and> sr_metadata_url r = Some url \<and> under_origin b url \<and> served pf pe f t url d
    \<and> validate_authorization_metadata pe d b issuer = Inr am"
proof -
  from assms(1) obtain b found errors where b: "metadata_url pe (PStr issuer) ''authorization_server'' = Inr b"
    and f: "discover (\<lambda>n url kind. fetch_json pf pe f n url kind t) ''authorization-server'' ''authorization_server_metadata_valid''
        (\<lambda>d. validate_authorization_metadata pe d b issuer) n (authorization_metadata_candidates b) = Inr (found, attempts, errors)"
    by (auto simp: probe_server_def)
  show ?thesis
  proof (cases found)
    case None
    then show ?thesis using assms b f by (auto simp: probe_server_def)
  next
    case (Some p)
    obtain m url disc where p: "p = (m, url, disc)" by (cases p)
    obtain d where "(url, disc) \<in> set (authorization_metadata_candidates b)" "served pf pe f t url d"
        "validate_authorization_metadata pe d b issuer = Inr m"
      using discover_found [OF f [unfolded Some p]] by blast
    then show ?thesis using assms(1) b f Some p issuer_candidates_under by (auto simp: probe_server_def)
  qed
qed

lemma probe_servers_ready:
  assumes "probe_servers pf pe f t n issuers = Inr (rs, attempts)" "r \<in> set rs" "sr_state r = MetadataReady"
  shows "\<exists>b url d am. sr_issuer r \<in> set issuers \<and> metadata_url pe (PStr (sr_issuer r)) ''authorization_server'' = Inr b
    \<and> sr_metadata r = Some am \<and> sr_metadata_url r = Some url \<and> under_origin b url \<and> served pf pe f t url d
    \<and> validate_authorization_metadata pe d b (sr_issuer r) = Inr am"
  using assms
proof (induction issuers arbitrary: n rs attempts)
  case (Cons i issuers)
  then obtain r0 a0 rs' a' where s: "probe_server pf pe f t n i = Inr (r0, a0)"
      "probe_servers pf pe f t (n + length a0) issuers = Inr (rs', a')" "rs = r0 # rs'"
    by auto
  show ?case
  proof (cases "r = r0")
    case True
    then show ?thesis using probe_server_ready [OF s(1)] Cons.prems(3) by auto
  next
    case False
    then show ?thesis using Cons.IH [OF s(2)] Cons.prems(2,3) s(3) by auto
  qed
qed simp

text \<open>A response of status 200 dated at most five minutes ahead of the observation and at most a day and five minutes back.\<close>

definition current_response :: "posture_env \<Rightarrow> int \<Rightarrow> fetch_response \<Rightarrow> bool" where
  "current_response pe t response \<longleftrightarrow> fp_status response = Some 200 \<and> fp_reason response = None
     \<and> (\<exists>date d. fp_http_date response = Some date \<and> pe_http_date pe date = Some d
        \<and> utc_instant d - t \<le> 300 * 1000000 \<and> t - utc_instant d \<le> (86400 + 300) * 1000000)"

lemma served_current: "served pf pe f t url d \<Longrightarrow> \<exists>n response. f n url = Inr response \<and> current_response pe t response"
  unfolding served_def current_response_def
  using judged_current response_current [unfolded MAX_ACCEPTED_CACHE_AGE_SECONDS_def] by meson

lemma conclude_fields:
  "ps_state (conclude r ss) = MetadataReady \<longleftrightarrow> ps_state r = MetadataReady \<or> (\<exists>s\<in>set ss. sr_state s = MetadataReady)"
  "ps_eligibility (conclude r ss) = PolicyReviewOnly \<longleftrightarrow> ps_eligibility r = PolicyReviewOnly \<or> (\<exists>s\<in>set ss. sr_state s = MetadataReady)"
  "ps_servers (conclude r ss) = ss" "ps_reason_codes (conclude r ss) \<noteq> []"
  "ps_resource_metadata (conclude r ss) = ps_resource_metadata r" "ps_claim_ceiling (conclude r ss) = ps_claim_ceiling r"
  "ps_capability_boundary (conclude r ss) = ps_capability_boundary r"
  by (auto simp: conclude_def Let_def filter_empty_conv)

text \<open>An answer of the probe is one of three: refused before or during the search for resource metadata, or concluded.\<close>

lemma probe_from_cases:
  assumes "probe_from pf pe f resource www t result = Inr r"
  obtains (refused) codes fetches scopes req where "codes \<noteq> []"
      "r = result\<lparr>ps_authorization_required := req, ps_challenge_scopes := scopes, ps_fetches := fetches, ps_reason_codes := codes\<rparr>"
      | (concluded) started m url disc d servers n more where
        "r = conclude started servers" "ps_state started = ps_state result" "ps_eligibility started = ps_eligibility result"
        "ps_resource_metadata started = Some (m, url, disc)" "ps_claim_ceiling started = ps_claim_ceiling result"
        "ps_capability_boundary started = ps_capability_boundary result"
        "under_origin resource url" "served pf pe f t url d" "validate_resource_metadata pe d resource = Inr m"
        "probe_servers pf pe f t n (rm_authorization_servers m) = Inr (servers, more)"
proof -
  let ?start = "bind_res (challenge www) (\<lambda>(url, scopes).
         bind_res (resource_metadata_candidates pe resource url) (\<lambda>candidates. Inr (scopes, candidates)))"
  show thesis
  proof (cases ?start)
    case (Inl e)
    then obtain reason where "r = result\<lparr>ps_reason_codes := [reason]\<rparr>"
      using assms by (auto simp: probe_from_def split: posture_error.splits)
    then show thesis
      using refused [of "[reason]" "ps_fetches result" "ps_challenge_scopes result" "ps_authorization_required result"] by simp
  next
    case (Inr p)
    then obtain u scopes cs where c: "resource_metadata_candidates pe resource u = Inr cs" and p: "p = (scopes, cs)" by auto
    let ?started = "result\<lparr>ps_authorization_required := (if www = None then None else Some True), ps_challenge_scopes := scopes\<rparr>"
    from assms obtain found attempts errors where
      d: "discover (\<lambda>n url kind. fetch_json pf pe f n url kind t) ''resource-metadata''
          ''resource_metadata_valid'' (\<lambda>d. validate_resource_metadata pe d resource) 0 cs = Inr (found, attempts, errors)"
      by (auto simp: probe_from_def Inr p Let_def)
    show thesis
    proof (cases found)
      case None
      then have "r = ?started\<lparr>ps_fetches := attempts,
          ps_reason_codes := py_unique (if errors = [] then [''resource_metadata_unavailable''] else errors)\<rparr>"
        using assms by (simp add: probe_from_def Inr p Let_def d)
      then show thesis by (intro refused) (auto split: if_splits)
    next
      case (Some q)
      obtain m url disc where q: "q = (m, url, disc)" by (cases q)
      obtain doc where doc: "(url, disc) \<in> set cs" "served pf pe f t url doc" "validate_resource_metadata pe doc resource = Inr m"
        using discover_found [OF d [unfolded Some q]] by blast
      from assms obtain servers more where s: "probe_servers pf pe f t (length attempts) (rm_authorization_servers m) = Inr (servers, more)"
        "r = conclude (?started\<lparr>ps_resource_metadata := Some (m, url, disc), ps_fetches := attempts @ more\<rparr>) servers"
        by (auto simp: probe_from_def Inr p Let_def d Some q)
      show thesis
        by (rule concluded [OF s(2) _ _ _ _ _ resource_candidates_under [OF c doc(1)] doc(2,3) s(1)]) simp_all
    qed
  qed
qed

lemma validated_resource: "validate_resource_metadata pe d resource = Inr m \<Longrightarrow> rm_resource m = bu_url resource"
  by (auto simp: validate_resource_metadata_def)

lemma validated_authorization:
  "validate_authorization_metadata pe d b issuer = Inr am \<Longrightarrow>
     am_issuer am = issuer \<and> dget d ''issuer'' = PStr issuer \<and> ''S256'' \<in> set (am_code_challenge_methods am)
     \<and> https_endpoint pe (dget d ''authorization_endpoint'') ''authorization_endpoint'' = Inr (am_authorization_endpoint am)
     \<and> https_endpoint pe (dget d ''token_endpoint'') ''token_endpoint'' = Inr (am_token_endpoint am)"
  by (auto simp: validate_authorization_metadata_def required_endpoint_def)

text \<open>A listed issuer whose own current metadata repeats it and supports PKCE with S256.\<close>

definition issuer_verified :: "posture_env \<Rightarrow> fetcher \<Rightarrow> int \<Rightarrow> string list \<Rightarrow> server_result \<Rightarrow> bool" where
  "issuer_verified pe f t issuers s \<longleftrightarrow> sr_issuer s \<in> set issuers
     \<and> (\<exists>b u am. metadata_url pe (PStr (sr_issuer s)) ''authorization_server'' = Inr b \<and> under_origin b u
          \<and> (\<exists>n response. f n u = Inr response \<and> current_response pe t response)
          \<and> sr_metadata s = Some am \<and> am_issuer am = sr_issuer s \<and> ''S256'' \<in> set (am_code_challenge_methods am))"


section \<open>Only named origins are contacted\<close>

text \<open>An issuer that a current document of the resource's own origin lists, and the URLs a probe may fetch: those under the
  origin of the resource or of such an issuer.\<close>

definition listed_issuer :: "platform \<Rightarrow> posture_env \<Rightarrow> fetcher \<Rightarrow> int \<Rightarrow> bound_url \<Rightarrow> string \<Rightarrow> bool" where
  "listed_issuer pf pe f t resource issuer \<longleftrightarrow> (\<exists>url d (m :: resource_metadata). under_origin resource url \<and> served pf pe f t url d
     \<and> validate_resource_metadata pe d resource = Inr m \<and> issuer \<in> set (rm_authorization_servers m))"

definition allowed_url :: "platform \<Rightarrow> posture_env \<Rightarrow> fetcher \<Rightarrow> int \<Rightarrow> bound_url \<Rightarrow> string \<Rightarrow> bool" where
  "allowed_url pf pe f t resource url \<longleftrightarrow> under_origin resource url
     \<or> (\<exists>issuer b. listed_issuer pf pe f t resource issuer
          \<and> metadata_url pe (PStr issuer) ''authorization_server'' = Inr b \<and> under_origin b url)"

lemma discover_agree:
  assumes "\<And>n url kind d. (url, d) \<in> set cs \<Longrightarrow> get n url kind = get' n url kind"
  shows "discover get kind valid validate n cs = discover get' kind valid validate n cs"
  using assms
proof (induction cs arbitrary: n)
  case (Cons c cs)
  obtain url d where c: "c = (url, d)" by (cases c)
  have here: "get n url (kind @ '':'' @ d) = get' n url (kind @ '':'' @ d)" by (rule Cons.prems [where d = d]) (simp add: c)
  have rest: "discover get kind valid validate m cs = discover get' kind valid validate m cs" for m
    by (rule Cons.IH) (use Cons.prems in auto)
  show ?case unfolding c discover.simps here rest by (rule refl)
qed simp

lemma probe_server_agree:
  assumes "\<And>n url b. metadata_url pe (PStr issuer) ''authorization_server'' = Inr b \<Longrightarrow> under_origin b url \<Longrightarrow> f n url = g n url"
  shows "probe_server pf pe f t n issuer = probe_server pf pe g t n issuer"
proof (cases "metadata_url pe (PStr issuer) ''authorization_server''")
  case (Inr b)
  have "discover (\<lambda>n url kind. fetch_json pf pe f n url kind t) kind valid validate n (authorization_metadata_candidates b)
      = discover (\<lambda>n url kind. fetch_json pf pe g n url kind t) kind valid validate n (authorization_metadata_candidates b)"
    for kind valid and validate :: "pydict \<Rightarrow> authorization_metadata posture"
    using assms [OF Inr] issuer_candidates_under by (intro discover_agree) (auto simp: fetch_json_def)
  then show ?thesis by (simp add: probe_server_def Inr)
qed (simp add: probe_server_def)

lemma probe_servers_agree:
  assumes "\<And>issuer n url b. issuer \<in> set issuers \<Longrightarrow> metadata_url pe (PStr issuer) ''authorization_server'' = Inr b \<Longrightarrow>
      under_origin b url \<Longrightarrow> f n url = g n url"
  shows "probe_servers pf pe f t n issuers = probe_servers pf pe g t n issuers"
  using assms
proof (induction issuers arbitrary: n)
  case (Cons i issuers)
  have here: "probe_server pf pe f t n i = probe_server pf pe g t n i" for n
    by (rule probe_server_agree) (use Cons.prems in auto)
  have rest: "probe_servers pf pe f t n issuers = probe_servers pf pe g t n issuers" for n
    by (rule Cons.IH) (use Cons.prems in auto)
  show ?case by (simp add: here rest)
qed simp

lemma probe_from_agree:
  assumes "\<And>n url. allowed_url pf pe f t resource url \<Longrightarrow> f n url = g n url"
  shows "probe_from pf pe f resource www t result = probe_from pf pe g resource www t result"
proof (cases "bind_res (challenge www) (\<lambda>(url, scopes).
       bind_res (resource_metadata_candidates pe resource url) (\<lambda>candidates. Inr (scopes, candidates)))")
  case (Inr p)
  then obtain u scopes cs where c: "resource_metadata_candidates pe resource u = Inr cs" and p: "p = (scopes, cs)" by auto
  let ?run = "\<lambda>h. discover (\<lambda>n url kind. fetch_json pf pe h n url kind t) ''resource-metadata'' ''resource_metadata_valid''
      (\<lambda>d. validate_resource_metadata pe d resource) 0 cs"
  have same: "?run f = ?run g"
    using assms resource_candidates_under [OF c]
    by (intro discover_agree) (auto simp: fetch_json_def allowed_url_def)
  have servers: "probe_servers pf pe f t n (rm_authorization_servers m) = probe_servers pf pe g t n (rm_authorization_servers m)"
    if found: "?run f = Inr (Some (m, url, disc), attempts, errors)" for m url disc attempts errors n
  proof -
    from discover_found [OF found] obtain d where d: "(url, disc) \<in> set cs" "served pf pe f t url d"
        "validate_resource_metadata pe d resource = Inr m"
      by blast
    then have "listed_issuer pf pe f t resource issuer" if "issuer \<in> set (rm_authorization_servers m)" for issuer
      using that resource_candidates_under [OF c d(1)] unfolding listed_issuer_def by blast
    then show ?thesis using assms unfolding allowed_url_def by (intro probe_servers_agree) blast
  qed
  show ?thesis
  proof (cases "?run f")
    case (Inl e)
    show ?thesis unfolding probe_from_def Inr p sum.case prod.case Let_def same [symmetric] Inl by simp
  next
    case found: (Inr q)
    obtain r attempts errors where q: "q = (r, attempts, errors)" by (cases q)
    show ?thesis
    proof (cases r)
      case None
      show ?thesis unfolding probe_from_def Inr p sum.case prod.case Let_def same [symmetric] found q None by simp
    next
      case (Some w)
      obtain m url disc where w: "w = (m, url, disc)" by (cases w)
      have servers_eq: "probe_servers pf pe f t (length attempts) (rm_authorization_servers m)
          = probe_servers pf pe g t (length attempts) (rm_authorization_servers m)"
        by (rule servers) (use found in \<open>simp add: q Some w\<close>)
      show ?thesis unfolding probe_from_def Inr p sum.case prod.case Let_def same [symmetric] found q Some w
        by (simp add: servers_eq)
    qed
  qed
qed (simp add: probe_from_def split: posture_error.split)

text \<open>C27. A probe fetches only below the origin of the bound resource and below the origins of the issuers that a current,
  validated document of the resource's own origin lists: fetchers that agree there give the same outcome, so no other
  host can influence it.\<close>

lemma probe_contacts_only_named_origins:
  assumes "\<And>resource n url. bound_https_url pe (PStr (bn_resource_url binding)) = Inr resource \<Longrightarrow>
      allowed_url pf pe f (utc_instant t) resource url \<Longrightarrow> f n url = g n url"
  shows "probe_authorization_posture pf pe f binding www timeout t = probe_authorization_posture pf pe g binding www timeout t"
proof (cases "bound_https_url pe (PStr (bn_resource_url binding))")
  case (Inr resource)
  have "probe_from pf pe f resource www u result = probe_from pf pe g resource www u result" if "u = utc_instant t" for u result
    using assms [OF Inr] by (intro probe_from_agree) (simp add: that)
  then show ?thesis
    by (cases "dt_in_range (utc_instant t)")
      (auto simp: probe_authorization_posture_def Inr observation_time_def as_utc_def raised_def ensure_def)
qed (simp add: probe_authorization_posture_def)

section \<open>Outcomes\<close>

text \<open>No metadata error leaves the probe, and an answer carries reason codes.\<close>

definition no_metadata_error :: "'a posture \<Rightarrow> bool" where
  "no_metadata_error r \<longleftrightarrow> (\<forall>reason. r \<noteq> Inl (MetadataError reason))"

definition errors_in :: "(posture_error \<Rightarrow> bool) \<Rightarrow> 'a posture \<Rightarrow> bool" where
  "errors_in P r \<longleftrightarrow> (\<forall>e. r = Inl e \<longrightarrow> P e)"

lemma no_metadata_error_simps [simp]: "no_metadata_error (Inr x)" "no_metadata_error (raised r)"
    "no_metadata_error (Inl (MetadataError s)) = False" "no_metadata_error (Inl PostureInputError)" "no_metadata_error (Inl (PostureRaised exception))"
  by (auto simp: no_metadata_error_def raised_def split: sum.splits)

lemma no_metadata_error_bind:
  "no_metadata_error m \<Longrightarrow> (\<And>x. m = Inr x \<Longrightarrow> no_metadata_error (f x)) \<Longrightarrow> no_metadata_error (bind_res m f)"
  by (cases m) (auto simp: no_metadata_error_def)

lemma judge_no_metadata_error: "no_metadata_error (judge_response pf pe kind t response)"
  unfolding judge_response_def Let_def
  by (auto intro!: no_metadata_error_bind split: sum.split posture_error.split)

lemma discover_no_metadata_error:
  assumes "\<And>n url kind. no_metadata_error (get n url kind)"
  shows "no_metadata_error (discover get kind valid validate n cs)"
proof (induction cs arbitrary: n)
  case (Cons c cs)
  then show ?case using assms
    by (cases c) (auto intro!: no_metadata_error_bind split: option.split sum.split posture_error.split prod.split)
qed simp

lemma issuers_are_bound:
  assumes "validate_resource_metadata pe d resource = Inr m" "issuer \<in> set (rm_authorization_servers m)"
  shows "\<exists>b. metadata_url pe (PStr issuer) ''authorization_server'' = Inr b"
proof -
  from assms(1) obtain bs where "map_res (\<lambda>v. metadata_url pe (PStr v) ''authorization_server'') (rm_authorization_servers m) = Inr bs"
    by (auto simp: validate_resource_metadata_def)
  then show ?thesis using assms(2) by (auto simp: map_res_Inr_iff list_all2_conv_all_nth in_set_conv_nth)
qed

lemma probe_servers_no_metadata_error:
  assumes "\<And>n url. no_metadata_error (f n url)"
    and "\<And>i. i \<in> set issuers \<Longrightarrow> \<exists>b. metadata_url pe (PStr i) ''authorization_server'' = Inr b"
  shows "no_metadata_error (probe_servers pf pe f t n issuers)"
  using assms(2)
proof (induction issuers arbitrary: n)
  case (Cons i issuers)
  have "no_metadata_error (fetch_json pf pe f n url kind t)" for n url kind
    unfolding fetch_json_def by (intro no_metadata_error_bind assms(1) judge_no_metadata_error)
  then have "no_metadata_error (probe_server pf pe f t n i)" for n
    using Cons.prems [of i] by (auto simp: probe_server_def intro!: no_metadata_error_bind discover_no_metadata_error split: prod.split)
  then show ?case using Cons by (auto intro!: no_metadata_error_bind split: prod.split)
qed simp

lemma errors_in_bind:
  "errors_in P m \<Longrightarrow> (\<And>x. m = Inr x \<Longrightarrow> errors_in P (f x)) \<Longrightarrow> errors_in P (bind_res m f)"
  by (cases m) (auto simp: errors_in_def)

lemma errors_in_simps [simp]: "errors_in P (Inr x)" "errors_in P (Inl e) = P e" "errors_in P (ensure e ok) = (ok \<or> P e)"
  by (auto simp: errors_in_def ensure_def)

lemma bound_errors: "errors_in (\<lambda>e. e = PostureInputError) (bound_https_url pe v)"
proof (cases v)
  case (PStr raw)
  have err: "errors_in (\<lambda>e. e = PostureInputError) (input_error r)" for r :: "split_url res"
    by (cases r) (simp_all add: input_error_def)
  have err': "errors_in (\<lambda>e. e = PostureInputError) (input_error r)" for r :: "int option res"
    by (cases r) (simp_all add: input_error_def)
  have host: "errors_in (\<lambda>e. e = PostureInputError) (normalized_hostname pe h)" for h
    by (simp add: normalized_hostname_def split: option.split)
  show ?thesis
    unfolding bound_https_url_def Let_def PStr pyval.case
    by (intro errors_in_bind err err' host) simp_all
qed (simp_all add: bound_https_url_def)

lemma bound_error: "bound_https_url pe v = Inl e \<Longrightarrow> e = PostureInputError"
  using bound_errors by (auto simp: errors_in_def)

lemma bound_no_metadata_error: "no_metadata_error (bound_https_url pe v)"
  by (auto simp: no_metadata_error_def dest: bound_error)

lemma metadata_url_error: "metadata_url pe v label = Inl e \<Longrightarrow> e = MetadataError (label @ ''_invalid'')"
  by (auto simp: metadata_url_def dest: bound_error split: sum.splits posture_error.splits)

lemma challenge_error: "challenge www = Inl e \<Longrightarrow> \<exists>reason. e = MetadataError reason"
proof -
  let ?P = "\<lambda>e. \<exists>reason. e = MetadataError reason"
  have parameter: "errors_in ?P (challenge_parameter h n)" for h n
    unfolding challenge_parameter_def Let_def by (intro errors_in_bind) simp_all
  have "errors_in ?P (challenge www)"
  proof (cases www)
    case (Some h)
    show ?thesis unfolding challenge_def Let_def Some option.case by (intro errors_in_bind parameter) simp_all
  qed (simp add: challenge_def)
  then show "challenge www = Inl e \<Longrightarrow> ?P e" by (simp add: errors_in_def)
qed

lemma metadata_error_in: "errors_in (\<lambda>e. \<exists>reason. e = MetadataError reason) (metadata_url pe v label)"
  by (auto simp: errors_in_def dest: metadata_url_error)

lemma candidates_error: "resource_metadata_candidates pe resource u = Inl e \<Longrightarrow> \<exists>reason. e = MetadataError reason"
proof -
  have "errors_in (\<lambda>e. \<exists>reason. e = MetadataError reason) (resource_metadata_candidates pe resource u)"
    unfolding resource_metadata_candidates_def Let_def
    by (cases u) (simp_all add: metadata_error_in errors_in_bind)
  then show "resource_metadata_candidates pe resource u = Inl e \<Longrightarrow> \<exists>reason. e = MetadataError reason"
    by (simp add: errors_in_def)
qed

text \<open>A probe whose fetcher raises no metadata error never raises one: every untrusted document ends in an answer
  with reason codes, eligible exactly when its state is ready, or in one of the other exceptions (an input error of the
  caller, or of a URL the discovery builds; a date or a number out of range).\<close>

lemma posture_outcome_is_typed:
  assumes "\<And>n url. no_metadata_error (f n url)"
  shows "case probe_authorization_posture pf pe f binding www timeout observed_at of
      Inl e \<Rightarrow> \<forall>reason. e \<noteq> MetadataError reason
    | Inr r \<Rightarrow> ps_reason_codes r \<noteq> [] \<and> (ps_eligibility r = PolicyReviewOnly \<longleftrightarrow> ps_state r = MetadataReady)"
proof -
  have fetch: "no_metadata_error (fetch_json pf pe f n url kind t)" for n url kind t
    unfolding fetch_json_def by (intro no_metadata_error_bind assms judge_no_metadata_error)
  have start: "no_metadata_error (probe_from pf pe f resource www t result)" for resource t result
  proof (cases "bind_res (challenge www) (\<lambda>(url, scopes).
         bind_res (resource_metadata_candidates pe resource url) (\<lambda>candidates. Inr (scopes, candidates)))")
    case (Inl e)
    then obtain reason where "e = MetadataError reason"
      by (auto simp: bind_res_eq_Inl dest!: challenge_error candidates_error)
    then show ?thesis by (simp add: probe_from_def Inl)
  next
    case (Inr p)
    have "no_metadata_error (probe_servers pf pe f t n (rm_authorization_servers m))"
      if "discover (\<lambda>n url kind. fetch_json pf pe f n url kind t) kind valid (\<lambda>d. validate_resource_metadata pe d resource) k cs
          = Inr (Some (m, url, disc), attempts, errors)" for kind valid k cs m url disc attempts errors n
      using discover_found [OF that] issuers_are_bound by (intro probe_servers_no_metadata_error assms) blast
    then show ?thesis
      by (cases p) (auto simp: probe_from_def Inr Let_def intro!: no_metadata_error_bind discover_no_metadata_error fetch
          split: option.split prod.split)
  qed
  have never: "no_metadata_error (probe_authorization_posture pf pe f binding www timeout observed_at)"
    unfolding probe_authorization_posture_def observation_time_def
    by (auto simp: ensure_def intro!: no_metadata_error_bind start bound_no_metadata_error)
  have answer: "ps_reason_codes r \<noteq> [] \<and> (ps_eligibility r = PolicyReviewOnly \<longleftrightarrow> ps_state r = MetadataReady)"
    if "probe_from pf pe f resource www t (base_result pe binding t) = Inr r" for resource t r
    using that by (cases rule: probe_from_cases) (auto simp: base_result_def conclude_fields)
  show ?thesis
  proof (cases "probe_authorization_posture pf pe f binding www timeout observed_at")
    case (Inl e)
    then show ?thesis using never by (simp add: no_metadata_error_def)
  next
    case (Inr r)
    then have "ps_reason_codes r \<noteq> [] \<and> (ps_eligibility r = PolicyReviewOnly \<longleftrightarrow> ps_state r = MetadataReady)"
      using answer by (auto simp: probe_authorization_posture_def)
    then show ?thesis by (simp add: Inr)
  qed
qed

section \<open>A remote header that escapes\<close>

text \<open>An \<open>Age\<close> header that is a number beyond binary64 in an otherwise current response makes the whole probe raise
  \<open>OverflowError\<close>: the conversion to float is outside the handling of metadata errors.\<close>

lemma huge_age_header_escapes:
  assumes "0 < timeout" "timeout \<le> MAX_TIMEOUT" "bound_https_url pe (PStr (bn_resource_url binding)) = Inr resource"
    and "dt_offset observed_at \<noteq> None" "dt_in_range (utc_instant observed_at)"
    and "resource_metadata_candidates pe resource None = Inr ((url, kind) # cs)" "f 0 url = Inr response"
    and "fp_reason response = None" "fp_status response = Some 200" "content_type_is_json (fp_content_type response)"
    and "fp_http_date response = Some date" "pe_http_date pe date = Some d" "dt_offset d \<noteq> None" "dt_in_range (utc_instant d)"
    and "utc_instant d \<le> utc_instant observed_at"
    and "header_age (fp_age response) = Inr age" "overflow_bound \<le> \<bar>f64 (of_int age)\<bar>"
  shows "probe_authorization_posture pf pe f binding None timeout observed_at = Inl (PostureRaised OverflowError)"
proof -
  let ?t = "utc_instant observed_at"
  have "\<not> of_int 300 < total_seconds (utc_instant d - ?t)"
    using assms(15) total_seconds_less_iff(2) [of 300 "utc_instant d - ?t"] by simp
  then have future: "total_seconds (utc_instant d - ?t) \<le> of_int MAX_CLOCK_SKEW_SECONDS" by (simp add: MAX_CLOCK_SKEW_SECONDS_def)
  have age: "float_of_int age = Inl OverflowError" using assms(17) by (simp add: float_of_int_def)
  have "response_freshness pe response ?t = Inl (PostureRaised OverflowError)"
    using assms(11-14,16) future by (simp add: response_freshness_def age raised_def as_utc_def)
  then have "judge_response pf pe k ?t response = Inl (PostureRaised OverflowError)" for k
    using assms(8-10) by (simp add: judge_response_def)
  then have "fetch_json pf pe f 0 url k ?t = Inl (PostureRaised OverflowError)" for k
    using assms(7) by (simp add: fetch_json_def)
  then have "probe_from pf pe f resource None ?t result = Inl (PostureRaised OverflowError)" for result
    using assms(6) by (simp add: probe_from_def challenge_def Let_def)
  then show ?thesis
    using assms(1-5) by (simp add: probe_authorization_posture_def observation_time_def raised_def as_utc_def)
qed

section \<open>How much a probe does\<close>

lemma discover_attempts:
  "discover get kind valid validate n cs = Inr (found, attempts, errors) \<Longrightarrow> length attempts \<le> length cs"
proof (induction cs arbitrary: n found attempts errors)
  case (Cons c cs)
  obtain u k where c: "c = (u, k)" by (cases c)
  from Cons.prems obtain doc attempt where g: "get n u (kind @ '':'' @ k) = Inr (doc, attempt)" by (auto simp: c)
  have "length attempts = 1 \<or> (\<exists>found' attempts' errors'. discover get kind valid validate (Suc n) cs = Inr (found', attempts', errors')
      \<and> length attempts = Suc (length attempts'))"
  proof (cases "\<exists>d m. doc = Some d \<and> validate d = Inr m")
    case True
    then show ?thesis using Cons.prems g by (auto simp: c)
  next
    case False
    then show ?thesis using Cons.prems g
      by (cases doc; cases "validate (the doc)"; cases "projl (validate (the doc))") (auto simp: c)
  qed
  then show ?case using Cons.IH by fastforce
qed simp

lemma length_py_unique: "length (py_unique xs) \<le> length xs"
  unfolding py_unique_def by (simp add: le_trans [OF length_remdups_leq])

lemma resource_candidates_few:
  assumes "resource_metadata_candidates pe resource u = Inr cs"
  shows "length cs \<le> 2"
proof (cases u)
  case None
  obtain xs :: "(string \<times> string) list" where "cs = py_unique xs" "length xs \<le> 2"
    using assms by (auto simp: resource_metadata_candidates_def Let_def None simp del: append_Cons)
  then show ?thesis using length_py_unique [of xs] by simp
qed (use assms in \<open>auto simp: resource_metadata_candidates_def\<close>)

lemma issuer_candidates_few: "length (authorization_metadata_candidates b) \<le> 3"
  by (simp add: authorization_metadata_candidates_def Let_def)

lemma string_list_few: "string_list v label k req = Inr xs \<Longrightarrow> length xs \<le> k"
  by (auto simp: string_list_def Let_def split: if_splits pyval.splits)

lemma probe_server_attempts:
  assumes "probe_server pf pe f t n i = Inr (r, attempts)"
  shows "length attempts \<le> 3"
proof -
  from assms obtain b found errors where "discover (\<lambda>n url kind. fetch_json pf pe f n url kind t) ''authorization-server''
      ''authorization_server_metadata_valid'' (\<lambda>d. validate_authorization_metadata pe d b i) n
      (authorization_metadata_candidates b) = Inr (found, attempts, errors)"
    by (auto simp: probe_server_def)
  from discover_attempts [OF this] issuer_candidates_few [of b] show ?thesis by linarith
qed

lemma probe_servers_attempts:
  "probe_servers pf pe f t n issuers = Inr (rs, attempts) \<Longrightarrow> length rs = length issuers \<and> length attempts \<le> 3 * length issuers"
proof (induction issuers arbitrary: n rs attempts)
  case (Cons i issuers)
  then obtain r a rs' as' where s: "probe_server pf pe f t n i = Inr (r, a)"
      "probe_servers pf pe f t (n + length a) issuers = Inr (rs', as')" "rs = r # rs'" "attempts = a @ as'"
    by auto
  then show ?case using Cons.IH [OF s(2)] probe_server_attempts [OF s(1)] by simp
qed simp

lemma validated_servers_few:
  "validate_resource_metadata pe d resource = Inr m \<Longrightarrow> length (rm_authorization_servers m) \<le> MAX_AUTHORIZATION_SERVERS"
  by (auto simp: validate_resource_metadata_def dest: string_list_few)


end
