(* ===== verification/Auth_Examples.thy ===== *)
theory Auth_Examples
  imports Auth_Posture_Laws
begin

text \<open>
  Concrete probes for the authorization preflight theorems: one bound resource, one issuer, and a fetcher that serves the
  two documents; the same resource with an \<open>Age\<close> header beyond binary64; a network with one public address.
\<close>

section \<open>Documents\<close>

definition posture_services :: posture_env where
  "posture_services = \<lparr>pe_idna = Some, pe_is_ip = (\<lambda>h. False), pe_bracket_ok = (\<lambda>h. True),
     pe_http_date = (\<lambda>s. if s = ''today'' then Some (utc_dt (740000 * us_per_day)) else None), pe_seconds = (\<lambda>t. [])\<rparr>"

definition posture_platform :: platform where
  "posture_platform = sample_platform\<lparr>json_scan := (\<lambda>s.
     if s = ''R'' then Some (RObj [(''resource'', RStr ''https://x.org/mcp''), (''authorization_servers'', RArr [RStr ''https://a.org''])])
     else if s = ''A'' then Some (RObj [(''issuer'', RStr ''https://a.org''),
       (''code_challenge_methods_supported'', RArr [RStr ''S256'']),
       (''authorization_endpoint'', RStr ''https://a.org/auth''), (''token_endpoint'', RStr ''https://a.org/token'')])
     else None)\<rparr>"

definition posture_response :: "string \<Rightarrow> string option \<Rightarrow> string \<Rightarrow> fetch_response" where
  "posture_response url age body = \<lparr>fp_url = url, fp_status = Some 200, fp_content_type = Some ''application/json'',
     fp_http_date = Some ''today'', fp_cache_control = Some ''max-age=60'', fp_age = age, fp_last_modified = None,
     fp_body = Some body, fp_reason = None\<rparr>"

definition posture_fetcher :: "string option \<Rightarrow> fetcher" where
  "posture_fetcher age n url = Inr (
     if url = ''https://x.org/.well-known/oauth-protected-resource/mcp'' then posture_response url age ''R''
     else if url = ''https://a.org/.well-known/oauth-authorization-server'' then posture_response url None ''A''
     else failed_fetch url ''network_error'')"

definition posture_binding :: registry_binding where
  "posture_binding = \<lparr>bn_stable_id = ''s'', bn_resource_url = ''https://x.org/mcp'', bn_manifest_sha256 = [],
     bn_source_kind = ''official-mcp-registry-export''\<rparr>"

definition posture_time :: pydt where
  "posture_time = utc_dt (740000 * us_per_day)"

definition posture_resource :: bound_url where
  "posture_resource = bound_of ''x.org'' 443 ''/mcp''"

lemma posture_bound: "bound_https_url posture_services (PStr (bn_resource_url posture_binding)) = Inr posture_resource"
  by code_simp

lemma posture_time_simps: "dt_offset posture_time \<noteq> None" "dt_in_range (utc_instant posture_time)"
  by code_simp+

lemma posture_candidates: "resource_metadata_candidates posture_services posture_resource None = Inr
    [(''https://x.org/.well-known/oauth-protected-resource/mcp'', ''well-known-path''),
     (''https://x.org/.well-known/oauth-protected-resource'', ''well-known-root'')]"
  by code_simp

text \<open>An age of 401 digits: a one and 400 zeros.\<close>

definition huge_age_text :: string where
  "huge_age_text = CHR ''1'' # replicate 400 (CHR ''0'')"

lemma nat_literal_zeros: "nat_literal (ds @ replicate n (CHR ''0'')) = nat_literal ds * 10 ^ n"
proof (induction n)
  case (Suc n)
  have "ds @ replicate (Suc n) (CHR ''0'') = (ds @ replicate n (CHR ''0'')) @ [CHR ''0'']"
    by (simp add: replicate_append_same)
  then show ?case using Suc by (simp only: nat_literal_def foldl_append) (simp add: digit_val_def)
qed simp

lemma huge_header_age: "header_age (Some huge_age_text) = Inr (10 ^ 400)"
proof -
  have strip: "py_strip huge_age_text = huge_age_text"
    by (simp add: huge_age_text_def py_strip_def is_space_char_def)
  have digits: "list_all is_digit_char huge_age_text" by (simp add: huge_age_text_def list_all_iff is_digit_char_def)
  have "int_literal huge_age_text = nat_literal (''1'' @ replicate 400 (CHR ''0''))"
    by (simp add: int_literal_def huge_age_text_def)
  also have "\<dots> = 10 ^ 400" by (simp only: nat_literal_zeros) (simp add: nat_literal_def digit_val_def)
  finally have val: "int_literal huge_age_text = 10 ^ 400" .
  have "length (filter is_digit_char huge_age_text) \<le> length huge_age_text" by (rule length_filter_le)
  also have "\<dots> = 401" by (simp add: huge_age_text_def)
  finally have "\<not> 4300 < length (filter is_digit_char huge_age_text)" by simp
  then have "int_of_literal huge_age_text = Inr (10 ^ 400)" by (simp only: int_of_literal_def val if_False)
  moreover have "huge_age_text \<noteq> []" by (simp add: huge_age_text_def)
  ultimately show ?thesis using digits by (simp add: header_age_def strip raised_def)
qed

lemma huge_age_overflows: "overflow_bound \<le> \<bar>f64 (of_int (10 ^ 400))\<bar>"
proof -
  have "pow2 (- 1022) \<le> (of_int (10 ^ 400) :: rat)" by (simp add: pow2_def)
  from f64_relative [OF this] have "(of_int (10 ^ 400) :: rat) / 2 \<le> f64 (of_int (10 ^ 400))"
    by (simp add: pow2_def abs_le_iff)
  moreover have "(2 :: rat) ^ 1024 \<le> of_int (10 ^ 400) / 2" by simp
  ultimately show ?thesis unfolding overflow_bound_def by linarith
qed

lemma posture_fresh:
  "\<exists>ev. response_freshness posture_services (posture_response url None body) (740000 * us_per_day) = Inr ev"
proof -
  have "cache_freshness_seconds (Some ''max-age=60'') = Inr 60" by code_simp
  then show ?thesis
    by (simp add: response_freshness_def posture_response_def posture_services_def header_age_def float_of_int_def overflow_bound_def
      total_seconds_def MAX_CLOCK_SKEW_SECONDS_def as_utc_def dt_in_range_def utc_instant_def dt_limit_def us_per_day_def raised_def utc_dt_def)
qed

lemma posture_documents:
  "\<exists>d. decode_body posture_platform ''R'' = Inr (Inr d) \<and> validate_resource_metadata posture_services d posture_resource =
     Inr \<lparr>rm_resource = ''https://x.org/mcp'', rm_authorization_servers = [''https://a.org''], rm_scopes_supported = []\<rparr>"
  "\<exists>d am. decode_body posture_platform ''A'' = Inr (Inr d)
     \<and> validate_authorization_metadata posture_services d (bound_of ''a.org'' 443 ''/'') ''https://a.org'' = Inr am"
  subgoal
    by (rule exI [of _ "[(''resource'', PStr ''https://x.org/mcp''), (''authorization_servers'', PList [PStr ''https://a.org''])]"]) code_simp
  subgoal
    by (rule exI [of _ "[(''issuer'', PStr ''https://a.org''), (''code_challenge_methods_supported'', PList [PStr ''S256'']),
       (''authorization_endpoint'', PStr ''https://a.org/auth''), (''token_endpoint'', PStr ''https://a.org/token'')]"],
      rule exI [of _ "\<lparr>am_issuer = ''https://a.org'', am_authorization_endpoint = ''https://a.org/auth'', am_token_endpoint = ''https://a.org/token'',
         am_code_challenge_methods = [''S256''], am_scopes_supported = [], am_client_metadata = None,
         am_registration_endpoint = None, am_iss_supported = None\<rparr>"]) code_simp
  done

lemma posture_judged:
  assumes "decode_body posture_platform body = Inr (Inr d)"
  shows "\<exists>a. judge_response posture_platform posture_services kind (740000 * us_per_day) (posture_response url None body) = Inr (Some d, a)"
proof -
  have "content_type_is_json (Some ''application/json'')" by code_simp
  moreover obtain ev where "response_freshness posture_services (posture_response url None body) (740000 * us_per_day) = Inr ev"
    using posture_fresh by blast
  ultimately show ?thesis using assms by (simp add: judge_response_def Let_def) (simp add: posture_response_def raised_def)
qed

lemma posture_run:
  "\<exists>r. probe_authorization_posture posture_platform posture_services (posture_fetcher None) posture_binding None 5 posture_time = Inr r
     \<and> ps_eligibility r = PolicyReviewOnly"
proof -
  let ?t = "740000 * us_per_day"
  let ?R = "''https://x.org/.well-known/oauth-protected-resource/mcp''"
  let ?A = "''https://a.org/.well-known/oauth-authorization-server''"
  obtain dR where dR: "decode_body posture_platform ''R'' = Inr (Inr dR)" and
    vR: "validate_resource_metadata posture_services dR posture_resource =
     Inr \<lparr>rm_resource = ''https://x.org/mcp'', rm_authorization_servers = [''https://a.org''], rm_scopes_supported = []\<rparr>"
    using posture_documents(1) by blast
  obtain dA am where dA: "decode_body posture_platform ''A'' = Inr (Inr dA)" and
    vA: "validate_authorization_metadata posture_services dA (bound_of ''a.org'' 443 ''/'') ''https://a.org'' = Inr am"
    using posture_documents(2) by blast
  obtain aR where fR: "fetch_json posture_platform posture_services (posture_fetcher None) 0 ?R (''resource-metadata'' @ '':'' @ ''well-known-path'') ?t
      = Inr (Some dR, aR)"
    using posture_judged [OF dR] by (auto simp: fetch_json_def posture_fetcher_def simp del: append_Cons)
  obtain aA where fA: "fetch_json posture_platform posture_services (posture_fetcher None) (Suc 0) ?A (''authorization-server'' @ '':'' @ ''rfc8414'') ?t
      = Inr (Some dA, aA)"
    using posture_judged [OF dA] by (auto simp: fetch_json_def posture_fetcher_def simp del: append_Cons)
  have issuer: "metadata_url posture_services (PStr ''https://a.org'') ''authorization_server'' = Inr (bound_of ''a.org'' 443 ''/'')"
    by code_simp
  have cands: "authorization_metadata_candidates (bound_of ''a.org'' 443 ''/'') =
      [(?A, ''rfc8414''), (''https://a.org/.well-known/openid-configuration'', ''openid-connect'')]"
    by code_simp
  obtain s where server: "probe_server posture_platform posture_services (posture_fetcher None) ?t (Suc 0) ''https://a.org'' = Inr (s, [validated_attempt aA ''authorization_server_metadata_valid''])"
    and ready: "sr_state s = MetadataReady"
  proof -
    have "discover (\<lambda>n url kind. fetch_json posture_platform posture_services (posture_fetcher None) n url kind ?t)
        ''authorization-server'' ''authorization_server_metadata_valid''
        (\<lambda>d. validate_authorization_metadata posture_services d (bound_of ''a.org'' 443 ''/'') ''https://a.org'') (Suc 0)
        (authorization_metadata_candidates (bound_of ''a.org'' 443 ''/''))
      = Inr (Some (am, ?A, ''rfc8414''), [validated_attempt aA ''authorization_server_metadata_valid''], [])"
      unfolding cands by (simp del: append_Cons add: fA vA)
    then show thesis by (intro that) (simp add: probe_server_def issuer, simp)
  qed
  have "utc_instant posture_time = ?t" "dt_in_range ?t" "dt_offset posture_time \<noteq> None"
    by (simp_all add: posture_time_def utc_dt_def utc_instant_def dt_in_range_def dt_limit_def us_per_day_def)
  then show ?thesis
    using posture_bound
    by (simp del: append_Cons add: probe_authorization_posture_def observation_time_def MAX_TIMEOUT_def raised_def as_utc_def
      probe_from_def challenge_def posture_candidates fR vR server conclude_def ready Let_def)
qed

section \<open>Probes\<close>


text \<open>A fetcher that agrees below the two origins only.\<close>

definition narrow_fetcher :: fetcher where
  "narrow_fetcher n url = (if prefix ''https://x.org/'' url \<or> prefix ''https://a.org/'' url then posture_fetcher None n url
     else Inr (posture_response url None ''A''))"

lemma posture_listed:
  assumes "listed_issuer posture_platform posture_services (posture_fetcher None) t posture_resource issuer"
  shows "issuer = ''https://a.org''"
proof -
  obtain dR where dR: "decode_body posture_platform ''R'' = Inr (Inr dR)" and
    vR: "validate_resource_metadata posture_services dR posture_resource =
     Inr \<lparr>rm_resource = ''https://x.org/mcp'', rm_authorization_servers = [''https://a.org''], rm_scopes_supported = []\<rparr>"
    using posture_documents(1) by blast
  from assms obtain url d m where u: "under_origin posture_resource url" "served posture_platform posture_services (posture_fetcher None) t url d"
      and m: "validate_resource_metadata posture_services d posture_resource = Inr (m :: resource_metadata)"
        "issuer \<in> set (rm_authorization_servers m)"
    unfolding listed_issuer_def by blast
  have "bu_origin posture_resource = ''https://x.org''" by code_simp
  then have "url \<noteq> ''https://a.org/.well-known/oauth-authorization-server''" using u(1) by (auto simp: under_origin_def)
  moreover from u(2) obtain n kind response a where r: "posture_fetcher None n url = Inr response"
      "judge_response posture_platform posture_services kind t response = Inr (Some d, a)"
    unfolding served_def by blast
  moreover have "fp_reason response = None" by (rule judged_current(2) [OF r(2)])
  ultimately have "response = posture_response url None ''R''"
    by (auto simp: posture_fetcher_def failed_fetch_def split: if_splits)
  then have "d = dR" using judged_current(5) [OF r(2)] dR by (simp add: posture_response_def)
  then show ?thesis using m vR by auto
qed

theorem probe_contacts_only_named_origins_witness:
  "probe_authorization_posture posture_platform posture_services (posture_fetcher None) posture_binding None 5 posture_time
     = probe_authorization_posture posture_platform posture_services narrow_fetcher posture_binding None 5 posture_time"
proof (rule probe_contacts_only_named_origins)
  fix resource n url
  assume a: "bound_https_url posture_services (PStr (bn_resource_url posture_binding)) = Inr resource"
    "allowed_url posture_platform posture_services (posture_fetcher None) (utc_instant posture_time) resource url"
  have r: "resource = posture_resource" using a(1) posture_bound by simp
  have o: "bu_origin posture_resource = ''https://x.org''" by code_simp
  have i: "metadata_url posture_services (PStr ''https://a.org'') ''authorization_server'' = Inr (bound_of ''a.org'' 443 ''/'')"
    by code_simp
  have k: "bu_origin (bound_of ''a.org'' 443 ''/'') @ ''/'' = ''https://a.org/''" "''https://x.org'' @ ''/'' = ''https://x.org/''" by code_simp+
  have "under_origin posture_resource url \<or> under_origin (bound_of ''a.org'' 443 ''/'') url"
    using a(2) unfolding allowed_url_def r by (auto dest!: posture_listed simp: i)
  then have "prefix ''https://x.org/'' url \<or> prefix ''https://a.org/'' url" unfolding under_origin_def o k .
  then show "posture_fetcher None n url = narrow_fetcher n url" unfolding narrow_fetcher_def by (simp only: if_True)
qed

section \<open>A network\<close>

text \<open>One public address answers; a private one may answer anything.\<close>

definition one_network :: "exchange option \<Rightarrow> network" where
  "one_network private = \<lparr>net_resolve = (\<lambda>h p. Some [''8.8.8.8'']), net_global = (\<lambda>a. Some (a = ''8.8.8.8'')),
     net_exchange = (\<lambda>target a. if a = ''8.8.8.8'' then Some \<lparr>ex_status = 200, ex_header = (\<lambda>h. None), ex_body = ''{}''\<rparr> else private)\<rparr>"

theorem pinned_fetch_contacts_only_global_witness:
  "pinned_fetch posture_services (one_network None) ''https://x.org/mcp'' 65536
     = pinned_fetch posture_services (one_network (Some \<lparr>ex_status = 200, ex_header = (\<lambda>h. None), ex_body = ''secret''\<rparr>)) ''https://x.org/mcp'' 65536"
  by (rule pinned_fetch_contacts_only_global) (simp_all add: one_network_def)


end
