(* ===== verification/Corpus_Registry.thy ===== *)
theory Corpus_Registry
  imports Models Url_Text "HOL-Library.Product_Lexorder"
begin

text \<open>
  Discovery-only planning from registry metadata (\<open>corpus/registry.py\<close>): one candidate per server object of an
  already fetched payload, its lane and eligibility, and the manifest with its first batch. A server object is the dict
  that \<open>json.loads\<close> gave; the bracketed-host check of \<open>urlsplit\<close> is the parameter \<open>bok\<close>.
\<close>

section \<open>Lanes and freshness\<close>

datatype candidate_mode = NoAuthSandboxed | CredentialedSandboxed | NetworkedSandboxed | RemoteNetworked | PackageOnly

definition candidate_mode_str :: "candidate_mode \<Rightarrow> string" where
  "candidate_mode_str m = (case m of NoAuthSandboxed \<Rightarrow> ''no-auth-sandboxed'' | CredentialedSandboxed \<Rightarrow> ''credentialed-sandboxed''
     | NetworkedSandboxed \<Rightarrow> ''networked-sandboxed'' | RemoteNetworked \<Rightarrow> ''remote-networked'' | PackageOnly \<Rightarrow> ''package-only'')"

datatype freshness = RegFresh | RegAging | RegStale | RegUnknown | RegDeprecated | RegDeleted

definition freshness_text :: "freshness \<Rightarrow> string" where
  "freshness_text f = (case f of RegFresh \<Rightarrow> ''fresh'' | RegAging \<Rightarrow> ''aging'' | RegStale \<Rightarrow> ''stale'' | RegUnknown \<Rightarrow> ''unknown''
     | RegDeprecated \<Rightarrow> ''deprecated'' | RegDeleted \<Rightarrow> ''deleted'')"

definition ACTIVE_STATUSES :: "string list" where "ACTIVE_STATUSES = [''active'', []]"
definition NON_LIVE_STATUSES :: "string list" where "NON_LIVE_STATUSES = [''deprecated'', ''deleted'']"

section \<open>Reading untyped values\<close>

text \<open>\<open>a or b\<close>, \<open>_string\<close>, and \<open>x or default\<close> for an optional text.\<close>

definition py_or :: "pyval \<Rightarrow> pyval \<Rightarrow> pyval" where
  "py_or a b = (if py_truthy a then a else b)"

definition text_or_none :: "pyval \<Rightarrow> string option" where
  "text_or_none v = (case v of PStr s \<Rightarrow> if s = [] then None else Some s | _ \<Rightarrow> None)"

definition text_or :: "string option \<Rightarrow> string \<Rightarrow> string" where
  "text_or s d = (case s of None \<Rightarrow> d | Some t \<Rightarrow> if t = [] then d else t)"

definition registry_bool :: "pyval \<Rightarrow> bool option" where
  "registry_bool v = (case v of PBool b \<Rightarrow> Some b | _ \<Rightarrow> None)"

definition dict_items :: "pyval \<Rightarrow> pydict list" where
  "dict_items v = (case v of PList xs \<Rightarrow> concat (map (\<lambda>x. case x of PDict d \<Rightarrow> [d] | _ \<Rightarrow> []) xs) | _ \<Rightarrow> [])"

definition unwrap_server :: "pydict \<Rightarrow> pydict" where
  "unwrap_server entry = (case dget entry ''server'' of
     PDict server \<Rightarrow> if has_key entry ''_meta'' \<and> \<not> has_key server ''_meta''
       then server @ [(''_meta'', dget entry ''_meta'')] else server
   | _ \<Rightarrow> entry)"

definition extract_servers :: "pyval \<Rightarrow> pydict list res" where
  "extract_servers payload = (case payload of
     PList xs \<Rightarrow> Inr (map unwrap_server (dict_items payload))
   | PDict d \<Rightarrow> (case dget d ''servers'' of
       PList xs \<Rightarrow> Inr (map unwrap_server (dict_items (PList xs)))
     | _ \<Rightarrow> if is_dict (dget d ''server'') then Inr [unwrap_server d] else Inl TypeError)
   | _ \<Rightarrow> Inl TypeError)"

definition official_meta :: "pydict \<Rightarrow> pydict" where
  "official_meta server = (case dget server ''_meta'' of
     PDict meta \<Rightarrow>
       (case find (\<lambda>v. case v of PDict d \<Rightarrow> has_key d ''status'' \<or> has_key d ''updatedAt'' \<or> has_key d ''publishedAt'' | _ \<Rightarrow> False)
           (map snd meta) of
          Some (PDict d) \<Rightarrow> d | _ \<Rightarrow> meta)
   | _ \<Rightarrow> [])"

section \<open>References\<close>

record repository =
  rp_url :: "string option"
  rp_source :: "string option"
  rp_id :: "string option"

definition repository_of :: "pyval \<Rightarrow> repository" where
  "repository_of value = (case value of
     PStr s \<Rightarrow> \<lparr>rp_url = Some s, rp_source = None, rp_id = None\<rparr>
   | PDict d \<Rightarrow> \<lparr>rp_url = text_or_none (dget d ''url''), rp_source = text_or_none (dget d ''source''), rp_id = text_or_none (dget d ''id'')\<rparr>
   | _ \<Rightarrow> \<lparr>rp_url = None, rp_source = None, rp_id = None\<rparr>)"

definition transport_type :: "pydict \<Rightarrow> string option" where
  "transport_type value = (case dget value ''transport'' of
     PStr s \<Rightarrow> Some s | PDict t \<Rightarrow> text_or_none (dget t ''type'') | _ \<Rightarrow> text_or_none (dget value ''type''))"

text \<open>Is \<open>p\<close> a substring?\<close>

fun contains :: "string \<Rightarrow> string \<Rightarrow> bool" where
  "contains p [] = (p = [])"
| "contains p (c # cs) = (take (length p) (c # cs) = p \<or> contains p cs)"

definition is_exact_version :: "string \<Rightarrow> string option \<Rightarrow> string option \<Rightarrow> bool" where
  "is_exact_version registry_type identifier version =
     (if version \<noteq> None \<and> version \<noteq> Some [] then True
      else case identifier of
        None \<Rightarrow> False
      | Some i \<Rightarrow> if i = [] then False
          else if py_lower registry_type = ''pypi'' then contains ''=='' i \<or> CHR ''@'' \<in> set i
          else if py_lower registry_type = ''npm'' then
            (if hd i = CHR ''@'' \<and> CHR ''/'' \<in> set i then CHR ''@'' \<in> set (tl (dropWhile (\<lambda>c. c \<noteq> CHR ''/'') i))
             else CHR ''@'' \<in> set i)
          else False)"

record package_ref =
  pr_registry_type :: string
  pr_identifier :: "string option"
  pr_version :: "string option"
  pr_transport :: "string option"
  pr_runtime_hint :: "string option"
  pr_file_sha256 :: "string option"
  pr_exact :: bool

definition package_ref_of :: "pydict \<Rightarrow> package_ref" where
  "package_ref_of package =
     (let registry_type = text_or (text_or_none (py_or (dget package ''registryType'') (dget package ''registry''))) ''unknown'';
          identifier = text_or_none (py_or (dget package ''identifier'') (dget package ''name''));
          version = text_or_none (dget package ''version'') in
      \<lparr>pr_registry_type = registry_type, pr_identifier = identifier, pr_version = version, pr_transport = transport_type package,
       pr_runtime_hint = text_or_none (dget package ''runtimeHint''), pr_file_sha256 = text_or_none (dget package ''fileSha256''),
       pr_exact = is_exact_version registry_type identifier version\<rparr>)"

definition has_exact_package_ref :: "package_ref list \<Rightarrow> bool" where
  "has_exact_package_ref refs = list_ex pr_exact refs"

definition normalize_url :: "(string \<Rightarrow> bool) \<Rightarrow> string \<Rightarrow> string res" where
  "normalize_url bok value = bind_res (urlsplit bok value) (\<lambda>parsed.
     Inr (urlunsplit (py_lower (url_scheme parsed)) (py_lower (url_netloc parsed)) (rstrip_char (CHR ''/'') (url_path parsed)) [] []))"

record remote_ref =
  rr_url :: "string option"
  rr_normalized :: "string option"
  rr_transport :: "string option"

definition remote_ref_of :: "(string \<Rightarrow> bool) \<Rightarrow> pydict \<Rightarrow> remote_ref res" where
  "remote_ref_of bok remote = (case text_or_none (py_or (dget remote ''url'') (dget remote ''endpoint'')) of
     None \<Rightarrow> Inr \<lparr>rr_url = None, rr_normalized = None, rr_transport = transport_type remote\<rparr>
   | Some u \<Rightarrow> bind_res (normalize_url bok u) (\<lambda>n.
       Inr \<lparr>rr_url = Some u, rr_normalized = Some n, rr_transport = transport_type remote\<rparr>))"

section \<open>Environment names\<close>

definition env_entries :: "pyval \<Rightarrow> pydict list" where
  "env_entries value = (case value of
     PList xs \<Rightarrow> dict_items value
   | PDict d \<Rightarrow> map (\<lambda>(key, metadata). case metadata of
       PDict m \<Rightarrow> dict_of ((''name'', PStr key) # m) | _ \<Rightarrow> [(''name'', PStr key)]) d
   | _ \<Rightarrow> [])"

definition header_name_re :: "string \<Rightarrow> bool" where
  "header_name_re s \<longleftrightarrow> s \<noteq> [] \<and> list_all (\<lambda>c. is_alnum_char c \<or> c \<in> set ''!#$%&*+.^_|~-'' \<or> c = CHR 0x27 \<or> c = CHR 0x60) s"

record environment =
  en_keys :: "string list"
  en_secret :: "string list"
  en_required :: "string list"
  en_invalid :: nat

text \<open>One entry of the loop; a name in a list stands for a member of the set.\<close>

definition entry_name :: "pydict \<Rightarrow> string option" where
  "entry_name env = text_or_none (py_or (dget env ''name'') (dget env ''key''))"

definition entry_secret :: "pydict \<Rightarrow> bool" where
  "entry_secret env = py_truthy (py_or (dget env ''isSecret'') (dget env ''secret''))"

definition entry_required :: "pydict \<Rightarrow> bool" where
  "entry_required env = py_truthy (py_or (dget env ''isRequired'') (dget env ''required''))"

definition name_ok :: "bool \<Rightarrow> string \<Rightarrow> bool" where
  "name_ok is_header name \<longleftrightarrow> length name \<le> 128 \<and> (if is_header then header_name_re name else env_key_re name)"

definition env_step :: "environment \<Rightarrow> pydict \<times> bool \<Rightarrow> environment" where
  "env_step acc = (\<lambda>(env, is_header). case entry_name env of
     None \<Rightarrow> acc
   | Some name \<Rightarrow>
       if \<not> name_ok is_header name then acc\<lparr>en_invalid := Suc (en_invalid acc)\<rparr>
       else acc\<lparr>en_keys := name # en_keys acc,
         en_secret := (if entry_secret env then name # en_secret acc else en_secret acc),
         en_required := (if entry_required env \<and> entry_secret env then name # en_required acc else en_required acc)\<rparr>)"

definition holder_entries :: "pydict \<Rightarrow> (pydict \<times> bool) list" where
  "holder_entries holder = map (\<lambda>e. (e, False)) (env_entries (dget holder ''environmentVariables''))
     @ map (\<lambda>e. (e, True)) (env_entries (dget holder ''headers''))"

definition environment_summary :: "pydict list \<Rightarrow> pydict list \<Rightarrow> environment" where
  "environment_summary packages remotes =
     (let acc = foldl env_step \<lparr>en_keys = [], en_secret = [], en_required = [], en_invalid = 0\<rparr>
        (concat (map holder_entries (packages @ remotes))) in
      \<lparr>en_keys = sorted_set (en_keys acc), en_secret = sorted_set (en_secret acc), en_required = sorted_set (en_required acc),
       en_invalid = en_invalid acc\<rparr>)"

section \<open>Freshness\<close>

definition parse_registry_time :: "platform \<Rightarrow> string \<Rightarrow> int option res" where
  "parse_registry_time pf value = (case iso_parse pf (replace_Z value) of
     None \<Rightarrow> Inr None
   | Some d \<Rightarrow> if dt_offset d = None then Inr (Some (dt_local d)) else bind_res (as_utc d) (\<lambda>t. Inr (Some t)))"

definition registry_freshness :: "platform \<Rightarrow> string \<Rightarrow> string option \<Rightarrow> int \<Rightarrow> freshness res" where
  "registry_freshness pf status timestamp generated_at =
     (if status = ''deleted'' then Inr RegDeleted
      else if status = ''deprecated'' then Inr RegDeprecated
      else case timestamp of None \<Rightarrow> Inr RegUnknown
      | Some ts \<Rightarrow> bind_res (parse_registry_time pf ts) (\<lambda>parsed. case parsed of
          None \<Rightarrow> Inr RegUnknown
        | Some t \<Rightarrow> if generated_at < t then Inr RegUnknown
            else (let age_days = (generated_at - t) div us_per_day in
              Inr (if age_days \<le> 30 then RegFresh else if age_days \<le> 180 then RegAging else RegStale))))"

definition timestamp_is_future :: "platform \<Rightarrow> string option \<Rightarrow> int \<Rightarrow> bool res" where
  "timestamp_is_future pf value generated_at = (case value of None \<Rightarrow> Inr False
   | Some ts \<Rightarrow> bind_res (parse_registry_time pf ts) (\<lambda>parsed.
       Inr (case parsed of None \<Rightarrow> False | Some t \<Rightarrow> generated_at < t)))"

section \<open>Identity\<close>

fun slugify :: "bool \<Rightarrow> string \<Rightarrow> string" where
  "slugify last_dash [] = []"
| "slugify last_dash (c # cs) =
     (if is_alnum_char c then c # slugify False cs
      else if last_dash then slugify True cs else CHR ''-'' # slugify True cs)"

definition is_ascii :: "string \<Rightarrow> bool" where
  "is_ascii s \<longleftrightarrow> list_all (\<lambda>c. (of_char c :: nat) < 128) s"

definition stable_id :: "platform \<Rightarrow> string \<Rightarrow> string option \<Rightarrow> string" where
  "stable_id pf name version =
     (let base = (case version of None \<Rightarrow> name | Some v \<Rightarrow> if v = [] then name else name @ ''-'' @ v);
          stripped = strip_char (CHR ''-'') (slugify False (py_lower (nfkc pf base)));
          stable = (if stripped = [] then ''registry-candidate'' else stripped) in
      if is_ascii base then stable else stable @ ''-'' @ take 12 (sha256_hex pf (utf8_encode base)))"

definition dedupe_keys :: "(string \<Rightarrow> bool) \<Rightarrow> string \<Rightarrow> string option \<Rightarrow> repository \<Rightarrow> package_ref list \<Rightarrow> remote_ref list \<Rightarrow>
    string list res" where
  "dedupe_keys bok name version repository packages remotes =
     bind_res (case rp_url repository of
       Some u \<Rightarrow> if u = [] then Inr [] else bind_res (normalize_url bok u) (\<lambda>n. Inr [''repo:'' @ n])
     | None \<Rightarrow> Inr []) (\<lambda>repo.
     Inr (sorted_set ([''registry:'' @ name @ '':'' @ text_or version ''unversioned''] @ repo
       @ concat (map (\<lambda>p. case pr_identifier p of None \<Rightarrow> []
           | Some i \<Rightarrow> if i = [] then [] else [''package:'' @ pr_registry_type p @ '':'' @ i @ '':'' @ text_or (pr_version p) ''unversioned'']) packages)
       @ concat (map (\<lambda>r. case rr_normalized r of None \<Rightarrow> [] | Some n \<Rightarrow> if n = [] then [] else [''remote:'' @ n]) remotes))))"

section \<open>Candidates\<close>

definition recommend_mode :: "string \<Rightarrow> bool option \<Rightarrow> pydict list \<Rightarrow> pydict list \<Rightarrow> environment \<Rightarrow> package_ref list \<Rightarrow> candidate_mode" where
  "recommend_mode status is_latest packages remotes env refs =
     (if status \<in> set NON_LIVE_STATUSES \<or> is_latest = Some False then PackageOnly
      else if en_invalid env \<noteq> 0 then PackageOnly
      else if en_secret env \<noteq> [] then (if packages \<noteq> [] then CredentialedSandboxed else RemoteNetworked)
      else if packages \<noteq> [] then (if has_exact_package_ref refs then NoAuthSandboxed else NetworkedSandboxed)
      else if remotes \<noteq> [] then RemoteNetworked else PackageOnly)"

record candidate =
  cd_stable_id :: string
  cd_registry_name :: string
  cd_title :: string
  cd_description :: string
  cd_version :: "string option"
  cd_status :: string
  cd_is_latest :: "bool option"
  cd_published_at :: "string option"
  cd_updated_at :: "string option"
  cd_freshness :: freshness
  cd_future :: bool
  cd_mode :: candidate_mode
  cd_eligible :: bool
  cd_selected :: bool
  cd_repository :: repository
  cd_packages :: "package_ref list"
  cd_remotes :: "remote_ref list"
  cd_env :: environment
  cd_dedupe_keys :: "string list"
  cd_reasons :: "string list"

definition eligible_for_batch :: "candidate_mode \<Rightarrow> string \<Rightarrow> bool option \<Rightarrow> freshness \<Rightarrow> bool \<Rightarrow> environment \<Rightarrow> package_ref list \<Rightarrow>
    repository \<Rightarrow> remote_ref list \<Rightarrow> bool" where
  "eligible_for_batch mode status is_latest fresh future env packages repository remotes \<longleftrightarrow>
     mode = NoAuthSandboxed \<and> status \<in> set ACTIVE_STATUSES \<and> is_latest \<noteq> Some False
     \<and> fresh \<in> {RegFresh, RegAging, RegUnknown} \<and> \<not> future \<and> en_required env = [] \<and> en_secret env = [] \<and> en_invalid env = 0
     \<and> has_exact_package_ref packages \<and> text_or (rp_url repository) [] \<noteq> [] \<and> remotes = []"

definition only_if :: "bool \<Rightarrow> string \<Rightarrow> string list" where
  "only_if b s = (if b then [s] else [])"

definition candidate_reasons :: "candidate_mode \<Rightarrow> string \<Rightarrow> bool option \<Rightarrow> freshness \<Rightarrow> bool \<Rightarrow> environment \<Rightarrow> package_ref list \<Rightarrow>
    repository \<Rightarrow> remote_ref list \<Rightarrow> string list" where
  "candidate_reasons mode status is_latest fresh future env packages repository remotes =
     [''mode='' @ candidate_mode_str mode]
     @ only_if (status \<notin> set ACTIVE_STATUSES) (''registry status is '' @ status)
     @ only_if (is_latest = Some False) ''registry metadata marks this as not latest''
     @ only_if (fresh \<in> {RegStale, RegDeprecated, RegDeleted}) (''freshness is '' @ freshness_text fresh)
     @ only_if future ''registry freshness timestamp is in the future''
     @ (if en_required env \<noteq> [] then [''required secret env key names are present'']
        else only_if (en_secret env \<noteq> []) ''secret env key names are present'')
     @ only_if (en_invalid env \<noteq> 0) ''invalid environment variable name metadata is present''
     @ only_if (remotes \<noteq> []) ''remote endpoint metadata is present''
     @ only_if (packages \<noteq> [] \<and> \<not> has_exact_package_ref packages) ''no exact package version was found''
     @ only_if (text_or (rp_url repository) [] = []) ''repository URL is missing''
     @ only_if (mode = NoAuthSandboxed) ''candidate can be reviewed for a no-auth sandboxed scan batch''"

definition candidate_from_server :: "platform \<Rightarrow> (string \<Rightarrow> bool) \<Rightarrow> int \<Rightarrow> pydict \<Rightarrow> candidate res" where
  "candidate_from_server pf bok generated_at server =
     (let name = text_or (text_or_none (dget server ''name'')) ''unnamed-server'';
          version = text_or_none (dget server ''version'');
          meta = official_meta server;
          status = py_lower (text_or (text_or_none (dget meta ''status'')) (text_or (text_or_none (dget server ''status'')) ''unknown''));
          is_latest = registry_bool (if has_key meta ''isLatest'' then dget meta ''isLatest'' else dget server ''isLatest'');
          published_at = text_or_none (py_or (dget meta ''publishedAt'') (dget server ''publishedAt''));
          updated_at = text_or_none (py_or (dget meta ''updatedAt'') (dget server ''updatedAt''));
          source = (if updated_at \<noteq> None then updated_at else published_at) in
      bind_res (registry_freshness pf status source generated_at) (\<lambda>fresh.
      bind_res (timestamp_is_future pf source generated_at) (\<lambda>future.
      let packages = dict_items (dget server ''packages'');
          remotes = dict_items (dget server ''remotes'');
          env = environment_summary packages remotes;
          repository = repository_of (dget server ''repository'');
          package_refs = map package_ref_of packages in
      bind_res (map_res (remote_ref_of bok) remotes) (\<lambda>remote_refs.
      bind_res (dedupe_keys bok name version repository package_refs remote_refs) (\<lambda>keys.
      let mode = recommend_mode status is_latest packages remotes env package_refs in
      Inr \<lparr>cd_stable_id = stable_id pf name version, cd_registry_name = name,
        cd_title = text_or (text_or_none (dget server ''title'')) name,
        cd_description = text_or (text_or_none (dget server ''description'')) [],
        cd_version = version, cd_status = status, cd_is_latest = is_latest, cd_published_at = published_at,
        cd_updated_at = updated_at, cd_freshness = fresh, cd_future = future, cd_mode = mode,
        cd_eligible = eligible_for_batch mode status is_latest fresh future env package_refs repository remote_refs,
        cd_selected = False, cd_repository = repository, cd_packages = package_refs, cd_remotes = remote_refs, cd_env = env,
        cd_dedupe_keys = keys,
        cd_reasons = candidate_reasons mode status is_latest fresh future env package_refs repository remote_refs\<rparr>)))))"

section \<open>The manifest\<close>

definition freshness_rank :: "freshness \<Rightarrow> string" where
  "freshness_rank f = (case f of RegFresh \<Rightarrow> ''0'' | RegAging \<Rightarrow> ''1'' | RegUnknown \<Rightarrow> ''2'' | RegStale \<Rightarrow> ''3''
     | RegDeprecated \<Rightarrow> ''4'' | RegDeleted \<Rightarrow> ''5'')"

definition candidate_sort_key :: "candidate \<Rightarrow> nat \<times> string \<times> string" where
  "candidate_sort_key c = (if cd_eligible c then 0 else 1, freshness_rank (cd_freshness c), cd_registry_name c)"

text \<open>\<open>xs[:n]\<close>.\<close>

definition py_take :: "int \<Rightarrow> 'a list \<Rightarrow> 'a list" where
  "py_take n xs = (if 0 \<le> n then take (nat n) xs else take (length xs - nat (- n)) xs)"

definition first_batch :: "int \<Rightarrow> candidate list \<Rightarrow> candidate list" where
  "first_batch limit candidates = py_take limit (filter cd_eligible candidates)"

definition mark_selected :: "string list \<Rightarrow> candidate \<Rightarrow> candidate" where
  "mark_selected ids c = c\<lparr>cd_selected := cd_stable_id c \<in> set ids\<rparr>"

text \<open>\<open>dict(sorted(Counter(xs).items()))\<close>.\<close>

definition sorted_counts :: "string list \<Rightarrow> (string \<times> nat) list" where
  "sorted_counts xs = map (\<lambda>k. (k, length (filter (\<lambda>x. x = k) xs))) (sorted_set xs)"

record plan_counts =
  pc_candidates :: nat
  pc_eligible :: nat
  pc_selected :: nat
  pc_modes :: "(string \<times> nat) list"
  pc_statuses :: "(string \<times> nat) list"
  pc_freshness :: "(string \<times> nat) list"

definition count_candidates :: "candidate list \<Rightarrow> plan_counts" where
  "count_candidates cs = \<lparr>pc_candidates = length cs, pc_eligible = length (filter cd_eligible cs),
     pc_selected = length (filter cd_selected cs), pc_modes = sorted_counts (map (\<lambda>c. candidate_mode_str (cd_mode c)) cs),
     pc_statuses = sorted_counts (map cd_status cs), pc_freshness = sorted_counts (map (\<lambda>c. freshness_text (cd_freshness c)) cs)\<rparr>"

record registry_plan =
  rg_generated_at :: int
  rg_input_servers :: nat
  rg_limit :: int
  rg_counts :: plan_counts
  rg_candidates :: "candidate list"

definition build_registry_plan :: "platform \<Rightarrow> (string \<Rightarrow> bool) \<Rightarrow> pyval \<Rightarrow> pydt \<Rightarrow> int \<Rightarrow> registry_plan res" where
  "build_registry_plan pf bok payload generated_at limit =
     bind_res (if dt_offset generated_at = None then Inr (dt_local generated_at) else as_utc generated_at) (\<lambda>t.
     bind_res (extract_servers payload) (\<lambda>servers.
     bind_res (map_res (candidate_from_server pf bok t) servers) (\<lambda>found.
     let candidates = sort_key candidate_sort_key found;
         selected_ids = map cd_stable_id (first_batch limit candidates);
         marked = map (mark_selected selected_ids) candidates in
     Inr \<lparr>rg_generated_at = t, rg_input_servers = length servers, rg_limit = limit, rg_counts = count_candidates marked,
       rg_candidates = marked\<rparr>)))"

section \<open>The manifest as a JSON value\<close>

definition opt_text :: "string option \<Rightarrow> pyval" where
  "opt_text s = (case s of None \<Rightarrow> PNone | Some t \<Rightarrow> PStr t)"

definition dump_repository :: "repository \<Rightarrow> pyval" where
  "dump_repository r = PDict [(''url'', opt_text (rp_url r)), (''source'', opt_text (rp_source r)), (''id'', opt_text (rp_id r))]"

definition dump_package_ref :: "package_ref \<Rightarrow> pyval" where
  "dump_package_ref p = PDict [(''registry_type'', PStr (pr_registry_type p)), (''identifier'', opt_text (pr_identifier p)),
     (''version'', opt_text (pr_version p)), (''transport'', opt_text (pr_transport p)),
     (''runtime_hint'', opt_text (pr_runtime_hint p)), (''file_sha256'', opt_text (pr_file_sha256 p)),
     (''exact_version'', PBool (pr_exact p))]"

definition dump_remote_ref :: "remote_ref \<Rightarrow> pyval" where
  "dump_remote_ref r = PDict [(''url'', opt_text (rr_url r)), (''normalized_url'', opt_text (rr_normalized r)),
     (''transport'', opt_text (rr_transport r))]"

definition CANDIDATE_CAVEATS :: "string list" where
  "CANDIDATE_CAVEATS = [''Registry metadata does not declare actual runtime tool surfaces.'',
     ''A danger grade requires controlled MCPAudit tool enumeration.'',
     ''Environment variable names are metadata only; values must never enter the catalog.'',
     ''Tool annotations, if later observed, remain hints rather than enforcement.'']"

definition texts :: "string list \<Rightarrow> pyval" where
  "texts ss = PList (map PStr ss)"

definition dump_candidate :: "candidate \<Rightarrow> pydict" where
  "dump_candidate c = [(''stable_id'', PStr (cd_stable_id c)), (''registry_name'', PStr (cd_registry_name c)),
     (''title'', PStr (cd_title c)), (''description'', PStr (cd_description c)), (''version'', opt_text (cd_version c)),
     (''registry_status'', PStr (cd_status c)), (''is_latest'', (case cd_is_latest c of None \<Rightarrow> PNone | Some b \<Rightarrow> PBool b)),
     (''published_at'', opt_text (cd_published_at c)), (''updated_at'', opt_text (cd_updated_at c)),
     (''freshness'', PStr (freshness_text (cd_freshness c))), (''timestamp_in_future'', PBool (cd_future c)),
     (''recommended_mode'', PStr (candidate_mode_str (cd_mode c))), (''eligible_for_first_live_batch'', PBool (cd_eligible c)),
     (''selected_for_first_batch'', PBool (cd_selected c)), (''repository'', dump_repository (cd_repository c)),
     (''package_refs'', PList (map dump_package_ref (cd_packages c))), (''remote_refs'', PList (map dump_remote_ref (cd_remotes c))),
     (''env_key_names'', texts (en_keys (cd_env c))), (''secret_env_key_names'', texts (en_secret (cd_env c))),
     (''required_secret_keys'', texts (en_required (cd_env c))), (''invalid_env_key_count'', PInt (int (en_invalid (cd_env c)))),
     (''dedupe_keys'', texts (cd_dedupe_keys c)), (''reasons'', texts (cd_reasons c)), (''caveats'', texts CANDIDATE_CAVEATS)]"

definition dump_plan_counts :: "plan_counts \<Rightarrow> pyval" where
  "dump_plan_counts c = (let table = (\<lambda>t. PDict (map (\<lambda>(k, n). (k, PInt (int n))) t)) in
     PDict [(''candidates'', PInt (int (pc_candidates c))), (''eligible_for_first_live_batch'', PInt (int (pc_eligible c))),
       (''selected_for_first_batch'', PInt (int (pc_selected c))), (''modes'', table (pc_modes c)),
       (''registry_statuses'', table (pc_statuses c)), (''freshness'', table (pc_freshness c))])"

text \<open>The document without its fixed prose (notice, references and the texts of the selection policy).\<close>

definition dump_plan :: "platform \<Rightarrow> registry_plan \<Rightarrow> pydict" where
  "dump_plan pf m = [(''format_version'', PInt 1), (''generated_at'', PStr (iso_format pf (utc_dt (rg_generated_at m)))),
     (''source'', PDict [(''kind'', PStr ''official-mcp-registry-export''), (''input_servers'', PInt (int (rg_input_servers m)))]),
     (''selection_policy'', PDict [(''first_batch_limit'', PInt (rg_limit m))]),
     (''counts'', dump_plan_counts (rg_counts m)), (''candidates'', PList (map (\<lambda>c. PDict (dump_candidate c)) (rg_candidates m)))]"

end
