(* ===== verification/Corpus_Registry_Laws.thy ===== *)
theory Corpus_Registry_Laws
  imports Corpus_Registry Auth_Posture "HOL-Library.Multiset"
begin

text \<open>
  What the registry plan guarantees: an eligible candidate has nothing secret, remote, stale or inexact behind it; the
  candidates are the servers in priority order; the first batch is chosen by stable identifiers; one malformed URL
  loses the whole plan; and an endpoint the authorization preflight can bind is never in the first batch.
\<close>

section \<open>Environment names\<close>

text \<open>What the loop over the entries has counted and collected.\<close>

lemma env_fold:
  "en_invalid (foldl env_step acc es) = 0 \<longleftrightarrow>
     en_invalid acc = 0 \<and> (\<forall>(e, h)\<in>set es. \<forall>name. entry_name e = Some name \<longrightarrow> name_ok h name)"
  "set (en_secret (foldl env_step acc es)) =
     set (en_secret acc) \<union> {name. \<exists>(e, h)\<in>set es. entry_name e = Some name \<and> name_ok h name \<and> entry_secret e}"
  by (induction es arbitrary: acc) (auto simp: env_step_def split: option.splits prod.splits if_splits)

lemma env_nothing_secret:
  assumes "en_secret (environment_summary ps rs) = []" "en_invalid (environment_summary ps rs) = 0"
    and "holder \<in> set ps" "(e, h) \<in> set (holder_entries holder)" "entry_name e = Some name"
  shows "name_ok h name \<and> \<not> entry_secret e"
proof -
  let ?es = "concat (map holder_entries (ps @ rs))"
  let ?acc = "\<lparr>en_keys = [], en_secret = [], en_required = [], en_invalid = 0\<rparr>"
  have mem: "(e, h) \<in> set ?es" using assms(3,4) by auto
  have "en_invalid (foldl env_step ?acc ?es) = 0" using assms(2) by (simp add: environment_summary_def Let_def)
  then have ok: "name_ok h name" using mem assms(5) unfolding env_fold by fastforce
  have "set (en_secret (environment_summary ps rs)) = {}" using assms(1) by simp
  then have "set (en_secret (foldl env_step ?acc ?es)) = {}" by (simp add: environment_summary_def Let_def)
  then show ?thesis using mem ok assms(5) unfolding env_fold by fastforce
qed

section \<open>Eligibility\<close>

lemma text_or_nonempty: "d \<noteq> [] \<Longrightarrow> text_or s d \<noteq> []"
  by (cases s) (auto simp: text_or_def)

lemma candidate_fields:
  assumes "candidate_from_server pf bok t server = Inr c"
  shows "cd_status c \<noteq> []"
    "map_res (remote_ref_of bok) (dict_items (dget server ''remotes'')) = Inr (cd_remotes c)"
    "cd_packages c = map package_ref_of (dict_items (dget server ''packages''))"
    "cd_env c = environment_summary (dict_items (dget server ''packages'')) (dict_items (dget server ''remotes''))"
    "\<not> cd_selected c"
    "registry_freshness pf (cd_status c) (if cd_updated_at c \<noteq> None then cd_updated_at c else cd_published_at c) t = Inr (cd_freshness c)"
    "timestamp_is_future pf (if cd_updated_at c \<noteq> None then cd_updated_at c else cd_published_at c) t = Inr (cd_future c)"
    "cd_eligible c = eligible_for_batch (cd_mode c) (cd_status c) (cd_is_latest c) (cd_freshness c) (cd_future c) (cd_env c)
       (cd_packages c) (cd_repository c) (cd_remotes c)"
  using assms by (auto simp: candidate_from_server_def Let_def py_lower_def text_or_nonempty)

text \<open>The time a candidate's freshness rests on is not after the plan and at most 180 days before it.\<close>

definition recent_enough :: "platform \<Rightarrow> candidate \<Rightarrow> int \<Rightarrow> bool" where
  "recent_enough pf c t \<longleftrightarrow> (\<forall>ts u. (if cd_updated_at c \<noteq> None then cd_updated_at c else cd_published_at c) = Some ts \<longrightarrow>
     parse_registry_time pf ts = Inr (Some u) \<longrightarrow> u \<le> t \<and> t - u < 181 * us_per_day)"

text \<open>What a reviewer may rely on for one server object and its candidate.\<close>

definition reviewable :: "platform \<Rightarrow> int \<Rightarrow> pydict \<Rightarrow> candidate \<Rightarrow> bool" where
  "reviewable pf t server c \<longleftrightarrow> cd_status c = ''active'' \<and> cd_is_latest c \<noteq> Some False \<and> recent_enough pf c t
     \<and> dict_items (dget server ''remotes'') = []
     \<and> (\<exists>p\<in>set (dict_items (dget server ''packages'')). pr_exact (package_ref_of p))
     \<and> (\<forall>p\<in>set (dict_items (dget server ''packages'')). \<forall>(e, h)\<in>set (holder_entries p). \<forall>name.
          entry_name e = Some name \<longrightarrow> name_ok h name \<and> \<not> entry_secret e)"

lemma fresh_bound:
  assumes "registry_freshness pf status (Some ts) t = Inr f" "f \<in> {RegFresh, RegAging, RegUnknown}"
    and "timestamp_is_future pf (Some ts) t = Inr False" "parse_registry_time pf ts = Inr (Some u)"
  shows "u \<le> t \<and> t - u < 181 * us_per_day"
proof -
  have le: "u \<le> t" using assms(3,4) by (simp add: timestamp_is_future_def)
  have "status \<noteq> ''deleted''" "status \<noteq> ''deprecated''" using assms(1,2) by (auto simp: registry_freshness_def)
  then have "(t - u) div us_per_day \<le> 180"
    using assms(1,2,4) le by (auto simp: registry_freshness_def Let_def split: if_splits)
  then have "t - u < 181 * us_per_day" by (simp add: us_per_day_def)
  with le show ?thesis by simp
qed

lemma eligible_reviewable:
  assumes "candidate_from_server pf bok t server = Inr c" "cd_eligible c"
  shows "reviewable pf t server c"
proof -
  note f = candidate_fields [OF assms(1)]
  have e: "cd_status c \<in> {''active'', []}" "cd_is_latest c \<noteq> Some False" "cd_freshness c \<in> {RegFresh, RegAging, RegUnknown}"
    "\<not> cd_future c" "en_secret (cd_env c) = []" "en_invalid (cd_env c) = 0" "has_exact_package_ref (cd_packages c)" "cd_remotes c = []"
    using assms(2) unfolding f(8) by (auto simp: eligible_for_batch_def ACTIVE_STATUSES_def)
  have status: "cd_status c = ''active''" using e(1) f(1) by simp
  have remotes: "dict_items (dget server ''remotes'') = []" using map_res_length [OF f(2)] e(8) by simp
  have exact: "\<exists>p\<in>set (dict_items (dget server ''packages'')). pr_exact (package_ref_of p)"
    using e(7) by (auto simp: f(3) has_exact_package_ref_def list_ex_iff)
  have env: "name_ok h name \<and> \<not> entry_secret x"
    if "p \<in> set (dict_items (dget server ''packages''))" "(x, h) \<in> set (holder_entries p)" "entry_name x = Some name" for p x h name
    using env_nothing_secret [OF e(5,6) [unfolded f(4)] that] .
  have recent: "recent_enough pf c t"
    unfolding recent_enough_def
  proof (intro allI impI)
    fix ts u assume ts: "(if cd_updated_at c \<noteq> None then cd_updated_at c else cd_published_at c) = Some ts"
      "parse_registry_time pf ts = Inr (Some u)"
    show "u \<le> t \<and> t - u < 181 * us_per_day"
      by (rule fresh_bound [OF f(6) [unfolded ts(1)] e(3) _ ts(2)]) (use f(7) [unfolded ts(1)] e(4) in simp)
  qed
  show ?thesis unfolding reviewable_def using status e(2) recent remotes exact env by blast
qed

section \<open>The plan\<close>

lemma map_res_mem: "map_res f xs = Inr ys \<Longrightarrow> y \<in> set ys \<Longrightarrow> \<exists>x\<in>set xs. f x = Inr y"
  by (induction xs arbitrary: ys) auto

lemma mark_fields [simp]: "cd_stable_id (mark_selected ids c) = cd_stable_id c" "cd_eligible (mark_selected ids c) = cd_eligible c"
    "cd_selected (mark_selected ids c) = (cd_stable_id c \<in> set ids)" "cd_remotes (mark_selected ids c) = cd_remotes c"
    "candidate_sort_key (mark_selected ids c) = candidate_sort_key c"
    "candidate_from_server pf bok t server = Inr c \<Longrightarrow> (mark_selected ids c)\<lparr>cd_selected := False\<rparr> = c"
  using candidate_fields(5) [of pf bok t server c] by (auto simp: mark_selected_def candidate_sort_key_def)

lemma reviewable_mark [simp]: "reviewable pf t server (mark_selected ids c) = reviewable pf t server c"
  by (simp add: reviewable_def recent_enough_def mark_selected_def)

lemma filter_eligible_mark: "filter cd_eligible (map (mark_selected ids) cs) = map (mark_selected ids) (filter cd_eligible cs)"
  by (induction cs) simp_all

lemma plan_parts:
  assumes "build_registry_plan pf bok payload generated_at limit = Inr m"
  obtains t servers found where "extract_servers payload = Inr servers" "rg_generated_at m = t" "rg_limit m = limit"
      "map_res (candidate_from_server pf bok t) servers = Inr found" "rg_input_servers m = length servers"
      "rg_candidates m = map (mark_selected (map cd_stable_id (first_batch limit (sort_key candidate_sort_key found))))
         (sort_key candidate_sort_key found)"
      "rg_counts m = count_candidates (rg_candidates m)"
  using assms by (auto simp: build_registry_plan_def Let_def)


lemma first_batch_mark: "first_batch limit (map (mark_selected ids) cs) = map (mark_selected ids) (first_batch limit cs)"
  by (simp add: first_batch_def py_take_def filter_eligible_mark take_map)

text \<open>A candidate is selected exactly when it shares its stable identifier with a member of the first batch.\<close>

lemma plan_selected_iff:
  assumes "build_registry_plan pf bok payload generated_at limit = Inr m" "c \<in> set (rg_candidates m)"
  shows "cd_selected c \<longleftrightarrow> (\<exists>c'\<in>set (first_batch limit (rg_candidates m)). cd_stable_id c' = cd_stable_id c)"
proof -
  from assms(1) obtain found where p: "rg_candidates m =
      map (mark_selected (map cd_stable_id (first_batch limit (sort_key candidate_sort_key found)))) (sort_key candidate_sort_key found)"
    by (rule plan_parts)
  show ?thesis using assms(2) unfolding p first_batch_mark by (auto simp: image_iff) metis+
qed

lemma filter_eq_take_filter:
  assumes "distinct (map f xs)" "\<And>x. x \<in> set xs \<Longrightarrow> Q x \<longleftrightarrow> (\<exists>y\<in>set (take n (filter P xs)). f y = f x)"
  shows "filter Q xs = take n (filter P xs)"
proof -
  let ?b = "take n (filter P xs)"
  have sub: "set ?b \<subseteq> set xs" by (auto dest: in_set_takeD)
  have "Q x \<longleftrightarrow> x \<in> set ?b" if "x \<in> set xs" for x
    using assms(2) [OF that] sub inj_onD [of f "set xs"] assms(1) that by (auto simp: distinct_map)
  then have "filter Q xs = filter (\<lambda>x. x \<in> set ?b) xs" by (auto intro: filter_cong)
  also have "\<dots> = ?b" using assms(1)
  proof (induction xs arbitrary: n)
    case (Cons x xs)
    show ?case
    proof (cases "P x \<and> n \<noteq> 0")
      case True
      then obtain k where n: "n = Suc k" by (cases n) auto
      have "filter (\<lambda>y. y = x \<or> y \<in> set (take k (filter P xs))) xs = filter (\<lambda>y. y \<in> set (take k (filter P xs))) xs"
        by (rule filter_cong) (use Cons.prems in auto)
      then show ?thesis using Cons True by (simp add: n)
    next
      case False
      have "x \<notin> set (take n (filter P xs))" using Cons.prems by (auto dest: in_set_takeD)
      then show ?thesis using Cons False by (cases n) auto
    qed
  qed simp
  finally show ?thesis .
qed

text \<open>C35. A plan holds exactly the candidates of the payload's servers, eligible ones first, then by freshness and name. When
  their stable identifiers are distinct and the limit is not negative, the selected ones are the first eligible ones, so
  no ineligible one is selected and their number is the smaller of the limit and the number of eligible ones.\<close>

lemma plan_selects_first_eligible:
  assumes "build_registry_plan pf bok payload generated_at limit = Inr m"
    and "0 \<le> limit" "distinct (map cd_stable_id (rg_candidates m))"
  shows "sorted (map candidate_sort_key (rg_candidates m))
    \<and> (\<exists>servers found. extract_servers payload = Inr servers
        \<and> map_res (candidate_from_server pf bok (rg_generated_at m)) servers = Inr found
        \<and> mset (map (\<lambda>c. c\<lparr>cd_selected := False\<rparr>) (rg_candidates m)) = mset found)
    \<and> filter cd_selected (rg_candidates m) = take (nat limit) (filter cd_eligible (rg_candidates m))
    \<and> pc_selected (rg_counts m) = min (nat limit) (pc_eligible (rg_counts m))"
proof -
  from assms(1) obtain t servers found where p: "extract_servers payload = Inr servers" "rg_generated_at m = t"
      "map_res (candidate_from_server pf bok t) servers = Inr found"
      "rg_candidates m = map (mark_selected (map cd_stable_id (first_batch limit (sort_key candidate_sort_key found))))
         (sort_key candidate_sort_key found)" "rg_counts m = count_candidates (rg_candidates m)"
    by (rule plan_parts)
  let ?ids = "map cd_stable_id (first_batch limit (sort_key candidate_sort_key found))"
  have sorted: "sorted (map candidate_sort_key (rg_candidates m))"
    using sorted_sort_key [of candidate_sort_key found] by (simp add: p(4) comp_def)
  have "(mark_selected ?ids c)\<lparr>cd_selected := False\<rparr> = c" if "c \<in> set found" for c
  proof -
    from map_res_mem [OF p(3) that] obtain server where "candidate_from_server pf bok t server = Inr c" by blast
    then show ?thesis by simp
  qed
  then have "map (\<lambda>c. c\<lparr>cd_selected := False\<rparr>) (rg_candidates m) = sort_key candidate_sort_key found"
    unfolding p(4) map_map comp_def by (intro map_idI) simp
  then have same: "mset (map (\<lambda>c. c\<lparr>cd_selected := False\<rparr>) (rg_candidates m)) = mset found" by (simp only: mset_sort)
  have batch: "first_batch limit cs = take (nat limit) (filter cd_eligible cs)" for cs
    using assms(2) by (simp add: first_batch_def py_take_def)
  have sel: "filter cd_selected (rg_candidates m) = take (nat limit) (filter cd_eligible (rg_candidates m))"
    by (rule filter_eq_take_filter [OF assms(3)]) (simp add: plan_selected_iff [OF assms(1)] batch)
  have "pc_selected (rg_counts m) = min (nat limit) (pc_eligible (rg_counts m))"
    by (simp add: p(5) count_candidates_def sel)
  then show ?thesis using sorted p(1,2,3) same sel by blast
qed

section \<open>Namesakes\<close>


section \<open>A malformed URL\<close>

lemma map_res_each: "map_res f xs = Inr ys \<Longrightarrow> x \<in> set xs \<Longrightarrow> \<exists>y. f x = Inr y"
  by (induction xs arbitrary: ys) auto

text \<open>One remote whose URL \<open>urlsplit\<close> refuses makes the whole plan raise, so no server of the payload is planned.\<close>

lemma one_bad_url_loses_the_plan:
  assumes "extract_servers payload = Inr servers" "server \<in> set servers" "remote \<in> set (dict_items (dget server ''remotes''))"
    and "text_or_none (py_or (dget remote ''url'') (dget remote ''endpoint'')) = Some u" "urlsplit bok u = Inl e"
  shows "\<exists>e'. build_registry_plan pf bok payload generated_at limit = Inl e'"
proof (cases "build_registry_plan pf bok payload generated_at limit")
  case (Inr m)
  from plan_parts [OF Inr] obtain t servers' found where p: "extract_servers payload = Inr servers'"
      "map_res (candidate_from_server pf bok t) servers' = Inr found"
    by metis
  then have "map_res (candidate_from_server pf bok t) servers = Inr found" using assms(1) by simp
  from map_res_each [OF this assms(2)] obtain c where "candidate_from_server pf bok t server = Inr c" by blast
  from map_res_each [OF candidate_fields(2) [OF this] assms(3)] obtain r where "remote_ref_of bok remote = Inr r" by blast
  then show ?thesis using assms(4,5) by (simp add: remote_ref_of_def normalize_url_def)
qed simp

section \<open>Stable identifiers\<close>

fun no_double_dash :: "string \<Rightarrow> bool" where
  "no_double_dash (a # b # s) = (\<not> (a = CHR ''-'' \<and> b = CHR ''-'') \<and> no_double_dash (b # s))"
| "no_double_dash s = True"

lemma no_double_dash_append: "no_double_dash (a @ b) \<Longrightarrow> no_double_dash a \<and> no_double_dash b"
  by (induction a rule: no_double_dash.induct; cases b) simp_all

lemma rstrip_char_split: "s = rstrip_char c s @ rev (takeWhile (\<lambda>x. x = c) (rev s))"
  unfolding rstrip_char_def by (metis rev_append rev_rev_ident takeWhile_dropWhile_id)

lemma no_double_dash_strip: "no_double_dash s \<Longrightarrow> no_double_dash (strip_char (CHR ''-'') s)"
proof -
  assume s: "no_double_dash s"
  let ?t = "dropWhile (\<lambda>x. x = CHR ''-'') s"
  have "no_double_dash ?t" using no_double_dash_append [of "takeWhile (\<lambda>x. x = CHR ''-'') s" ?t] s by simp
  then have "no_double_dash (rstrip_char (CHR ''-'') ?t)"
    using no_double_dash_append rstrip_char_split [of ?t "CHR ''-''"] by metis
  then show ?thesis by (simp add: strip_char_def)
qed

lemma strip_char_ends:
  assumes "strip_char c s \<noteq> []"
  shows "hd (strip_char c s) \<noteq> c \<and> last (strip_char c s) \<noteq> c \<and> set (strip_char c s) \<subseteq> set s"
proof -
  let ?d = "\<lambda>x. x = c"
  let ?t = "dropWhile ?d s"
  have r: "strip_char c s = rev (dropWhile ?d (rev ?t))" by (simp add: strip_char_def rstrip_char_def)
  have n: "dropWhile ?d (rev ?t) \<noteq> []" using assms r by simp
  have "last (strip_char c s) = hd (dropWhile ?d (rev ?t))" unfolding r using n by (simp add: last_rev)
  then have last: "last (strip_char c s) \<noteq> c" using hd_dropWhile [OF n] by simp
  have app: "?t = strip_char c s @ rev (takeWhile ?d (rev ?t))"
    unfolding strip_char_def by (rule rstrip_char_split)
  then have ne: "?t \<noteq> []" using assms by (metis append_is_Nil_conv)
  have "hd ?t = hd (strip_char c s)" using app assms by (metis hd_append2)
  then have "hd (strip_char c s) \<noteq> c" using hd_dropWhile [OF ne] by simp
  moreover have "set (strip_char c s) \<subseteq> set s"
    unfolding r by (auto dest!: set_dropWhileD)
  ultimately show ?thesis using last by blast
qed

lemma slug_split:
  assumes "list_all (\<lambda>c. slug_char c \<or> c = CHR ''-'') s" "no_double_dash s" "s \<noteq> []" "last s \<noteq> CHR ''-''"
  shows "(\<forall>g\<in>set (tl (py_split (CHR ''-'') s)). g \<noteq> []) \<and> (\<forall>g\<in>set (py_split (CHR ''-'') s). list_all slug_char g)"
  using assms
proof (induction s)
  case (Cons c cs)
  show ?case
  proof (cases "cs = []")
    case True
    then show ?thesis using Cons.prems by auto
  next
    case False
    then have nd: "no_double_dash cs" "\<not> (c = CHR ''-'' \<and> hd cs = CHR ''-'')" using Cons.prems(2) by (cases cs; simp)+
    have ih: "(\<forall>g\<in>set (tl (py_split (CHR ''-'') cs)). g \<noteq> []) \<and> (\<forall>g\<in>set (py_split (CHR ''-'') cs). list_all slug_char g)"
      using Cons False nd(1) by simp
    obtain g gs where p: "py_split (CHR ''-'') cs = g # gs" using py_split_nonempty by (metis neq_Nil_conv)
    have "c = CHR ''-'' \<Longrightarrow> g \<noteq> []" using hd_py_split_empty [of "CHR ''-''" cs] nd(2) False by (auto simp: p)
    then show ?thesis using ih Cons.prems(1) by (auto simp: p)
  qed
qed simp

lemma slug_re_intro:
  assumes "list_all (\<lambda>c. slug_char c \<or> c = CHR ''-'') s" "no_double_dash s" "s \<noteq> []" "hd s \<noteq> CHR ''-''" "last s \<noteq> CHR ''-''"
  shows "slug_re s"
proof -
  obtain g gs where p: "py_split (CHR ''-'') s = g # gs" using py_split_nonempty by (metis neq_Nil_conv)
  have "g \<noteq> []" using hd_py_split_empty [of "CHR ''-''" s] assms(3,4) by (auto simp: p)
  then show ?thesis using slug_split [OF assms(1,2,3,5)] by (auto simp: slug_re_def p list_all_iff)
qed

lemma slugify_chars: "set (slugify b s) \<subseteq> insert (CHR ''-'') {c \<in> set s. is_alnum_char c}"
  by (induction b s rule: slugify.induct) (auto split: if_splits)

lemma slugify_dashes:
  "no_double_dash (slugify b s) \<and> (b \<longrightarrow> slugify b s = [] \<or> hd (slugify b s) \<noteq> CHR ''-'')"
proof (induction s arbitrary: b)
  case (Cons c cs)
  have dash: "\<not> is_alnum_char (CHR ''-'')" by code_simp
  show ?case
    using Cons [of False] Cons [of True] dash
    by (cases "slugify False cs"; cases "slugify True cs"; cases "is_alnum_char c"; auto)
qed simp

lemma lower_alnum_slug_char:
  assumes "is_alnum_char (lower_char c)"
  shows "slug_char (lower_char c)"
proof -
  have "\<not> is_upper_char (lower_char c)"
    by (auto simp: lower_char_def is_upper_char_def Let_def less_eq_char_def)
  then show ?thesis using assms by (simp add: is_alnum_char_def slug_char_def)
qed

lemma py_split_append: "py_split sep (a @ sep # b) = py_split sep a @ py_split sep b"
  by (induction a) (auto split: list.splits)

lemma py_split_whole: "sep \<notin> set s \<Longrightarrow> py_split sep s = [s]"
  by (induction s) auto

lemma slug_re_append: "slug_re a \<Longrightarrow> slug_re b \<Longrightarrow> slug_re (a @ CHR ''-'' # b)"
  by (auto simp: slug_re_def py_split_append)

lemma hex_slug:
  assumes "list_all hex_char s" "s \<noteq> []"
  shows "slug_re s"
proof -
  have h: "hex_char c \<Longrightarrow> slug_char c \<and> c \<noteq> CHR ''-''" for c
    by (auto simp: hex_char_def slug_char_def is_digit_char_def is_lower_char_def less_eq_char_def)
  then have "CHR ''-'' \<notin> set s" using assms(1) by (auto simp: list_all_iff)
  then show ?thesis using assms h by (simp add: slug_re_def py_split_whole list_all_iff)
qed

text \<open>A stable identifier always has the form of a catalog slug and of a corpus record identifier: lower-case letters
  and digits in groups joined by single dashes, for any name and version, given that the digest is a SHA-256 in hex.\<close>

lemma stable_id_is_slug:
  assumes "\<And>s. is_sha256 (sha256_hex pf s)"
  shows "slug_re (stable_id pf name version)"
proof -
  define base where "base = (case version of None \<Rightarrow> name | Some v \<Rightarrow> if v = [] then name else name @ ''-'' @ v)"
  define t where "t = slugify False (py_lower (nfkc pf base))"
  define stripped where "stripped = strip_char (CHR ''-'') t"
  have chars: "slug_char c \<or> c = CHR ''-''" if "c \<in> set t" for c
    using slugify_chars [of False "py_lower (nfkc pf base)"] that lower_alnum_slug_char by (auto simp: t_def py_lower_def)
  have "slug_re stripped" if ne: "stripped \<noteq> []"
  proof (rule slug_re_intro)
    show "list_all (\<lambda>c. slug_char c \<or> c = CHR ''-'') stripped"
      using strip_char_ends [of "CHR ''-''" t] ne chars by (auto simp: stripped_def list_all_iff)
    show "no_double_dash stripped" using no_double_dash_strip slugify_dashes by (simp add: stripped_def t_def)
  qed (use strip_char_ends [of "CHR ''-''" t] ne in \<open>auto simp: stripped_def\<close>)
  moreover have "slug_re ''registry-candidate''" by code_simp
  ultimately have stable: "slug_re (if stripped = [] then ''registry-candidate'' else stripped)" by simp
  have hex: "list_all hex_char (sha256_hex pf s)" "length (sha256_hex pf s) = 64" for s
    using assms [of s] by (simp_all add: is_sha256_def)
  have "slug_re (take 12 (sha256_hex pf s))" for s
    by (rule hex_slug) (use hex [of s] in \<open>auto simp: list_all_iff dest: in_set_takeD\<close>)
  then have "slug_re ((if stripped = [] then ''registry-candidate'' else stripped) @ CHR ''-'' # take 12 (sha256_hex pf s))" for s
    using slug_re_append [OF stable] by blast
  then show ?thesis using stable unfolding stable_id_def base_def [symmetric] t_def [symmetric] stripped_def [symmetric] Let_def
    by simp
qed

section \<open>Bound endpoints\<close>

lemma dump_candidate_keys:
  "dget (dump_candidate c) ''stable_id'' = PStr (cd_stable_id c)"
  "dget (dump_candidate c) ''remote_refs'' = PList (map dump_remote_ref (cd_remotes c))"
  by (simp_all add: dump_candidate_def)

lemma dump_plan_keys: "dget (dump_plan pf m) ''candidates'' = PList (map (\<lambda>c. PDict (dump_candidate c)) (rg_candidates m))"
  by (simp add: dump_plan_def)

lemma dump_remote_keys: "dump_remote_ref r = PDict d \<Longrightarrow> dget d ''url'' = opt_text (rr_url r) \<and> dget d ''normalized_url'' = opt_text (rr_normalized r)"
  by (auto simp: dump_remote_ref_def)

lemma filter_map_Cons: "filter P (map g xs) = [y] \<Longrightarrow> \<exists>x. filter (P \<circ> g) xs = [x] \<and> y = g x"
  by (auto simp: filter_map)

text \<open>C37. When the authorization preflight binds an endpoint out of a plan's own manifest, exactly one candidate has the
  identifier, the endpoint is its only remote, and that candidate is neither eligible nor selected for the first batch:
  probing and launching never meet in one candidate.\<close>

lemma bound_endpoint_is_never_in_first_batch:
  assumes "build_registry_plan pf bok payload generated_at limit = Inr m"
    and "bind_candidate pe (PDict (dump_plan pf m)) ident = Inr resource"
  shows "\<exists>c r u. filter (\<lambda>c. cd_stable_id c = ident) (rg_candidates m) = [c] \<and> \<not> cd_eligible c \<and> \<not> cd_selected c
    \<and> cd_remotes c = [r] \<and> rr_url r = Some u \<and> bound_https_url pe (PStr u) = Inr resource"
proof -
  let ?dump = "\<lambda>c. PDict (dump_candidate c)"
  from assms(2) obtain d remote where b: "filter (candidate_matches ident) (map ?dump (rg_candidates m)) = [PDict d]"
      "dget d ''remote_refs'' = PList [PDict remote]" "bound_https_url pe (dget remote ''url'') = Inr resource"
    by (auto simp: bind_candidate_def dump_plan_keys split: pyval.splits list.splits)
  from filter_map_Cons [OF b(1)] obtain c where c: "filter (candidate_matches ident \<circ> ?dump) (rg_candidates m) = [c]" "d = dump_candidate c"
    by auto
  have same: "candidate_matches ident \<circ> ?dump = (\<lambda>c. cd_stable_id c = ident)"
    by (rule ext) (simp add: candidate_matches_def dump_candidate_keys)
  have one: "filter (\<lambda>c. cd_stable_id c = ident) (rg_candidates m) = [c]" using c(1) by (simp only: same)
  then have "c \<in> set (filter (\<lambda>c. cd_stable_id c = ident) (rg_candidates m))" by simp
  then have mem: "c \<in> set (rg_candidates m)" "cd_stable_id c = ident" by simp_all
  from b(2) obtain r where r: "cd_remotes c = [r]" "dump_remote_ref r = PDict remote" by (auto simp: c(2) dump_candidate_keys)
  have "bound_https_url pe (opt_text (rr_url r)) = Inr resource" using b(3) dump_remote_keys [OF r(2)] by simp
  then obtain u where u: "rr_url r = Some u" "bound_https_url pe (PStr u) = Inr resource"
    by (cases "rr_url r") (simp_all add: opt_text_def bound_https_url_def)
  have "\<not> cd_eligible c"
  proof
    assume "cd_eligible c"
    from plan_parts [OF assms(1)] obtain t servers found ids where p: "map_res (candidate_from_server pf bok t) servers = Inr found"
        "rg_candidates m = map (mark_selected ids) (sort_key candidate_sort_key found)"
      by metis
    from mem(1) p(2) obtain c0 where c0: "c0 \<in> set found" "c = mark_selected ids c0" by auto
    from map_res_mem [OF p(1) c0(1)] obtain server where "candidate_from_server pf bok t server = Inr c0" by blast
    from candidate_fields(8) [OF this] \<open>cd_eligible c\<close> have "cd_remotes c0 = []" by (simp add: c0(2) eligible_for_batch_def)
    then show False using r(1) by (simp add: c0(2))
  qed
  moreover have "\<not> cd_selected c"
  proof
    assume "cd_selected c"
    then obtain c' where c': "c' \<in> set (first_batch limit (rg_candidates m))" "cd_stable_id c' = ident"
      using plan_selected_iff [OF assms(1) mem(1)] mem(2) by auto
    then have "c' \<in> set (filter cd_eligible (rg_candidates m))"
      by (auto simp: first_batch_def py_take_def dest!: in_set_takeD split: if_splits)
    then have e: "c' \<in> set (rg_candidates m)" "cd_eligible c'" by simp_all
    then have "c' \<in> set (filter (\<lambda>c. cd_stable_id c = ident) (rg_candidates m))" using c'(2) by simp
    then have "c' = c" using one by simp
    then show False using e(2) \<open>\<not> cd_eligible c\<close> by simp
  qed
  ultimately show ?thesis using one r(1) u by blast
qed

end
