(* ===== verification/Corpus_Records.thy ===== *)
theory Corpus_Records
  imports Corpus_Registry_Laws
begin

text \<open>
  Reviewed corpus records (\<open>corpus/records.py\<close>): their validators, the set with unique identifiers and the operator
  summary. A record carries a grade only with the receipt of a controlled scan.
\<close>

section \<open>Records\<close>

definition MAX_CORPUS_RECORD_BYTES :: nat where "MAX_CORPUS_RECORD_BYTES = 1048576"

datatype corpus_status = Proposed | ApprovedForScan | ScannedTemp | Published | Deferred

definition corpus_status_str :: "corpus_status \<Rightarrow> string" where
  "corpus_status_str s = (case s of Proposed \<Rightarrow> ''proposed'' | ApprovedForScan \<Rightarrow> ''approved-for-scan''
     | ScannedTemp \<Rightarrow> ''scanned-temp'' | Published \<Rightarrow> ''published'' | Deferred \<Rightarrow> ''deferred'')"

datatype grade_source = ControlledLiveScan

record package_source =
  ps_registry_type :: string
  ps_identifier :: string
  ps_version :: string
  ps_repository_url :: "string option"

record receipt_evidence =
  re_receipt_ref :: string
  re_approval_ref :: string
  re_scanned_at :: string
  re_scan_mode :: candidate_mode
  re_sandbox_image :: "string option"
  re_sandbox_network :: "string option"
  re_grade :: trust_grade
  re_transparency :: transparency_level
  re_tool_count :: int
  re_schema_hash_algorithm :: string
  re_grade_source :: grade_source

record corpus_record =
  cr_record_id :: string
  cr_registry_name :: string
  cr_display_name :: string
  cr_status :: corpus_status
  cr_mode :: candidate_mode
  cr_package :: "package_source option"
  cr_freshness :: freshness
  cr_dedupe_keys :: "string list"
  cr_source_caveats :: "string list"
  cr_receipt :: "receipt_evidence option"
  cr_publish_caveats :: "string list"

record corpus_record_set =
  cs_format_version :: int
  cs_records :: "corpus_record list"

section \<open>Validators\<close>

definition validate_receipt_ref :: "string \<Rightarrow> string res" where
  "validate_receipt_ref value =
     (if value = [] \<or> 512 < length value then Inl ValueError
      else if hd value = CHR ''/'' \<or> CHR 0x5C \<in> set value \<or> list_ex control_char value then Inl ValueError
      else if list_ex (\<lambda>segment. segment \<in> {[], ''.'', ''..''}) (py_split (CHR ''/'') value) then Inl ValueError
      else Inr value)"

definition make_receipt_evidence :: "receipt_evidence \<Rightarrow> receipt_evidence res" where
  "make_receipt_evidence r = bind_res (validate_receipt_ref (re_receipt_ref r)) (\<lambda>_.
     if re_tool_count r < 0 then Inl ValueError else Inr r)"

text \<open>\<open>^[a-z0-9]+(?:-[a-z0-9]+)*$\<close> is the expression of the catalog slugs.\<close>

definition validate_record_id :: "string \<Rightarrow> string res" where
  "validate_record_id value = (if 128 < length value \<or> \<not> slug_re value then Inl ValueError else Inr value)"

definition validate_public_boundaries :: "corpus_record \<Rightarrow> corpus_record res" where
  "validate_public_boundaries r =
     (if cr_status r = Published \<and> cr_receipt r = None then Inl ValueError
      else if (case cr_receipt r of None \<Rightarrow> False | Some e \<Rightarrow> re_scan_mode e \<noteq> cr_mode r) then Inl ValueError
      else if cr_mode r = NoAuthSandboxed \<and> (case cr_package r of None \<Rightarrow> False | Some p \<Rightarrow> ps_version p = []) then Inl ValueError
      else Inr r)"

definition make_corpus_record :: "corpus_record \<Rightarrow> corpus_record res" where
  "make_corpus_record r =
     bind_res (validate_record_id (cr_record_id r)) (\<lambda>_.
     bind_res (case cr_receipt r of None \<Rightarrow> Inr () | Some e \<Rightarrow> bind_res (make_receipt_evidence e) (\<lambda>_. Inr ())) (\<lambda>_.
       validate_public_boundaries r))"

definition has_public_grade :: "corpus_record \<Rightarrow> bool" where
  "has_public_grade r \<longleftrightarrow> cr_receipt r \<noteq> None"

definition make_corpus_record_set :: "corpus_record_set \<Rightarrow> corpus_record_set res" where
  "make_corpus_record_set s = bind_res (map_res make_corpus_record (cs_records s)) (\<lambda>rs.
     let record_ids = map cr_record_id rs in
     if length record_ids \<noteq> card (set record_ids) then Inl ValueError else Inr (s\<lparr>cs_records := rs\<rparr>))"

section \<open>Summary\<close>

record corpus_summary =
  su_format_version :: int
  su_records :: nat
  su_with_receipt_grade :: nat
  su_statuses :: "(string \<times> nat) list"
  su_modes :: "(string \<times> nat) list"
  su_freshness :: "(string \<times> nat) list"
  su_grades :: "(string \<times> nat) list"
  su_published_without_receipts :: "string list"

definition summarize_corpus_records :: "corpus_record_set \<Rightarrow> corpus_summary" where
  "summarize_corpus_records s = (let rs = cs_records s in
     \<lparr>su_format_version = cs_format_version s, su_records = length rs,
      su_with_receipt_grade = length (filter has_public_grade rs),
      su_statuses = sorted_counts (map (\<lambda>r. corpus_status_str (cr_status r)) rs),
      su_modes = sorted_counts (map (\<lambda>r. candidate_mode_str (cr_mode r)) rs),
      su_freshness = sorted_counts (map (\<lambda>r. freshness_text (cr_freshness r)) rs),
      su_grades = sorted_counts (concat (map (\<lambda>r. case cr_receipt r of None \<Rightarrow> [] | Some e \<Rightarrow> [trust_grade_str (re_grade e)]) rs)),
      su_published_without_receipts = map cr_record_id (filter (\<lambda>r. cr_status r = Published \<and> cr_receipt r = None) rs)\<rparr>)"

section \<open>What the validators give\<close>

lemma make_corpus_record_ok:
  assumes "make_corpus_record r = Inr r'"
  shows "r' = r" "slug_re (cr_record_id r)" "length (cr_record_id r) \<le> 128"
    "cr_status r = Published \<Longrightarrow> \<exists>e. cr_receipt r = Some e"
    "cr_receipt r = Some e \<Longrightarrow> re_scan_mode e = cr_mode r \<and> 0 \<le> re_tool_count e
       \<and> validate_receipt_ref (re_receipt_ref e) = Inr (re_receipt_ref e)"
  using assms
  by (auto simp: make_corpus_record_def validate_record_id_def validate_public_boundaries_def make_receipt_evidence_def
      validate_receipt_ref_def split: if_splits option.splits)

lemma map_res_same: "map_res f xs = Inr ys \<Longrightarrow> (\<And>x y. f x = Inr y \<Longrightarrow> y = x) \<Longrightarrow> ys = xs"
  by (induction xs arbitrary: ys) auto

lemma sum_sorted_counts: "sum_list (map snd (sorted_counts xs)) = length xs"
proof -
  have "sum_list (map snd (sorted_counts xs)) = (\<Sum>k\<in>set xs. length (filter (\<lambda>x. x = k) xs))"
    by (simp add: sorted_counts_def comp_def sum_list_distinct_conv_sum_set)
  also have "\<dots> = (\<Sum>k\<in>set xs. count (mset xs) k)" by (intro sum.cong refl) (simp add: count_mset count_list_eq_length_filter eq_commute)
  also have "\<dots> = length xs" by (metis set_mset_mset size_mset size_multiset_overloaded_eq)
  finally show ?thesis .
qed

text \<open>A directory walk along the segments of a reference: \<open>None\<close> once it leaves the directory it started from.\<close>

fun walk_from :: "nat \<Rightarrow> string list \<Rightarrow> nat option" where
  "walk_from depth [] = Some depth"
| "walk_from depth (s # ss) =
     (if s = ''..'' then (if depth = 0 then None else walk_from (depth - 1) ss)
      else if s = ''.'' \<or> s = [] then walk_from depth ss else walk_from (Suc depth) ss)"

lemma walk_down: "list_all (\<lambda>s. s \<notin> {[], ''.'', ''..''}) ss \<Longrightarrow> walk_from n ss = Some (n + length ss)"
  by (induction ss arbitrary: n) auto

text \<open>C38. In a validated record set the identifiers are distinct catalog slugs, every published record has a receipt, every
  receipt was scanned in the reviewed mode and its reference names a file strictly below its directory, and the summary
  agrees: it lists no published record without a receipt and its tables add up to the records and to the grades.\<close>

lemma record_set_is_backed_by_receipts:
  assumes "make_corpus_record_set s = Inr s'"
  shows "s' = s \<and> distinct (map cr_record_id (cs_records s))
    \<and> (\<forall>r\<in>set (cs_records s). slug_re (cr_record_id r) \<and> (cr_status r = Published \<longrightarrow> has_public_grade r)
        \<and> (\<forall>e. cr_receipt r = Some e \<longrightarrow> re_scan_mode e = cr_mode r
             \<and> (\<exists>d>0. walk_from 0 (py_split (CHR ''/'') (re_receipt_ref e)) = Some d)))
    \<and> su_published_without_receipts (summarize_corpus_records s) = []
    \<and> sum_list (map snd (su_statuses (summarize_corpus_records s))) = su_records (summarize_corpus_records s)
    \<and> sum_list (map snd (su_grades (summarize_corpus_records s))) = su_with_receipt_grade (summarize_corpus_records s)"
proof -
  from assms obtain rs where rs: "map_res make_corpus_record (cs_records s) = Inr rs"
      "length rs = card (set (map cr_record_id rs))" "s' = s\<lparr>cs_records := rs\<rparr>"
    by (auto simp: make_corpus_record_set_def Let_def split: if_splits)
  have same: "rs = cs_records s" by (rule map_res_same [OF rs(1)]) (rule make_corpus_record_ok(1))
  have ok: "make_corpus_record r = Inr r" if "r \<in> set (cs_records s)" for r
    using map_res_each [OF rs(1) that] make_corpus_record_ok(1) by metis
  have path: "\<exists>d>0. walk_from 0 (py_split (CHR ''/'') v) = Some d" if "validate_receipt_ref v = Inr v" for v
  proof -
    have "list_all (\<lambda>x. x \<notin> {[], ''.'', ''..''}) (py_split (CHR ''/'') v)"
      using that by (auto simp: validate_receipt_ref_def list_all_iff list_ex_iff split: if_splits)
    then show ?thesis using walk_down [of "py_split (CHR ''/'') v" 0] by simp
  qed
  have each: "slug_re (cr_record_id r) \<and> (cr_status r = Published \<longrightarrow> has_public_grade r)
      \<and> (\<forall>e. cr_receipt r = Some e \<longrightarrow> re_scan_mode e = cr_mode r
           \<and> (\<exists>d>0. walk_from 0 (py_split (CHR ''/'') (re_receipt_ref e)) = Some d))"
    if "r \<in> set (cs_records s)" for r
    using make_corpus_record_ok [OF ok [OF that]] path by (auto simp: has_public_grade_def)
  have grades: "length (concat (map (\<lambda>r. case cr_receipt r of None \<Rightarrow> [] | Some e \<Rightarrow> [trust_grade_str (re_grade e)]) xs))
      = length (filter has_public_grade xs)" for xs
    by (induction xs) (auto simp: has_public_grade_def split: option.splits)
  have unbacked: "filter (\<lambda>r. cr_status r = Published \<and> cr_receipt r = None) (cs_records s) = []"
    using each by (auto simp: filter_empty_conv has_public_grade_def)
  have "distinct (map cr_record_id (cs_records s))" using rs(2) by (simp add: same flip: length_eq_card_iff)
  then show ?thesis using each unbacked
    by (simp add: rs(3) same summarize_corpus_records_def Let_def sum_sorted_counts grades)
qed

section \<open>Example\<close>

definition sample_record_set :: corpus_record_set where
  "sample_record_set = \<lparr>cs_format_version = 1, cs_records = [
     \<lparr>cr_record_id = ''demo-tool-1'', cr_registry_name = ''Demo tool'', cr_display_name = ''Demo'', cr_status = Published,
      cr_mode = NoAuthSandboxed, cr_package = Some \<lparr>ps_registry_type = ''npm'', ps_identifier = ''x'', ps_version = ''1'', ps_repository_url = None\<rparr>,
      cr_freshness = RegFresh, cr_dedupe_keys = [], cr_source_caveats = [],
      cr_receipt = Some \<lparr>re_receipt_ref = ''demo/r.json'', re_approval_ref = ''a'', re_scanned_at = ''t'', re_scan_mode = NoAuthSandboxed,
        re_sandbox_image = None, re_sandbox_network = None, re_grade = B, re_transparency = THigh, re_tool_count = 3,
        re_schema_hash_algorithm = ''sha256'', re_grade_source = ControlledLiveScan\<rparr>,
      cr_publish_caveats = []\<rparr>]\<rparr>"

theorem record_set_is_backed_by_receipts_witness:
  "make_corpus_record_set sample_record_set = Inr sample_record_set
     \<and> su_published_without_receipts (summarize_corpus_records sample_record_set) = []"
proof -
  have "make_corpus_record_set sample_record_set = Inr sample_record_set" by code_simp
  then show ?thesis using record_set_is_backed_by_receipts by blast
qed

end
