(* ===== verification/Corpus_Examples.thy ===== *)
theory Corpus_Examples
  imports Corpus_Registry_Laws
begin

text \<open>
  Concrete payloads for the registry planning theorems: an eligible package, a deprecated namesake of it, a remote
  endpoint, and a remote with a malformed URL.
\<close>

section \<open>Payloads\<close>

definition registry_platform :: platform where
  "registry_platform = sample_platform\<lparr>sha256_hex := (\<lambda>s. replicate 64 (CHR ''0''))\<rparr>"

definition package_server :: pydict where
  "package_server = [(''name'', PStr ''Demo tool''), (''version'', PStr ''1''), (''status'', PStr ''active''),
     (''repository'', PStr ''https://r.org/x''),
     (''packages'', PList [PDict [(''registryType'', PStr ''npm''), (''identifier'', PStr ''x''), (''version'', PStr ''1'')]])]"

definition namesake_server :: pydict where
  "namesake_server = [(''name'', PStr ''demo-tool''), (''version'', PStr ''1''), (''status'', PStr ''deprecated'')]"

definition remote_server :: "string \<Rightarrow> pydict" where
  "remote_server url = [(''name'', PStr ''far''), (''version'', PStr ''1''), (''status'', PStr ''active''),
     (''remotes'', PList [PDict [(''type'', PStr ''sse''), (''url'', PStr url)]])]"

definition payload_of :: "pydict list \<Rightarrow> pyval" where
  "payload_of servers = PDict [(''servers'', PList (map PDict servers))]"

definition plan_of :: "pydict list \<Rightarrow> registry_plan res" where
  "plan_of servers = build_registry_plan registry_platform (\<lambda>h. False) (payload_of servers) (utc_dt (740000 * us_per_day)) 1"

lemma good_plan: "case plan_of [remote_server ''https://x.org/mcp'', package_server] of Inl e \<Rightarrow> False
   | Inr m \<Rightarrow> map cd_stable_id (rg_candidates m) = [''demo-tool-1'', ''far-1''] \<and> map cd_eligible (rg_candidates m) = [True, False]"
  by code_simp

lemma namesake_plan: "case plan_of [package_server, namesake_server] of Inl e \<Rightarrow> False
   | Inr m \<Rightarrow> map cd_stable_id (rg_candidates m) = [''demo-tool-1'', ''demo-tool-1''] \<and> map cd_eligible (rg_candidates m) = [True, False]
       \<and> map cd_selected (rg_candidates m) = [True, True] \<and> pc_selected (rg_counts m) = 2"
  by code_simp

section \<open>Plans\<close>


theorem plan_selects_first_eligible_witness:
  "\<exists>m. plan_of [remote_server ''https://x.org/mcp'', package_server] = Inr m \<and> pc_selected (rg_counts m) = min 1 (pc_eligible (rg_counts m))"
proof -
  obtain m where m: "plan_of [remote_server ''https://x.org/mcp'', package_server] = Inr m"
      "map cd_stable_id (rg_candidates m) = [''demo-tool-1'', ''far-1'']"
    using good_plan by (auto split: sum.splits)
  have "distinct (map cd_stable_id (rg_candidates m))" unfolding m(2) by simp
  from plan_selects_first_eligible [OF m(1) [unfolded plan_of_def] _ this] m(1) show ?thesis by auto
qed


lemma one_bad_url_loses_the_plan_witness:
  "\<exists>e. plan_of [package_server, remote_server ''http://[bad''] = Inl e"
  unfolding plan_of_def
proof (rule one_bad_url_loses_the_plan)
  show "extract_servers (payload_of [package_server, remote_server ''http://[bad'']) = Inr [package_server, remote_server ''http://[bad'']"
    by code_simp
  show "urlsplit (\<lambda>h. False) ''http://[bad'' = Inl ValueError" by code_simp
  show "remote_server ''http://[bad'' \<in> set [package_server, remote_server ''http://[bad'']" by simp
  show "[(''type'', PStr ''sse''), (''url'', PStr ''http://[bad'')] \<in> set (dict_items (dget (remote_server ''http://[bad'') ''remotes''))"
    by code_simp
  show "text_or_none (py_or (dget [(''type'', PStr ''sse''), (''url'', PStr ''http://[bad'')] ''url'')
      (dget [(''type'', PStr ''sse''), (''url'', PStr ''http://[bad'')] ''endpoint'')) = Some ''http://[bad''"
    by code_simp
qed

lemma stable_id_is_slug_witness: "slug_re (stable_id registry_platform ''Demo Tool!'' (Some ''1.0''))"
  by (rule stable_id_is_slug) (simp add: registry_platform_def is_sha256_def list_all_iff hex_char_def is_digit_char_def)

definition binding_services :: posture_env where
  "binding_services = \<lparr>pe_idna = Some, pe_is_ip = (\<lambda>h. False), pe_bracket_ok = (\<lambda>h. False), pe_http_date = (\<lambda>s. None), pe_seconds = (\<lambda>t. [])\<rparr>"

lemma good_plan_binds: "case plan_of [remote_server ''https://x.org/mcp'', package_server] of Inl e \<Rightarrow> False
   | Inr m \<Rightarrow> bind_candidate binding_services (PDict (dump_plan registry_platform m)) ''far-1'' = Inr (bound_of ''x.org'' 443 ''/mcp'')"
  by code_simp

theorem bound_endpoint_is_never_in_first_batch_witness:
  "\<exists>m c. plan_of [remote_server ''https://x.org/mcp'', package_server] = Inr m
     \<and> filter (\<lambda>c. cd_stable_id c = ''far-1'') (rg_candidates m) = [c] \<and> \<not> cd_eligible c \<and> \<not> cd_selected c"
proof -
  obtain m where m: "plan_of [remote_server ''https://x.org/mcp'', package_server] = Inr m"
      "bind_candidate binding_services (PDict (dump_plan registry_platform m)) ''far-1'' = Inr (bound_of ''x.org'' 443 ''/mcp'')"
    using good_plan_binds by (auto split: sum.splits)
  show ?thesis using bound_endpoint_is_never_in_first_batch [OF m(1) [unfolded plan_of_def] m(2)] m(1) by blast
qed

text \<open>An explicit default port: the plan's own normalized URL keeps it, the preflight drops it and refuses the candidate.\<close>

lemma default_port_is_not_bound:
  "case plan_of [remote_server ''https://x.org:443/mcp''] of Inl e \<Rightarrow> False
   | Inr m \<Rightarrow> bind_candidate binding_services (PDict (dump_plan registry_platform m)) ''far-1'' = Inl PostureInputError"
  by code_simp

end
