(* ===== verification/Receipts.thy ===== *)
theory Receipts
  imports Projection Grading
begin

text \<open>
  Scan receipts (\<open>receipts.py\<close>): the proof packet of one persisted scan and the name of its file. The process environment
  is a map from names to values; writing the file is not modelled.
\<close>

section \<open>The packet\<close>

type_synonym environ = "string \<Rightarrow> string option"

definition RECEIPTS_DIR_ENV :: string where "RECEIPTS_DIR_ENV = ''MCP_TRUST_RECEIPTS_DIR''"
definition SCAN_APPROVAL_REF_ENV :: string where "SCAN_APPROVAL_REF_ENV = ''MCP_TRUST_SCAN_APPROVAL_REF''"
definition SCANNER_GIT_REF_ENV :: string where "SCANNER_GIT_REF_ENV = ''MCP_TRUST_SCANNER_GIT_REF''"
definition CREDENTIALS_MODE_ENV :: string where "CREDENTIALS_MODE_ENV = ''MCP_TRUST_SCAN_CREDENTIALS''"
definition SANDBOX_ENV_KEYS :: "string list" where
  "SANDBOX_ENV_KEYS = [''MCP_TRUST_SANDBOX'', ''MCP_TRUST_SANDBOX_IMAGE'', ''MCP_TRUST_SANDBOX_NETWORK'', CREDENTIALS_MODE_ENV]"

definition receipts_dir_from_env :: "environ \<Rightarrow> string option" where
  "receipts_dir_from_env env = (case env RECEIPTS_DIR_ENV of None \<Rightarrow> None | Some v \<Rightarrow> if v = [] then None else Some v)"

definition RECEIPT_CAVEATS :: "string list" where
  "RECEIPT_CAVEATS = [''Automated scan output is not an endorsement.'',
     ''Danger grade and transparency are separate signals.'',
     ''Low transparency means cannot verify safe, not known dangerous.'',
     ''Network-off sandboxing may suppress behavior that requires live egress.'']"

definition DUMMY_CAVEAT :: string where
  "DUMMY_CAVEAT = ''Scanned with injected non-functional dummy credentials (network-off): the enumerated tool surface is real; no live authentication or egress occurred, and dummy credential values are never recorded.''"

definition injected_credentials :: "environ \<Rightarrow> server \<Rightarrow> scan_record \<Rightarrow> bool" where
  "injected_credentials env server scan \<longleftrightarrow>
     py_lower (case env CREDENTIALS_MODE_ENV of None \<Rightarrow> ''none'' | Some v \<Rightarrow> v) = ''dummy''
     \<and> src_env_keys (sv_source server) \<noteq> [] \<and> sc_engine_name scan = ''mcpaudit''"

text \<open>The sandbox settings of the environment that are not empty, then the scan's own image in place of the ambient one.\<close>

definition ambient_sandbox :: "environ \<Rightarrow> pydict" where
  "ambient_sandbox env = concat (map (\<lambda>key. case env key of None \<Rightarrow> [] | Some v \<Rightarrow> if v = [] then [] else [(key, PStr v)]) SANDBOX_ENV_KEYS)"

definition receipt_sandbox :: "environ \<Rightarrow> scan_record \<Rightarrow> pydict" where
  "receipt_sandbox env scan = (let sandbox = ambient_sandbox env in
     case sc_sandbox_image scan of
       Some resolved \<Rightarrow> if resolved = [] then filter (\<lambda>(k, v). k \<noteq> ''MCP_TRUST_SANDBOX_IMAGE'') sandbox
         else dict_set ''MCP_TRUST_SANDBOX_IMAGE'' (PStr resolved) sandbox
     | None \<Rightarrow> filter (\<lambda>(k, v). k \<noteq> ''MCP_TRUST_SANDBOX_IMAGE'') sandbox)"

definition build_scan_receipt :: "platform \<Rightarrow> environ \<Rightarrow> server \<Rightarrow> scan_record \<Rightarrow> pydict res" where
  "build_scan_receipt pf env server scan =
     (if sv_slug server \<noteq> sc_server_slug scan then Inl ValueError
      else Inr [(''format_version'', PInt 1), (''scan_id'', PStr (sc_id scan)), (''server_slug'', PStr (sc_server_slug scan)),
        (''server'', PDict (dump_server pf server)), (''scan'', PDict (dump_scan pf scan)),
        (''evidence'', (case sc_evidence scan of None \<Rightarrow> PNone | Some e \<Rightarrow> dump_evidence e)),
        (''danger_score'', pfin (danger_score (sc_risk scan))), (''sandbox'', PDict (receipt_sandbox env scan)),
        (''scanner'', PDict [(''engine_name'', PStr (sc_engine_name scan)), (''engine_version'', PStr (sc_engine_version scan)),
           (''scanner_git_ref'', opt_str (env SCANNER_GIT_REF_ENV))]),
        (''approval'', PDict [(''approval_ref'', opt_str (env SCAN_APPROVAL_REF_ENV))]),
        (''caveats'', PList (map PStr (RECEIPT_CAVEATS @ (if injected_credentials env server scan then [DUMMY_CAVEAT] else []))))])"

definition receipt_name :: "scan_record \<Rightarrow> string" where
  "receipt_name scan = sc_server_slug scan @ ''-'' @ sc_id scan @ ''.json''"

section \<open>What a receipt depends on\<close>

definition RECEIPT_ENV :: "string list" where
  "RECEIPT_ENV = [SCAN_APPROVAL_REF_ENV, SCANNER_GIT_REF_ENV, ''MCP_TRUST_SANDBOX'', ''MCP_TRUST_SANDBOX_NETWORK'', CREDENTIALS_MODE_ENV]"

lemma map_of_filter_keys: "map_of (filter (\<lambda>(k, v). k \<noteq> k0) d) k = (if k = k0 then None else map_of d k)"
  by (induction d) auto

lemma receipt_sandbox_cong:
  assumes "\<And>k. k \<in> set RECEIPT_ENV \<Longrightarrow> env k = env' k"
  shows "map_of (receipt_sandbox env scan) = map_of (receipt_sandbox env' scan)"
proof -
  let ?image = "''MCP_TRUST_SANDBOX_IMAGE''"
  have same: "filter (\<lambda>(k, v). k \<noteq> ?image) (ambient_sandbox env) = filter (\<lambda>(k, v). k \<noteq> ?image) (ambient_sandbox env')"
    using assms by (simp add: RECEIPT_ENV_def ambient_sandbox_def SANDBOX_ENV_KEYS_def CREDENTIALS_MODE_ENV_def split: option.split)
  have set: "map_of (dict_set ?image v d) = (map_of (filter (\<lambda>(k, v). k \<noteq> ?image) d))(?image \<mapsto> v)" for v :: pyval and d
    by (simp add: fun_eq_iff map_of_filter_keys)
  show ?thesis unfolding receipt_sandbox_def Let_def using same by (auto simp only: set split: option.split if_split)
qed

lemma dict_set_get: "map_of (dict_set k v d) k = Some v"
  by simp

lemma receipt_sandbox_image:
  "dget (receipt_sandbox env scan) ''MCP_TRUST_SANDBOX_IMAGE''
     = (case sc_sandbox_image scan of None \<Rightarrow> PNone | Some img \<Rightarrow> if img = [] then PNone else PStr img)"
proof -
  have none: "dget (filter (\<lambda>(k, v). k \<noteq> ''MCP_TRUST_SANDBOX_IMAGE'') d) ''MCP_TRUST_SANDBOX_IMAGE'' = PNone" for d :: pydict
    by (induction d) (auto split: if_splits)
  show ?thesis by (simp add: receipt_sandbox_def Let_def none split: option.split) (simp add: dget_def)
qed

definition sandbox_of :: "pydict \<Rightarrow> pydict" where
  "sandbox_of r = (case dget r ''sandbox'' of PDict d \<Rightarrow> d | _ \<Rightarrow> [])"

text \<open>C39. A receipt shows the image the scan itself resolved, or none, whatever the process environment says, and nothing of
  the environment but five named settings reaches it: with these equal, two environments give the same receipt.\<close>

lemma receipt_is_ground_truth:
  assumes "build_scan_receipt pf env server scan = Inr r" "\<And>k. k \<in> set RECEIPT_ENV \<Longrightarrow> env k = env' k"
  shows "dget (sandbox_of r) ''MCP_TRUST_SANDBOX_IMAGE''
      = (case sc_sandbox_image scan of None \<Rightarrow> PNone | Some img \<Rightarrow> if img = [] then PNone else PStr img)
    \<and> (\<exists>r'. build_scan_receipt pf env' server scan = Inr r' \<and> map_of (sandbox_of r) = map_of (sandbox_of r')
          \<and> (\<forall>k. k \<noteq> ''sandbox'' \<longrightarrow> dget r k = dget r' k))"
proof -
  have slug: "sv_slug server = sc_server_slug scan" using assms(1) by (auto simp: build_scan_receipt_def split: if_splits)
  have env: "env SCANNER_GIT_REF_ENV = env' SCANNER_GIT_REF_ENV" "env SCAN_APPROVAL_REF_ENV = env' SCAN_APPROVAL_REF_ENV"
    "env CREDENTIALS_MODE_ENV = env' CREDENTIALS_MODE_ENV"
    by (rule assms(2), simp add: RECEIPT_ENV_def)+
  then have dummy: "injected_credentials env server scan = injected_credentials env' server scan"
    by (simp add: injected_credentials_def)
  obtain r' where r': "build_scan_receipt pf env' server scan = Inr r'" using slug by (simp add: build_scan_receipt_def)
  have s: "sandbox_of r = receipt_sandbox env scan" "sandbox_of r' = receipt_sandbox env' scan"
    using assms(1) r' slug by (auto simp: build_scan_receipt_def sandbox_of_def)
  have "dget r k = dget r' k" if k: "k \<noteq> ''sandbox''" for k
  proof -
    have "(''sandbox'' = k) = False" using k by blast
    then show ?thesis
      using assms(1) r' unfolding build_scan_receipt_def env dummy
      by (simp only: slug not_True_eq_False simp_thms if_False sum.inject) (elim subst, simp only: dget_Cons if_False)
  qed
  then show ?thesis using r' receipt_sandbox_image receipt_sandbox_cong [of env env' scan] assms(2) by (simp add: s)
qed

section \<open>File names\<close>

lemma last_dash_split:
  assumes "a @ CHR ''-'' # x = b @ CHR ''-'' # y" "CHR ''-'' \<notin> set x" "CHR ''-'' \<notin> set y"
  shows "a = b \<and> x = y"
proof -
  have "takeWhile (\<lambda>c. c \<noteq> CHR ''-'') (rev (a @ CHR ''-'' # x)) = rev x"
    "takeWhile (\<lambda>c. c \<noteq> CHR ''-'') (rev (b @ CHR ''-'' # y)) = rev y"
    using assms(2,3) by (auto simp: takeWhile_append)
  then have "x = y" using assms(1) by (metis rev_rev_ident)
  then show ?thesis using assms(1) by simp
qed

text \<open>Receipts of scans whose identifiers hold no dash, as the generated ones do, get distinct file names, so no receipt
  overwrites that of another server or scan.\<close>

lemma receipt_names_are_distinct:
  assumes "receipt_name s = receipt_name t" "CHR ''-'' \<notin> set (sc_id s)" "CHR ''-'' \<notin> set (sc_id t)"
  shows "sc_server_slug s = sc_server_slug t \<and> sc_id s = sc_id t"
proof -
  have "sc_server_slug s @ CHR ''-'' # (sc_id s @ ''.json'') = sc_server_slug t @ CHR ''-'' # (sc_id t @ ''.json'')"
    using assms(1) by (simp add: receipt_name_def)
  from last_dash_split [OF this] assms(2,3) show ?thesis by simp
qed

section \<open>Example\<close>

definition empty_environ :: environ where
  "empty_environ k = None"

definition ambient_environ :: environ where
  "ambient_environ k = (if k = ''MCP_TRUST_SANDBOX_IMAGE'' then Some ''ambient'' else None)"

theorem receipt_is_ground_truth_witness:
  "\<exists>r. build_scan_receipt sample_platform empty_environ sample_server sample_scan = Inr r
     \<and> dget (sandbox_of r) ''MCP_TRUST_SANDBOX_IMAGE''
         = (case sc_sandbox_image sample_scan of None \<Rightarrow> PNone | Some img \<Rightarrow> if img = [] then PNone else PStr img)
     \<and> (\<exists>r'. build_scan_receipt sample_platform ambient_environ sample_server sample_scan = Inr r' \<and> map_of (sandbox_of r) = map_of (sandbox_of r'))"
proof -
  obtain r where r: "build_scan_receipt sample_platform empty_environ sample_server sample_scan = Inr r"
    by (simp add: build_scan_receipt_def sample_server_def sample_scan_def)
  have "empty_environ k = ambient_environ k" if "k \<in> set RECEIPT_ENV" for k
    using that by (auto simp: empty_environ_def ambient_environ_def RECEIPT_ENV_def SCAN_APPROVAL_REF_ENV_def SCANNER_GIT_REF_ENV_def
        CREDENTIALS_MODE_ENV_def)
  from receipt_is_ground_truth [OF r this] r show ?thesis by blast
qed

lemma receipt_names_are_distinct_witness:
  "sc_server_slug sample_scan = sc_server_slug (sample_scan\<lparr>sc_report_ref := None\<rparr>)
     \<and> sc_id sample_scan = sc_id (sample_scan\<lparr>sc_report_ref := None\<rparr>)"
  by (rule receipt_names_are_distinct) (simp_all add: receipt_name_def sample_scan_def)

text \<open>Identifiers with a dash, which the models admit, can collide.\<close>

lemma dashed_receipt_names_collide:
  "receipt_name (sample_scan\<lparr>sc_server_slug := ''a'', sc_id := ''b-c''\<rparr>) = receipt_name (sample_scan\<lparr>sc_server_slug := ''a-b'', sc_id := ''c''\<rparr>)
     \<and> slug_re ''a'' \<and> slug_re ''a-b'' \<and> scan_id_re ''b-c'' \<and> scan_id_re ''c''"
  by code_simp

end
