(* ===== verification/Spec_Shift.thy ===== *)
theory Spec_Shift
  imports Projection
begin

text \<open>
  Spec-shift exposure (\<open>core/spec_shift.py\<close>): the frozen verdict document, the check that a live source is the artifact a
  verdict was ruled against, and the counts of the disclosure notice. The document is a parameter.
\<close>

section \<open>Verdicts\<close>

definition VERDICT_ORDER :: "string list" where
  "VERDICT_ORDER = [''BREAKS'', ''EXPOSED'', ''UNRULEABLE'', ''READY'']"

definition ADVERSE_VERDICTS :: "string list" where
  "ADVERSE_VERDICTS = [''BREAKS'', ''EXPOSED'']"

text \<open>The packaged document, with the parts the code reads; \<open>audited_source\<close> may be absent.\<close>

record verdict_record =
  vr_overall :: string
  vr_audited_source :: "pydict option"

record verdict_document =
  vd_spec_version :: string
  vd_ruled_at :: string
  vd_delta_checked_at :: "string option"
  vd_source :: string
  vd_bound_fields :: "string list"
  vd_dimension_titles :: "(string \<times> string) list"
  vd_counts :: "(string \<times> int) list"
  vd_servers :: "(string \<times> verdict_record) list"

definition for_server :: "verdict_document \<Rightarrow> string \<Rightarrow> verdict_record option" where
  "for_server doc slug = map_of (vd_servers doc) slug"

text \<open>\<open>getattr(source, field, None)\<close> of a field of the model.\<close>

definition source_field :: "server_source \<Rightarrow> string \<Rightarrow> pyval" where
  "source_field s field = dget [(''kind'', PStr (source_kind_str (src_kind s))), (''reference'', PStr (src_reference s)),
     (''command'', opt_str (src_command s)), (''args'', PList (map PStr (src_args s))),
     (''env_keys'', PList (map PStr (src_env_keys s))), (''sandbox_image'', opt_str (src_sandbox_image s)),
     (''trusted'', PBool (src_trusted s))] field"

text \<open>\<open>list(v or [])\<close>.\<close>

definition py_list :: "pyval \<Rightarrow> pyval list res" where
  "py_list v = (if \<not> py_truthy v then Inr [] else case v of
     PList xs \<Rightarrow> Inr xs | PStr s \<Rightarrow> Inr (map (\<lambda>c. PStr [c]) s) | PDict d \<Rightarrow> Inr (map (\<lambda>(k, x). PStr k) d) | _ \<Rightarrow> Inl TypeError)"

definition field_matches :: "pydict \<Rightarrow> server_source \<Rightarrow> string \<Rightarrow> bool res" where
  "field_matches audited source field = (let expected = dget audited field; actual = source_field source field in
     if is_list expected \<or> is_list actual
     then bind_res (py_list expected) (\<lambda>xs. bind_res (py_list actual) (\<lambda>ys. Inr (py_eq (PList xs) (PList ys))))
     else Inr (py_eq expected actual))"

fun all_fields_match :: "pydict \<Rightarrow> server_source \<Rightarrow> string list \<Rightarrow> bool res" where
  "all_fields_match audited source [] = Inr True"
| "all_fields_match audited source (field # rest) =
     bind_res (field_matches audited source field) (\<lambda>ok. if ok then all_fields_match audited source rest else Inr False)"

definition matches_audited_source :: "verdict_document \<Rightarrow> verdict_record option \<Rightarrow> server_source option \<Rightarrow> bool res" where
  "matches_audited_source doc ruling source = (case (ruling, source) of
     (Some r, Some s) \<Rightarrow> all_fields_match (case vr_audited_source r of None \<Rightarrow> [] | Some d \<Rightarrow> d) s (vd_bound_fields doc)
   | _ \<Rightarrow> Inr False)"

section \<open>Disclosure\<close>

record shift_summary =
  sh_spec_version :: string
  sh_ruled_at :: string
  sh_delta_checked_at :: "string option"
  sh_source :: string
  sh_total :: int
  sh_counts :: "(string \<times> int) list"
  sh_adverse :: int

definition summary :: "verdict_document \<Rightarrow> shift_summary" where
  "summary doc = \<lparr>sh_spec_version = vd_spec_version doc, sh_ruled_at = vd_ruled_at doc,
     sh_delta_checked_at = vd_delta_checked_at doc, sh_source = vd_source doc, sh_total = sum_list (map snd (vd_counts doc)),
     sh_counts = vd_counts doc,
     sh_adverse = sum_list (map snd (filter (\<lambda>(v, n). v \<in> set ADVERSE_VERDICTS) (vd_counts doc)))\<rparr>"

definition dimension_title :: "verdict_document \<Rightarrow> string \<Rightarrow> string" where
  "dimension_title doc unit = (case map_of (vd_dimension_titles doc) unit of None \<Rightarrow> unit | Some t \<Rightarrow> t)"

definition is_adverse :: "verdict_record option \<Rightarrow> bool" where
  "is_adverse ruling = (case ruling of None \<Rightarrow> False | Some r \<Rightarrow> vr_overall r \<in> set ADVERSE_VERDICTS)"

section \<open>A verdict binds one artifact\<close>

lemma all_fields_match_iff:
  "all_fields_match audited source fs = Inr True \<longleftrightarrow> (\<forall>f\<in>set fs. field_matches audited source f = Inr True)"
  by (induction fs) auto

lemma py_eq_texts: "py_eq (PList xs) (PList (map PStr ss)) \<longleftrightarrow> xs = map PStr ss"
proof -
  have "py_eq (PList xs) (PList (map PStr ss)) \<longleftrightarrow> list_all2 py_eq xs (map PStr ss)"
    by (auto simp: list_all2_iff list_all_iff split_beta)
  also have "\<dots> \<longleftrightarrow> list_all2 (\<lambda>x s. x = PStr s) xs ss" by (simp add: list.rel_map)
  also have "\<dots> \<longleftrightarrow> xs = map PStr ss" by (induction xs arbitrary: ss) (auto simp: list_all2_Cons1)
  finally show ?thesis .
qed

text \<open>The fields the packaged document binds.\<close>

definition BOUND_FIELDS :: "string list" where
  "BOUND_FIELDS = [''kind'', ''reference'', ''command'', ''args'', ''sandbox_image'']"

text \<open>An optional text with absent as empty.\<close>

definition text_of :: "string option \<Rightarrow> string" where
  "text_of x = (case x of None \<Rightarrow> [] | Some t \<Rightarrow> t)"

lemma py_eq_None: "py_eq v PNone \<longleftrightarrow> v = PNone"
  by (cases v) (auto split: option.split)

lemma py_list_text: "py_list (opt_str x) = Inr (map PStr (map (\<lambda>c. [c]) (text_of x)))"
  by (cases x) (auto simp: py_list_def opt_str_def text_of_def)

lemma audited_text:
  assumes "field_matches d s f = Inr True" "source_field s f = opt_str x"
  shows "if is_list (dget d f) then py_list (dget d f) = Inr (map PStr (map (\<lambda>c. [c]) (text_of x))) else dget d f = opt_str x"
proof (cases "is_list (dget d f)")
  case True
  then obtain xs where xs: "py_list (dget d f) = Inr xs" and eq: "py_eq (PList xs) (PList (map PStr (map (\<lambda>c. [c]) (text_of x))))"
    using assms by (auto simp: field_matches_def Let_def py_list_text simp del: py_eq.simps)
  from eq have "xs = map PStr (map (\<lambda>c. [c]) (text_of x))" by (simp only: py_eq_texts)
  then show ?thesis using xs True by simp
next
  case False
  moreover have "\<not> is_list (opt_str x)" by (cases x) (simp_all add: opt_str_def)
  ultimately have "py_eq (dget d f) (opt_str x)" using assms by (simp add: field_matches_def Let_def)
  then show ?thesis using False by (cases x) (simp_all add: opt_str_def py_eq_None del: py_eq.simps)
qed

lemma audited_list:
  assumes "field_matches d s f = Inr True" "source_field s f = PList (map PStr ss)"
  shows "py_list (dget d f) = Inr (map PStr ss)"
proof -
  from assms obtain xs ys where xs: "py_list (dget d f) = Inr xs" and ys: "py_list (PList (map PStr ss)) = Inr ys"
      and eq: "py_eq (PList xs) (PList ys)"
    by (auto simp: field_matches_def Let_def simp del: py_eq.simps)
  have "ys = map PStr ss" using ys by (auto simp: py_list_def split: if_splits)
  then show ?thesis using xs eq by (simp only: py_eq_texts)
qed

text \<open>C40. A verdict is published for one artifact only: two live sources that both match a ruling under the bound fields of the
  packaged document agree in kind, reference, launch command, arguments and sandbox image (an absent text
  counting as an empty one).\<close>

lemma verdict_binds_one_artifact:
  assumes "vd_bound_fields doc = BOUND_FIELDS"
    and "matches_audited_source doc ruling (Some s) = Inr True" "matches_audited_source doc ruling (Some t) = Inr True"
  shows "src_kind s = src_kind t \<and> src_reference s = src_reference t \<and> src_args s = src_args t
    \<and> text_of (src_command s) = text_of (src_command t) \<and> text_of (src_sandbox_image s) = text_of (src_sandbox_image t)"
proof -
  from assms(2) obtain r where r: "ruling = Some r" by (cases ruling) (auto simp: matches_audited_source_def)
  define d where "d = (case vr_audited_source r of None \<Rightarrow> [] | Some d \<Rightarrow> d)"
  have m: "field_matches d s f = Inr True" "field_matches d t f = Inr True" if "f \<in> set BOUND_FIELDS" for f
    using assms that by (auto simp: matches_audited_source_def r d_def all_fields_match_iff)
  have same: "text_of x = text_of y" if f: "f \<in> set BOUND_FIELDS" "source_field s f = opt_str x" "source_field t f = opt_str y" for f x y
  proof (cases "is_list (dget d f)")
    case True
    then have "map PStr (map (\<lambda>c. [c]) (text_of x)) = map PStr (map (\<lambda>c. [c]) (text_of y))"
      using audited_text [OF m(1) [OF f(1)] f(2)] audited_text [OF m(2) [OF f(1)] f(3)] by simp
    then show ?thesis by (simp add: inj_map_eq_map inj_def)
  next
    case False
    then have "opt_str x = opt_str y"
      using audited_text [OF m(1) [OF f(1)] f(2)] audited_text [OF m(2) [OF f(1)] f(3)] by simp
    then show ?thesis by (cases x; cases y) (simp_all add: opt_str_def)
  qed
  have "map PStr (src_args s) = map PStr (src_args t)"
    using audited_list [OF m(1), of "''args''" "src_args s"] audited_list [OF m(2), of "''args''" "src_args t"]
    by (simp add: BOUND_FIELDS_def source_field_def)
  then have "src_args s = src_args t" by (simp add: inj_map_eq_map inj_def)
  moreover have "text_of (Some (source_kind_str (src_kind s))) = text_of (Some (source_kind_str (src_kind t)))"
    by (rule same [of "''kind''"]) (simp_all add: BOUND_FIELDS_def source_field_def opt_str_def)
  then have "src_kind s = src_kind t" by (simp add: text_of_def kinds.val_eq_iff)
  moreover have "text_of (Some (src_reference s)) = text_of (Some (src_reference t))"
    by (rule same [of "''reference''"]) (simp_all add: BOUND_FIELDS_def source_field_def opt_str_def)
  then have "src_reference s = src_reference t" by (simp add: text_of_def)
  moreover have "text_of (src_command s) = text_of (src_command t)"
    by (rule same [of "''command''"]) (simp_all add: BOUND_FIELDS_def source_field_def)
  moreover have "text_of (src_sandbox_image s) = text_of (src_sandbox_image t)"
    by (rule same [of "''sandbox_image''"]) (simp_all add: BOUND_FIELDS_def source_field_def)
  ultimately show ?thesis by blast
qed

section \<open>Example\<close>

definition shift_document :: verdict_document where
  "shift_document = \<lparr>vd_spec_version = ''2026-07-28'', vd_ruled_at = ''2026-07-18'', vd_delta_checked_at = None, vd_source = ''audit'',
     vd_bound_fields = BOUND_FIELDS, vd_dimension_titles = [], vd_counts = [(''BREAKS'', 1)],
     vd_servers = [(''demo'', \<lparr>vr_overall = ''BREAKS'', vr_audited_source = Some [(''kind'', PStr ''npm''), (''reference'', PStr ''x''),
       (''command'', PNone), (''args'', PList [PStr ''a'']), (''sandbox_image'', PNone)]\<rparr>)]\<rparr>"

definition shift_source :: "string list \<Rightarrow> server_source" where
  "shift_source keys = \<lparr>src_kind = NPM, src_reference = ''x'', src_command = None, src_args = [''a''], src_env_keys = keys,
     src_sandbox_image = None, src_trusted = False\<rparr>"

theorem verdict_binds_one_artifact_witness:
  "matches_audited_source shift_document (for_server shift_document ''demo'') (Some (shift_source [])) = Inr True
     \<and> src_args (shift_source []) = src_args (shift_source [''TOKEN''])"
proof -
  have "matches_audited_source shift_document (for_server shift_document ''demo'') (Some (shift_source [])) = Inr True"
    "matches_audited_source shift_document (for_server shift_document ''demo'') (Some (shift_source [''TOKEN''])) = Inr True"
    by code_simp+
  moreover have "vd_bound_fields shift_document = BOUND_FIELDS" by (simp add: shift_document_def)
  ultimately show ?thesis using verdict_binds_one_artifact by blast
qed

end
