(* ===== verification/Docker_Sandbox.thy ===== *)
theory Docker_Sandbox
  imports Auth_Posture
begin

text \<open>
  The Docker sandbox (\<open>engine/sandbox.py\<close>): the locked-down command line, and the life of the one container a scan owns,
  from creation to the proof of its absence. The Docker command line tool is a function of the arguments and of the state
  of the daemon; \<open>None\<close> stands for an \<open>OSError\<close> or an expired timeout of the child process. Pauses are not modelled.
\<close>

section \<open>State\<close>

record docker_sandbox =
  ds_image :: string
  ds_network :: string
  ds_memory :: string
  ds_pids_limit :: int
  ds_cpus :: string
  ds_workdir :: string
  ds_tmpfs_size :: string
  ds_tmpfs_mode :: string
  ds_host :: "string option"
  ds_user :: "string option"
  ds_env :: "(string \<times> string) list"
  ds_owner_token :: string
  ds_container_id :: "string option"
  ds_digests :: "string list option"

record completed =
  cp_returncode :: int
  cp_stdout :: string

type_synonym 'w runner = "string list \<Rightarrow> 'w \<Rightarrow> completed option \<times> 'w"

text \<open>One constructor per message of \<open>DockerSandboxCleanupError\<close> and \<open>DockerSandboxRuntimeReadbackError\<close>.\<close>

datatype docker_error =
    QueryFailed
  | AmbiguousOwned
  | InspectFailed
  | InspectAmbiguous
  | IdentityMismatch
  | AlreadyPrepared
  | CreateUnclean
  | CreateFailed
  | NoImmutableId
  | PreparedMismatch
  | RemoveFailed
  | RemainedAfterCleanup
  | ReadbackError string
  | FailedControls "string list"
  | DockerRaised exn

definition is_cleanup_error :: "docker_error \<Rightarrow> bool" where
  "is_cleanup_error e = (case e of ReadbackError m \<Rightarrow> False | FailedControls cs \<Rightarrow> False | DockerRaised x \<Rightarrow> False | _ \<Rightarrow> True)"

type_synonym ('w, 'a) docker = "'w \<Rightarrow> (docker_error + 'a) \<times> 'w"

definition bind_docker :: "('w, 'a) docker \<Rightarrow> ('a \<Rightarrow> ('w, 'b) docker) \<Rightarrow> ('w, 'b) docker" where
  "bind_docker m f = (\<lambda>w. case m w of (Inl e, w') \<Rightarrow> (Inl e, w') | (Inr x, w') \<Rightarrow> f x w')"

definition give :: "docker_error + 'a \<Rightarrow> ('w, 'a) docker" where
  "give r = (\<lambda>w. (r, w))"

text \<open>A call whose child process must complete, or the given error.\<close>

definition call_or :: "docker_error \<Rightarrow> 'w runner \<Rightarrow> string list \<Rightarrow> ('w, completed) docker" where
  "call_or e run args = (\<lambda>w. case run args w of (None, w') \<Rightarrow> (Inl e, w') | (Some c, w') \<Rightarrow> (Inr c, w'))"

section \<open>Command lines\<close>

definition SCAN_OWNER_LABEL :: string where "SCAN_OWNER_LABEL = ''com.mcp-trust.scan-owner''"
definition CREATE_SETTLE_POLLS :: nat where "CREATE_SETTLE_POLLS = 20"

definition int_text :: "int \<Rightarrow> string" where
  "int_text n = (if n < 0 then ''-'' @ decimal (nat (- n)) else decimal (nat n))"

definition normalize_local_docker_host :: "string \<Rightarrow> string res" where
  "normalize_local_docker_host value =
     (if take 8 value \<noteq> ''unix:///'' \<or> value \<noteq> py_strip value
        \<or> list_ex (\<lambda>c. c \<in> {CHR 0x00, CHR 0x0A, CHR 0x0D, CHR ''?'', CHR ''#''}) value then Inl ValueError
      else (let socket_path = drop 7 value in
        if hd socket_path \<noteq> CHR ''/'' \<or> socket_path \<in> {[], ''/''} then Inl ValueError else Inr (''unix://'' @ socket_path)))"

definition container_name :: "docker_sandbox \<Rightarrow> string" where
  "container_name s = ''mcp-trust-scan-'' @ ds_owner_token s"

definition host_args :: "docker_sandbox \<Rightarrow> string list" where
  "host_args s = (case ds_host s of None \<Rightarrow> [] | Some h \<Rightarrow> [''--host'', h])"

text \<open>The options between \<open>run\<close> and the image.\<close>

definition run_options :: "docker_sandbox \<Rightarrow> string list" where
  "run_options s = [''--rm'', ''-i'', ''--name'', container_name s, ''--label'', SCAN_OWNER_LABEL @ ''='' @ ds_owner_token s,
     ''--network'', ds_network s, ''--memory'', ds_memory s, ''--memory-swap'', ds_memory s,
     ''--pids-limit'', int_text (ds_pids_limit s), ''--cpus'', ds_cpus s, ''--security-opt'', ''no-new-privileges'',
     ''--cap-drop'', ''ALL'', ''--read-only'',
     ''--tmpfs'', ds_workdir s @ '':rw,size='' @ ds_tmpfs_size s @ '',mode='' @ ds_tmpfs_mode s, ''--workdir'', ds_workdir s,
     ''--env'', ''HOME='' @ ds_workdir s, ''--env'', ''TMPDIR='' @ ds_workdir s]
     @ (case ds_user s of None \<Rightarrow> [] | Some u \<Rightarrow> if u = [] then [] else [''--user'', u])
     @ concat (map (\<lambda>(k, v). [''--env'', k @ ''='' @ v]) (ds_env s))"

definition wrap :: "docker_sandbox \<Rightarrow> string \<Rightarrow> string list \<Rightarrow> string \<times> string list" where
  "wrap s command args = (''docker'', host_args s @ [''run''] @ run_options s @ [ds_image s, command] @ args)"

definition docker_command :: "docker_sandbox \<Rightarrow> string list \<Rightarrow> string list" where
  "docker_command s args = [''docker''] @ host_args s @ args"

definition list_command :: "docker_sandbox \<Rightarrow> string list" where
  "list_command s = docker_command s [''container'', ''ls'', ''--all'', ''--no-trunc'',
     ''--filter'', ''label='' @ SCAN_OWNER_LABEL @ ''='' @ ds_owner_token s,
     ''--filter'', ''name=^/'' @ container_name s @ ''$'', ''--format'', ''{{.ID}}'']"

definition inspect_command :: "docker_sandbox \<Rightarrow> string \<Rightarrow> string list" where
  "inspect_command s container_id = docker_command s [''container'', ''inspect'', container_id]"

definition remove_command :: "docker_sandbox \<Rightarrow> string \<Rightarrow> string list" where
  "remove_command s container_id = docker_command s [''container'', ''rm'', ''--force'', container_id]"

text \<open>\<open>run_args[:i] + ["container", "create"] + run_args[i + 1:]\<close> with \<open>i\<close> the first \<open>run\<close>, without the first \<open>--rm\<close>.\<close>

definition create_command :: "docker_sandbox \<Rightarrow> string \<Rightarrow> string list \<Rightarrow> string list" where
  "create_command s command args = (let (docker, run_args) = wrap s command args; before = takeWhile (\<lambda>a. a \<noteq> ''run'') run_args in
     docker # remove1 ''--rm'' (before @ [''container'', ''create''] @ tl (dropWhile (\<lambda>a. a \<noteq> ''run'') run_args)))"

section \<open>Processes\<close>

definition bare_executable :: "string \<Rightarrow> bool" where
  "bare_executable s = (case s of [] \<Rightarrow> False | c # cs \<Rightarrow> is_alnum_char c
     \<and> list_all (\<lambda>c. is_alnum_char c \<or> c \<in> {CHR ''.'', CHR ''_'', CHR ''-''}) cs)"

definition encoded_argv :: "string \<Rightarrow> string list \<Rightarrow> string" where
  "encoded_argv command args = concat (map (\<lambda>a. utf8_encode a @ [CHR 0x00]) (command # args))"

definition server_process_digest :: "platform \<Rightarrow> string \<Rightarrow> string list \<Rightarrow> string" where
  "server_process_digest pf command args = ''sha256:'' @ sha256_hex pf (encoded_argv command args)"

definition CONSOLE_DIRECTORY :: string where "CONSOLE_DIRECTORY = ''/opt/venv/bin''"

definition server_process_digests :: "platform \<Rightarrow> string \<Rightarrow> string list \<Rightarrow> bool \<Rightarrow> string option \<Rightarrow> docker_error + string list" where
  "server_process_digests pf command args allow_console title =
     (let encoded = encoded_argv command args;
          digests = [''sha256:'' @ sha256_hex pf encoded]
            @ (if allow_console \<and> bare_executable command
               then [server_process_digest pf (CONSOLE_DIRECTORY @ ''/python'') ((CONSOLE_DIRECTORY @ ''/'' @ command) # args)] else []) in
      case title of None \<Rightarrow> Inr digests
      | Some t \<Rightarrow> if \<not> bare_executable t \<or> length encoded < length (utf8_encode t)
          then Inl (ReadbackError ''allowed server process title is invalid'')
          else Inr (digests @ [''sha256:'' @ sha256_hex pf (utf8_encode t @ replicate (length encoded - length (utf8_encode t)) (CHR 0x00))]))"

section \<open>The owned container\<close>

text \<open>\<open>[line.strip() for line in text.splitlines() if line.strip()]\<close>: every line boundary is white space.\<close>

definition line_break :: "char \<Rightarrow> bool" where
  "line_break c \<longleftrightarrow> c \<in> {CHR 0x0A, CHR 0x0B, CHR 0x0C, CHR 0x0D, CHR 0x1C, CHR 0x1D, CHR 0x1E, CHR 0x85}"

fun split_lines :: "string \<Rightarrow> string list" where
  "split_lines [] = [[]]"
| "split_lines (c # cs) = (if line_break c then [] # split_lines cs
     else (case split_lines cs of [] \<Rightarrow> [[c]] | g # gs \<Rightarrow> (c # g) # gs))"

definition stripped_lines :: "string \<Rightarrow> string list" where
  "stripped_lines s = filter (\<lambda>l. l \<noteq> []) (map py_strip (split_lines s))"

definition owned_container_ids :: "'w runner \<Rightarrow> docker_sandbox \<Rightarrow> ('w, string list) docker" where
  "owned_container_ids run s = bind_docker (call_or QueryFailed run (list_command s)) (\<lambda>c. give (
     if cp_returncode c \<noteq> 0 then Inl QueryFailed
     else (let ids = stripped_lines (cp_stdout c) in
       if 1 < length ids \<or> list_ex (\<lambda>i. \<not> is_sha256 i) ids then Inl AmbiguousOwned else Inr ids)))"

text \<open>\<open>json.loads\<close>: \<open>None\<close> is a \<open>JSONDecodeError\<close>.\<close>

definition loads_text :: "platform \<Rightarrow> string \<Rightarrow> docker_error + pyval option" where
  "loads_text pf s = (case json_scan pf s of None \<Rightarrow> Inr None
     | Some t \<Rightarrow> (case loads_build pf t of Inl e \<Rightarrow> Inl (DockerRaised e) | Inr v \<Rightarrow> Inr (Some v)))"

definition is_owned_object :: "docker_sandbox \<Rightarrow> string \<Rightarrow> pydict \<Rightarrow> bool" where
  "is_owned_object s container_id d \<longleftrightarrow> dget d ''Id'' = PStr container_id \<and> dget d ''Name'' = PStr (''/'' @ container_name s)
     \<and> (case dget d ''Config'' of PDict config \<Rightarrow> (case dget config ''Labels'' of
          PDict labels \<Rightarrow> dget labels SCAN_OWNER_LABEL = PStr (ds_owner_token s) | _ \<Rightarrow> False) | _ \<Rightarrow> False)"

definition verify_owned_identity :: "platform \<Rightarrow> 'w runner \<Rightarrow> docker_sandbox \<Rightarrow> string \<Rightarrow> ('w, unit) docker" where
  "verify_owned_identity pf run s container_id =
     bind_docker (call_or InspectFailed run (inspect_command s container_id)) (\<lambda>c.
     if cp_returncode c \<noteq> 0 then give (Inl InspectFailed)
     else bind_docker (give (loads_text pf (cp_stdout c))) (\<lambda>payload. give (case payload of
        Some (PList [PDict d]) \<Rightarrow> if is_owned_object s container_id d then Inr () else Inl IdentityMismatch
      | _ \<Rightarrow> Inl InspectAmbiguous)))"

definition released :: "docker_sandbox \<Rightarrow> docker_sandbox" where
  "released s = s\<lparr>ds_container_id := None, ds_digests := None\<rparr>"

text \<open>\<open>cleanup_owned_container\<close>: the sandbox without its container, once its absence has been read back.\<close>

definition cleanup_owned_container :: "platform \<Rightarrow> 'w runner \<Rightarrow> docker_sandbox \<Rightarrow> ('w, docker_sandbox) docker" where
  "cleanup_owned_container pf run s =
     bind_docker (owned_container_ids run s) (\<lambda>ids.
     bind_docker (case ids of
         [] \<Rightarrow> give (Inr ())
       | i # _ \<Rightarrow>
           if ds_container_id s \<noteq> None \<and> ds_container_id s \<noteq> Some i then give (Inl PreparedMismatch)
           else bind_docker (verify_owned_identity pf run s i) (\<lambda>_.
             bind_docker (call_or RemoveFailed run (remove_command s i)) (\<lambda>c.
               give (if cp_returncode c \<noteq> 0 then Inl RemoveFailed else Inr ())))) (\<lambda>_.
     bind_docker (owned_container_ids run s) (\<lambda>left. give (if left \<noteq> [] then Inl RemainedAfterCleanup else Inr (released s)))))"

text \<open>The polls after a create whose outcome is unknown: the given number of clean-ups, the first error ends them.\<close>

fun settle :: "platform \<Rightarrow> 'w runner \<Rightarrow> nat \<Rightarrow> docker_sandbox \<Rightarrow> ('w, docker_sandbox) docker" where
  "settle pf run 0 s = give (Inr s)"
| "settle pf run (Suc n) s = bind_docker (cleanup_owned_container pf run s) (settle pf run n)"

definition start_args :: "docker_sandbox \<Rightarrow> string \<Rightarrow> string list" where
  "start_args s container_id = tl (docker_command s [''container'', ''start'', ''--attach'', ''--interactive'', container_id])"

text \<open>\<open>prepare_owned_container\<close>: the sandbox with its container and the launch the connector gets. A \<open>CleanupError\<close> while the
  outcome of a create is unknown becomes \<open>CreateUnclean\<close>; any other error of the polls leaves as it is. When
  the digests are refused the created container is left behind.\<close>

definition prepare_owned_container :: "platform \<Rightarrow> 'w runner \<Rightarrow> docker_sandbox \<Rightarrow> string \<Rightarrow> string list \<Rightarrow> bool \<Rightarrow> string option \<Rightarrow>
    ('w, docker_sandbox \<times> (string \<times> string list)) docker" where
  "prepare_owned_container pf run s command args allow_console title =
     (if ds_container_id s \<noteq> None then give (Inl AlreadyPrepared)
      else (\<lambda>w. case run (create_command s command args) w of
        (None, w1) \<Rightarrow> (case settle pf run (Suc CREATE_SETTLE_POLLS) s w1 of
             (Inl e, w2) \<Rightarrow> (Inl (if is_cleanup_error e then CreateUnclean else e), w2)
           | (Inr _, w2) \<Rightarrow> (Inl CreateFailed, w2))
      | (Some c, w1) \<Rightarrow>
          (let ids = stripped_lines (cp_stdout c) in
           if cp_returncode c \<noteq> 0 \<or> length ids \<noteq> 1 \<or> \<not> is_sha256 (hd ids)
           then bind_docker (cleanup_owned_container pf run s) (\<lambda>_. give (Inl NoImmutableId)) w1
           else (case server_process_digests pf command args allow_console title of
               Inl e \<Rightarrow> (Inl e, w1)
             | Inr digests \<Rightarrow> (Inr (s\<lparr>ds_container_id := Some (hd ids), ds_digests := Some digests\<rparr>,
                 (''docker'', start_args s (hd ids))), w1)))))"

end
