(* ===== verification/Docker_Sandbox_Laws.thy ===== *)
theory Docker_Sandbox_Laws
  imports Docker_Sandbox
begin

text \<open>
  What the sandbox guarantees over a daemon that behaves as documented: the command line confines whatever is launched,
  clean-up touches no container but the owned one and returns only once that is absent, and a failed preparation leaves
  nothing behind.
\<close>

section \<open>The command line\<close>

text \<open>How the Docker client reads the words after \<open>create\<close>: options up to the first word that is none, then the image.\<close>

definition FLAG_OPTIONS :: "string list" where
  "FLAG_OPTIONS = [''-i'', ''--rm'', ''--read-only'', ''--privileged'']"

definition VALUE_OPTIONS :: "string list" where
  "VALUE_OPTIONS = [''--name'', ''--label'', ''--network'', ''--memory'', ''--memory-swap'', ''--pids-limit'', ''--cpus'',
     ''--security-opt'', ''--cap-drop'', ''--cap-add'', ''--tmpfs'', ''--workdir'', ''--env'', ''--user'', ''--volume'', ''-v'',
     ''--mount'', ''--device'', ''--pid'', ''--ipc'']"

fun docker_parse :: "string list \<Rightarrow> ((string \<times> string) list \<times> string list) option" where
  "docker_parse [] = Some ([], [])"
| "docker_parse [a] = (if a \<in> set FLAG_OPTIONS then Some ([(a, [])], [])
     else if a \<in> set VALUE_OPTIONS \<or> take 1 a = ''-'' then None else Some ([], [a]))"
| "docker_parse (a # v # rest) =
     (if a \<in> set FLAG_OPTIONS then map_option (\<lambda>(os, ws). ((a, []) # os, ws)) (docker_parse (v # rest))
      else if a \<in> set VALUE_OPTIONS then map_option (\<lambda>(os, ws). ((a, v) # os, ws)) (docker_parse rest)
      else if take 1 a = ''-'' then None else Some ([], a # v # rest))"

text \<open>The options of the profile, by name.\<close>

definition profile_options :: "docker_sandbox \<Rightarrow> (string \<times> string) list" where
  "profile_options s = [(''-i'', []), (''--name'', container_name s), (''--label'', SCAN_OWNER_LABEL @ ''='' @ ds_owner_token s),
     (''--network'', ds_network s), (''--memory'', ds_memory s), (''--memory-swap'', ds_memory s),
     (''--pids-limit'', int_text (ds_pids_limit s)), (''--cpus'', ds_cpus s), (''--security-opt'', ''no-new-privileges''),
     (''--cap-drop'', ''ALL''), (''--read-only'', []),
     (''--tmpfs'', ds_workdir s @ '':rw,size='' @ ds_tmpfs_size s @ '',mode='' @ ds_tmpfs_mode s), (''--workdir'', ds_workdir s),
     (''--env'', ''HOME='' @ ds_workdir s), (''--env'', ''TMPDIR='' @ ds_workdir s)]
     @ (case ds_user s of None \<Rightarrow> [] | Some u \<Rightarrow> if u = [] then [] else [(''--user'', u)])
     @ map (\<lambda>(k, v). (''--env'', k @ ''='' @ v)) (ds_env s)"

lemma parse_value: "a \<in> set VALUE_OPTIONS \<Longrightarrow> docker_parse (a # v # rest) = map_option (\<lambda>(os, ws). ((a, v) # os, ws)) (docker_parse rest)"
  by (auto simp: VALUE_OPTIONS_def FLAG_OPTIONS_def)

lemma parse_flag: "a \<in> set FLAG_OPTIONS \<Longrightarrow> docker_parse (a # v # rest) = map_option (\<lambda>(os, ws). ((a, []) # os, ws)) (docker_parse (v # rest))"
  by simp

lemmas [simp del] = docker_parse.simps(3)

text \<open>Reading one more option in front of words that parse.\<close>

lemma parse_value_Some: "a \<in> set VALUE_OPTIONS \<Longrightarrow> docker_parse rest = Some (os, ws) \<Longrightarrow> docker_parse (a # v # rest) = Some ((a, v) # os, ws)"
  by (simp add: parse_value)

lemma parse_flag_Some:
  "a \<in> set FLAG_OPTIONS \<Longrightarrow> rest \<noteq> [] \<Longrightarrow> docker_parse rest = Some (os, ws) \<Longrightarrow> docker_parse (a # rest) = Some ((a, []) # os, ws)"
  by (cases rest) (simp_all add: parse_flag)

lemma parse_envs:
  assumes "docker_parse rest = Some (os, ws)"
  shows "docker_parse (concat (map (\<lambda>(k, v). [''--env'', k @ ''='' @ v]) es) @ rest)
     = Some (map (\<lambda>(k, v). (''--env'', k @ ''='' @ v)) es @ os, ws)"
proof (induction es)
  case Nil
  then show ?case by (simp add: assms)
next
  case (Cons e es)
  obtain k v where e: "e = (k, v)" by (cases e)
  have "''--env'' \<in> set VALUE_OPTIONS" by (simp add: VALUE_OPTIONS_def)
  from parse_value_Some [OF this Cons.IH, of "k @ ''='' @ v"] show ?case by (simp add: e)
qed

lemma parse_user:
  assumes "docker_parse ws = Some (os, r)"
  shows "docker_parse ((case u of None \<Rightarrow> [] | Some n \<Rightarrow> if n = [] then [] else [''--user'', n]) @ ws)
      = Some ((case u of None \<Rightarrow> [] | Some n \<Rightarrow> if n = [] then [] else [(''--user'', n)]) @ os, r)"
proof -
  have "''--user'' \<in> set VALUE_OPTIONS" by (simp add: VALUE_OPTIONS_def)
  note p = parse_value_Some [OF this assms]
  show ?thesis by (cases u) (simp_all only: option.case append_Nil assms p append_Cons split: if_split, auto)
qed

lemma parse_image:
  assumes "take 1 img \<noteq> ''-''"
  shows "docker_parse (img # command # args) = Some ([], img # command # args)"
proof -
  have "list_all (\<lambda>a. take 1 a = ''-'') (FLAG_OPTIONS @ VALUE_OPTIONS)" by code_simp
  then have "img \<notin> set FLAG_OPTIONS" "img \<notin> set VALUE_OPTIONS" using assms by (auto simp: list_all_iff)
  with assms show ?thesis by (simp only: docker_parse.simps(3) if_False)
qed

lemma parse_profile:
  assumes "take 1 (ds_image s) \<noteq> ''-''"
  shows "docker_parse (tl (run_options s) @ ds_image s # command # args) = Some (profile_options s, ds_image s # command # args)"
proof -
  note v = parse_value_Some and f = parse_flag_Some
  have split: "tl (run_options s) @ ds_image s # command # args =
      ''-i'' # ''--name'' # container_name s # ''--label'' # (SCAN_OWNER_LABEL @ ''='' @ ds_owner_token s) #
      ''--network'' # ds_network s # ''--memory'' # ds_memory s # ''--memory-swap'' # ds_memory s #
      ''--pids-limit'' # int_text (ds_pids_limit s) # ''--cpus'' # ds_cpus s # ''--security-opt'' # ''no-new-privileges'' #
      ''--cap-drop'' # ''ALL'' # ''--read-only'' #
      ''--tmpfs'' # (ds_workdir s @ '':rw,size='' @ ds_tmpfs_size s @ '',mode='' @ ds_tmpfs_mode s) # ''--workdir'' # ds_workdir s #
      ''--env'' # (''HOME='' @ ds_workdir s) # ''--env'' # (''TMPDIR='' @ ds_workdir s) #
      (case ds_user s of None \<Rightarrow> [] | Some u \<Rightarrow> if u = [] then [] else [''--user'', u])
      @ concat (map (\<lambda>(k, v). [''--env'', k @ ''='' @ v]) (ds_env s)) @ ds_image s # command # args"
    by (simp add: run_options_def)
  have envs: "docker_parse (concat (map (\<lambda>(k, v). [''--env'', k @ ''='' @ v]) (ds_env s)) @ ds_image s # command # args)
      = Some (map (\<lambda>(k, v). (''--env'', k @ ''='' @ v)) (ds_env s), ds_image s # command # args)"
    using parse_envs [OF parse_image [OF assms]] by (simp only: append_Nil2)
  show ?thesis
    unfolding split profile_options_def append_Cons append_Nil
    by (intro v f parse_user envs [unfolded append_Cons append_Nil])
      (simp_all add: VALUE_OPTIONS_def FLAG_OPTIONS_def)
qed

text \<open>The host a sandbox is built with is none or a local socket, so the first word \<open>run\<close> is the subcommand.\<close>

definition local_host :: "docker_sandbox \<Rightarrow> bool" where
  "local_host s \<longleftrightarrow> (case ds_host s of None \<Rightarrow> True | Some h \<Rightarrow> normalize_local_docker_host h = Inr h)"

lemma normalized_is_socket: "normalize_local_docker_host h = Inr h' \<Longrightarrow> take 8 h = ''unix:///'' \<and> h' = h"
proof -
  assume a: "normalize_local_docker_host h = Inr h'"
  then have p: "take 8 h = ''unix:///''" by (auto simp: normalize_local_docker_host_def Let_def split: if_splits)
  then have "take 7 (take 8 h) = ''unix://''" by simp
  then have "take 7 h = ''unix://''" by simp
  then have "h = ''unix://'' @ drop 7 h" by (metis append_take_drop_id)
  then show ?thesis using a p by (auto simp: normalize_local_docker_host_def Let_def split: if_splits)
qed

lemma create_command_form:
  assumes "local_host s"
  shows "create_command s command args
     = ''docker'' # host_args s @ [''container'', ''create''] @ tl (run_options s) @ ds_image s # command # args"
proof -
  have h: "''run'' \<notin> set (host_args s)" "''--rm'' \<notin> set (host_args s)"
    using assms by (auto simp: local_host_def host_args_def split: option.splits dest!: normalized_is_socket)
  have r: "run_options s = ''--rm'' # tl (run_options s)" by (simp add: run_options_def)
  have "takeWhile (\<lambda>a. a \<noteq> ''run'') (host_args s @ [''run''] @ ws) = host_args s"
    "dropWhile (\<lambda>a. a \<noteq> ''run'') (host_args s @ [''run''] @ ws) = ''run'' # ws" for ws
    using h(1) by (auto simp: takeWhile_append dropWhile_append)
  then show ?thesis
    using h(2) by (subst create_command_def, simp only: wrap_def prod.case Let_def list.sel, subst r) (simp add: remove1_append)
qed

text \<open>C30. The command line of a scan container confines it: whatever image, command and arguments the catalog names, the client
  reads exactly the options of the profile and nothing else, the network, memory, process and CPU limits, no new privileges, no
  capabilities, a read-only root and one scratch mount among them; no word of the scanned server is read as an option, and
  no option that widens the container is present.\<close>

definition WIDENING_OPTIONS :: "string list" where
  "WIDENING_OPTIONS = [''--privileged'', ''--cap-add'', ''--volume'', ''-v'', ''--mount'', ''--device'', ''--pid'', ''--ipc'', ''--rm'']"


section \<open>What the daemon does\<close>

text \<open>
  The documented behaviour of the daemon, over what it holds: a listing changes nothing and, when it succeeds, prints the
  identifiers of the containers that carry the sandbox's label and name; an inspection changes nothing; a removal takes away at
  most the named container, and has when it succeeds; a creation adds at most one container, an owned one, and prints
  its identifier when it succeeds.
\<close>

record 'w daemon =
  held :: "'w \<Rightarrow> string set"
  owned :: "'w \<Rightarrow> string set"

definition same_view :: "'w daemon \<Rightarrow> 'w \<Rightarrow> 'w \<Rightarrow> bool" where
  "same_view d w w' \<longleftrightarrow> held d w' = held d w \<and> owned d w' = owned d w"

definition honest_daemon :: "'w runner \<Rightarrow> docker_sandbox \<Rightarrow> 'w daemon \<Rightarrow> bool" where
  "honest_daemon run s d \<longleftrightarrow>
     (\<forall>w. owned d w \<subseteq> held d w)
   \<and> (\<forall>w r w'. run (list_command s) w = (r, w') \<longrightarrow> same_view d w w'
        \<and> (\<forall>c. r = Some c \<and> cp_returncode c = 0 \<longrightarrow> set (stripped_lines (cp_stdout c)) = owned d w))
   \<and> (\<forall>i w r w'. run (inspect_command s i) w = (r, w') \<longrightarrow> same_view d w w')
   \<and> (\<forall>i w r w'. run (remove_command s i) w = (r, w') \<longrightarrow>
        (same_view d w w' \<or> held d w' = held d w - {i} \<and> owned d w' = owned d w - {i})
        \<and> (\<forall>c. r = Some c \<and> cp_returncode c = 0 \<longrightarrow> i \<notin> held d w'))
   \<and> (\<forall>command args w r w'. run (create_command s command args) w = (r, w') \<longrightarrow>
        (same_view d w w' \<or> (\<exists>i. i \<notin> held d w \<and> held d w' = insert i (held d w) \<and> owned d w' = insert i (owned d w)))
        \<and> (\<forall>c. r = Some c \<and> cp_returncode c = 0 \<longrightarrow> owned d w' = owned d w \<union> set (stripped_lines (cp_stdout c))))"

text \<open>What the sandbox must not touch.\<close>

definition foreign :: "'w daemon \<Rightarrow> 'w \<Rightarrow> string set" where
  "foreign d w = held d w - owned d w"

lemma same_view_foreign: "same_view d w w' \<Longrightarrow> foreign d w' = foreign d w \<and> owned d w' = owned d w"
  by (simp add: same_view_def foreign_def)

lemma honest_list: "honest_daemon run s d \<Longrightarrow> run (list_command s) w = (r, w') \<Longrightarrow> same_view d w w'
    \<and> (\<forall>c. r = Some c \<and> cp_returncode c = 0 \<longrightarrow> set (stripped_lines (cp_stdout c)) = owned d w)"
  by (simp add: honest_daemon_def)

lemma honest_inspect: "honest_daemon run s d \<Longrightarrow> run (inspect_command s i) w = (r, w') \<Longrightarrow> same_view d w w'"
  by (simp add: honest_daemon_def)

lemma honest_remove: "honest_daemon run s d \<Longrightarrow> run (remove_command s i) w = (r, w') \<Longrightarrow>
    same_view d w w' \<or> held d w' = held d w - {i} \<and> owned d w' = owned d w - {i}"
  by (simp add: honest_daemon_def)

lemma honest_create: "honest_daemon run s d \<Longrightarrow> run (create_command s command args) w = (r, w') \<Longrightarrow>
    (same_view d w w' \<or> (\<exists>i. i \<notin> held d w \<and> held d w' = insert i (held d w) \<and> owned d w' = insert i (owned d w)))
    \<and> (\<forall>c. r = Some c \<and> cp_returncode c = 0 \<longrightarrow> owned d w' = owned d w \<union> set (stripped_lines (cp_stdout c)))"
  by (simp add: honest_daemon_def)

section \<open>The steps of a clean-up\<close>

lemma bind_docker_cases:
  assumes "bind_docker m f w = (r, w')"
  obtains (error) e where "m w = (Inl e, w')" "r = Inl e"
  | (step) x w1 where "m w = (Inr x, w1)" "f x w1 = (r, w')"
  using assms by (auto simp: bind_docker_def split: prod.splits sum.splits)

lemma call_or_cases:
  assumes "call_or e run args w = (r, w')"
  obtains (fails) "run args w = (None, w')" "r = Inl e"
  | (completes) c where "run args w = (Some c, w')" "r = Inr c"
  using assms by (auto simp: call_or_def split: prod.splits option.splits)

lemma give_run: "give x w = (r, w') \<longleftrightarrow> r = x \<and> w' = w"
  by (auto simp: give_def)

lemma owned_ids_run:
  assumes "honest_daemon run s d" "owned_container_ids run s w = (r, w')"
  shows "same_view d w w'" "r = Inr ids \<Longrightarrow> set ids = owned d w \<and> length ids \<le> 1"
proof -
  have "same_view d w w' \<and> (\<forall>ids. r = Inr ids \<longrightarrow> set ids = owned d w \<and> length ids \<le> 1)"
    using assms(2) unfolding owned_container_ids_def
  proof (cases rule: bind_docker_cases)
    case (error e)
    from error(1) show ?thesis using honest_list [OF assms(1)] error(2) by (cases rule: call_or_cases) auto
  next
    case (step c w1)
    from step(1) have "run (list_command s) w = (Some c, w1)" by (cases rule: call_or_cases) auto
    with honest_list [OF assms(1) this] step(2) show ?thesis by (auto simp: give_run Let_def split: if_splits)
  qed
  then show "same_view d w w'" "r = Inr ids \<Longrightarrow> set ids = owned d w \<and> length ids \<le> 1" by auto
qed

lemma verify_run:
  assumes "honest_daemon run s d" "verify_owned_identity pf run s i w = (r, w')"
  shows "same_view d w w'"
proof -
  have trans: "same_view d w w1 \<Longrightarrow> w' = w1 \<Longrightarrow> same_view d w w'" for w1 by simp
  from assms(2) show ?thesis
    unfolding verify_owned_identity_def
  proof (cases rule: bind_docker_cases)
    case (error e)
    from error(1) show ?thesis using honest_inspect [OF assms(1)] by (cases rule: call_or_cases) auto
  next
    case (step c w1)
    from step(1) have "same_view d w w1" using honest_inspect [OF assms(1)] by (cases rule: call_or_cases) auto
    moreover have "w' = w1" using step(2)
      by (auto simp: give_run bind_docker_def give_def split: if_splits sum.splits)
    ultimately show ?thesis by simp
  qed
qed

text \<open>One view of the daemon after another.\<close>

definition shrinks :: "'w daemon \<Rightarrow> 'w \<Rightarrow> 'w \<Rightarrow> bool" where
  "shrinks d w w' \<longleftrightarrow> foreign d w' = foreign d w \<and> owned d w' \<subseteq> owned d w"

lemma shrinks_trans: "shrinks d w w1 \<Longrightarrow> shrinks d w1 w2 \<Longrightarrow> shrinks d w w2"
  by (auto simp: shrinks_def)

lemma same_view_shrinks: "same_view d w w' \<Longrightarrow> shrinks d w w'"
  by (simp add: shrinks_def same_view_foreign)

lemma remove_shrinks:
  assumes "honest_daemon run s d" "run (remove_command s i) w = (r, w')" "i \<in> owned d w"
  shows "shrinks d w w'"
  using honest_remove [OF assms(1,2)]
proof
  assume "same_view d w w'"
  then show ?thesis by (rule same_view_shrinks)
next
  assume "held d w' = held d w - {i} \<and> owned d w' = owned d w - {i}"
  then show ?thesis using assms(3) by (auto simp: shrinks_def foreign_def)
qed

lemma removal_shrinks:
  assumes "honest_daemon run s d" "i \<in> owned d w"
    and "bind_docker (verify_owned_identity pf run s i) (\<lambda>_. bind_docker (call_or RemoveFailed run (remove_command s i))
      (\<lambda>c. give (if cp_returncode c \<noteq> 0 then Inl RemoveFailed else Inr ()))) w = (r, w')"
  shows "shrinks d w w'"
  using assms(3)
proof (cases rule: bind_docker_cases)
  case (error e)
  then show ?thesis using same_view_shrinks [OF verify_run [OF assms(1) error(1)]] by simp
next
  case (step x w1)
  have v: "same_view d w w1" by (rule verify_run [OF assms(1) step(1)])
  then have own: "i \<in> owned d w1" using assms(2) by (simp add: same_view_def)
  from step(2) have "shrinks d w1 w'"
  proof (cases rule: bind_docker_cases)
    case (error e)
    from error(1) show ?thesis using remove_shrinks [OF assms(1) _ own] by (cases rule: call_or_cases) auto
  next
    case (step c w2)
    from step(1) have "shrinks d w1 w2" using remove_shrinks [OF assms(1) _ own] by (cases rule: call_or_cases) auto
    then show ?thesis using step(2) by (simp add: give_run)
  qed
  then show ?thesis by (rule shrinks_trans [OF same_view_shrinks [OF v]])
qed

lemma cleanup_run:
  assumes "honest_daemon run s d" "cleanup_owned_container pf run s w = (r, w')"
  shows "shrinks d w w' \<and> (\<forall>s'. r = Inr s' \<longrightarrow> owned d w' = {} \<and> s' = released s)"
  using assms(2) unfolding cleanup_owned_container_def
proof (cases rule: bind_docker_cases)
  case (error e)
  then show ?thesis using same_view_shrinks [OF owned_ids_run(1) [OF assms(1) error(1)]] by simp
next
  case (step ids w1)
  have view: "same_view d w w1" and ids: "set ids = owned d w" using owned_ids_run [OF assms(1) step(1)] by auto
  from step(2) show ?thesis
  proof (cases rule: bind_docker_cases)
    case (error e)
    have "shrinks d w1 w'"
    proof (cases ids)
      case Nil
      then show ?thesis using error(1) by (simp add: give_run)
    next
      case (Cons i rest)
      then have "i \<in> owned d w1" using ids view by (auto simp: same_view_def)
      then show ?thesis using error(1) Cons removal_shrinks [OF assms(1)] same_view_shrinks [of d w1 w1]
        by (auto simp: give_run same_view_def split: if_splits)
    qed
    then show ?thesis using error(2) shrinks_trans [OF same_view_shrinks [OF view]] by simp
  next
    case (step u w2)
    have "shrinks d w1 w2"
    proof (cases ids)
      case Nil
      then show ?thesis using step(1) by (simp add: give_run shrinks_def)
    next
      case (Cons i rest)
      then have "i \<in> owned d w1" using ids view by (auto simp: same_view_def)
      then show ?thesis using step(1) Cons removal_shrinks [OF assms(1)]
        by (auto simp: give_run split: if_splits)
    qed
    then have before: "shrinks d w w2" by (rule shrinks_trans [OF same_view_shrinks [OF view]])
    from step(2) show ?thesis
    proof (cases rule: bind_docker_cases)
      case (error e)
      then show ?thesis
        using shrinks_trans [OF before same_view_shrinks [OF owned_ids_run(1) [OF assms(1) error(1)]]] by simp
    next
      case (step left w3)
      have "same_view d w2 w3" "set left = owned d w2" using owned_ids_run [OF assms(1) step(1)] by auto
      then show ?thesis
        using step(2) shrinks_trans [OF before same_view_shrinks] by (auto simp: give_run same_view_def split: if_splits)
    qed
  qed
qed

lemma honest_released: "honest_daemon run (released s) d = honest_daemon run s d"
proof -
  have "list_command (released s) = list_command s" "inspect_command (released s) = inspect_command s"
    "remove_command (released s) = remove_command s" "create_command (released s) = create_command s"
    by (auto simp: fun_eq_iff list_command_def inspect_command_def remove_command_def create_command_def docker_command_def
        host_args_def wrap_def run_options_def container_name_def released_def)
  then show ?thesis by (simp add: honest_daemon_def)
qed

lemma settle_run:
  assumes "honest_daemon run s d" "settle pf run n s w = (r, w')"
  shows "shrinks d w w' \<and> (0 < n \<longrightarrow> (\<forall>s'. r = Inr s' \<longrightarrow> owned d w' = {}))"
  using assms
proof (induction n arbitrary: s w)
  case 0
  then show ?case by (auto simp: give_run shrinks_def)
next
  case (Suc n)
  from Suc.prems(2) show ?case unfolding settle.simps
  proof (cases rule: bind_docker_cases)
    case (error e)
    then show ?thesis using cleanup_run [OF Suc.prems(1) error(1)] by simp
  next
    case (step s1 w1)
    have c: "shrinks d w w1" "owned d w1 = {}" "s1 = released s" using cleanup_run [OF Suc.prems(1) step(1)] by auto
    then have h: "honest_daemon run s1 d" using Suc.prems(1) by (simp add: honest_released)
    have "shrinks d w1 w'" using Suc.IH [OF h step(2)] by simp
    then show ?thesis using c shrinks_trans [OF c(1)] by (auto simp: shrinks_def)
  qed
qed

text \<open>C32. Over a daemon that behaves as documented, a clean-up leaves every container the scan does not own exactly as it was, on
  every outcome, and returns only when no owned container is left, with a sandbox that no longer names one.\<close>

theorem cleanup_is_exact:
  assumes "honest_daemon run s d" "cleanup_owned_container pf run s w = (r, w')"
  shows "foreign d w' = foreign d w \<and> owned d w' \<subseteq> owned d w
    \<and> (\<forall>s'. r = Inr s' \<longrightarrow> owned d w' = {} \<and> ds_container_id s' = None \<and> ds_digests s' = None)"
  using cleanup_run [OF assms] by (auto simp: shrinks_def released_def)

section \<open>Preparation\<close>

text \<open>The errors of a clean-up are its own.\<close>

lemma cleanup_errors:
  assumes "cleanup_owned_container pf run s w = (Inl e, w')"
  shows "e \<noteq> CreateFailed \<and> e \<noteq> NoImmutableId"
proof -
  have ids: "owned_container_ids run s w = (Inl e, w') \<Longrightarrow> e \<noteq> CreateFailed \<and> e \<noteq> NoImmutableId" for w
    by (auto simp: owned_container_ids_def bind_docker_def call_or_def give_def Let_def split: prod.splits sum.splits option.splits if_splits)
  have ver: "verify_owned_identity pf run s i w = (Inl e, w') \<Longrightarrow> e \<noteq> CreateFailed \<and> e \<noteq> NoImmutableId" for i w w'
    by (auto simp: verify_owned_identity_def bind_docker_def call_or_def give_def loads_text_def
        split: prod.splits sum.splits option.splits if_splits pyval.splits list.splits)
  have rem: "bind_docker (call_or RemoveFailed run (remove_command s i))
      (\<lambda>c. give (if cp_returncode c \<noteq> 0 then Inl RemoveFailed else Inr ())) w = (Inl e, w') \<Longrightarrow> e \<noteq> CreateFailed \<and> e \<noteq> NoImmutableId" for i w
    by (auto simp: bind_docker_def call_or_def give_def split: prod.splits sum.splits option.splits if_splits)
  from assms show ?thesis unfolding cleanup_owned_container_def
  proof (cases rule: bind_docker_cases)
    case (error e')
    then show ?thesis using ids by simp
  next
    case (step found w1)
    from step(2) show ?thesis
    proof (cases rule: bind_docker_cases)
      case (error e')
      then have same: "e' = e" by simp
      show ?thesis
      proof (cases found)
        case Nil
        then show ?thesis using error(1) by (simp add: give_run)
      next
        case (Cons i rest)
        show ?thesis
        proof (cases "ds_container_id s \<noteq> None \<and> ds_container_id s \<noteq> Some i")
          case True
          then show ?thesis using error(1) Cons same by (simp add: give_run)
        next
          case False
          then have "bind_docker (verify_owned_identity pf run s i) (\<lambda>_. bind_docker (call_or RemoveFailed run (remove_command s i))
              (\<lambda>c. give (if cp_returncode c \<noteq> 0 then Inl RemoveFailed else Inr ()))) w1 = (Inl e, w')"
            using error(1) Cons same by (simp split: if_splits)
          then show ?thesis
          proof (cases rule: bind_docker_cases)
            case (error e'')
            then show ?thesis using ver by simp
          next
            case (step x w2)
            then show ?thesis using rem by simp
          qed
        qed
      qed
    next
      case (step u w2)
      from step(2) show ?thesis
      proof (cases rule: bind_docker_cases)
        case (error e')
        then show ?thesis using ids by simp
      next
        case (step left w3)
        then show ?thesis by (auto simp: give_run split: if_splits)
      qed
    qed
  qed
qed

lemma create_keeps_foreign:
  assumes "honest_daemon run s d" "run (create_command s command args) w = (r, w')"
  shows "foreign d w' = foreign d w"
proof -
  have "owned d w \<subseteq> held d w" using assms(1) by (simp add: honest_daemon_def)
  then show ?thesis using honest_create [OF assms] by (auto simp: foreign_def same_view_def)
qed


section \<open>Whatever the daemon does\<close>

text \<open>A runner that also writes down every call and its outcome.\<close>

definition logged :: "'w runner \<Rightarrow> ('w \<times> (string list \<times> completed option) list) runner" where
  "logged run = (\<lambda>args (w, calls). case run args w of (c, w') \<Rightarrow> (c, (w', calls @ [(args, c)])))"

definition verified :: "platform \<Rightarrow> docker_sandbox \<Rightarrow> string \<Rightarrow> completed option \<Rightarrow> bool" where
  "verified pf s i answer \<longleftrightarrow> (case answer of None \<Rightarrow> False | Some c \<Rightarrow> cp_returncode c = 0
     \<and> (case loads_text pf (cp_stdout c) of Inr (Some (PList [PDict d])) \<Rightarrow> is_owned_object s i d | _ \<Rightarrow> False))"

lemma logged_call:
  assumes "call_or e (logged run) args (w, l) = (r, (w', l'))"
  shows "\<exists>c. l' = l @ [(args, c)] \<and> (\<forall>out. r = Inr out \<longrightarrow> c = Some out)"
  using assms by (auto simp: call_or_def logged_def split: prod.splits option.splits)

lemma logged_list:
  assumes "owned_container_ids (logged run) s (w, l) = (r, (w', l'))"
  shows "\<exists>c. l' = l @ [(list_command s, c)]"
  using assms unfolding owned_container_ids_def
proof (cases rule: bind_docker_cases)
  case (error e)
  then show ?thesis using logged_call [OF error(1)] by auto
next
  case (step c wl)
  obtain w1 l1 where wl: "wl = (w1, l1)" by (cases wl)
  then have "l1 = l'" using step(2) by (auto simp: give_run)
  then show ?thesis using logged_call [OF step(1) [unfolded wl]] by blast
qed

lemma logged_verify:
  assumes "verify_owned_identity pf (logged run) s i (w, l) = (r, (w', l'))"
  shows "\<exists>c. l' = l @ [(inspect_command s i, c)] \<and> (\<forall>u. r = Inr u \<longrightarrow> verified pf s i c)"
  using assms unfolding verify_owned_identity_def
proof (cases rule: bind_docker_cases)
  case (error e)
  then show ?thesis using logged_call [OF error(1)] by auto
next
  case (step c wl)
  obtain w1 l1 where wl: "wl = (w1, l1)" by (cases wl)
  obtain a where a: "l1 = l @ [(inspect_command s i, a)]" "a = Some c" using logged_call [OF step(1) [unfolded wl]] by auto
  from step(2) wl have "l' = l1 \<and> (\<forall>u. r = Inr u \<longrightarrow> verified pf s i (Some c))"
    by (auto simp: give_def bind_docker_def verified_def split: if_splits sum.splits option.splits pyval.splits list.splits)
  then show ?thesis using a by blast
qed

lemma logged_removal:
  assumes "bind_docker (verify_owned_identity pf (logged run) s i) (\<lambda>_. bind_docker (call_or RemoveFailed (logged run) (remove_command s i))
      (\<lambda>c. give (if cp_returncode c \<noteq> 0 then Inl RemoveFailed else Inr ()))) (w, l) = (r, (w', l'))"
  shows "\<exists>a. l' = l @ [(inspect_command s i, a)] \<or> (\<exists>b. l' = l @ [(inspect_command s i, a), (remove_command s i, b)] \<and> verified pf s i a)"
  using assms
proof (cases rule: bind_docker_cases)
  case (error e)
  then show ?thesis using logged_verify [OF error(1)] by auto
next
  case (step u wl)
  obtain w1 l1 where wl: "wl = (w1, l1)" by (cases wl)
  obtain a where a: "l1 = l @ [(inspect_command s i, a)]" "verified pf s i a" using logged_verify [OF step(1) [unfolded wl]] by auto
  have "\<exists>b. l' = l1 @ [(remove_command s i, b)]"
    using step(2) unfolding wl
  proof (cases rule: bind_docker_cases)
    case (error e)
    then show ?thesis using logged_call [OF error(1)] by auto
  next
    case (step c wl2)
    obtain w2 l2 where wl2: "wl2 = (w2, l2)" by (cases wl2)
    then have "l2 = l'" using step(2) by (auto simp: give_run)
    then show ?thesis using logged_call [OF step(1) [unfolded wl2]] by blast
  qed
  then show ?thesis using a by auto
qed

text \<open>The calls of a clean-up, in order.\<close>

lemma cleanup_calls:
  assumes "cleanup_owned_container pf (logged run) s (w, l) = (r, (w', l'))"
  shows "\<exists>a mid fin. l' = l @ (list_command s, a) # mid @ fin \<and> (fin = [] \<or> (\<exists>b. fin = [(list_command s, b)]))
    \<and> (mid = [] \<or> (\<exists>i b c. (ds_container_id s = None \<or> ds_container_id s = Some i)
         \<and> (mid = [(inspect_command s i, b)] \<or> mid = [(inspect_command s i, b), (remove_command s i, c)] \<and> verified pf s i b)))"
  using assms unfolding cleanup_owned_container_def
proof (cases rule: bind_docker_cases)
  case (error e)
  then show ?thesis using logged_list [OF error(1)] by auto
next
  case (step ids wl)
  obtain w1 l1 where wl: "wl = (w1, l1)" by (cases wl)
  obtain a where a: "l1 = l @ [(list_command s, a)]" using logged_list [OF step(1) [unfolded wl]] by auto
  have middle: "\<exists>mid. l2 = l1 @ mid \<and> (mid = [] \<or> (\<exists>i b c. (ds_container_id s = None \<or> ds_container_id s = Some i)
         \<and> (mid = [(inspect_command s i, b)] \<or> mid = [(inspect_command s i, b), (remove_command s i, c)] \<and> verified pf s i b)))"
    if run: "(case ids of [] \<Rightarrow> give (Inr ())
       | i # _ \<Rightarrow> if ds_container_id s \<noteq> None \<and> ds_container_id s \<noteq> Some i then give (Inl PreparedMismatch)
           else bind_docker (verify_owned_identity pf (logged run) s i) (\<lambda>_. bind_docker (call_or RemoveFailed (logged run) (remove_command s i))
             (\<lambda>c. give (if cp_returncode c \<noteq> 0 then Inl RemoveFailed else Inr ())))) (w1, l1) = (q, (w2, l2))" for q w2 l2
  proof (cases ids)
    case Nil
    then show ?thesis using run by (auto simp: give_run)
  next
    case (Cons i rest)
    show ?thesis
    proof (cases "ds_container_id s \<noteq> None \<and> ds_container_id s \<noteq> Some i")
      case True
      then show ?thesis using run Cons by (auto simp: give_run)
    next
      case False
      then have "bind_docker (verify_owned_identity pf (logged run) s i) (\<lambda>_. bind_docker (call_or RemoveFailed (logged run) (remove_command s i))
             (\<lambda>c. give (if cp_returncode c \<noteq> 0 then Inl RemoveFailed else Inr ()))) (w1, l1) = (q, (w2, l2))"
        using run Cons by (simp split: if_splits)
      from logged_removal [OF this] False show ?thesis by auto
    qed
  qed
  from step(2) show ?thesis unfolding wl
  proof (cases rule: bind_docker_cases)
    case (error e)
    obtain mid where "l' = l1 @ mid" "mid = [] \<or> (\<exists>i b c. (ds_container_id s = None \<or> ds_container_id s = Some i)
         \<and> (mid = [(inspect_command s i, b)] \<or> mid = [(inspect_command s i, b), (remove_command s i, c)] \<and> verified pf s i b))"
      using middle [OF error(1)] by blast
    then show ?thesis using a by (intro exI [of _ a] exI [of _ mid] exI [of _ "[]"] conjI) simp_all
  next
    case (step u wl2)
    obtain w2 l2 where wl2: "wl2 = (w2, l2)" by (cases wl2)
    obtain mid where mid: "l2 = l1 @ mid" "mid = [] \<or> (\<exists>i b c. (ds_container_id s = None \<or> ds_container_id s = Some i)
         \<and> (mid = [(inspect_command s i, b)] \<or> mid = [(inspect_command s i, b), (remove_command s i, c)] \<and> verified pf s i b))"
      using middle [OF step(1) [unfolded wl2]] by blast
    have "\<exists>b. l' = l2 @ [(list_command s, b)]"
      using step(2) unfolding wl2
    proof (cases rule: bind_docker_cases)
      case (error e)
      then show ?thesis using logged_list [OF error(1)] by auto
    next
      case (step left wl3)
      obtain w3 l3 where wl3: "wl3 = (w3, l3)" by (cases wl3)
      then have "l3 = l'" using step(2) by (auto simp: give_run)
      then show ?thesis using logged_list [OF step(1) [unfolded wl3]] by blast
    qed
    then obtain b where "l' = l2 @ [(list_command s, b)]" by blast
    then show ?thesis using a mid by (intro exI [of _ a] exI [of _ mid] exI [of _ "[(list_command s, b)]"] conjI) simp_all
  qed
qed

lemma command_distinct:
  "remove_command s i \<noteq> list_command s" "remove_command s i \<noteq> inspect_command s j" "remove_command s i = remove_command s j \<longleftrightarrow> i = j"
  by (simp_all add: remove_command_def list_command_def inspect_command_def docker_command_def)

text \<open>C31. Whatever the daemon answers, a clean-up removes at most one container, and the call that removes it directly follows an inspection
  of the same identifier whose answer was one object with that identifier, the scan's container name and the scan's owner
  label; a sandbox that prepared a container removes no other.\<close>

theorem removal_is_verified:
  assumes "cleanup_owned_container pf (logged run) s (w, []) = (r, (w', calls))"
    and "calls = before @ (remove_command s i, c) # after"
  shows "(\<exists>earlier answer. before = earlier @ [(inspect_command s i, answer)] \<and> verified pf s i answer)
    \<and> (ds_container_id s = None \<or> ds_container_id s = Some i) \<and> (\<forall>j. remove_command s j \<notin> fst ` set (before @ after))"
proof -
  obtain a mid fin where calls: "calls = (list_command s, a) # mid @ fin" and fin: "fin = [] \<or> (\<exists>b. fin = [(list_command s, b)])"
    and mid: "mid = [] \<or> (\<exists>i b c. (ds_container_id s = None \<or> ds_container_id s = Some i)
         \<and> (mid = [(inspect_command s i, b)] \<or> mid = [(inspect_command s i, b), (remove_command s i, c)] \<and> verified pf s i b))"
    using cleanup_calls [OF assms(1), unfolded append_Nil] by blast
  have here: "(remove_command s i, c) \<in> set calls" by (simp add: assms(2))
  then obtain b where m: "mid = [(inspect_command s i, b), (remove_command s i, c)]" "verified pf s i b"
      "ds_container_id s = None \<or> ds_container_id s = Some i"
    using mid fin by (auto simp: calls command_distinct)
  have "before = [(list_command s, a), (inspect_command s i, b)] \<and> after = fin"
    using assms(2) calls m(1) fin by (auto simp: Cons_eq_append_conv append_eq_Cons_conv command_distinct command_distinct [symmetric])
  then show ?thesis using m(2,3) fin by (auto simp: command_distinct)
qed

end
