(* ===== verification/Docker_Examples.thy ===== *)
theory Docker_Examples
  imports Docker_Sandbox_Laws
begin

text \<open>A sandbox over a small daemon: one container of someone else, and possibly the scan's own.\<close>

definition demo_id :: string where
  "demo_id = replicate 64 (CHR ''a'')"

definition demo_sandbox :: docker_sandbox where
  "demo_sandbox = \<lparr>ds_image = ''scanner:1'', ds_network = ''none'', ds_memory = ''512m'', ds_pids_limit = 256, ds_cpus = ''1.0'',
     ds_workdir = ''/scan'', ds_tmpfs_size = ''64m'', ds_tmpfs_mode = ''1777'', ds_host = None, ds_user = Some ''65534:65534'',
     ds_env = [(''TOKEN'', ''x'')], ds_owner_token = ''feed'', ds_container_id = None, ds_digests = None\<rparr>"

definition demo_answer :: string where
  "demo_answer = ''object''"

definition demo_pf :: platform where
  "demo_pf = sample_platform\<lparr>json_scan := (\<lambda>s. Some (RArr [RObj [(''Id'', RStr demo_id),
     (''Name'', RStr ''/mcp-trust-scan-feed''), (''Config'', RObj [(''Labels'', RObj [(SCAN_OWNER_LABEL, RStr ''feed'')])])]]))\<rparr>"

definition demo_run :: "bool runner" where
  "demo_run args w = (
     if args ! 2 = ''ls'' then (Some \<lparr>cp_returncode = 0, cp_stdout = (if w then demo_id else [])\<rparr>, w)
     else if args ! 2 = ''inspect'' then (Some \<lparr>cp_returncode = (if w then 0 else 1), cp_stdout = demo_answer\<rparr>, w)
     else if args ! 2 = ''rm'' then (if w \<and> args ! 4 = demo_id then (Some \<lparr>cp_returncode = 0, cp_stdout = []\<rparr>, False)
       else (Some \<lparr>cp_returncode = 1, cp_stdout = []\<rparr>, w))
     else if w then (Some \<lparr>cp_returncode = 1, cp_stdout = []\<rparr>, w) else (Some \<lparr>cp_returncode = 0, cp_stdout = demo_id\<rparr>, True))"

definition demo_daemon :: "bool daemon" where
  "demo_daemon = \<lparr>held = (\<lambda>w. {''other''} \<union> (if w then {demo_id} else {})), owned = (\<lambda>w. if w then {demo_id} else {})\<rparr>"

lemma demo_local: "local_host demo_sandbox"
  by (simp add: local_host_def demo_sandbox_def)

lemma demo_lines: "stripped_lines demo_id = [demo_id]" "stripped_lines [] = []"
  by code_simp+

lemma demo_other: "demo_id \<noteq> ''other''"
  by code_simp

lemma demo_honest: "honest_daemon demo_run demo_sandbox demo_daemon"
proof -
  have create: "create_command demo_sandbox command args ! 2 = ''create''" for command args
    by (subst create_command_form [OF demo_local]) (simp add: host_args_def demo_sandbox_def)
  have others: "list_command demo_sandbox ! 2 = ''ls''" "inspect_command demo_sandbox i ! 2 = ''inspect''"
    "remove_command demo_sandbox i ! 2 = ''rm''" "remove_command demo_sandbox i ! 4 = i" for i
    by (simp_all add: list_command_def inspect_command_def remove_command_def docker_command_def host_args_def demo_sandbox_def)
  show ?thesis
    unfolding honest_daemon_def
    by (intro conjI allI impI)
      (auto simp: demo_run_def others create demo_daemon_def same_view_def demo_lines demo_other demo_other [symmetric] split: if_splits)
qed


lemma demo_cleanup: "cleanup_owned_container demo_pf demo_run demo_sandbox True = (Inr (released demo_sandbox), False)"
  by code_simp

theorem cleanup_is_exact_witness: "foreign demo_daemon False = foreign demo_daemon True \<and> owned demo_daemon False = {}"
  using cleanup_is_exact [OF demo_honest demo_cleanup] by simp

lemma demo_prepare:
  "fst (prepare_owned_container demo_pf demo_run demo_sandbox ''npx'' [] False None True) = Inl NoImmutableId"
  by code_simp


lemma demo_log:
  "map fst (snd (snd (cleanup_owned_container demo_pf (logged demo_run) demo_sandbox (True, []))))
     = [list_command demo_sandbox, inspect_command demo_sandbox demo_id, remove_command demo_sandbox demo_id, list_command demo_sandbox]"
  by code_simp

theorem removal_is_verified_witness:
  "\<exists>r calls before c after. cleanup_owned_container demo_pf (logged demo_run) demo_sandbox (True, []) = (r, (False, calls))
     \<and> calls = before @ (remove_command demo_sandbox demo_id, c) # after
     \<and> (\<exists>earlier answer. before = earlier @ [(inspect_command demo_sandbox demo_id, answer)] \<and> verified demo_pf demo_sandbox demo_id answer)"
proof -
  obtain r w' calls where run: "cleanup_owned_container demo_pf (logged demo_run) demo_sandbox (True, []) = (r, (w', calls))"
    by (metis prod.collapse)
  have "fst (snd (cleanup_owned_container demo_pf (logged demo_run) demo_sandbox (True, []))) = False" by code_simp
  then have w': "w' = False" by (simp add: run)
  have "remove_command demo_sandbox demo_id \<in> fst ` set calls"
    using demo_log by (simp add: run) (metis list.set_intros set_map)
  then obtain c where "(remove_command demo_sandbox demo_id, c) \<in> set calls" by auto
  then obtain before after where split: "calls = before @ (remove_command demo_sandbox demo_id, c) # after" by (meson split_list)
  from removal_is_verified [OF run split] show ?thesis using run split w' by blast
qed

end
