(* ===== verification/Spec2Isabelle.thy ===== *)
theory Spec2Isabelle
  imports Prelude Float64 Pyval Datetime Models Grading Governance Projection Drift Store Urls Lineage
    Snapshot_Validation Strict_Json Snapshot_Trust Trust_Examples Snapshot_Build Host_Capacity Mcp_Server
    Portability_Models Portability_Hosts Portability_Codex Portability_Service Portability_Trust
    Url_Text Auth_Posture Auth_Posture_Laws Auth_Examples
    Corpus_Registry Corpus_Registry_Laws Corpus_Records Corpus_Examples Receipts Spec_Shift
    Docker_Sandbox Docker_Sandbox_Laws Docker_Examples
begin

text \<open>Header to come.\<close>

end
